(* ===== verification/Prelude.thy ===== *)
theory Prelude
  imports Main "HOL-Library.AList" "HOL-Library.Char_ord" "HOL-Library.List_Lexorder"
begin

text \<open>
  The shared vocabulary of the development: the parts of the Go language and of its standard
  library that the operator uses, as total executable functions, with the lemmas every component
  needs.

  \<^item> Go strings are byte strings: the type \<open>string\<close> (a list of \<open>char\<close>, each one byte).
    \<open>TrimSpace\<close> is exact on every byte string (it knows the UTF-8 encodings of all the white
    space runes of Unicode); \<open>ToLower\<close>, \<open>ToUpper\<close> and \<open>EqualFold\<close> are exact as far as comparisons with
    ASCII texts go, the only ones the program makes.
  \<^item> \<open>map[string]string\<close> is an association list; a missing key reads as the empty string, as in
    Go. A nil map and an empty map are the same value here: no operation of the program
    distinguishes them after the guards it writes.
  \<^item> \<open>int64\<close> arithmetic that can overflow is an \<open>int\<close> with the wrap-around of \<open>wrap64\<close>
    written out, \<open>int32\<close> likewise with \<open>wrap32\<close>.
  \<^item> \<open>time.Time\<close> is the number of nanoseconds since the Unix epoch and \<open>time.Duration\<close> a
    number of nanoseconds; \<open>Time.Sub\<close> saturates at the ends of \<open>int64\<close>, as Go's does.
  \<^item> A fallible Go function returns \<open>'e + 'a\<close>, with \<open>Inl\<close> for a non-nil error.
\<close>

named_theorems gostr \<open>equations of the string functions\<close>
named_theorems gotime \<open>equations of the time and integer functions\<close>


section \<open>Byte strings\<close>

type_synonym gomap = "(string \<times> string) list"

text \<open>\<open>strings.HasPrefix\<close>, \<open>strings.HasSuffix\<close>, \<open>strings.Contains\<close>, \<open>strings.TrimPrefix\<close> and
  \<open>strings.TrimSuffix\<close>.\<close>

fun starts :: "'a list \<Rightarrow> 'a list \<Rightarrow> bool" where
  "starts [] s = True"
| "starts (x # xs) [] = False"
| "starts (x # xs) (y # ys) = (x = y \<and> starts xs ys)"

definition HasPrefix :: "string \<Rightarrow> string \<Rightarrow> bool" where
  "HasPrefix s p = starts p s"

definition HasSuffix :: "string \<Rightarrow> string \<Rightarrow> bool" where
  "HasSuffix s p = starts (rev p) (rev s)"

fun Contains :: "string \<Rightarrow> string \<Rightarrow> bool" where
  "Contains [] sub = (sub = [])"
| "Contains (c # s) sub = (starts sub (c # s) \<or> Contains s sub)"

definition TrimPrefix :: "string \<Rightarrow> string \<Rightarrow> string" where
  "TrimPrefix s p = (if HasPrefix s p then drop (length p) s else s)"

definition TrimSuffix :: "string \<Rightarrow> string \<Rightarrow> string" where
  "TrimSuffix s p = (if HasSuffix s p then take (length s - length p) s else s)"

text \<open>\<open>strings.Split\<close> with a one-byte separator, and \<open>strings.Join\<close>.\<close>

fun Split :: "string \<Rightarrow> char \<Rightarrow> string list" where
  "Split [] c = [[]]"
| "Split (x # xs) c =
     (if x = c then [] # Split xs c
      else (case Split xs c of [] \<Rightarrow> [[x]] | p # ps \<Rightarrow> (x # p) # ps))"

fun Join :: "string list \<Rightarrow> string \<Rightarrow> string" where
  "Join [] sep = []"
| "Join [x] sep = x"
| "Join (x # y # ys) sep = x @ sep @ Join (y # ys) sep"

text \<open>\<open>strings.Index\<close> with a one-byte argument: the position of the first occurrence, \<open>None\<close>
  standing for Go's \<open>-1\<close>.\<close>

fun Index :: "string \<Rightarrow> char \<Rightarrow> nat option" where
  "Index [] c = None"
| "Index (x # xs) c = (if x = c then Some 0 else map_option Suc (Index xs c))"

text \<open>The case mappings on ASCII.\<close>

definition lower_char :: "char \<Rightarrow> char" where
  "lower_char c = (let n = of_char c :: nat in if 65 \<le> n \<and> n \<le> 90 then char_of (n + 32) else c)"

definition upper_char :: "char \<Rightarrow> char" where
  "upper_char c = (let n = of_char c :: nat in if 97 \<le> n \<and> n \<le> 122 then char_of (n - 32) else c)"

text \<open>Case mappings on UTF-8. Of the runes beyond ASCII only a few are mapped into ASCII: the Kelvin sign to \<open>k\<close>
  and the dotted capital \<open>I\<close> to \<open>i\<close> by \<open>ToLower\<close>, the dotless \<open>i\<close> to \<open>I\<close> and the long \<open>s\<close> to \<open>S\<close> by \<open>ToUpper\<close>; folding
  identifies the Kelvin sign with \<open>k\<close> and the long \<open>s\<close> with \<open>s\<close>. Other runes beyond ASCII stay as they are, which no
  comparison with an ASCII text can tell.\<close>

definition KelvinSign :: string where "KelvinSign = [CHR 0xE2, CHR 0x84, CHR 0xAA]"
definition DottedI :: string where "DottedI = [CHR 0xC4, CHR 0xB0]"
definition DotlessI :: string where "DotlessI = [CHR 0xC4, CHR 0xB1]"
definition LongS :: string where "LongS = [CHR 0xC5, CHR 0xBF]"

function case_map :: "(char \<Rightarrow> char) \<Rightarrow> (string \<times> char) list \<Rightarrow> string \<Rightarrow> string" where
  "case_map f sp [] = []"
| "case_map f sp (c # s) =
     (case find (\<lambda>(u, a). starts u (c # s)) sp of
        Some (u, a) \<Rightarrow> a # case_map f sp (drop (length u - 1) s)
      | None \<Rightarrow> f c # case_map f sp s)"
  by pat_completeness auto
termination by (relation "measure (\<lambda>(f, sp, s). length s)") auto

definition ToLower :: "string \<Rightarrow> string" where
  "ToLower s = case_map lower_char [(KelvinSign, CHR ''k''), (DottedI, CHR ''i'')] s"

definition ToUpper :: "string \<Rightarrow> string" where
  "ToUpper s = case_map upper_char [(DotlessI, CHR ''I''), (LongS, CHR ''S'')] s"

definition foldCase :: "string \<Rightarrow> string" where
  "foldCase s = case_map lower_char [(KelvinSign, CHR ''k''), (LongS, CHR ''s'')] s"

definition EqualFold :: "string \<Rightarrow> string \<Rightarrow> bool" where
  "EqualFold s t = (foldCase s = foldCase t)"

text \<open>On ASCII texts they map byte by byte.\<close>

definition ascii :: "string \<Rightarrow> bool" where
  "ascii s = list_all (\<lambda>c. (of_char c :: nat) < 128) s"

lemma case_map_ascii:
  assumes "list_all (\<lambda>(u, a). u \<noteq> [] \<and> 128 \<le> (of_char (hd u) :: nat)) sp"
  shows "ascii s \<Longrightarrow> case_map f sp s = map f s"
proof (induction s)
  case (Cons c s)
  have "\<not> starts u (c # s)" if "(u, a) \<in> set sp" for u a
    using assms that Cons.prems by (cases u) (auto simp: list_all_iff ascii_def)
  then have "find (\<lambda>(u, a). starts u (c # s)) sp = None" by (auto simp: find_None_iff)
  then show ?case using Cons by (simp add: ascii_def)
qed simp

lemma case_ascii:
  "ascii s \<Longrightarrow> ToLower s = map lower_char s"
  "ascii s \<Longrightarrow> ToUpper s = map upper_char s"
  "ascii s \<Longrightarrow> foldCase s = map lower_char s"
  by (simp_all add: ToLower_def ToUpper_def foldCase_def case_map_ascii KelvinSign_def DottedI_def DotlessI_def LongS_def)

lemma ToLower_Nil [simp, gostr]: "ToLower [] = []" "ToUpper [] = []"
  by (simp_all add: ToLower_def ToUpper_def)

text \<open>\<open>strings.ReplaceAll\<close> of one byte by another.\<close>

definition ReplaceByte :: "string \<Rightarrow> char \<Rightarrow> char \<Rightarrow> string" where
  "ReplaceByte s a b = map (\<lambda>c. if c = a then b else c) s"


subsection \<open>Trimming white space\<close>

text \<open>The UTF-8 encodings of the runes \<open>unicode.IsSpace\<close> accepts. UTF-8 is self-synchronising:
  a string starts (ends) with a white space rune exactly when one of these byte sequences is a
  prefix (a suffix) of it.\<close>

definition space_runes :: "string list" where
  "space_runes =
    [[CHR 0x20], [CHR 0x09], [CHR 0x0A], [CHR 0x0B], [CHR 0x0C], [CHR 0x0D],
     [CHR 0xC2, CHR 0x85], [CHR 0xC2, CHR 0xA0], [CHR 0xE1, CHR 0x9A, CHR 0x80],
     [CHR 0xE2, CHR 0x80, CHR 0x80], [CHR 0xE2, CHR 0x80, CHR 0x81],
     [CHR 0xE2, CHR 0x80, CHR 0x82], [CHR 0xE2, CHR 0x80, CHR 0x83],
     [CHR 0xE2, CHR 0x80, CHR 0x84], [CHR 0xE2, CHR 0x80, CHR 0x85],
     [CHR 0xE2, CHR 0x80, CHR 0x86], [CHR 0xE2, CHR 0x80, CHR 0x87],
     [CHR 0xE2, CHR 0x80, CHR 0x88], [CHR 0xE2, CHR 0x80, CHR 0x89],
     [CHR 0xE2, CHR 0x80, CHR 0x8A], [CHR 0xE2, CHR 0x80, CHR 0xA8],
     [CHR 0xE2, CHR 0x80, CHR 0xA9], [CHR 0xE2, CHR 0x80, CHR 0xAF],
     [CHR 0xE2, CHR 0x81, CHR 0x9F], [CHR 0xE3, CHR 0x80, CHR 0x80]]"

fun lead_len :: "string list \<Rightarrow> string \<Rightarrow> nat" where
  "lead_len [] s = 0"
| "lead_len (w # ws) s = (if w \<noteq> [] \<and> starts w s then length w else lead_len ws s)"

function trim_lead :: "string list \<Rightarrow> string \<Rightarrow> string" where
  "trim_lead ws s =
     (if lead_len ws s = 0 \<or> s = [] then s else trim_lead ws (drop (lead_len ws s) s))"
  by pat_completeness auto
termination
  by (relation "measure (\<lambda>(ws, s). length s)") auto

declare trim_lead.simps [simp del]

definition TrimSpace :: "string \<Rightarrow> string" where
  "TrimSpace s =
     rev (trim_lead (map rev space_runes) (rev (trim_lead space_runes s)))"

text \<open>\<open>strings.Trim(s, "-")\<close>, trimming one byte on both sides.\<close>

definition TrimByte :: "char \<Rightarrow> string \<Rightarrow> string" where
  "TrimByte c s = rev (dropWhile ((=) c) (rev (dropWhile ((=) c) s)))"


section \<open>Maps\<close>

text \<open>\<open>m[k]\<close>, \<open>m[k] = v\<close> and \<open>delete(m, k)\<close>.\<close>

definition mget :: "gomap \<Rightarrow> string \<Rightarrow> string" where
  "mget m k = (case map_of m k of None \<Rightarrow> '''' | Some v \<Rightarrow> v)"

definition mset_key :: "gomap \<Rightarrow> string \<Rightarrow> string \<Rightarrow> gomap" where
  "mset_key m k v = AList.update k v m"

definition mdelete :: "gomap \<Rightarrow> string \<Rightarrow> gomap" where
  "mdelete m k = AList.delete k m"


section \<open>Machine integers and time\<close>

definition wrap64 :: "int \<Rightarrow> int" where
  "wrap64 x = (x + 2 ^ 63) mod 2 ^ 64 - 2 ^ 63"

definition wrap32 :: "int \<Rightarrow> int" where
  "wrap32 x = (x + 2 ^ 31) mod 2 ^ 32 - 2 ^ 31"

definition sat64 :: "int \<Rightarrow> int" where
  "sat64 x = max (- (2 ^ 63)) (min (2 ^ 63 - 1) x)"

definition int32 :: "int \<Rightarrow> bool" where
  "int32 x = (- (2 ^ 31) \<le> x \<and> x < 2 ^ 31)"

definition int64 :: "int \<Rightarrow> bool" where
  "int64 x = (- (2 ^ 63) \<le> x \<and> x < 2 ^ 63)"

text \<open>Go's integer division truncates towards zero.\<close>

definition quot :: "int \<Rightarrow> int \<Rightarrow> int" where
  "quot a b = sgn a * sgn b * (\<bar>a\<bar> div \<bar>b\<bar>)"

type_synonym gotime = int
type_synonym duration = int

definition Second :: duration where
  "Second = 10 ^ 9"

definition Millisecond :: duration where
  "Millisecond = 10 ^ 6"

text \<open>The zero \<open>time.Time\<close> is 1 January of the year 1.\<close>

definition zeroTime :: gotime where
  "zeroTime = - 62135596800 * 10 ^ 9"

definition timeSub :: "gotime \<Rightarrow> gotime \<Rightarrow> duration" where
  "timeSub a b = sat64 (a - b)"

definition timeUnix :: "gotime \<Rightarrow> int" where
  "timeUnix t = t div 10 ^ 9"

text \<open>\<open>time.Duration(n) * time.Second\<close> for an integer \<open>n\<close>.\<close>

definition seconds :: "int \<Rightarrow> duration" where
  "seconds n = wrap64 (n * 10 ^ 9)"


section \<open>Decimal text\<close>

definition digit_char :: "nat \<Rightarrow> char" where
  "digit_char d = char_of (48 + d)"

fun nat_str :: "nat \<Rightarrow> string" where
  "nat_str n = (if n < 10 then [digit_char n] else nat_str (n div 10) @ [digit_char (n mod 10)])"

declare nat_str.simps [simp del]

text \<open>The decimal text of an integer, as \<open>%d\<close> and \<open>encoding/json\<close> write it.\<close>

definition itoa :: "int \<Rightarrow> string" where
  "itoa n = (if n < 0 then CHR ''-'' # nat_str (nat (- n)) else nat_str (nat n))"

definition is_digit :: "char \<Rightarrow> bool" where
  "is_digit c = (let n = of_char c :: nat in 48 \<le> n \<and> n \<le> 57)"

definition digit_val :: "char \<Rightarrow> nat" where
  "digit_val c = of_char c - 48"

definition dec_val :: "string \<Rightarrow> nat" where
  "dec_val s = foldl (\<lambda>a c. 10 * a + digit_val c) 0 s"


section \<open>Lemmas\<close>

subsection \<open>Prefixes and substrings\<close>

lemma starts_append [simp]: "starts p (p @ s)"
  by (induction p) auto

lemma starts_refl [simp]: "starts p p"
  using starts_append [of p "[]"] by simp

lemma starts_iff: "starts p s \<longleftrightarrow> (\<exists>r. s = p @ r)"
  by (induction p s rule: starts.induct) auto

lemma HasPrefix_append [simp, gostr]: "HasPrefix (p @ s) p"
  by (simp add: HasPrefix_def)

lemma starts_same_append [simp]: "starts (p @ q) (p @ s) = starts q s"
  by (induction p) auto

lemma Contains_Nil [simp]: "Contains s []"
  by (cases s) auto

lemma Contains_iff: "Contains s sub \<longleftrightarrow> (\<exists>a b. s = a @ sub @ b)"
proof
  show "Contains s sub \<Longrightarrow> \<exists>a b. s = a @ sub @ b"
  proof (induction s)
    case Nil
    then show ?case by simp
  next
    case (Cons c s)
    then consider "starts sub (c # s)" | "Contains s sub" by auto
    then show ?case
    proof cases
      case 1
      then have "\<exists>r. c # s = [] @ sub @ r" by (simp add: starts_iff)
      then show ?thesis by blast
    next
      case 2
      with Cons.IH obtain a b where "s = a @ sub @ b" by blast
      then have "c # s = (c # a) @ sub @ b" by simp
      then show ?thesis by blast
    qed
  qed
next
  assume "\<exists>a b. s = a @ sub @ b"
  then obtain a b where s: "s = a @ sub @ b" by blast
  have "Contains (a @ sub @ b) sub"
  proof (induction a)
    case Nil
    show ?case by (cases "sub @ b") (use starts_append [of sub b] in auto)
  next
    case (Cons x a)
    then show ?case by simp
  qed
  with s show "Contains s sub" by simp
qed

lemma Contains_middle [simp, intro]: "Contains (a @ sub @ b) sub"
  by (auto simp: Contains_iff)

lemma Contains_left [simp, intro]: "Contains (sub @ b) sub"
  using Contains_middle [of "[]" sub b] by simp

text \<open>A word that avoids a byte is found on one side of that byte.\<close>

lemma starts_sep: "c \<notin> set w \<Longrightarrow> starts w (x @ c # y) \<longleftrightarrow> starts w x"
proof (induction w arbitrary: x)
  case (Cons d w)
  then show ?case by (cases x) auto
qed simp

lemma Contains_sep: "w \<noteq> [] \<Longrightarrow> c \<notin> set w \<Longrightarrow> Contains (x @ c # y) w \<longleftrightarrow> Contains x w \<or> Contains y w"
proof (induction x)
  case Nil
  then show ?case by (cases w) auto
next
  case (Cons d x)
  then show ?case using starts_sep [of c w "d # x" y] by simp
qed

lemma Contains_append_right: "Contains s sub \<Longrightarrow> Contains (s @ t) sub"
  by (metis Contains_iff append.assoc)

subsection \<open>Trimming\<close>

definition graphic :: "char \<Rightarrow> bool" where
  "graphic c = (let n = of_char c :: nat in 33 \<le> n \<and> n \<le> 126)"

lemma lead_len_le: "lead_len ws s \<le> length s"
  by (induction ws) (auto simp: starts_iff)

lemma trim_lead_Nil [simp]: "trim_lead ws [] = []"
  by (subst trim_lead.simps) simp

lemma trim_lead_stop: "lead_len ws s = 0 \<Longrightarrow> trim_lead ws s = s"
  by (subst trim_lead.simps) simp

lemma lead_len_graphic:
  assumes "\<forall>w\<in>set ws. w \<noteq> [] \<and> \<not> graphic (hd w)" and "graphic c"
  shows "lead_len ws (c # s) = 0"
  using assms
proof (induction ws)
  case Nil
  then show ?case by simp
next
  case (Cons w ws)
  then have "\<not> starts w (c # s)" by (cases w) auto
  with Cons show ?case by simp
qed

lemma space_runes_not_graphic:
  "\<forall>w\<in>set space_runes. w \<noteq> [] \<and> \<not> graphic (hd w)"
  "\<forall>w\<in>set (map rev space_runes). w \<noteq> [] \<and> \<not> graphic (hd w)"
  by (simp_all add: space_runes_def graphic_def)

lemma trim_lead_graphic:
  assumes "graphic c"
  shows "trim_lead space_runes (c # s) = c # s"
    and "trim_lead (map rev space_runes) (c # s) = c # s"
  using lead_len_graphic [OF space_runes_not_graphic(1) assms]
    lead_len_graphic [OF space_runes_not_graphic(2) assms]
  by (auto intro: trim_lead_stop)

lemma TrimSpace_Nil [simp, gostr]: "TrimSpace [] = []"
  by (simp add: TrimSpace_def)

text \<open>A string that starts and ends with a printable ASCII byte is left as it is.\<close>

lemma TrimSpace_graphic:
  assumes "s \<noteq> []" and "graphic (hd s)" and "graphic (last s)"
  shows "TrimSpace s = s"
proof -
  obtain c t where s: "s = c # t" using assms(1) by (cases s) auto
  have "trim_lead space_runes s = s"
    using assms(2) s trim_lead_graphic(1) by simp
  moreover have "trim_lead (map rev space_runes) (rev s) = rev s"
  proof -
    have "rev s = last s # rev (butlast s)"
      using assms(1) by (metis append_butlast_last_id rev_eq_Cons_iff rev_rev_ident)
    then show ?thesis using trim_lead_graphic(2) [OF assms(3)] by metis
  qed
  ultimately show ?thesis by (simp add: TrimSpace_def)
qed

lemma TrimSpace_all_graphic:
  "\<forall>c\<in>set s. graphic c \<Longrightarrow> TrimSpace s = s"
  by (cases "s = []") (auto intro!: TrimSpace_graphic)

subsection \<open>Maps\<close>

lemma mget_set [simp, gostr]: "mget (mset_key m k v) k = v"
  by (simp add: mget_def mset_key_def update_conv)

lemma mget_set_other [simp, gostr]: "k' \<noteq> k \<Longrightarrow> mget (mset_key m k v) k' = mget m k'"
  by (simp add: mget_def mset_key_def update_conv)

lemma mget_delete [simp, gostr]: "mget (mdelete m k) k = ''''"
  by (simp add: mget_def mdelete_def delete_conv)

lemma mget_delete_other [simp, gostr]: "k' \<noteq> k \<Longrightarrow> mget (mdelete m k) k' = mget m k'"
  by (simp add: mget_def mdelete_def delete_conv)

subsection \<open>Integers and time\<close>

lemma wrap64_id [gotime]: "int64 x \<Longrightarrow> wrap64 x = x"
  by (simp add: wrap64_def int64_def)

lemma wrap32_id [gotime]: "int32 x \<Longrightarrow> wrap32 x = x"
  by (simp add: wrap32_def int32_def)

lemma int64_wrap64 [simp]: "int64 (wrap64 x)"
  by (simp add: wrap64_def int64_def)

lemma int32_wrap32 [simp]: "int32 (wrap32 x)"
  by (simp add: wrap32_def int32_def)

lemma sat64_id [gotime]: "int64 x \<Longrightarrow> sat64 x = x"
  by (simp add: sat64_def int64_def)

text \<open>A number of seconds that fits in 32 bits never overflows as a duration.\<close>

lemma seconds_int32 [gotime]: "int32 n \<Longrightarrow> seconds n = n * 10 ^ 9"
  by (simp add: seconds_def wrap64_id int64_def int32_def)

lemma sat64_le_iff: "int64 d \<Longrightarrow> (sat64 x \<le> d) = (x \<le> d \<or> d = 2 ^ 63 - 1)"
  by (auto simp: sat64_def int64_def)

subsection \<open>Decimal text\<close>

lemma is_digit_digit_char [simp]: "d < 10 \<Longrightarrow> is_digit (digit_char d)"
  by (simp add: is_digit_def digit_char_def)

lemma digit_val_digit_char [simp]: "d < 10 \<Longrightarrow> digit_val (digit_char d) = d"
  by (simp add: digit_val_def digit_char_def)

lemma nat_str_digits: "\<forall>c\<in>set (nat_str n). is_digit c"
proof (induction n rule: nat_str.induct)
  case (1 n)
  then show ?case by (subst nat_str.simps) auto
qed

lemma nat_str_not_Nil [simp]: "nat_str n \<noteq> []"
  by (subst nat_str.simps) simp

lemma dec_val_append: "dec_val (s @ [c]) = 10 * dec_val s + digit_val c"
  by (simp add: dec_val_def)

lemma dec_val_nat_str [simp]: "dec_val (nat_str n) = n"
proof (induction n rule: nat_str.induct)
  case (1 n)
  show ?case
  proof (cases "n < 10")
    case True
    then show ?thesis by (subst nat_str.simps) (simp add: dec_val_def)
  next
    case False
    then show ?thesis using 1
      by (subst nat_str.simps) (simp add: dec_val_append)
  qed
qed

text \<open>No leading zero: the text of a positive number starts with a non-zero digit.\<close>

lemma nat_str_hd: "0 < n \<Longrightarrow> hd (nat_str n) \<noteq> CHR ''0''"
proof (induction n rule: nat_str.induct)
  case (1 n)
  show ?case
  proof (cases "n < 10")
    case True
    have "digit_val (digit_char n) \<noteq> digit_val CHR ''0''"
      using True 1(2) by simp (simp add: digit_val_def)
    then have "digit_char n \<noteq> CHR ''0''" by auto
    with True show ?thesis by (subst nat_str.simps) simp
  next
    case False
    with 1 show ?thesis by (subst nat_str.simps) simp
  qed
qed

lemma nat_str_0 [simp]: "nat_str 0 = ''0''"
  by (subst nat_str.simps) (simp add: digit_char_def char_of_def bit_0)

end
