(* ===== verification/Utf8.thy ===== *)
theory Utf8
  imports Prelude
begin

text \<open>
  UTF-8 as \<open>unicode/utf8\<close> has it. Go strings are byte strings that need not be valid UTF-8; \<open>encoding/json\<close> replaces
  every byte that begins no valid encoding by U+FFFD, both when it writes and when it reads a string. \<open>utf8_size\<close>
  is the size that \<open>utf8.DecodeRuneInString\<close> returns, 0 standing for an invalid byte; \<open>coerce\<close> is the replacement.

  Shown here: \<open>coerce\<close> yields valid UTF-8 and leaves exactly the valid strings unchanged.
\<close>

text \<open>The encoding of a code point.\<close>

definition utf8 :: "nat \<Rightarrow> string" where
  "utf8 n =
     (if n < 128 then [char_of n]
      else if n < 2048 then [char_of (192 + n div 64), char_of (128 + n mod 64)]
      else if n < 65536
        then [char_of (224 + n div 4096), char_of (128 + n div 64 mod 64), char_of (128 + n mod 64)]
      else [char_of (240 + n div 262144), char_of (128 + n div 4096 mod 64),
            char_of (128 + n div 64 mod 64), char_of (128 + n mod 64)])"

text \<open>What may follow a first byte: the ranges of the bytes after it. Overlong encodings, surrogates and code
  points above U+10FFFF are excluded by the range of the second byte.\<close>

definition utf8_tail :: "nat \<Rightarrow> (nat \<times> nat) list option" where
  "utf8_tail n =
     (if n < 0x80 then Some []
      else if 0xC2 \<le> n \<and> n \<le> 0xDF then Some [(0x80, 0xBF)]
      else if n = 0xE0 then Some [(0xA0, 0xBF), (0x80, 0xBF)]
      else if n = 0xED then Some [(0x80, 0x9F), (0x80, 0xBF)]
      else if 0xE1 \<le> n \<and> n \<le> 0xEF then Some [(0x80, 0xBF), (0x80, 0xBF)]
      else if n = 0xF0 then Some [(0x90, 0xBF), (0x80, 0xBF), (0x80, 0xBF)]
      else if n = 0xF4 then Some [(0x80, 0x8F), (0x80, 0xBF), (0x80, 0xBF)]
      else if 0xF1 \<le> n \<and> n \<le> 0xF3 then Some [(0x80, 0xBF), (0x80, 0xBF), (0x80, 0xBF)]
      else None)"

fun in_ranges :: "(nat \<times> nat) list \<Rightarrow> string \<Rightarrow> bool" where
  "in_ranges [] s = True"
| "in_ranges (r # rs) [] = False"
| "in_ranges ((a, b) # rs) (c # s) = (a \<le> of_char c \<and> of_char c \<le> b \<and> in_ranges rs s)"

definition utf8_size :: "string \<Rightarrow> nat" where
  "utf8_size s =
     (case s of [] \<Rightarrow> 0
      | c # r \<Rightarrow>
        (case utf8_tail (of_char c) of None \<Rightarrow> 0
         | Some rs \<Rightarrow> if in_ranges rs r then Suc (length rs) else 0))"

definition RuneError :: string where "RuneError = utf8 0xFFFD"

fun coerce :: "string \<Rightarrow> string" where
  "coerce [] = []"
| "coerce (c # s) =
     (case utf8_size (c # s) of
        0 \<Rightarrow> RuneError @ coerce s
      | Suc k \<Rightarrow> c # take k s @ coerce (drop k s))"

fun valid_utf8 :: "string \<Rightarrow> bool" where
  "valid_utf8 [] = True"
| "valid_utf8 (c # s) =
     (case utf8_size (c # s) of 0 \<Rightarrow> False | Suc k \<Rightarrow> valid_utf8 (drop k s))"

declare coerce.simps(2) [simp del] valid_utf8.simps(2) [simp del]


section \<open>Lemmas\<close>

lemma RuneError_bytes: "RuneError = [CHR 0xEF, CHR 0xBF, CHR 0xBD]"
  by (simp add: RuneError_def utf8_def char_of_def bit_0)

lemma in_ranges_append: "in_ranges rs s \<Longrightarrow> in_ranges rs (take (length rs) s @ t)"
  by (induction rs s rule: in_ranges.induct) auto

lemma in_ranges_length: "in_ranges rs s \<Longrightarrow> length rs \<le> length s"
  by (induction rs s rule: in_ranges.induct) auto

lemma in_ranges_high: "in_ranges rs s \<Longrightarrow> \<forall>(a, b)\<in>set rs. 128 \<le> a \<Longrightarrow> \<forall>c\<in>set (take (length rs) s). 128 \<le> (of_char c :: nat)"
  by (induction rs s rule: in_ranges.induct) auto

lemma utf8_tail_high: "utf8_tail n = Some rs \<Longrightarrow> \<forall>(a, b)\<in>set rs. 128 \<le> a"
  by (auto simp: utf8_tail_def split: if_splits)

lemma utf8_size_ascii [simp]: "(of_char c :: nat) < 128 \<Longrightarrow> utf8_size (c # s) = 1"
  by (simp add: utf8_size_def utf8_tail_def)

lemma utf8_size_SucD:
  assumes "utf8_size (c # s) = Suc k"
  shows "k \<le> length s" "utf8_size (c # take k s @ t) = Suc k" "\<forall>d\<in>set (take k s). 128 \<le> (of_char d :: nat)"
proof -
  from assms obtain rs where rs: "utf8_tail (of_char c) = Some rs" "in_ranges rs s" "k = length rs"
    by (auto simp: utf8_size_def split: option.splits if_splits)
  show "k \<le> length s" using in_ranges_length [OF rs(2)] rs(3) by simp
  show "utf8_size (c # take k s @ t) = Suc k"
    using in_ranges_append [OF rs(2)] rs by (simp add: utf8_size_def)
  show "\<forall>d\<in>set (take k s). 128 \<le> (of_char d :: nat)"
    using in_ranges_high [OF rs(2) utf8_tail_high [OF rs(1)]] rs(3) by simp
qed

lemma valid_Cons_ascii [simp]: "(of_char c :: nat) < 128 \<Longrightarrow> valid_utf8 (c # s) = valid_utf8 s"
  by (subst valid_utf8.simps) simp

lemma coerce_Cons_ascii [simp]: "(of_char c :: nat) < 128 \<Longrightarrow> coerce (c # s) = c # coerce s"
  by (subst coerce.simps) simp

lemma valid_rune:
  assumes "utf8_size (c # s) = Suc k"
  shows "valid_utf8 (c # take k s @ t) = valid_utf8 t"
proof -
  note u = utf8_size_SucD(1,2) [OF assms]
  have "drop k (take k s @ t) = t" using u(1) by simp
  then show ?thesis using u(2) [of t] by (subst valid_utf8.simps) simp
qed

lemma coerce_rune:
  assumes "utf8_size (c # s) = Suc k"
  shows "coerce (c # take k s @ t) = c # take k s @ coerce t"
proof -
  note u = utf8_size_SucD(1,2) [OF assms]
  have "drop k (take k s @ t) = t" "take k (take k s @ t) = take k s" using u(1) by simp_all
  then show ?thesis using u(2) [of t] by (subst coerce.simps) simp
qed

lemma valid_RuneError: "valid_utf8 (RuneError @ t) = valid_utf8 t"
  using valid_rune [of "CHR 0xEF" "[CHR 0xBF, CHR 0xBD]" 2 t]
  by (simp add: RuneError_bytes utf8_size_def utf8_tail_def)

lemma coerce_valid [simp]: "valid_utf8 s \<Longrightarrow> coerce s = s"
proof (induction s rule: valid_utf8.induct)
  case (2 c s)
  then show ?case by (subst coerce.simps) (auto simp: valid_utf8.simps(2) split: nat.splits)
qed simp

lemma valid_coerce [simp]: "valid_utf8 (coerce s)"
proof (induction s rule: coerce.induct)
  case (2 c s)
  show ?case
  proof (cases "utf8_size (c # s)")
    case 0
    then show ?thesis using 2(1) by (simp add: coerce.simps(2) valid_RuneError)
  next
    case (Suc k)
    then show ?thesis using 2(2) by (simp add: coerce.simps(2) valid_rune)
  qed
qed simp

lemma coerce_iff_valid: "coerce s = s \<longleftrightarrow> valid_utf8 s"
  by (metis valid_coerce coerce_valid)

lemma coerce_Nil_iff [simp]: "coerce s = [] \<longleftrightarrow> s = []"
  by (cases s) (auto simp: coerce.simps(2) RuneError_bytes split: nat.split)

lemma valid_ascii: "ascii s \<Longrightarrow> valid_utf8 s"
  by (induction s) (simp_all add: ascii_def)

lemma valid_append: "valid_utf8 s \<Longrightarrow> valid_utf8 (s @ t) = valid_utf8 t"
proof (induction s rule: valid_utf8.induct)
  case (2 c s)
  then obtain k where k: "utf8_size (c # s) = Suc k" "valid_utf8 (drop k s)"
    by (auto simp: valid_utf8.simps(2) split: nat.splits)
  have "(c # s) @ t = c # take k s @ (drop k s @ t)" by (metis append.assoc append_Cons append_take_drop_id)
  then show ?case using valid_rune [OF k(1), of "drop k s @ t"] 2(1) [OF k] by metis
qed simp

end
