(* ===== verification/Json.thy ===== *)
theory Json
  imports Complex_Main Utf8 "HOL-Library.Multiset"
begin

text \<open>
  JSON as the operator uses it: the values of \<open>encoding/json\<close>, its marshaller and its parser,
  and the canonical encoder of \<open>pkg/crypto/canonical.go\<close>.

  A Go value that is marshalled is given as its JSON tree, the fields of a struct in the order of
  their declaration with the \<open>omitempty\<close> fields left out. Number literals without a fraction or
  an exponent are \<open>JNum\<close>; every other literal is kept as text in \<open>JDec\<close> (no type the operator
  marshals has such a field). The parser has no limit on nesting, where Go stops at 10000 levels. Values that pass through \<open>float64\<close> keep their value up to
  \<open>2 ^ 53\<close>: \<open>json_ok\<close> states that bound where a theorem is about such a value. Strings are any bytes: the
  marshaller writes \<open>\ufffd\<close> for a byte that is not part of valid UTF-8, and the parser reads such a byte as U+FFFD.

  Shown here: the parser inverts the marshaller up to that replacement, the fuel given to the parser is
  enough for every input, and the canonical encoding identifies exactly the values that agree up to the
  replacement and the order of object keys.
\<close>

datatype json =
    JNull
  | JBool bool
  | JNum int
  | JDec string
  | JStr string
  | JArr "json list"
  | JObj "(string \<times> json) list"

abbreviation dquote :: char where "dquote \<equiv> CHR 0x22"
abbreviation bslash :: char where "bslash \<equiv> CHR 0x5C"


section \<open>Marshalling\<close>

definition hex_digit :: "nat \<Rightarrow> char" where
  "hex_digit d = (if d < 10 then char_of (48 + d) else char_of (87 + d))"

text \<open>The escapes \<open>encoding/json\<close> writes for one byte, with its default HTML escaping.\<close>

definition esc_char :: "char \<Rightarrow> string" where
  "esc_char c =
     (let n = of_char c :: nat in
      if c = dquote \<or> c = bslash then [bslash, c]
      else if n = 8 then [bslash, CHR ''b'']
      else if n = 12 then [bslash, CHR ''f'']
      else if n = 10 then [bslash, CHR ''n'']
      else if n = 13 then [bslash, CHR ''r'']
      else if n = 9 then [bslash, CHR ''t'']
      else if n < 32 \<or> n = 60 \<or> n = 62 \<or> n = 38
        then bslash # ''u00'' @ [hex_digit (n div 16), hex_digit (n mod 16)]
      else [c])"

text \<open>\<open>%q\<close>: a Go string literal. Runes beyond ASCII are printed as they are, which is exact for
  printable ones; a byte that is not valid UTF-8 is printed in hexadecimal.\<close>

definition q_char :: "char \<Rightarrow> string" where
  "q_char c =
     (let n = of_char c :: nat in
      if c = dquote \<or> c = bslash then [bslash, c]
      else if n = 7 then [bslash, CHR ''a'']
      else if n = 8 then [bslash, CHR ''b'']
      else if n = 12 then [bslash, CHR ''f'']
      else if n = 10 then [bslash, CHR ''n'']
      else if n = 13 then [bslash, CHR ''r'']
      else if n = 9 then [bslash, CHR ''t'']
      else if n = 11 then [bslash, CHR ''v'']
      else if n < 32 \<or> n = 127 then bslash # CHR ''x'' # [hex_digit (n div 16), hex_digit (n mod 16)]
      else [c])"

fun q_text :: "string \<Rightarrow> string" where
  "q_text [] = []"
| "q_text (c # s) =
     (let n = of_char c :: nat in
      if n < 128 then q_char c @ q_text s
      else (case utf8_size (c # s) of
              0 \<Rightarrow> bslash # CHR ''x'' # hex_digit (n div 16) # hex_digit (n mod 16) # q_text s
            | Suc k \<Rightarrow> c # take k s @ q_text (drop k s)))"

definition fmt_q :: "string \<Rightarrow> string" where
  "fmt_q s = dquote # q_text s @ [dquote]"

text \<open>The line separators U+2028 and U+2029 are escaped as well, and a byte that is not valid UTF-8 becomes an escaped
  U+FFFD.\<close>

fun escape :: "string \<Rightarrow> string" where
  "escape [] = []"
| "escape (c # s) =
     (if starts [CHR 0xE2, CHR 0x80, CHR 0xA8] (c # s) then bslash # ''u2028'' @ escape (drop 2 s)
      else if starts [CHR 0xE2, CHR 0x80, CHR 0xA9] (c # s)
        then bslash # ''u2029'' @ escape (drop 2 s)
      else if (of_char c :: nat) < 128 then esc_char c @ escape s
      else (case utf8_size (c # s) of
              0 \<Rightarrow> bslash # ''ufffd'' @ escape s
            | Suc k \<Rightarrow> c # take k s @ escape (drop k s)))"

declare escape.simps(2) [simp del]

definition quote :: "string \<Rightarrow> string" where
  "quote s = dquote # escape s @ [dquote]"

fun marshal :: "json \<Rightarrow> string" where
  "marshal JNull = ''null''"
| "marshal (JBool b) = (if b then ''true'' else ''false'')"
| "marshal (JNum n) = itoa n"
| "marshal (JDec t) = t"
| "marshal (JStr s) = quote s"
| "marshal (JArr xs) = ''['' @ Join (map marshal xs) '','' @ '']''"
| "marshal (JObj kvs) =
     ''{'' @ Join (map (\<lambda>(k, v). quote k @ '':'' @ marshal v) kvs) '','' @ ''}''"


section \<open>Parsing\<close>

definition skip_ws :: "string \<Rightarrow> string" where
  "skip_ws s = dropWhile (\<lambda>c. c \<in> {CHR 0x20, CHR 0x09, CHR 0x0A, CHR 0x0D}) s"

definition hex_val :: "char \<Rightarrow> nat option" where
  "hex_val c =
     (let n = of_char c :: nat in
      if 48 \<le> n \<and> n \<le> 57 then Some (n - 48)
      else if 97 \<le> n \<and> n \<le> 102 then Some (n - 87)
      else if 65 \<le> n \<and> n \<le> 70 then Some (n - 55)
      else None)"

text \<open>Four hexadecimal digits.\<close>

fun hex4 :: "string \<Rightarrow> (nat \<times> string) option" where
  "hex4 (a # b # c # d # r) =
     (case (hex_val a, hex_val b, hex_val c, hex_val d) of
        (Some p, Some q, Some s, Some t) \<Rightarrow> Some (((p * 16 + q) * 16 + s) * 16 + t, r)
      | _ \<Rightarrow> None)"
| "hex4 _ = None"

text \<open>What follows a backslash: the bytes it stands for and the rest of the input. A surrogate
  that is not followed by its other half reads as U+FFFD.\<close>

definition unescape :: "string \<Rightarrow> (string \<times> string) option" where
  "unescape s =
     (case s of [] \<Rightarrow> None
      | c # r \<Rightarrow>
        if c = dquote \<or> c = bslash \<or> c = CHR ''/'' then Some ([c], r)
        else if c = CHR ''b'' then Some ([CHR 0x08], r)
        else if c = CHR ''f'' then Some ([CHR 0x0C], r)
        else if c = CHR ''n'' then Some ([CHR 0x0A], r)
        else if c = CHR ''r'' then Some ([CHR 0x0D], r)
        else if c = CHR ''t'' then Some ([CHR 0x09], r)
        else if c = CHR ''u'' then
          (case hex4 r of None \<Rightarrow> None
           | Some (n, r1) \<Rightarrow>
             if 55296 \<le> n \<and> n < 57344 then
               (if n < 56320 \<and> starts (bslash # ''u'') r1 then
                  (case hex4 (drop 2 r1) of None \<Rightarrow> None
                   | Some (m, r2) \<Rightarrow>
                     if 56320 \<le> m \<and> m < 57344
                     then Some (utf8 (65536 + (n - 55296) * 1024 + (m - 56320)), r2)
                     else Some (utf8 65533, r1))
                else Some (utf8 65533, r1))
             else Some (utf8 n, r1))
        else None)"

lemma hex4_shorter: "hex4 s = Some (n, r) \<Longrightarrow> length r < length s"
  by (cases s rule: hex4.cases) (auto split: option.splits)

lemma unescape_shorter: "unescape s = Some (t, r) \<Longrightarrow> length r < length s"
proof -
  have d: "hex4 (drop 2 u) = Some (m, v) \<Longrightarrow> length v < length u" for u m v
    using hex4_shorter [of "drop 2 u" m v] by simp
  show "unescape s = Some (t, r) \<Longrightarrow> length r < length s"
    by (auto simp: unescape_def split: list.splits if_splits option.splits
        dest!: hex4_shorter d)
qed

text \<open>The body of a string literal, after its opening quote; bytes that are not valid UTF-8 read as U+FFFD.\<close>

function parse_str :: "string \<Rightarrow> (string \<times> string) option" where
  "parse_str [] = None"
| "parse_str (c # s) =
     (if c = dquote then Some ([], s)
      else if c = bslash then
        (case unescape s of None \<Rightarrow> None
         | Some (t, r) \<Rightarrow> map_option (\<lambda>(u, q). (t @ u, q)) (parse_str r))
      else if (of_char c :: nat) < 32 then None
      else if (of_char c :: nat) < 128 then map_option (\<lambda>(u, q). (c # u, q)) (parse_str s)
      else (case utf8_size (c # s) of
              0 \<Rightarrow> map_option (\<lambda>(u, q). (RuneError @ u, q)) (parse_str s)
            | Suc k \<Rightarrow> map_option (\<lambda>(u, q). (c # take k s @ u, q)) (parse_str (drop k s))))"
  by pat_completeness auto
termination
  by (relation "measure length") (auto dest: unescape_shorter)

declare parse_str.simps(2) [simp del]

lemma parse_str_steps [simp]:
  "parse_str (dquote # s) = Some ([], s)"
  "parse_str (bslash # s) = (case unescape s of None \<Rightarrow> None
     | Some (t, r) \<Rightarrow> map_option (\<lambda>(u, q). (t @ u, q)) (parse_str r))"
  by (simp_all add: parse_str.simps(2))

text \<open>The optional fraction and exponent of a number literal: their text and the rest.\<close>

definition parse_exp :: "string \<Rightarrow> (string \<times> string) option" where
  "parse_exp s =
     (case s of [] \<Rightarrow> Some ([], [])
      | c # r \<Rightarrow>
        if c = CHR ''e'' \<or> c = CHR ''E'' then
          (let sg = (case r of [] \<Rightarrow> [] | d # _ \<Rightarrow> if d = CHR ''+'' \<or> d = CHR ''-'' then [d] else []);
               r1 = drop (length sg) r; ds = takeWhile is_digit r1
           in if ds = [] then None else Some (c # sg @ ds, dropWhile is_digit r1))
        else Some ([], s))"

definition parse_frac :: "string \<Rightarrow> (string \<times> string) option" where
  "parse_frac s =
     (case s of [] \<Rightarrow> Some ([], [])
      | c # r \<Rightarrow>
        if c = CHR ''.'' then
          (let ds = takeWhile is_digit r
           in if ds = [] then None
              else map_option (\<lambda>(t, q). (c # ds @ t, q)) (parse_exp (dropWhile is_digit r)))
        else parse_exp s)"

definition parse_num :: "string \<Rightarrow> (json \<times> string) option" where
  "parse_num s =
     (let neg = starts ''-'' s; s1 = (if neg then drop 1 s else s);
          ds = takeWhile is_digit s1; r = dropWhile is_digit s1
      in if ds = [] \<or> (hd ds = CHR ''0'' \<and> 1 < length ds) then None
         else (case parse_frac r of None \<Rightarrow> None
               | Some (t, q) \<Rightarrow>
                 if t = [] then Some (JNum (if neg then - int (dec_val ds) else int (dec_val ds)), q)
                 else Some (JDec ((if neg then ''-'' else []) @ ds @ t), q)))"

text \<open>Values, the elements of an array after its bracket, and the members of an object after its
  brace; the first argument is fuel.\<close>

fun pval :: "nat \<Rightarrow> string \<Rightarrow> (json \<times> string) option"
  and pelems :: "nat \<Rightarrow> string \<Rightarrow> (json list \<times> string) option"
  and pmembers :: "nat \<Rightarrow> string \<Rightarrow> ((string \<times> json) list \<times> string) option" where
  "pval 0 s = None"
| "pval (Suc n) s =
     (case skip_ws s of [] \<Rightarrow> None
      | c # r \<Rightarrow>
        if c = dquote then map_option (\<lambda>(t, q). (JStr t, q)) (parse_str r)
        else if c = CHR ''['' then
          (if starts '']'' (skip_ws r) then Some (JArr [], drop 1 (skip_ws r))
           else map_option (\<lambda>(xs, q). (JArr xs, q)) (pelems n r))
        else if c = CHR ''{'' then
          (if starts ''}'' (skip_ws r) then Some (JObj [], drop 1 (skip_ws r))
           else map_option (\<lambda>(xs, q). (JObj xs, q)) (pmembers n r))
        else if starts ''null'' (c # r) then Some (JNull, drop 3 r)
        else if starts ''true'' (c # r) then Some (JBool True, drop 3 r)
        else if starts ''false'' (c # r) then Some (JBool False, drop 4 r)
        else parse_num (c # r))"
| "pelems 0 s = None"
| "pelems (Suc n) s =
     (case pval n s of None \<Rightarrow> None
      | Some (v, r) \<Rightarrow>
        (case skip_ws r of [] \<Rightarrow> None
         | c # q \<Rightarrow>
           if c = CHR '']'' then Some ([v], q)
           else if c = CHR '','' then map_option (\<lambda>(vs, p). (v # vs, p)) (pelems n q)
           else None))"
| "pmembers 0 s = None"
| "pmembers (Suc n) s =
     (case skip_ws s of [] \<Rightarrow> None
      | d # t \<Rightarrow>
        if d \<noteq> dquote then None
        else (case parse_str t of None \<Rightarrow> None
              | Some (k, u) \<Rightarrow>
                if \<not> starts '':'' (skip_ws u) then None
                else (case pval n (drop 1 (skip_ws u)) of None \<Rightarrow> None
                      | Some (v, r) \<Rightarrow>
                        (case skip_ws r of [] \<Rightarrow> None
                         | c # q \<Rightarrow>
                           if c = CHR ''}'' then Some ([(k, v)], q)
                           else if c = CHR '','' then
                             map_option (\<lambda>(vs, p). ((k, v) # vs, p)) (pmembers n q)
                           else None))))"

definition parse_json :: "string \<Rightarrow> json option" where
  "parse_json s =
     (case pval (2 * length s + 2) s of None \<Rightarrow> None
      | Some (v, r) \<Rightarrow> if skip_ws r = [] then Some v else None)"

text \<open>Decoding into \<open>any\<close> stores the members of an object in a Go map: the last of several
  members with one key wins.\<close>

fun as_any :: "json \<Rightarrow> json" where
  "as_any (JArr xs) = JArr (map as_any xs)"
| "as_any (JObj kvs) =
     JObj (foldl (\<lambda>m (k, v). AList.update k v m) [] (map (\<lambda>(k, v). (k, as_any v)) kvs))"
| "as_any j = j"

text \<open>The value of a decimal literal. Numbers become \<open>float64\<close>; one that rounds to infinity is an error.\<close>

definition dec_rat :: "string \<Rightarrow> rat" where
  "dec_rat t =
     (let neg = starts ''-'' t; t1 = (if neg then drop 1 t else t);
          ip = takeWhile is_digit t1; t2 = dropWhile is_digit t1;
          fp = (if starts ''.'' t2 then takeWhile is_digit (drop 1 t2) else []);
          t3 = (if starts ''.'' t2 then dropWhile is_digit (drop 1 t2) else t2);
          t4 = drop 1 t3; eneg = starts ''-'' t4;
          ex = (if t3 = [] then 0 else dec_val (if starts ''-'' t4 \<or> starts ''+'' t4 then drop 1 t4 else t4));
          m = of_nat (dec_val (ip @ fp)) / 10 ^ length fp :: rat;
          x = (if eneg then m / 10 ^ ex else m * 10 ^ ex)
      in if neg then - x else x)"

fun in_float64 :: "json \<Rightarrow> bool" where
  "in_float64 (JNum n) = (\<bar>n\<bar> < 2 ^ 1024 - 2 ^ 970)"
| "in_float64 (JDec t) = (\<bar>dec_rat t\<bar> < 2 ^ 1024 - 2 ^ 970)"
| "in_float64 (JArr xs) = (\<forall>x\<in>set xs. in_float64 x)"
| "in_float64 (JObj kvs) = (\<forall>(k, v)\<in>set kvs. in_float64 v)"
| "in_float64 j = True"

definition unmarshal_any :: "string \<Rightarrow> json option" where
  "unmarshal_any s =
     (case parse_json s of None \<Rightarrow> None | Some j \<Rightarrow> if in_float64 j then Some (as_any j) else None)"


section \<open>The canonical encoder of \<open>pkg/crypto/canonical.go\<close>\<close>

fun writeCanonicalJSON :: "json \<Rightarrow> string" where
  "writeCanonicalJSON JNull = ''null''"
| "writeCanonicalJSON (JBool b) = (if b then ''true'' else ''false'')"
| "writeCanonicalJSON (JNum n) = marshal (JNum n)"
| "writeCanonicalJSON (JDec t) = marshal (JDec t)"
| "writeCanonicalJSON (JStr s) = marshal (JStr s)"
| "writeCanonicalJSON (JArr xs) = ''['' @ Join (map writeCanonicalJSON xs) '','' @ '']''"
| "writeCanonicalJSON (JObj kvs) =
     ''{'' @ Join (map (\<lambda>(k, t). quote k @ '':'' @ t)
                    (sort_key fst (map (\<lambda>(k, v). (k, writeCanonicalJSON v)) kvs))) '','' @ ''}''"

text \<open>The argument is the JSON tree of the Go value; \<open>None\<close> is the error of \<open>json.Unmarshal\<close>.\<close>

definition CanonicalJSON :: "json \<Rightarrow> string option" where
  "CanonicalJSON v = map_option writeCanonicalJSON (unmarshal_any (marshal v))"


section \<open>Strings: the parser inverts the escapes\<close>

lemma esc_char_plain: "esc_char c = [c] \<or> (\<exists>t. esc_char c = bslash # t)"
  by (simp add: esc_char_def Let_def)

lemma parse_str_plain:
  assumes "esc_char c = [c]" and "(of_char c :: nat) < 128"
  shows "parse_str (c # s) = map_option (\<lambda>(u, q). (c # u, q)) (parse_str s)"
proof -
  have "c \<noteq> dquote" "c \<noteq> bslash" "\<not> (of_char c :: nat) < 32"
    using assms by (auto simp: esc_char_def Let_def split: if_splits)
  then show ?thesis using assms(2) by (simp add: parse_str.simps(2))
qed

lemma hex_val_digit: "d < 16 \<Longrightarrow> hex_val (hex_digit d) = Some d"
  by (auto simp: hex_val_def hex_digit_def Let_def)

lemma unescape_u00:
  assumes "n < 128"
  shows "unescape (CHR ''u'' # CHR ''0'' # CHR ''0'' # hex_digit (n div 16) # hex_digit (n mod 16) # r)
    = Some ([char_of n], r)"
proof -
  have "hex_val CHR ''0'' = Some 0" by (simp add: hex_val_def)
  moreover have "n div 16 < 16" "n mod 16 < 16" using assms by auto
  ultimately show ?thesis using assms
    by (simp add: unescape_def hex_val_digit utf8_def)
qed

lemma unescape_letters:
  "unescape (CHR ''b'' # r) = Some ([CHR 0x08], r)" "unescape (CHR ''f'' # r) = Some ([CHR 0x0C], r)"
  "unescape (CHR ''n'' # r) = Some ([CHR 0x0A], r)" "unescape (CHR ''r'' # r) = Some ([CHR 0x0D], r)"
  "unescape (CHR ''t'' # r) = Some ([CHR 0x09], r)" "unescape (dquote # r) = Some ([dquote], r)"
  "unescape (bslash # r) = Some ([bslash], r)"
  by (simp_all add: unescape_def)

lemma char_of_code: "(of_char c :: nat) = of_char d \<Longrightarrow> c = d"
  by simp

lemma unescape_esc_char:
  assumes "esc_char c = bslash # t"
  shows "unescape (t @ r) = Some ([c], r)"
proof -
  have u: "unescape (''u00'' @ [hex_digit (of_char c div 16), hex_digit (of_char c mod 16)] @ r)
    = Some ([c], r)" if "(of_char c :: nat) < 128"
    using unescape_u00 [OF that, of r] by simp
  have "(of_char c :: nat) = 8 \<Longrightarrow> c = CHR 0x08" "(of_char c :: nat) = 12 \<Longrightarrow> c = CHR 0x0C"
    "(of_char c :: nat) = 10 \<Longrightarrow> c = CHR 0x0A" "(of_char c :: nat) = 13 \<Longrightarrow> c = CHR 0x0D"
    "(of_char c :: nat) = 9 \<Longrightarrow> c = CHR 0x09"
    by (rule char_of_code, simp)+
  then show ?thesis
    using assms u
    by (auto simp: esc_char_def Let_def unescape_letters split: if_splits)
qed

lemma parse_str_esc_char:
  "(of_char c :: nat) < 128 \<Longrightarrow> parse_str (esc_char c @ s) = map_option (\<lambda>(u, q). (c # u, q)) (parse_str s)"
proof (cases "esc_char c = [c]")
  case True
  assume "(of_char c :: nat) < 128"
  with True show ?thesis by (simp only: append_Cons append_Nil parse_str_plain)
next
  case False
  then obtain t where t: "esc_char c = bslash # t" using esc_char_plain by blast
  then show ?thesis using unescape_esc_char [OF t, of s] by simp
qed

lemma unescape_line_seps:
  "unescape (''u2028'' @ r) = Some ([CHR 0xE2, CHR 0x80, CHR 0xA8], r)"
  "unescape (''u2029'' @ r) = Some ([CHR 0xE2, CHR 0x80, CHR 0xA9], r)"
  by (simp_all add: unescape_def hex_val_def utf8_def char_of_def bit_0)

lemma unescape_ufffd: "unescape (''ufffd'' @ r) = Some (RuneError, r)"
  by (simp add: unescape_def hex_val_def RuneError_def)

lemma line_sep_rune:
  "coerce ([CHR 0xE2, CHR 0x80, CHR 0xA8] @ q) = [CHR 0xE2, CHR 0x80, CHR 0xA8] @ coerce q"
  "coerce ([CHR 0xE2, CHR 0x80, CHR 0xA9] @ q) = [CHR 0xE2, CHR 0x80, CHR 0xA9] @ coerce q"
  using coerce_rune [of "CHR 0xE2" "[CHR 0x80, CHR 0xA8]" 2 q] coerce_rune [of "CHR 0xE2" "[CHR 0x80, CHR 0xA9]" 2 q]
  by (simp_all add: utf8_size_def utf8_tail_def)

lemma parse_str_escape: "parse_str (escape s @ dquote # r) = Some (coerce s, r)"
proof (induction s rule: escape.induct)
  case 1
  show ?case by simp
next
  case (2 c s)
  let ?A = "starts [CHR 0xE2, CHR 0x80, CHR 0xA8] (c # s)" and ?B = "starts [CHR 0xE2, CHR 0x80, CHR 0xA9] (c # s)"
  consider ?A | "\<not> ?A" ?B | "\<not> ?A" "\<not> ?B" "(of_char c :: nat) < 128"
    | "\<not> ?A" "\<not> ?B" "\<not> (of_char c :: nat) < 128" by blast
  then show ?case
  proof cases
    case 1
    then obtain q where q: "c # s = [CHR 0xE2, CHR 0x80, CHR 0xA8] @ q" by (auto simp: starts_iff)
    then have "s = [CHR 0x80, CHR 0xA8] @ q" by simp
    then have "escape (c # s) = bslash # ''u2028'' @ escape q" "parse_str (escape q @ dquote # r) = Some (coerce q, r)"
      using 1 "2.IH"(1) [OF 1] by (simp_all add: escape.simps(2))
    then show ?thesis using unescape_line_seps(1) line_sep_rune(1) [of q] q by simp
  next
    case b: 2
    then obtain q where q: "c # s = [CHR 0xE2, CHR 0x80, CHR 0xA9] @ q" by (auto simp: starts_iff)
    then have "s = [CHR 0x80, CHR 0xA9] @ q" by simp
    then have "escape (c # s) = bslash # ''u2029'' @ escape q" "parse_str (escape q @ dquote # r) = Some (coerce q, r)"
      using b "2.IH"(2) [OF b] by (simp_all add: escape.simps(2))
    then show ?thesis using unescape_line_seps(2) line_sep_rune(2) [of q] q by simp
  next
    case 3
    then have "escape (c # s) = esc_char c @ escape s" by (subst escape.simps(2)) (simp del: starts.simps)
    then show ?thesis using "2.IH"(3) [OF 3] 3(3) by (simp add: parse_str_esc_char)
  next
    case h: 4
    then have c: "c \<noteq> dquote" "c \<noteq> bslash" "\<not> (of_char c :: nat) < 32" by auto
    show ?thesis
    proof (cases "utf8_size (c # s)")
      case 0
      then have "escape (c # s) = bslash # ''ufffd'' @ escape s"
        using h by (subst escape.simps(2)) (simp del: starts.simps)
      then show ?thesis using "2.IH"(4) [OF h 0] unescape_ufffd 0 by (simp add: coerce.simps(2))
    next
      case (Suc k)
      note u = utf8_size_SucD(1,2) [OF Suc]
      have "escape (c # s) = c # take k s @ escape (drop k s)"
        using h Suc by (subst escape.simps(2)) (simp del: starts.simps)
      moreover have "parse_str (c # take k s @ t) = map_option (\<lambda>(v, q). (c # take k s @ v, q)) (parse_str t)" for t
        using c h(3) u by (subst parse_str.simps(2)) simp
      ultimately show ?thesis using "2.IH"(5) [OF h Suc] Suc by (simp add: coerce.simps(2))
    qed
  qed
qed

lemma parse_str_shorter: "parse_str s = Some (t, r) \<Longrightarrow> length r < length s"
proof (induction s arbitrary: t r rule: parse_str.induct)
  case 1
  then show ?case by simp
next
  case (2 c s)
  then show ?case
    by (fastforce simp: parse_str.simps(2) split: if_splits option.splits nat.splits dest!: unescape_shorter)
qed


section \<open>Fuel\<close>

lemma skip_ws_le: "length (skip_ws s) \<le> length s"
  by (simp add: skip_ws_def length_dropWhile_le)

lemma skip_ws_Cons_shorter: "skip_ws s = c # r \<Longrightarrow> length r < length s"
  using skip_ws_le [of s] by simp

lemma dropWhile_shorter: "takeWhile p s \<noteq> [] \<Longrightarrow> length (dropWhile p s) < length s"
  by (cases s) (auto simp: le_imp_less_Suc length_dropWhile_le split: if_splits)

lemma dropWhile_le_Suc:
  "length (dropWhile p s) \<le> Suc (length s)" "length (dropWhile p s) \<le> Suc (Suc (length s))"
  using length_dropWhile_le [of p s] by simp_all

lemma parse_exp_le: "parse_exp s = Some (t, r) \<Longrightarrow> length r \<le> length s"
  by (auto simp: parse_exp_def Let_def dropWhile_le_Suc split: list.splits if_splits)

lemma parse_frac_le:
  assumes "parse_frac s = Some (t, r)"
  shows "length r \<le> length s"
proof (cases s)
  case Nil
  then show ?thesis using assms by (simp add: parse_frac_def)
next
  case (Cons c q)
  then show ?thesis
    using assms dropWhile_le_Suc(1) [of is_digit q]
    by (auto simp: parse_frac_def Let_def split: if_splits dest!: parse_exp_le)
qed

lemma parse_num_shorter:
  assumes "parse_num s = Some (v, r)"
  shows "length r < length s"
proof -
  define s1 where "s1 = (if starts ''-'' s then drop 1 s else s)"
  obtain t where "parse_frac (dropWhile is_digit s1) = Some (t, r)"
    and ne: "takeWhile is_digit s1 \<noteq> []"
    using assms unfolding parse_num_def Let_def s1_def
    by (auto split: if_splits option.splits)
  then have "length r \<le> length (dropWhile is_digit s1)" by (auto dest: parse_frac_le)
  also have "\<dots> < length s1" using ne by (rule dropWhile_shorter)
  also have "\<dots> \<le> length s" by (simp add: s1_def)
  finally show ?thesis .
qed

text \<open>Inversion of the three parsers.\<close>

lemma pval_cases:
  assumes "pval (Suc n) s = Some (v, r)"
  obtains c q where "skip_ws s = c # q" and "length r \<le> length q"
    and "\<And>m. pval (Suc m) s = Some (v, r)"
  | c q xs where "skip_ws s = c # q" and "c = CHR ''[''" and "\<not> starts '']'' (skip_ws q)"
    and "pelems n q = Some (xs, r)" and "v = JArr xs"
  | c q xs where "skip_ws s = c # q" and "c = CHR ''{''" and "\<not> starts ''}'' (skip_ws q)"
    and "pmembers n q = Some (xs, r)" and "v = JObj xs"
proof -
  from assms obtain c q where q: "skip_ws s = c # q" by (auto split: list.splits)
  note that' = that [OF q]
  have d: "length (skip_ws q) - 1 \<le> length q" using skip_ws_le [of q] by linarith
  consider "c = CHR ''[''" "\<not> starts '']'' (skip_ws q)"
    | "c = CHR ''{''" "\<not> starts ''}'' (skip_ws q)"
    | "\<not> (c = CHR ''['' \<and> \<not> starts '']'' (skip_ws q))"
      "\<not> (c = CHR ''{'' \<and> \<not> starts ''}'' (skip_ws q))"
    by blast
  then show thesis
  proof cases
    case 1
    then show ?thesis using assms q that(2) by (auto split: if_splits simp del: starts.simps)
  next
    case 2
    then show ?thesis using assms q that(3) by (auto split: if_splits simp del: starts.simps)
  next
    case 3
    have "pval (Suc m) s = Some (v, r)" for m
      using assms q 3 by (auto split: if_splits simp del: starts.simps)
    moreover have "length r \<le> length q"
      using assms q 3 d
      by (auto split: if_splits dest!: parse_str_shorter parse_num_shorter simp del: starts.simps)
    ultimately show ?thesis using q that(1) by blast
  qed
qed

lemma pelems_cases:
  assumes "pelems (Suc n) s = Some (vs, r)"
  obtains v q p where "pval n s = Some (v, q)" and "skip_ws q = CHR '']'' # p" and "vs = [v]" "r = p"
  | v q p ws where "pval n s = Some (v, q)" and "skip_ws q = CHR '','' # p"
    and "pelems n p = Some (ws, r)" and "vs = v # ws"
  using assms by (auto split: option.splits list.splits if_splits)

lemma pmembers_cases:
  assumes "pmembers (Suc n) s = Some (kvs, r)"
  obtains t k u v q p where "skip_ws s = dquote # t" and "parse_str t = Some (k, u)"
    and "starts '':'' (skip_ws u)" and "pval n (drop 1 (skip_ws u)) = Some (v, q)"
    and "skip_ws q = CHR ''}'' # p" and "kvs = [(k, v)]" and "r = p"
  | t k u v q p ws where "skip_ws s = dquote # t" and "parse_str t = Some (k, u)"
    and "starts '':'' (skip_ws u)" and "pval n (drop 1 (skip_ws u)) = Some (v, q)"
    and "skip_ws q = CHR '','' # p" and "pmembers n p = Some (ws, r)" and "kvs = (k, v) # ws"
  using assms by (auto split: option.splits list.splits if_splits)

lemma member_value_shorter:
  assumes "skip_ws s = dquote # t" and "parse_str t = Some (k, u)"
  shows "length (drop 1 (skip_ws u)) < length s"
  using skip_ws_Cons_shorter [OF assms(1)] parse_str_shorter [OF assms(2)] skip_ws_le [of u] by simp

lemma parse_shorter:
  "(\<forall>s v r. pval n s = Some (v, r) \<longrightarrow> length r < length s) \<and>
   (\<forall>s vs r. pelems n s = Some (vs, r) \<longrightarrow> length r < length s) \<and>
   (\<forall>s kvs r. pmembers n s = Some (kvs, r) \<longrightarrow> length r < length s)"
proof (induction n)
  case 0
  show ?case by simp
next
  case (Suc n)
  have 1: "length r < length s" if "pval (Suc n) s = Some (v, r)" for s v r
    using that Suc
    by (cases rule: pval_cases) (auto dest!: skip_ws_Cons_shorter, (metis order.strict_trans)+)
  have 2: "length r < length s" if "pelems (Suc n) s = Some (vs, r)" for s vs r
    using that Suc
    by (cases rule: pelems_cases) (auto dest!: skip_ws_Cons_shorter, (metis order.strict_trans)+)
  have 3: "length r < length s" if "pmembers (Suc n) s = Some (kvs, r)" for s kvs r
    using that
  proof (cases rule: pmembers_cases)
    case (1 t k u v q p)
    then have "length q < length s"
      using Suc member_value_shorter [OF 1(1,2)] by (meson order.strict_trans)
    then show ?thesis using 1 skip_ws_Cons_shorter by fastforce
  next
    case (2 t k u v q p ws)
    then have "length q < length s"
      using Suc member_value_shorter [OF 2(1,2)] by (meson order.strict_trans)
    then show ?thesis using 2 Suc skip_ws_Cons_shorter by (meson order.strict_trans)
  qed
  show ?case using 1 2 3 by blast
qed

lemmas pval_shorter = parse_shorter [THEN conjunct1, rule_format]

text \<open>Fuel \<open>2 * length s + 1\<close> is enough for a value and \<open>2 * length s + 2\<close> for a list: whatever
  some fuel parses, that fuel and every greater one parses to the same result.\<close>

lemma fuel_enough:
  "(\<forall>s x m. pval n s = Some x \<longrightarrow> 2 * length s + 1 \<le> m \<longrightarrow> pval m s = Some x) \<and>
   (\<forall>s x m. pelems n s = Some x \<longrightarrow> 2 * length s + 2 \<le> m \<longrightarrow> pelems m s = Some x) \<and>
   (\<forall>s x m. pmembers n s = Some x \<longrightarrow> 2 * length s + 2 \<le> m \<longrightarrow> pmembers m s = Some x)"
proof (induction n)
  case 0
  show ?case by simp
next
  case (Suc n)
  have 1: "pval m s = Some (v, r)" if p: "pval (Suc n) s = Some (v, r)" and b: "2 * length s + 1 \<le> m" for s v r m
  proof -
    obtain m' where m: "m = Suc m'" "2 * length s \<le> m'" using b by (cases m) auto
    show ?thesis
      using p
    proof (cases rule: pval_cases)
      case (1 c q)
      then show ?thesis using m by simp
    next
      case (2 c q xs)
      then have "2 * length q + 2 \<le> m'" using m skip_ws_Cons_shorter by fastforce
      then have "pelems m' q = Some (xs, r)" using 2 Suc by blast
      then show ?thesis using 2 m by auto
    next
      case (3 c q xs)
      then have "2 * length q + 2 \<le> m'" using m skip_ws_Cons_shorter by fastforce
      then have "pmembers m' q = Some (xs, r)" using 3 Suc by blast
      then show ?thesis using 3 m by auto
    qed
  qed
  have 2: "pelems m s = Some (vs, r)" if p: "pelems (Suc n) s = Some (vs, r)" and b: "2 * length s + 2 \<le> m" for s vs r m
  proof -
    obtain m' where m: "m = Suc m'" "2 * length s + 1 \<le> m'" using b by (cases m) auto
    show ?thesis
      using p
    proof (cases rule: pelems_cases)
      case (1 v q p)
      then have "pval m' s = Some (v, q)" using m Suc by blast
      then show ?thesis using 1 m by simp
    next
      case (2 v q p ws)
      then have v: "pval m' s = Some (v, q)" using m Suc by blast
      have "length p < length s" using pval_shorter [OF v] skip_ws_Cons_shorter [OF 2(2)] by simp
      then have "2 * length p + 2 \<le> m'" using m by linarith
      then have "pelems m' p = Some (ws, r)" using 2(3) Suc by blast
      then show ?thesis using 2 m v by simp
    qed
  qed
  have 3: "pmembers m s = Some (kvs, r)" if p: "pmembers (Suc n) s = Some (kvs, r)" and b: "2 * length s + 2 \<le> m"
    for s kvs r m
  proof -
    obtain m' where m: "m = Suc m'" "2 * length s + 1 \<le> m'" using b by (cases m) auto
    show ?thesis
      using p
    proof (cases rule: pmembers_cases)
      case (1 t k u v q p)
      have "2 * length (drop 1 (skip_ws u)) + 1 \<le> m'" using member_value_shorter [OF 1(1,2)] m by linarith
      then have "pval m' (drop 1 (skip_ws u)) = Some (v, q)" using 1 Suc by blast
      then show ?thesis using 1 m by simp
    next
      case (2 t k u v q p ws)
      have l: "length (drop 1 (skip_ws u)) < length s" by (rule member_value_shorter [OF 2(1,2)])
      then have "2 * length (drop 1 (skip_ws u)) + 1 \<le> m'" using m by linarith
      then have v: "pval m' (drop 1 (skip_ws u)) = Some (v, q)" using 2 Suc by blast
      have "length p < length s" using pval_shorter [OF v] skip_ws_Cons_shorter [OF 2(5)] l by simp
      then have "2 * length p + 2 \<le> m'" using m by linarith
      then have "pmembers m' p = Some (ws, r)" using 2(6) Suc by blast
      then show ?thesis using 2 m v by simp
    qed
  qed
  show ?case using 1 2 3 by fast
qed


section \<open>The parser inverts the marshaller\<close>

text \<open>No literal with a fraction or an exponent occurs.\<close>

fun no_dec :: "json \<Rightarrow> bool" where
  "no_dec (JDec t) = False"
| "no_dec (JArr xs) = (\<forall>x\<in>set xs. no_dec x)"
| "no_dec (JObj kvs) = (\<forall>(k, v)\<in>set kvs. no_dec v)"
| "no_dec j = True"

text \<open>The value that is read back: strings and keys with their invalid bytes replaced.\<close>

fun clean :: "json \<Rightarrow> json" where
  "clean (JStr s) = JStr (coerce s)"
| "clean (JArr xs) = JArr (map clean xs)"
| "clean (JObj kvs) = JObj (map (\<lambda>(k, v). (coerce k, clean v)) kvs)"
| "clean j = j"

text \<open>What may follow a value inside a larger text.\<close>

definition closes :: "string \<Rightarrow> bool" where
  "closes r = (case r of [] \<Rightarrow> True | c # _ \<Rightarrow> c = CHR '','' \<or> c = CHR '']'' \<or> c = CHR ''}'')"

lemma closes_simps [simp]:
  "closes []" "closes (CHR '','' # r)" "closes (CHR '']'' # r)" "closes (CHR ''}'' # r)"
  by (simp_all add: closes_def)

definition json_ws :: "char \<Rightarrow> bool" where
  "json_ws c = (c \<in> {CHR 0x20, CHR 0x09, CHR 0x0A, CHR 0x0D})"

lemma skip_ws_stop: "\<not> json_ws c \<Longrightarrow> skip_ws (c # s) = c # s"
  by (simp add: skip_ws_def json_ws_def)

lemma closes_parse_frac: "closes r \<Longrightarrow> parse_frac r = Some ([], r)"
  by (auto simp: closes_def parse_frac_def parse_exp_def split: list.splits)

lemma takeWhile_digits:
  assumes "\<forall>c\<in>set ds. is_digit c" and "closes r"
  shows "takeWhile is_digit (ds @ r) = ds" and "dropWhile is_digit (ds @ r) = r"
proof -
  have "is_digit c \<Longrightarrow> c \<noteq> CHR '','' \<and> c \<noteq> CHR '']'' \<and> c \<noteq> CHR ''}''" for c
    by (auto simp: is_digit_def)
  then have "takeWhile is_digit r = []" "dropWhile is_digit r = r"
    using assms(2) by (cases r; auto simp: closes_def)+
  then show "takeWhile is_digit (ds @ r) = ds" "dropWhile is_digit (ds @ r) = r"
    using assms(1) by (simp_all add: takeWhile_append dropWhile_append)
qed

lemma nat_str_no_leading_zero: "\<not> (hd (nat_str n) = CHR ''0'' \<and> 1 < length (nat_str n))"
  by (cases "n = 0") (auto dest: nat_str_hd)

lemma nat_str_hd_digit: "is_digit (hd (nat_str n))"
  using nat_str_digits [of n] nat_str_not_Nil [of n] by (metis hd_in_set)

lemma starts_minus_nat_str: "\<not> starts ''-'' (nat_str n @ r)"
proof -
  obtain c t where ct: "nat_str n = c # t" using nat_str_not_Nil [of n] by (cases "nat_str n") auto
  then have "is_digit c" using nat_str_hd_digit [of n] by simp
  then have "c \<noteq> CHR ''-''" by (auto simp: is_digit_def)
  then show ?thesis using ct by simp
qed

lemma parse_num_itoa:
  assumes "closes r"
  shows "parse_num (itoa n @ r) = Some (JNum n, r)"
proof (cases "n < 0")
  case True
  then show ?thesis
    using takeWhile_digits [OF nat_str_digits assms, of "nat (- n)"]
      nat_str_no_leading_zero [of "nat (- n)"] assms
    by (auto simp: itoa_def parse_num_def Let_def closes_parse_frac)
next
  case False
  then show ?thesis
    using takeWhile_digits [OF nat_str_digits assms, of "nat n"] starts_minus_nat_str [of "nat n" r]
      nat_str_no_leading_zero [of "nat n"] assms
    by (auto simp: itoa_def parse_num_def Let_def closes_parse_frac)
qed

text \<open>The first byte of a marshalled value.\<close>

lemma itoa_hd: "\<exists>c t. itoa n = c # t \<and> (c = CHR ''-'' \<or> is_digit c)"
proof (cases "n < 0")
  case True
  then show ?thesis by (simp add: itoa_def)
next
  case False
  then show ?thesis using nat_str_hd_digit [of "nat n"] nat_str_not_Nil [of "nat n"]
    by (cases "nat_str (nat n)") (auto simp: itoa_def)
qed

definition value_start :: "char \<Rightarrow> bool" where
  "value_start c = (\<not> json_ws c \<and> c \<noteq> CHR '']'' \<and> c \<noteq> CHR ''}'')"

lemma num_start: "c = CHR ''-'' \<or> is_digit c \<Longrightarrow>
  value_start c \<and> c \<noteq> dquote \<and> c \<noteq> CHR ''['' \<and> c \<noteq> CHR ''{'' \<and> c \<noteq> CHR ''n'' \<and> c \<noteq> CHR ''t'' \<and> c \<noteq> CHR ''f''"
  by (auto simp: is_digit_def value_start_def json_ws_def)

lemma marshal_start: "no_dec j \<Longrightarrow> \<exists>c t. marshal j = c # t \<and> value_start c"
  using itoa_hd num_start
  by (cases j) (fastforce simp: value_start_def json_ws_def quote_def)+

lemma pval_num: "closes r \<Longrightarrow> pval (Suc n) (itoa k @ r) = Some (JNum k, r)"
  using parse_num_itoa [of r k] itoa_hd [of k] num_start
  by (fastforce simp: skip_ws_stop value_start_def)

lemma pval_str: "pval (Suc n) (quote s @ r) = Some (JStr (coerce s), r)"
  by (simp add: quote_def parse_str_escape skip_ws_stop json_ws_def)

lemma pval_fuel: "pval n s = Some x \<Longrightarrow> 2 * length s + 1 \<le> m \<Longrightarrow> pval m s = Some x"
  and pelems_fuel: "pelems n s = Some y \<Longrightarrow> 2 * length s + 2 \<le> m \<Longrightarrow> pelems m s = Some y"
  and pmembers_fuel: "pmembers n s = Some z \<Longrightarrow> 2 * length s + 2 \<le> m \<Longrightarrow> pmembers m s = Some z"
  using fuel_enough [of n] by blast+

lemma pelems_Join:
  assumes "xs \<noteq> []"
    and "\<forall>x\<in>set xs. \<forall>r. closes r \<longrightarrow> (\<exists>n. pval n (marshal x @ r) = Some (clean x, r))"
  shows "\<exists>n. pelems n (Join (map marshal xs) '','' @ CHR '']'' # r) = Some (map clean xs, r)"
  using assms
proof (induction xs rule: list_nonempty_induct)
  case (single x)
  then obtain n where "pval n (marshal x @ CHR '']'' # r) = Some (clean x, CHR '']'' # r)" by fastforce
  then have "pelems (Suc n) (Join (map marshal [x]) '','' @ CHR '']'' # r) = Some (map clean [x], r)"
    by (simp add: skip_ws_stop json_ws_def)
  then show ?case by blast
next
  case (cons x xs)
  let ?q = "Join (map marshal xs) '','' @ CHR '']'' # r" and ?s = "marshal x @ CHR '','' # Join (map marshal xs) '','' @ CHR '']'' # r"
  obtain n1 where 1: "pval n1 ?s = Some (clean x, CHR '','' # ?q)" using cons.prems by fastforce
  obtain n2 where 2: "pelems n2 ?q = Some (map clean xs, r)" using cons by auto
  let ?N = "2 * length ?s + 2"
  have "pval ?N ?s = Some (clean x, CHR '','' # ?q)" by (rule pval_fuel [OF 1]) simp
  moreover have "pelems ?N ?q = Some (map clean xs, r)" by (rule pelems_fuel [OF 2]) simp
  ultimately have "pelems (Suc ?N) ?s = Some (map clean (x # xs), r)"
    by (simp add: skip_ws_stop json_ws_def)
  moreover have "Join (map marshal (x # xs)) '','' @ CHR '']'' # r = ?s"
    using cons.hyps by (cases xs) auto
  ultimately show ?case by metis
qed

abbreviation clean_member :: "string \<times> json \<Rightarrow> string \<times> json" where
  "clean_member \<equiv> \<lambda>(k, v). (coerce k, clean v)"

abbreviation member_text :: "string \<times> json \<Rightarrow> string" where
  "member_text \<equiv> \<lambda>(k, v). quote k @ '':'' @ marshal v"

lemma pmembers_Join:
  assumes "kvs \<noteq> []"
    and "\<forall>(k, x)\<in>set kvs. \<forall>r. closes r \<longrightarrow> (\<exists>n. pval n (marshal x @ r) = Some (clean x, r))"
  shows "\<exists>n. pmembers n (Join (map member_text kvs) '','' @ CHR ''}'' # r) = Some (map clean_member kvs, r)"
  using assms
proof (induction kvs rule: list_nonempty_induct)
  case (single kv)
  obtain k x where kv: "kv = (k, x)" by (cases kv)
  with single obtain n where "pval n (marshal x @ CHR ''}'' # r) = Some (clean x, CHR ''}'' # r)" by fastforce
  then have "pmembers (Suc n) (Join (map member_text [kv]) '','' @ CHR ''}'' # r) = Some (map clean_member [kv], r)"
    by (simp add: kv skip_ws_stop json_ws_def quote_def parse_str_escape)
  then show ?case by blast
next
  case (cons kv kvs)
  obtain k x where kv: "kv = (k, x)" by (cases kv)
  let ?q = "Join (map member_text kvs) '','' @ CHR ''}'' # r"
  let ?v = "marshal x @ CHR '','' # ?q"
  let ?s = "quote k @ CHR '':'' # ?v"
  obtain n1 where 1: "pval n1 ?v = Some (clean x, CHR '','' # ?q)" using cons.prems kv by fastforce
  obtain n2 where 2: "pmembers n2 ?q = Some (map clean_member kvs, r)" using cons by auto
  let ?N = "2 * length ?s + 2"
  have "pval ?N ?v = Some (clean x, CHR '','' # ?q)" by (rule pval_fuel [OF 1]) simp
  moreover have "pmembers ?N ?q = Some (map clean_member kvs, r)" by (rule pmembers_fuel [OF 2]) simp
  ultimately have "pmembers (Suc ?N) ?s = Some (map clean_member ((k, x) # kvs), r)"
    by (simp add: skip_ws_stop json_ws_def quote_def parse_str_escape)
  moreover have "Join (map member_text (kv # kvs)) '','' @ CHR ''}'' # r = ?s"
    using cons.hyps kv by (cases kvs) auto
  ultimately show ?case using kv by metis
qed

lemma Join_start:
  assumes "xs \<noteq> []" and "\<exists>c t. hd xs = c # t \<and> value_start c"
  shows "\<exists>c t. Join xs sep @ r = c # t \<and> value_start c"
  using assms by (cases "(xs, sep)" rule: Join.cases) auto

lemma value_start_not_close:
  assumes "value_start c"
  shows "\<not> starts '']'' (skip_ws (c # t))" and "\<not> starts ''}'' (skip_ws (c # t))"
  using assms by (auto simp: value_start_def skip_ws_stop)

lemma pval_marshal:
  "no_dec j \<Longrightarrow> closes r \<Longrightarrow> \<exists>n. pval n (marshal j @ r) = Some (clean j, r)"
proof (induction j arbitrary: r)
  case JNull
  have "pval (Suc 0) (marshal JNull @ r) = Some (clean JNull, r)" by (simp add: skip_ws_stop json_ws_def)
  then show ?case by blast
next
  case (JBool b)
  have "pval (Suc 0) (marshal (JBool b) @ r) = Some (clean (JBool b), r)" by (simp add: skip_ws_stop json_ws_def)
  then show ?case by blast
next
  case (JNum k)
  then show ?case using pval_num [of r 0 k] by (metis marshal.simps(3) clean.simps(6))
next
  case (JDec t)
  then show ?case by simp
next
  case (JStr s)
  show ?case using pval_str [of 0 s r] by (metis marshal.simps(5) clean.simps(1))
next
  case (JArr xs)
  show ?case
  proof (cases "xs = []")
    case True
    have "pval (Suc 0) (marshal (JArr []) @ r) = Some (clean (JArr []), r)" by (simp add: skip_ws_stop json_ws_def)
    then show ?thesis using True by blast
  next
    case False
    let ?q = "Join (map marshal xs) '','' @ CHR '']'' # r"
    obtain n where n: "pelems n ?q = Some (map clean xs, r)" using pelems_Join [OF False, of r] JArr by fastforce
    have "\<exists>c t. hd (map marshal xs) = c # t \<and> value_start c"
      using marshal_start JArr.prems(1) False by (simp add: hd_map)
    then obtain c t where ct: "?q = c # t" "value_start c"
      using Join_start [of "map marshal xs" "'',''" "CHR '']'' # r"] False by auto
    have "pval (Suc n) (CHR ''['' # ?q) = Some (clean (JArr xs), r)"
      using n ct value_start_not_close by (simp add: skip_ws_stop json_ws_def)
    then show ?thesis by (metis append.assoc append_Cons append_Nil marshal.simps(6))
  qed
next
  case (JObj kvs)
  show ?case
  proof (cases "kvs = []")
    case True
    have "pval (Suc 0) (marshal (JObj []) @ r) = Some (clean (JObj []), r)" by (simp add: skip_ws_stop json_ws_def)
    then show ?thesis using True by blast
  next
    case False
    let ?q = "Join (map member_text kvs) '','' @ CHR ''}'' # r"
    have "\<forall>(k, x)\<in>set kvs. \<forall>r. closes r \<longrightarrow> (\<exists>n. pval n (marshal x @ r) = Some (clean x, r))"
      using JObj by (fastforce simp: snds.simps)
    then obtain n where n: "pmembers n ?q = Some (map clean_member kvs, r)" using pmembers_Join [OF False, of r] by blast
    have "\<exists>c t. hd (map member_text kvs) = c # t \<and> value_start c"
      using False by (cases kvs) (auto simp: quote_def value_start_def json_ws_def)
    then obtain c t where ct: "?q = c # t" "value_start c"
      using Join_start [of "map member_text kvs" "'',''" "CHR ''}'' # r"] False by auto
    have "pval (Suc n) (CHR ''{'' # ?q) = Some (clean (JObj kvs), r)"
      using n ct value_start_not_close by (simp add: skip_ws_stop json_ws_def)
    then show ?thesis by (metis append.assoc append_Cons append_Nil marshal.simps(7))
  qed
qed

lemma parse_json_marshal: "no_dec j \<Longrightarrow> parse_json (marshal j) = Some (clean j)"
proof -
  assume "no_dec j"
  then obtain n where "pval n (marshal j) = Some (clean j, [])"
    using pval_marshal [of j "[]"] by auto
  then have "pval (2 * length (marshal j) + 2) (marshal j) = Some (clean j, [])"
    by (rule pval_fuel) simp
  then show ?thesis by (simp add: parse_json_def skip_ws_def)
qed


section \<open>The canonical encoding\<close>

text \<open>The values on which the encoder is exact: the keys of every object are distinct (it is a Go
  map or a struct), numbers are integers within the exact range of \<open>float64\<close>, and strings are valid UTF-8.\<close>

fun json_ok :: "json \<Rightarrow> bool" where
  "json_ok (JNum n) = (\<bar>n\<bar> \<le> 2 ^ 53)"
| "json_ok (JDec t) = False"
| "json_ok (JStr s) = valid_utf8 s"
| "json_ok (JArr xs) = (\<forall>x\<in>set xs. json_ok x)"
| "json_ok (JObj kvs) = (distinct (map fst kvs) \<and> (\<forall>(k, v)\<in>set kvs. valid_utf8 k \<and> json_ok v))"
| "json_ok j = True"

text \<open>Equality of decoded values: objects are compared as maps, whatever the order of their
  members.\<close>

function jequiv :: "json \<Rightarrow> json \<Rightarrow> bool" where
  "jequiv (JArr xs) j =
     (case j of JArr ys \<Rightarrow> length xs = length ys \<and> list_all (\<lambda>(x, y). jequiv x y) (zip xs ys)
      | _ \<Rightarrow> False)"
| "jequiv (JObj kvs) j =
     (case j of JObj lvs \<Rightarrow>
        length kvs = length lvs \<and>
        list_all (\<lambda>(k, v). case map_of lvs k of None \<Rightarrow> False | Some w \<Rightarrow> jequiv v w) kvs
      | _ \<Rightarrow> False)"
| "jequiv JNull j = (j = JNull)"
| "jequiv (JBool b) j = (j = JBool b)"
| "jequiv (JNum n) j = (j = JNum n)"
| "jequiv (JDec t) j = (j = JDec t)"
| "jequiv (JStr s) j = (j = JStr s)"
  by pat_completeness auto
termination
proof (relation "measure (\<lambda>(a, b). size a)", goal_cases)
  case (2 xs j ys x x' y')
  then have "x' \<in> set xs" by (auto dest: set_zip_leftD)
  then have "size x' \<le> size_list size xs" by (rule size_list_estimation') simp
  then show ?case by simp
next
  case (3 kvs j lvs kv k v w)
  then have "(k, v) \<in> set kvs" by simp
  then have "size v < Suc (size_list (size_prod (\<lambda>_. 0) size) kvs)"
    using size_list_estimation' [of "(k, v)" kvs "size v" "size_prod (\<lambda>_. 0) size"] by simp
  then show ?case by simp
qed simp

text \<open>Sorting the members of every object.\<close>

fun canon :: "json \<Rightarrow> json" where
  "canon (JArr xs) = JArr (map canon xs)"
| "canon (JObj kvs) = JObj (sort_key fst (map (\<lambda>(k, v). (k, canon v)) kvs))"
| "canon j = j"

lemma insort_key_map_snd:
  "insort_key fst (fst x, f (snd x)) (map (\<lambda>(k, v). (k, f v)) ys)
    = map (\<lambda>(k, v). (k, f v)) (insort_key fst x ys)"
  by (induction ys) (auto split: prod.splits)

lemma sort_key_map_snd:
  "sort_key fst (map (\<lambda>(k, v). (k, f v)) xs) = map (\<lambda>(k, v). (k, f v)) (sort_key fst xs)"
proof (induction xs)
  case Nil
  show ?case by simp
next
  case (Cons x xs)
  then show ?case using insort_key_map_snd [of x f "sort_key fst xs"] by (cases x) simp
qed

lemma writeCanonicalJSON_canon: "writeCanonicalJSON j = marshal (canon j)"
proof (induction j)
  case (JArr xs)
  then have "map writeCanonicalJSON xs = map marshal (map canon xs)" by simp
  then show ?case by (simp only: writeCanonicalJSON.simps canon.simps marshal.simps)
next
  case (JObj kvs)
  have "map (\<lambda>(k, v). (k, writeCanonicalJSON v)) kvs
      = map (\<lambda>(k, v). (k, marshal v)) (map (\<lambda>(k, v). (k, canon v)) kvs)"
    using JObj by (fastforce simp: snds.simps)
  then have "sort_key fst (map (\<lambda>(k, v). (k, writeCanonicalJSON v)) kvs)
      = map (\<lambda>(k, v). (k, marshal v)) (sort_key fst (map (\<lambda>(k, v). (k, canon v)) kvs))"
    by (simp only: sort_key_map_snd)
  then show ?case by (simp add: comp_def split_def)
qed auto

lemma canon_no_dec: "no_dec j \<Longrightarrow> no_dec (canon j)"
proof (induction j)
  case (JObj kvs)
  then show ?case by (fastforce simp: snds.simps)
qed auto

lemma json_ok_no_dec: "json_ok j \<Longrightarrow> no_dec j"
proof (induction j)
  case (JObj kvs)
  then show ?case by (fastforce simp: snds.simps)
qed auto

lemma json_ok_clean: "json_ok j \<Longrightarrow> clean j = j"
proof (induction j)
  case (JArr xs)
  then show ?case by (simp add: map_idI)
next
  case (JObj kvs)
  then have "map (\<lambda>(k, v). (coerce k, clean v)) kvs = kvs"
    by (intro map_idI) (fastforce simp: snds.simps)
  then show ?case by simp
qed auto

lemma no_dec_clean: "no_dec (clean j) = no_dec j"
proof (induction j)
  case (JObj kvs)
  then show ?case by (fastforce simp: snds.simps)
qed auto

lemma json_ok_float64: "json_ok j \<Longrightarrow> in_float64 j"
proof (induction j)
  case (JNum n)
  have "(2 :: int) ^ 53 < 2 ^ 1024 - 2 ^ 970" by simp
  then show ?case using JNum by simp
next
  case (JObj kvs)
  then show ?case by (fastforce simp: snds.simps)
qed auto

lemma update_new: "k \<notin> fst ` set m \<Longrightarrow> AList.update k v m = m @ [(k, v)]"
  by (induction m) auto

lemma foldl_update_distinct:
  assumes "distinct (map fst kvs)" and "fst ` set kvs \<inter> fst ` set m = {}"
  shows "foldl (\<lambda>m (k, v). AList.update k v m) m kvs = m @ kvs"
  using assms
proof (induction kvs arbitrary: m)
  case Nil
  show ?case by simp
next
  case (Cons kv kvs)
  obtain k v where kv: "kv = (k, v)" by (cases kv)
  have "AList.update k v m = m @ [(k, v)]"
    using Cons.prems(2) kv by (intro update_new) auto
  then show ?case using Cons.IH [of "m @ [(k, v)]"] Cons.prems kv by auto
qed

lemma as_any_ok: "json_ok j \<Longrightarrow> as_any j = j"
proof (induction j)
  case (JArr xs)
  then show ?case by (simp add: map_idI)
next
  case (JObj kvs)
  have "map (\<lambda>(k, v). (k, as_any v)) kvs = kvs"
    using JObj by (intro map_idI) (fastforce simp: snds.simps)
  then show ?case using JObj.prems foldl_update_distinct [of kvs "[]"] by simp
qed auto

lemma CanonicalJSON_clean: "json_ok (clean v) \<Longrightarrow> CanonicalJSON v = Some (marshal (canon (clean v)))"
  using json_ok_no_dec [of "clean v"]
  by (simp add: CanonicalJSON_def unmarshal_any_def parse_json_marshal no_dec_clean json_ok_float64 as_any_ok
      writeCanonicalJSON_canon)

lemma CanonicalJSON_canon: "json_ok v \<Longrightarrow> CanonicalJSON v = Some (marshal (canon v))"
  using CanonicalJSON_clean [of v] by (simp add: json_ok_clean)

lemma marshal_clean: "no_dec a \<Longrightarrow> no_dec b \<Longrightarrow> marshal a = marshal b \<Longrightarrow> clean a = clean b"
  by (metis parse_json_marshal option.inject)

lemma json_ok_canon: "json_ok j \<Longrightarrow> json_ok (canon j)"
proof (induction j)
  case (JObj kvs)
  let ?m = "map (\<lambda>(k, v). (k, canon v)) kvs"
  have "map fst ?m = map fst kvs" by auto
  then have "distinct (map fst ?m)" using JObj.prems by (simp only: json_ok.simps)
  moreover have "mset (map fst (sort_key fst ?m)) = mset (map fst ?m)" by (simp only: mset_map mset_sort)
  ultimately have "distinct (map fst (sort_key fst ?m))" by (metis mset_eq_imp_distinct_iff)
  moreover have "\<forall>(k, v)\<in>set (sort_key fst ?m). valid_utf8 k \<and> json_ok v"
    using JObj by (fastforce simp: snds.simps)
  ultimately show ?case by simp
qed auto

lemma marshal_inj:
  "no_dec a \<Longrightarrow> no_dec b \<Longrightarrow> clean a = a \<Longrightarrow> clean b = b \<Longrightarrow> marshal a = marshal b \<Longrightarrow> a = b"
  by (metis marshal_clean)

lemma marshal_canon_inj:
  assumes "json_ok a" and "json_ok b"
  shows "marshal (canon a) = marshal (canon b) \<longleftrightarrow> canon a = canon b"
proof -
  have "json_ok (canon a)" "json_ok (canon b)" using assms json_ok_canon by blast+
  then show ?thesis using marshal_inj json_ok_no_dec json_ok_clean by metis
qed

text \<open>Two values have the same canonical form exactly when they are equal as decoded values.\<close>

lemma sort_key_eq_iff_set:
  assumes "distinct (map fst xs)" and "distinct (map fst ys)"
  shows "sort_key fst xs = sort_key fst ys \<longleftrightarrow> set xs = set ys"
proof
  assume "sort_key fst xs = sort_key fst ys"
  then show "set xs = set ys" by (metis set_sort)
next
  assume "set xs = set ys"
  then have "mset xs = mset (sort_key fst ys)"
    using assms by (simp add: distinct_map flip: set_eq_iff_mset_eq_distinct)
  then show "sort_key fst xs = sort_key fst ys"
    using assms(1) by (intro sort_key_inj_key_eq) (auto simp: distinct_map)
qed

lemma card_pairs:
  assumes "distinct (map fst zs)"
  shows "card ((\<lambda>(k, v). (k, f v)) ` set zs) = length zs"
proof -
  have "inj_on (\<lambda>(k, v). (k, f v)) (set zs)"
    using assms by (auto simp: inj_on_def dest: eq_key_imp_eq_value [OF assms])
  then show ?thesis using assms by (simp add: card_image distinct_card distinct_map)
qed

lemma pairs_eq_iff_lookup:
  assumes "distinct (map fst kvs)" and "distinct (map fst lvs)" and "length kvs = length lvs"
  shows "(\<lambda>(k, v). (k, f v)) ` set kvs = (\<lambda>(k, v). (k, f v)) ` set lvs \<longleftrightarrow>
    (\<forall>(k, v)\<in>set kvs. \<exists>w. map_of lvs k = Some w \<and> f v = f w)" (is "?A ` _ = _ \<longleftrightarrow> ?R")
proof
  assume e: "?A ` set kvs = ?A ` set lvs"
  show ?R
  proof (clarify)
    fix k v
    assume "(k, v) \<in> set kvs"
    then have "(k, f v) \<in> ?A ` set lvs" using e by force
    then obtain w where "(k, w) \<in> set lvs" "f v = f w" by auto
    then show "\<exists>w. map_of lvs k = Some w \<and> f v = f w" using assms(2) by auto
  qed
next
  assume R: ?R
  have sub: "?A ` set kvs \<subseteq> ?A ` set lvs"
  proof (clarify)
    fix k v
    assume "(k, v) \<in> set kvs"
    then obtain w where "map_of lvs k = Some w" "f v = f w" using R by auto
    then show "(k, f v) \<in> ?A ` set lvs" by (force dest: map_of_SomeD)
  qed
  have "card (?A ` set kvs) = card (?A ` set lvs)" using assms by (simp add: card_pairs)
  then show "?A ` set kvs = ?A ` set lvs" using sub by (intro card_subset_eq) auto
qed

lemma canon_eq_iff_jequiv:
  "json_ok a \<Longrightarrow> json_ok b \<Longrightarrow> canon a = canon b \<longleftrightarrow> jequiv a b"
proof (induction a arbitrary: b)
  case (JArr xs)
  show ?case
  proof (cases b)
    case (JArr ys)
    have "jequiv (JArr xs) b \<longleftrightarrow> length xs = length ys \<and> (\<forall>i<length xs. jequiv (xs ! i) (ys ! i))"
      using JArr by (auto simp: list_all_length)
    then show ?thesis
      using JArr.IH JArr.prems JArr by (auto simp: list_eq_iff_nth_eq)
  qed auto
next
  case (JObj kvs)
  show ?case
  proof (cases b)
    case (JObj lvs)
    let ?A = "\<lambda>(k, v). (k, canon v)"
    have d: "distinct (map fst kvs)" "distinct (map fst lvs)" using JObj.prems JObj by auto
    then have d': "distinct (map fst (map ?A kvs))" "distinct (map fst (map ?A lvs))"
      by (simp_all add: case_prod_beta comp_def)
    have "canon (JObj kvs) = canon b \<longleftrightarrow> ?A ` set kvs = ?A ` set lvs"
      using sort_key_eq_iff_set [OF d'] JObj by simp
    also have "\<dots> \<longleftrightarrow> jequiv (JObj kvs) b"
    proof (cases "length kvs = length lvs")
      case False
      have "card (?A ` set kvs) = length kvs" "card (?A ` set lvs) = length lvs"
        using d by (simp_all add: card_pairs)
      then show ?thesis using False JObj by auto
    next
      case True
      have "?A ` set kvs = ?A ` set lvs \<longleftrightarrow>
          (\<forall>(k, v)\<in>set kvs. \<exists>w. map_of lvs k = Some w \<and> canon v = canon w)"
        by (rule pairs_eq_iff_lookup [OF d True])
      also have "\<dots> \<longleftrightarrow> (\<forall>(k, v)\<in>set kvs. \<exists>w. map_of lvs k = Some w \<and> jequiv v w)"
      proof (intro ball_cong refl)
        fix kv assume kv: "kv \<in> set kvs"
        obtain k v where p: "kv = (k, v)" by (cases kv)
        have "canon v = canon w \<longleftrightarrow> jequiv v w" if "map_of lvs k = Some w" for w
          using JObj.IH [of kv v w] JObj.prems JObj kv p map_of_SomeD [OF that]
          by (fastforce simp: snds.simps)
        then show "(case kv of (k, v) \<Rightarrow> \<exists>w. map_of lvs k = Some w \<and> canon v = canon w) =
          (case kv of (k, v) \<Rightarrow> \<exists>w. map_of lvs k = Some w \<and> jequiv v w)"
          using p by auto
      qed
      also have "\<dots> \<longleftrightarrow> jequiv (JObj kvs) b"
        using True JObj by (auto simp: list_all_iff split: option.splits)
      finally show ?thesis .
    qed
    finally show ?thesis .
  qed auto
next
  case JNull
  then show ?case by (cases b) simp_all
next
  case (JBool x)
  then show ?case by (cases b) auto
next
  case (JNum x)
  then show ?case by (cases b) auto
next
  case (JDec x)
  then show ?case by simp
next
  case (JStr x)
  then show ?case by (cases b) auto
qed


section \<open>Properties\<close>

text \<open>C21. The canonical encoder is total on the values it is used for, and two such values have the
  same canonical bytes exactly when they are equal as decoded JSON: the order of object keys never
  changes the bytes (so hashes and signatures are stable), and two different values never share their
  bytes (so a hash or a signature of the bytes is one of the value), except that bytes which are not valid
  UTF-8 all count as U+FFFD; a value whose strings are valid is its own decoded value.\<close>

theorem canonical_json_faithful:
  assumes "json_ok (clean a)" and "json_ok (clean b)"
  shows "(\<exists>s. CanonicalJSON a = Some s) \<and> (CanonicalJSON a = CanonicalJSON b \<longleftrightarrow> jequiv (clean a) (clean b)) \<and>
    (json_ok a \<longrightarrow> clean a = a)"
  using assms by (simp add: CanonicalJSON_clean canon_eq_iff_jequiv marshal_canon_inj json_ok_clean)

theorem canonical_json_faithful_witness:
  "CanonicalJSON (JObj [(''b'', JNum 2), (''a'', JArr [JNull, JStr ''x''])])
    = CanonicalJSON (JObj [(''a'', JArr [JNull, JStr ''x'']), (''b'', JNum 2)]) \<and>
   CanonicalJSON (JStr ''x'') \<noteq> CanonicalJSON (JStr ''y'') \<and>
   CanonicalJSON (JStr [CHR 0x80]) = CanonicalJSON (JStr [CHR 0xFF])"
proof (intro conjI)
  let ?a = "JObj [(''b'', JNum 2), (''a'', JArr [JNull, JStr ''x''])]"
  let ?b = "JObj [(''a'', JArr [JNull, JStr ''x'']), (''b'', JNum 2)]"
  have "json_ok (clean ?a)" "json_ok (clean ?b)" "jequiv (clean ?a) (clean ?b)" by simp_all
  then show "CanonicalJSON ?a = CanonicalJSON ?b" using canonical_json_faithful [of ?a ?b] by blast
  show "CanonicalJSON (JStr ''x'') \<noteq> CanonicalJSON (JStr ''y'')"
    using canonical_json_faithful [of "JStr ''x''" "JStr ''y''"] by simp
  have "coerce [CHR 0x80] = coerce [CHR 0xFF]" by (simp add: coerce.simps(2) utf8_size_def utf8_tail_def)
  then show "CanonicalJSON (JStr [CHR 0x80]) = CanonicalJSON (JStr [CHR 0xFF])"
    using canonical_json_faithful [of "JStr [CHR 0x80]" "JStr [CHR 0xFF]"] by simp
qed

text \<open>Parsing inverts marshalling on every value without fractional literals, at every nesting
  depth and for every string content, up to the replacement of invalid bytes, and the value read back does
  not depend on the fuel: what the parser finds with any fuel, it finds with the fuel it is given.\<close>

theorem json_roundtrip:
  "(no_dec j \<longrightarrow> parse_json (marshal j) = Some (clean j)) \<and>
   (pval n s = Some (v, r) \<and> skip_ws r = [] \<longrightarrow> parse_json s = Some v)"
  using parse_json_marshal [of j] pval_fuel [of n s "(v, r)" "2 * length s + 2"]
  by (auto simp: parse_json_def)

theorem json_roundtrip_witness:
  "parse_json (marshal (JObj [(''k'', JArr [JNum (- 7), JBool True])]))
     = Some (JObj [(''k'', JArr [JNum (- 7), JBool True])]) \<and>
   parse_json '' null'' = Some JNull"
proof -
  have n: "no_dec (JObj [(''k'', JArr [JNum (- 7), JBool True])])" by simp
  have p: "pval (Suc 0) '' null'' = Some (JNull, []) \<and> skip_ws [] = []"
    by (simp add: skip_ws_def)
  show ?thesis
    using json_roundtrip [of "JObj [(''k'', JArr [JNum (- 7), JBool True])]" "Suc 0" "'' null''" JNull "[]"]
      n p by simp
qed

end
