(* ===== verification/Crypto.thy ===== *)
theory Crypto
  imports Json
begin

text \<open>
  The package \<open>pkg/crypto\<close>: hexadecimal text, the Ed25519 and SHA-256 wrappers and the canonical
  hash.

  The primitives of Go's \<open>crypto\<close> packages are a parameter, the record \<open>prims\<close>: key derivation,
  signing, verification, SHA-256 and HMAC on byte strings. What the operator relies on is the
  documented behaviour \<open>ed25519_ok\<close> (sizes, and that a signature verifies under its own key);
  integrity results either name the idealisation they need, that SHA-256 does not collide on the inputs at
  hand, or are reductions: whoever gets an unsigned payload accepted has forged an Ed25519 signature.

  The locale \<open>signable\<close> is the contract every signed payload of the operator meets: its byte
  encoding identifies it. The approval decisions, the evidence config maps and the placement tokens
  interpret it in their own theories.
\<close>

record prims =
  p_newKey :: "string \<Rightarrow> string" \<comment> \<open>\<open>ed25519.NewKeyFromSeed\<close>\<close>
  p_public :: "string \<Rightarrow> string" \<comment> \<open>\<open>PrivateKey.Public\<close>\<close>
  p_sign :: "string \<Rightarrow> string \<Rightarrow> string" \<comment> \<open>\<open>ed25519.Sign(priv, data)\<close>\<close>
  p_verify :: "string \<Rightarrow> string \<Rightarrow> string \<Rightarrow> bool" \<comment> \<open>\<open>ed25519.Verify(pub, data, sig)\<close>\<close>
  p_sha256 :: "string \<Rightarrow> string"
  p_hmac :: "string \<Rightarrow> string \<Rightarrow> string" \<comment> \<open>HMAC-SHA-256 of a secret and a message\<close>

definition SeedSize :: nat where "SeedSize = 32"
definition PublicKeySize :: nat where "PublicKeySize = 32"
definition PrivateKeySize :: nat where "PrivateKeySize = 64"
definition SignatureSize :: nat where "SignatureSize = 64"

text \<open>The documented behaviour of \<open>crypto/ed25519\<close>: a private key is the seed followed by the
  public key, a signature has 64 bytes, and one made with a key verifies under its public half.\<close>

definition ed25519_ok :: "prims \<Rightarrow> bool" where
  "ed25519_ok P =
     ((\<forall>seed. length seed = SeedSize \<longrightarrow>
         length (p_newKey P seed) = PrivateKeySize \<and> take 32 (p_newKey P seed) = seed) \<and>
      (\<forall>k. length k = PrivateKeySize \<longrightarrow> length (p_public P k) = PublicKeySize) \<and>
      (\<forall>k m. length k = PrivateKeySize \<longrightarrow>
         length (p_sign P k m) = SignatureSize \<and> p_verify P (p_public P k) m (p_sign P k m)))"


section \<open>Hexadecimal text\<close>

definition hex_byte :: "char \<Rightarrow> string" where
  "hex_byte c = (let n = of_char c :: nat in [hex_digit (n div 16), hex_digit (n mod 16)])"

definition EncodeToString :: "string \<Rightarrow> string" where
  "EncodeToString s = concat (map hex_byte s)"

datatype hex_error = InvalidByteError char | ErrLength

fun DecodeString :: "string \<Rightarrow> hex_error + string" where
  "DecodeString [] = Inr []"
| "DecodeString [c] = (case hex_val c of None \<Rightarrow> Inl (InvalidByteError c) | Some _ \<Rightarrow> Inl ErrLength)"
| "DecodeString (a # b # s) =
     (case hex_val a of None \<Rightarrow> Inl (InvalidByteError a)
      | Some p \<Rightarrow>
        (case hex_val b of None \<Rightarrow> Inl (InvalidByteError b)
         | Some q \<Rightarrow>
           (case DecodeString s of Inl e \<Rightarrow> Inl e | Inr t \<Rightarrow> Inr (char_of (16 * p + q) # t))))"

definition upper_hex_digit :: "nat \<Rightarrow> char" where
  "upper_hex_digit d = (if d < 10 then char_of (48 + d) else char_of (55 + d))"

text \<open>The text of the errors of \<open>encoding/hex\<close>; the offending byte is printed with \<open>%#U\<close>.\<close>

fun hex_error_text :: "hex_error \<Rightarrow> string" where
  "hex_error_text ErrLength = ''encoding/hex: odd length hex string''"
| "hex_error_text (InvalidByteError c) =
     (let n = of_char c :: nat in
      ''encoding/hex: invalid byte: U+00'' @ [upper_hex_digit (n div 16), upper_hex_digit (n mod 16)] @
      (if 32 \<le> n \<and> n \<le> 126 \<or> 161 \<le> n \<and> n \<noteq> 173
       then '' '' @ [CHR 0x27] @ utf8 n @ [CHR 0x27] else []))"


section \<open>The wrappers of \<open>pkg/crypto/ed25519.go\<close> and \<open>pkg/crypto/signature.go\<close>\<close>

definition Ed25519Sign :: "prims \<Rightarrow> string \<Rightarrow> string \<Rightarrow> string" where
  "Ed25519Sign P priv data = EncodeToString (p_sign P priv data)"

definition Ed25519Verify :: "prims \<Rightarrow> string \<Rightarrow> string \<Rightarrow> string \<Rightarrow> string + bool" where
  "Ed25519Verify P pub data sigHex =
     (case DecodeString sigHex of
        Inl e \<Rightarrow> Inl (''decode signature hex: '' @ hex_error_text e)
      | Inr sig \<Rightarrow> Inr (p_verify P pub data sig))"

definition PrivKeyToHex :: "string \<Rightarrow> string" where
  "PrivKeyToHex priv = EncodeToString (take 32 priv)"

definition PrivKeyFromHex :: "prims \<Rightarrow> string \<Rightarrow> string + string" where
  "PrivKeyFromHex P h =
     (case DecodeString h of
        Inl e \<Rightarrow> Inl (''decode private key hex: '' @ hex_error_text e)
      | Inr seed \<Rightarrow>
        if length seed \<noteq> SeedSize
        then Inl (''invalid ed25519 seed length: got '' @ nat_str (length seed) @ '', want '' @
                  nat_str SeedSize)
        else Inr (p_newKey P seed))"

definition PubKeyToHex :: "string \<Rightarrow> string" where
  "PubKeyToHex pub = EncodeToString pub"

definition PubKeyFromHex :: "string \<Rightarrow> string + string" where
  "PubKeyFromHex h =
     (case DecodeString h of
        Inl e \<Rightarrow> Inl (''decode public key hex: '' @ hex_error_text e)
      | Inr b \<Rightarrow>
        if length b \<noteq> PublicKeySize
        then Inl (''invalid ed25519 public key length: got '' @ nat_str (length b) @ '', want '' @
                  nat_str PublicKeySize)
        else Inr b)"

text \<open>\<open>GenerateEd25519KeyPair\<close>, with the random source as an argument: the seed it reads, or its
  error.\<close>

definition GenerateEd25519KeyPair :: "prims \<Rightarrow> string + string \<Rightarrow> string + (string \<times> string)" where
  "GenerateEd25519KeyPair P rnd =
     (case rnd of
        Inl e \<Rightarrow> Inl (''generate ed25519 key pair: '' @ e)
      | Inr seed \<Rightarrow> Inr (p_public P (p_newKey P seed), p_newKey P seed))"

definition SHA256Hex :: "prims \<Rightarrow> string \<Rightarrow> string" where
  "SHA256Hex P data = EncodeToString (p_sha256 P data)"

definition HMACSHA256Hex :: "prims \<Rightarrow> string \<Rightarrow> string \<Rightarrow> string" where
  "HMACSHA256Hex P secret data = EncodeToString (p_hmac P secret data)"

definition VerifyHMACSHA256Hex :: "prims \<Rightarrow> string \<Rightarrow> string \<Rightarrow> string \<Rightarrow> bool" where
  "VerifyHMACSHA256Hex P secret data signature = (HMACSHA256Hex P secret data = signature)"

definition CanonicalSHA256Hex :: "prims \<Rightarrow> json \<Rightarrow> string option" where
  "CanonicalSHA256Hex P v = map_option (SHA256Hex P) (CanonicalJSON v)"


section \<open>Lemmas\<close>

lemma hex_byte_two: "\<exists>a b. hex_byte c = [a, b] \<and> hex_val a = Some (of_char c div 16) \<and>
    hex_val b = Some (of_char c mod 16)"
proof -
  have "of_char c div 16 < (16 :: nat)"
    using nat_of_char_less_256 [of c] by (simp add: less_mult_imp_div_less)
  then show ?thesis by (simp add: hex_byte_def hex_val_digit Let_def)
qed

lemma hex_val_graphic: "hex_val c = Some n \<Longrightarrow> graphic c"
  by (auto simp: hex_val_def graphic_def Let_def split: if_splits)

lemma DecodeString_hex_byte:
  "DecodeString (hex_byte c @ s) = (case DecodeString s of Inl e \<Rightarrow> Inl e | Inr t \<Rightarrow> Inr (c # t))"
proof -
  obtain a b where h: "hex_byte c = [a, b]" "hex_val a = Some (of_char c div 16)"
    "hex_val b = Some (of_char c mod 16)" using hex_byte_two by blast
  then show ?thesis by (simp split: sum.split)
qed

lemma DecodeString_EncodeToString [simp]: "DecodeString (EncodeToString s) = Inr s"
  by (induction s) (simp_all add: EncodeToString_def DecodeString_hex_byte)

lemma EncodeToString_inj: "EncodeToString a = EncodeToString b \<longleftrightarrow> a = b"
  by (metis DecodeString_EncodeToString sum.inject(2))

lemma EncodeToString_graphic: "\<forall>c\<in>set (EncodeToString s). graphic c"
proof -
  have "graphic d" if "d \<in> set (hex_byte c)" for c d
    using hex_byte_two [of c] that hex_val_graphic by auto
  then show ?thesis by (auto simp: EncodeToString_def)
qed

lemma EncodeToString_valid [simp]: "valid_utf8 (EncodeToString s)"
  using EncodeToString_graphic [of s] by (intro valid_ascii) (fastforce simp: ascii_def list_all_iff graphic_def Let_def)

lemma TrimSpace_EncodeToString [simp]: "TrimSpace (EncodeToString s) = EncodeToString s"
  by (rule TrimSpace_all_graphic [OF EncodeToString_graphic])

lemma EncodeToString_length: "length (EncodeToString s) = 2 * length s"
proof -
  have "length (hex_byte c) = 2" for c by (simp add: hex_byte_def Let_def)
  then show ?thesis by (induction s) (simp_all add: EncodeToString_def)
qed

lemma PubKeyFromHex_ToHex [simp]:
  "length pub = PublicKeySize \<Longrightarrow> PubKeyFromHex (PubKeyToHex pub) = Inr pub"
  by (simp add: PubKeyFromHex_def PubKeyToHex_def)

lemma PubKeyFromHex_length: "PubKeyFromHex h = Inr pub \<Longrightarrow> length pub = PublicKeySize"
  by (auto simp: PubKeyFromHex_def split: sum.splits if_splits)

lemma PrivKeyFromHex_length:
  "ed25519_ok P \<Longrightarrow> PrivKeyFromHex P h = Inr priv \<Longrightarrow> length priv = PrivateKeySize"
  by (auto simp: PrivKeyFromHex_def ed25519_ok_def split: sum.splits if_splits)

lemma Ed25519Verify_Sign:
  "ed25519_ok P \<Longrightarrow> length priv = PrivateKeySize \<Longrightarrow>
    Ed25519Verify P (p_public P priv) m (Ed25519Sign P priv m) = Inr True"
  by (simp add: Ed25519Verify_def Ed25519Sign_def ed25519_ok_def)

lemma SHA256Hex_eq_iff: "SHA256Hex P a = SHA256Hex P b \<longleftrightarrow> p_sha256 P a = p_sha256 P b"
  by (simp add: SHA256Hex_def EncodeToString_inj)

text \<open>The canonical hash decides equality of values wherever SHA-256 does not collide on their
  canonical bytes.\<close>

definition collision_free :: "prims \<Rightarrow> string set \<Rightarrow> bool" where
  "collision_free P M = (\<forall>x\<in>M. \<forall>y\<in>M. p_sha256 P x = p_sha256 P y \<longrightarrow> x = y)"

definition canonical_bytes :: "json list \<Rightarrow> string set" where
  "canonical_bytes vs = set (List.map_filter CanonicalJSON vs)"

lemma CanonicalSHA256Hex_eqD:
  assumes "json_ok a" and "json_ok b" and "collision_free P (canonical_bytes [a, b])"
    and "CanonicalSHA256Hex P a = CanonicalSHA256Hex P b"
  shows "jequiv a b"
proof -
  have "canonical_bytes [a, b] = {marshal (canon a), marshal (canon b)}"
    using assms(1,2) by (simp add: canonical_bytes_def List.map_filter_def CanonicalJSON_canon)
  moreover have "p_sha256 P (marshal (canon a)) = p_sha256 P (marshal (canon b))"
    using assms(1,2,4) by (simp add: CanonicalSHA256Hex_def CanonicalJSON_canon SHA256Hex_eq_iff)
  ultimately have "marshal (canon a) = marshal (canon b)"
    using assms(3) unfolding collision_free_def by blast
  then show ?thesis using assms(1,2) marshal_canon_inj canon_eq_iff_jequiv by blast
qed

lemma CanonicalSHA256Hex_total: "json_ok a \<Longrightarrow> \<exists>h. CanonicalSHA256Hex P a = Some h"
  by (simp add: CanonicalSHA256Hex_def CanonicalJSON_canon)

lemma SHA256Hex_valid [simp]: "valid_utf8 (SHA256Hex P m)"
  by (simp add: SHA256Hex_def)

lemma CanonicalSHA256Hex_valid: "CanonicalSHA256Hex P v = Some h \<Longrightarrow> valid_utf8 h"
  by (auto simp: CanonicalSHA256Hex_def)


section \<open>The contract of a signed payload\<close>

text \<open>A forgery in the sense of the unforgeability that Ed25519 promises: a signature that verifies under a public
  key on a message which the key's owner, having signed the messages \<open>M\<close>, never signed.\<close>

definition forgery :: "prims \<Rightarrow> string \<Rightarrow> string set \<Rightarrow> string \<Rightarrow> string \<Rightarrow> bool" where
  "forgery P pub M m sig \<longleftrightarrow> p_verify P pub m sig \<and> m \<notin> M"

text \<open>\<open>msg p\<close> is the byte string that is signed for the payload \<open>p\<close>; on the payloads that satisfy
  \<open>ok\<close> it determines \<open>p\<close> up to \<open>same\<close>.\<close>

locale signable =
  fixes msg :: "'p \<Rightarrow> string option"
    and ok :: "'p \<Rightarrow> bool"
    and same :: "'p \<Rightarrow> 'p \<Rightarrow> bool"
  assumes msg_total: "ok p \<Longrightarrow> \<exists>m. msg p = Some m"
    and msg_faithful: "ok p \<Longrightarrow> ok q \<Longrightarrow> msg p = msg q \<longleftrightarrow> same p q"
begin

text \<open>An accepted payload is one of those the key's owner signed, or its signature is a forgery: a
  signature can neither be moved to another payload nor survive a change of one.\<close>

lemma signed_or_forged:
  assumes S: "\<forall>q\<in>S. ok q" and p: "ok p" "msg p = Some m" and acc: "p_verify P pub m sig"
  shows "(\<exists>q\<in>S. same q p) \<or> forgery P pub {m. \<exists>q\<in>S. msg q = Some m} m sig"
proof (cases "\<exists>q\<in>S. msg q = Some m")
  case True
  then obtain q where q: "q \<in> S" "msg q = msg p" using p(2) by auto
  then have "same q p" using S p(1) msg_faithful by blast
  then show ?thesis using q(1) by blast
qed (use acc in \<open>simp add: forgery_def\<close>)

text \<open>A signature made for a payload is accepted for every payload that is the same.\<close>

lemma signature_transfers:
  "ok p \<Longrightarrow> ok q \<Longrightarrow> same p q \<Longrightarrow> msg p = Some m \<Longrightarrow> msg q = Some m"
  using msg_faithful by metis

end

text \<open>Hexadecimal text and key material round-trip: decoding inverts encoding on every byte
  string, a public key of the right size is read back from its hexadecimal form, a private key read
  from a seed prints as that seed, and it signs messages that verify under its public half; keys of
  any other size are refused.\<close>

theorem key_hex_roundtrip:
  assumes "ed25519_ok P"
  shows "DecodeString (EncodeToString b) = Inr b \<and>
    (length b = PublicKeySize \<longrightarrow> PubKeyFromHex (PubKeyToHex b) = Inr b) \<and>
    (length b \<noteq> PublicKeySize \<longrightarrow> (\<exists>e. PubKeyFromHex (PubKeyToHex b) = Inl e)) \<and>
    (length b = SeedSize \<longrightarrow> (\<exists>priv. PrivKeyFromHex P (EncodeToString b) = Inr priv \<and>
       PrivKeyToHex priv = EncodeToString b \<and>
       Ed25519Verify P (p_public P priv) m (Ed25519Sign P priv m) = Inr True)) \<and>
    (length b \<noteq> SeedSize \<longrightarrow> (\<exists>e. PrivKeyFromHex P (EncodeToString b) = Inl e))"
  using assms Ed25519Verify_Sign [OF assms, of "p_newKey P b" m]
  by (auto simp: PubKeyFromHex_def PubKeyToHex_def PrivKeyFromHex_def PrivKeyToHex_def ed25519_ok_def)

text \<open>A concrete instance of the primitives that has the documented behaviour, for the witnesses: the
  public key is the second half of the private one and a signature is the public half followed by the
  message, padded and cut to 64 bytes.\<close>

definition demo_prims :: prims where
  "demo_prims =
     \<lparr>p_newKey = (\<lambda>seed. seed @ seed), p_public = (\<lambda>k. drop 32 k),
      p_sign = (\<lambda>k m. take 64 (drop 32 k @ m @ replicate 64 CHR 0x00)),
      p_verify = (\<lambda>pub m s. s = take 64 (pub @ m @ replicate 64 CHR 0x00)),
      p_sha256 = (\<lambda>m. m), p_hmac = (\<lambda>k m. k @ m)\<rparr>"

lemma demo_prims_ok: "ed25519_ok demo_prims"
  by (simp add: ed25519_ok_def demo_prims_def SeedSize_def PublicKeySize_def PrivateKeySize_def
      SignatureSize_def min_def)

theorem key_hex_roundtrip_witness:
  "(\<exists>priv. PrivKeyFromHex demo_prims (EncodeToString (replicate 32 CHR ''a'')) = Inr priv \<and>
     PrivKeyToHex priv = EncodeToString (replicate 32 CHR ''a'') \<and>
     Ed25519Verify demo_prims (p_public demo_prims priv) ''hi'' (Ed25519Sign demo_prims priv ''hi'')
       = Inr True)"
  using key_hex_roundtrip [OF demo_prims_ok, of "replicate 32 CHR ''a''" "''hi''"]
  by (simp add: SeedSize_def)

end
