(* ===== verification/Api_Types.thy ===== *)
theory Api_Types
  imports Crypto
begin

text \<open>
  The custom resources of \<open>api/v1alpha1\<close>: one record per Go struct, the JSON encoding that the
  struct tags define for the specs and statuses the operator hashes, and the \<open>Validate\<close> methods.

  A pointer field is an \<open>option\<close>, a slice a list (a nil and an empty slice are one value), a
  \<open>map[string]string\<close> a \<open>gomap\<close>, \<open>metav1.Time\<close> a \<open>gotime\<close>. \<open>metav1.LabelSelector\<close> is an
  opaque library value, represented by its JSON form. Metadata keeps the fields of
  \<open>metav1.ObjectMeta\<close> that the operator reads or writes. The JSON forms of \<open>metav1.Time\<close> and
  \<open>metav1.Condition\<close> belong to the library and are arguments of the encoders.
\<close>

section \<open>Metadata and conditions\<close>

record ObjectMeta =
  om_Name :: string
  om_GenerateName :: string
  om_Namespace :: string
  om_UID :: string
  om_ResourceVersion :: string
  om_Generation :: int
  om_CreationTimestamp :: gotime
  om_Labels :: gomap
  om_Annotations :: gomap

definition newMeta :: "string \<Rightarrow> string \<Rightarrow> ObjectMeta" where
  "newMeta name ns =
     \<lparr>om_Name = name, om_GenerateName = '''', om_Namespace = ns, om_UID = '''',
      om_ResourceVersion = '''', om_Generation = 0, om_CreationTimestamp = zeroTime,
      om_Labels = [], om_Annotations = []\<rparr>"

record Condition =
  cond_Type :: string
  cond_Status :: string
  cond_ObservedGeneration :: int
  cond_LastTransitionTime :: gotime
  cond_Reason :: string
  cond_Message :: string

type_synonym LabelSelector = json


section \<open>Shared structs\<close>

record WorkloadTarget =
  wt_NamespaceSelector :: "LabelSelector option"
  wt_WorkloadSelector :: "LabelSelector option"

record ObjectReference =
  ref_Name :: string
  ref_Namespace :: string

record PolicyAuditSpec =
  aud_Required :: bool
  aud_Level :: string

record PolicyKeyReleaseSpec =
  kr_Required :: bool
  kr_TTLSeconds :: int

record ConfidentialGPURequirements =
  gpu_Vendor :: string
  gpu_DeviceClass :: string
  gpu_DRAClass :: string

record EvidenceFreshness =
  fr_MaxAgeSeconds :: int
  fr_Simulated :: bool

record PlacementTokenSpec =
  pt_Required :: bool
  pt_TTLSeconds :: int

record RuntimeExpectation =
  rt_RuntimeClassName :: string
  rt_Simulated :: bool


section \<open>The resources\<close>

record ConfidentialInferencePolicySpec =
  cips_Target :: WorkloadTarget
  cips_RequiredTEE :: "string list"
  cips_RequireConfidentialContainers :: bool
  cips_RequireConfidentialGPU :: bool
  cips_GPU :: "ConfidentialGPURequirements option"
  cips_AllowedRuntimeClasses :: "string list"
  cips_MaxEvidenceAgeSeconds :: int
  cips_RequireImageDigest :: bool
  cips_RequireModelDigest :: bool
  cips_KeyRelease :: PolicyKeyReleaseSpec
  cips_Audit :: PolicyAuditSpec
  cips_EnforcementMode :: string

record ConfidentialInferencePolicyStatus =
  cipt_ObservedGeneration :: int
  cipt_PolicyHash :: string
  cipt_EffectiveRuntime :: "RuntimeExpectation option"
  cipt_Simulated :: bool
  cipt_Conditions :: "Condition list"

record ConfidentialInferencePolicy =
  cip_Meta :: ObjectMeta
  cip_Spec :: ConfidentialInferencePolicySpec
  cip_Status :: ConfidentialInferencePolicyStatus

record AttestationEvidenceSpec =
  evs_SubjectRef :: ObjectReference
  evs_PolicyRef :: "ObjectReference option"
  evs_EvidenceType :: string
  evs_TEE :: string
  evs_Runtime :: RuntimeExpectation
  evs_Freshness :: EvidenceFreshness
  evs_EvidenceURI :: string
  evs_Digest :: string
  evs_Signatures :: "string list"
  evs_Simulated :: bool

record AttestationEvidenceStatus =
  evt_ObservedGeneration :: int
  evt_Verified :: bool
  evt_Revoked :: bool
  evt_LastVerifiedTime :: "gotime option"
  evt_EvidenceMode :: string
  evt_VerifiedBy :: string
  evt_VerifierPodUID :: string
  evt_NodeUID :: string
  evt_Provider :: string
  evt_AttestationType :: string
  evt_MAATokenHash :: string
  evt_ClaimsDigest :: string
  evt_Nonce :: string
  evt_IssuedAt :: "gotime option"
  evt_ExpiresAt :: "gotime option"
  evt_FreshnessSeconds :: int
  evt_VerificationStatus :: string
  evt_FailureReason :: string
  evt_Conditions :: "Condition list"

record AttestationEvidence =
  ev_Meta :: ObjectMeta
  ev_Spec :: AttestationEvidenceSpec
  ev_Status :: AttestationEvidenceStatus

record AIPlacementDecisionSpec =
  apds_TargetRef :: ObjectReference
  apds_PolicyRef :: ObjectReference
  apds_EvidenceRef :: "ObjectReference option"
  apds_PlacementToken :: PlacementTokenSpec
  apds_SchedulerName :: string

record AIPlacementDecisionStatus =
  apdt_ObservedGeneration :: int
  apdt_Decision :: string
  apdt_NodeName :: string
  apdt_PlacementTokenDigest :: string
  apdt_Simulated :: bool
  apdt_Conditions :: "Condition list"

record AIPlacementDecision =
  apd_Meta :: ObjectMeta
  apd_Spec :: AIPlacementDecisionSpec
  apd_Status :: AIPlacementDecisionStatus

record AIKeyReleasePolicySpec =
  krps_Target :: WorkloadTarget
  krps_EvidenceRef :: "ObjectReference option"
  krps_RequireAttestedEvidence :: bool
  krps_KeyRelease :: PolicyKeyReleaseSpec
  krps_AllowedSecrets :: "string list"
  krps_Audit :: PolicyAuditSpec
  krps_EnforcementMode :: string

record AIKeyReleasePolicyStatus =
  krpt_ObservedGeneration :: int
  krpt_LastDecision :: string
  krpt_LastDecisionTime :: "gotime option"
  krpt_Conditions :: "Condition list"

record AIKeyReleasePolicy =
  krp_Meta :: ObjectMeta
  krp_Spec :: AIKeyReleasePolicySpec
  krp_Status :: AIKeyReleasePolicyStatus

record AIEvidenceRecordSpec =
  ers_SubjectRef :: ObjectReference
  ers_PolicyRef :: "ObjectReference option"
  ers_Category :: string
  ers_PayloadDigest :: string
  ers_PreviousRecordDigest :: string
  ers_ExternalCheckpointRef :: string
  ers_RetentionDays :: int

record AIEvidenceRecordStatus =
  ert_ObservedGeneration :: int
  ert_ChainDigest :: string
  ert_Anchored :: bool
  ert_Conditions :: "Condition list"

record AIEvidenceRecord =
  er_Meta :: ObjectMeta
  er_Spec :: AIEvidenceRecordSpec
  er_Status :: AIEvidenceRecordStatus

record AIRevocationPolicySpec =
  rvs_Target :: WorkloadTarget
  rvs_EvidenceRef :: "ObjectReference option"
  rvs_PlacementRef :: "ObjectReference option"
  rvs_Reasons :: "string list"
  rvs_TTLSeconds :: int
  rvs_Audit :: PolicyAuditSpec

record AIRevocationPolicyStatus =
  rvt_ObservedGeneration :: int
  rvt_Active :: bool
  rvt_ExpiresAt :: "gotime option"
  rvt_Conditions :: "Condition list"

record AIRevocationPolicy =
  rv_Meta :: ObjectMeta
  rv_Spec :: AIRevocationPolicySpec
  rv_Status :: AIRevocationPolicyStatus

record RawAttestationReportSpec =
  rars_NodeName :: string
  rars_NodeUID :: string
  rars_Provider :: string
  rars_RawToken :: string
  rars_RawTokenHash :: string
  rars_Nonce :: string
  rars_CollectedAt :: gotime
  rars_AgentPodUID :: string
  rars_AgentServiceAccount :: string
  rars_Simulated :: bool

record RawAttestationReportStatus =
  rart_ObservedGeneration :: int
  rart_Processed :: bool
  rart_EvidenceRef :: string
  rart_VerificationStatus :: string
  rart_Conditions :: "Condition list"

record RawAttestationReport =
  rar_Meta :: ObjectMeta
  rar_Spec :: RawAttestationReportSpec
  rar_Status :: RawAttestationReportStatus


section \<open>Zero values\<close>

definition zero_ref :: ObjectReference where
  "zero_ref = \<lparr>ref_Name = '''', ref_Namespace = ''''\<rparr>"

definition zero_ev_spec :: AttestationEvidenceSpec where
  "zero_ev_spec =
     \<lparr>evs_SubjectRef = zero_ref, evs_PolicyRef = None, evs_EvidenceType = '''', evs_TEE = '''',
      evs_Runtime = \<lparr>rt_RuntimeClassName = '''', rt_Simulated = False\<rparr>,
      evs_Freshness = \<lparr>fr_MaxAgeSeconds = 0, fr_Simulated = False\<rparr>,
      evs_EvidenceURI = '''', evs_Digest = '''', evs_Signatures = [], evs_Simulated = False\<rparr>"

definition zero_ev_status :: AttestationEvidenceStatus where
  "zero_ev_status =
     \<lparr>evt_ObservedGeneration = 0, evt_Verified = False, evt_Revoked = False,
      evt_LastVerifiedTime = None, evt_EvidenceMode = '''', evt_VerifiedBy = '''',
      evt_VerifierPodUID = '''', evt_NodeUID = '''', evt_Provider = '''', evt_AttestationType = '''',
      evt_MAATokenHash = '''', evt_ClaimsDigest = '''', evt_Nonce = '''', evt_IssuedAt = None,
      evt_ExpiresAt = None, evt_FreshnessSeconds = 0, evt_VerificationStatus = '''',
      evt_FailureReason = '''', evt_Conditions = []\<rparr>"

definition zero_apd_spec :: AIPlacementDecisionSpec where
  "zero_apd_spec =
     \<lparr>apds_TargetRef = zero_ref, apds_PolicyRef = zero_ref, apds_EvidenceRef = None,
      apds_PlacementToken = \<lparr>pt_Required = False, pt_TTLSeconds = 0\<rparr>, apds_SchedulerName = ''''\<rparr>"

definition zero_apd_status :: AIPlacementDecisionStatus where
  "zero_apd_status =
     \<lparr>apdt_ObservedGeneration = 0, apdt_Decision = '''', apdt_NodeName = '''',
      apdt_PlacementTokenDigest = '''', apdt_Simulated = False, apdt_Conditions = []\<rparr>"


section \<open>JSON encodings\<close>

text \<open>A field of a struct, left out when \<open>keep\<close> is false (an empty \<open>omitempty\<close> field).\<close>

definition fld :: "bool \<Rightarrow> string \<Rightarrow> json \<Rightarrow> (string \<times> json) list" where
  "fld keep k v = (if keep then [(k, v)] else [])"

abbreviation f_str :: "string \<Rightarrow> string \<Rightarrow> (string \<times> json) list" where
  "f_str k s \<equiv> fld (s \<noteq> '''') k (JStr s)"

abbreviation f_bool :: "string \<Rightarrow> bool \<Rightarrow> (string \<times> json) list" where
  "f_bool k b \<equiv> fld b k (JBool b)"

abbreviation f_int :: "string \<Rightarrow> int \<Rightarrow> (string \<times> json) list" where
  "f_int k n \<equiv> fld (n \<noteq> 0) k (JNum n)"

abbreviation f_list :: "string \<Rightarrow> ('a \<Rightarrow> json) \<Rightarrow> 'a list \<Rightarrow> (string \<times> json) list" where
  "f_list k f xs \<equiv> fld (xs \<noteq> []) k (JArr (map f xs))"

abbreviation f_ptr :: "string \<Rightarrow> ('a \<Rightarrow> json) \<Rightarrow> 'a option \<Rightarrow> (string \<times> json) list" where
  "f_ptr k f p \<equiv> fld (p \<noteq> None) k (case p of None \<Rightarrow> JNull | Some x \<Rightarrow> f x)"

definition ref_json :: "ObjectReference \<Rightarrow> json" where
  "ref_json r = JObj (fld True ''name'' (JStr (ref_Name r)) @ f_str ''namespace'' (ref_Namespace r))"

definition target_json :: "WorkloadTarget \<Rightarrow> json" where
  "target_json t =
     JObj (f_ptr ''namespaceSelector'' (\<lambda>s. s) (wt_NamespaceSelector t) @
           f_ptr ''workloadSelector'' (\<lambda>s. s) (wt_WorkloadSelector t))"

definition audit_json :: "PolicyAuditSpec \<Rightarrow> json" where
  "audit_json a = JObj (f_bool ''required'' (aud_Required a) @ f_str ''level'' (aud_Level a))"

definition key_release_json :: "PolicyKeyReleaseSpec \<Rightarrow> json" where
  "key_release_json k =
     JObj (f_bool ''required'' (kr_Required k) @ f_int ''ttlSeconds'' (kr_TTLSeconds k))"

definition gpu_json :: "ConfidentialGPURequirements \<Rightarrow> json" where
  "gpu_json g =
     JObj (f_str ''vendor'' (gpu_Vendor g) @ f_str ''deviceClass'' (gpu_DeviceClass g) @
           f_str ''draClass'' (gpu_DRAClass g))"

definition freshness_json :: "EvidenceFreshness \<Rightarrow> json" where
  "freshness_json f =
     JObj (fld True ''maxAgeSeconds'' (JNum (fr_MaxAgeSeconds f)) @
           f_bool ''simulated'' (fr_Simulated f))"

definition runtime_json :: "RuntimeExpectation \<Rightarrow> json" where
  "runtime_json r =
     JObj (f_str ''runtimeClassName'' (rt_RuntimeClassName r) @ f_bool ''simulated'' (rt_Simulated r))"

definition cip_spec_json :: "ConfidentialInferencePolicySpec \<Rightarrow> json" where
  "cip_spec_json s =
     JObj (fld True ''target'' (target_json (cips_Target s)) @
           f_list ''requiredTEE'' JStr (cips_RequiredTEE s) @
           f_bool ''requireConfidentialContainers'' (cips_RequireConfidentialContainers s) @
           f_bool ''requireConfidentialGPU'' (cips_RequireConfidentialGPU s) @
           f_ptr ''gpu'' gpu_json (cips_GPU s) @
           f_list ''allowedRuntimeClasses'' JStr (cips_AllowedRuntimeClasses s) @
           fld True ''maxEvidenceAgeSeconds'' (JNum (cips_MaxEvidenceAgeSeconds s)) @
           f_bool ''requireImageDigest'' (cips_RequireImageDigest s) @
           f_bool ''requireModelDigest'' (cips_RequireModelDigest s) @
           fld True ''keyRelease'' (key_release_json (cips_KeyRelease s)) @
           fld True ''audit'' (audit_json (cips_Audit s)) @
           fld True ''enforcementMode'' (JStr (cips_EnforcementMode s)))"

definition ev_spec_json :: "AttestationEvidenceSpec \<Rightarrow> json" where
  "ev_spec_json s =
     JObj (fld True ''subjectRef'' (ref_json (evs_SubjectRef s)) @
           f_ptr ''policyRef'' ref_json (evs_PolicyRef s) @
           fld True ''evidenceType'' (JStr (evs_EvidenceType s)) @
           fld True ''tee'' (JStr (evs_TEE s)) @
           fld True ''runtime'' (runtime_json (evs_Runtime s)) @
           fld True ''freshness'' (freshness_json (evs_Freshness s)) @
           f_str ''evidenceURI'' (evs_EvidenceURI s) @
           f_str ''digest'' (evs_Digest s) @
           f_list ''signatures'' JStr (evs_Signatures s) @
           f_bool ''simulated'' (evs_Simulated s))"

definition ev_status_json ::
  "(gotime \<Rightarrow> json) \<Rightarrow> (Condition \<Rightarrow> json) \<Rightarrow> AttestationEvidenceStatus \<Rightarrow> json" where
  "ev_status_json tj cj s =
     JObj (f_int ''observedGeneration'' (evt_ObservedGeneration s) @
           f_bool ''verified'' (evt_Verified s) @
           f_bool ''revoked'' (evt_Revoked s) @
           f_ptr ''lastVerifiedTime'' tj (evt_LastVerifiedTime s) @
           f_str ''evidenceMode'' (evt_EvidenceMode s) @
           f_str ''verifiedBy'' (evt_VerifiedBy s) @
           f_str ''verifierPodUID'' (evt_VerifierPodUID s) @
           f_str ''nodeUID'' (evt_NodeUID s) @
           f_str ''provider'' (evt_Provider s) @
           f_str ''attestationType'' (evt_AttestationType s) @
           f_str ''maaTokenHash'' (evt_MAATokenHash s) @
           f_str ''claimsDigest'' (evt_ClaimsDigest s) @
           f_str ''nonce'' (evt_Nonce s) @
           f_ptr ''issuedAt'' tj (evt_IssuedAt s) @
           f_ptr ''expiresAt'' tj (evt_ExpiresAt s) @
           f_int ''freshnessSeconds'' (evt_FreshnessSeconds s) @
           f_str ''verificationStatus'' (evt_VerificationStatus s) @
           f_str ''failureReason'' (evt_FailureReason s) @
           f_list ''conditions'' cj (evt_Conditions s))"

definition record_spec_json :: "AIEvidenceRecordSpec \<Rightarrow> json" where
  "record_spec_json s =
     JObj (fld True ''subjectRef'' (ref_json (ers_SubjectRef s)) @
           f_ptr ''policyRef'' ref_json (ers_PolicyRef s) @
           fld True ''category'' (JStr (ers_Category s)) @
           f_str ''payloadDigest'' (ers_PayloadDigest s) @
           f_str ''previousRecordDigest'' (ers_PreviousRecordDigest s) @
           f_str ''externalCheckpointRef'' (ers_ExternalCheckpointRef s) @
           f_int ''retentionDays'' (ers_RetentionDays s))"


section \<open>Validation\<close>

text \<open>A path of \<open>field.Path\<close>, outermost element first.\<close>

datatype path_elem = Child string | Idx nat
type_synonym path = "path_elem list"

datatype field_error = FieldRequired path string | FieldInvalid path string string

definition Validate_cip :: "path \<Rightarrow> ConfidentialInferencePolicySpec \<Rightarrow> field_error list" where
  "Validate_cip path s =
     (if cips_RequireConfidentialGPU s \<and> cips_GPU s = None
      then [FieldRequired (path @ [Child ''gpu'']) ''gpu is required when requireConfidentialGPU is true'']
      else []) @
     (if cips_RequireConfidentialContainers s \<and> cips_AllowedRuntimeClasses s = []
      then [FieldRequired (path @ [Child ''allowedRuntimeClasses'']) ''at least one runtime class is required'']
      else []) @
     (if kr_Required (cips_KeyRelease s) \<and> kr_TTLSeconds (cips_KeyRelease s) \<le> 0
      then [FieldInvalid (path @ [Child ''keyRelease'', Child ''ttlSeconds''])
              (itoa (kr_TTLSeconds (cips_KeyRelease s))) ''must be > 0 when key release is required'']
      else [])"

definition Validate_krp :: "path \<Rightarrow> AIKeyReleasePolicySpec \<Rightarrow> field_error list" where
  "Validate_krp path s =
     (if krps_RequireAttestedEvidence s \<and> krps_EvidenceRef s = None
      then [FieldRequired (path @ [Child ''evidenceRef''])
              ''evidenceRef is required when requireAttestedEvidence is true'']
      else []) @
     (if kr_Required (krps_KeyRelease s) \<and> kr_TTLSeconds (krps_KeyRelease s) \<le> 0
      then [FieldInvalid (path @ [Child ''keyRelease'', Child ''ttlSeconds''])
              (itoa (kr_TTLSeconds (krps_KeyRelease s))) ''must be > 0 when key release is required'']
      else [])"

fun blank_reasons :: "path \<Rightarrow> nat \<Rightarrow> string list \<Rightarrow> field_error list" where
  "blank_reasons path i [] = []"
| "blank_reasons path i (r # rs) =
     (if TrimSpace r = ''''
      then FieldInvalid (path @ [Child ''reasons'', Idx i]) r ''reason must not be empty'' #
             blank_reasons path (Suc i) rs
      else blank_reasons path (Suc i) rs)"

definition Validate_rv :: "path \<Rightarrow> AIRevocationPolicySpec \<Rightarrow> field_error list" where
  "Validate_rv path s =
     (if rvs_Reasons s = []
      then [FieldRequired (path @ [Child ''reasons'']) ''at least one revocation reason is required'']
      else []) @
     blank_reasons path 0 (rvs_Reasons s)"

end
