(* ===== verification/Kube.thy ===== *)
theory Kube
  imports Api_Types "HOL-Library.State_Monad"
begin

text \<open>
  The environment of the controllers: the Kubernetes API, the clock and the libraries around them.

  None of that code is part of the repository, so it is a parameter. A server is a function
  \<open>call \<Rightarrow> 's \<Rightarrow> reply \<times> 's\<close> on an arbitrary state \<open>'s\<close>: it may fail, answer anything and change its
  state between two calls, as other clients do. A program runs in the state monad over the server's
  state and the log of all calls made so far with their replies. What holds for every server therefore
  holds under every interleaving with the rest of the cluster; theorems that need more of the server
  name it. A reply of the wrong shape reads as an error.

  The libraries (label selectors, tolerations, the JSON form of library types, condition lists,
  \<open>sort.Slice\<close>) are the record \<open>klib\<close>.

  \<open>ensures m R\<close> says that \<open>m\<close> always ends in a result \<open>a\<close> and makes a sequence of calls \<open>tr\<close> with
  \<open>R a tr\<close>, whatever the server does and whatever happened before.
\<close>

named_theorems ens \<open>rules for ensures\<close>

section \<open>Library types\<close>

datatype kerr =
    KNotFound string | KConflict string | KAlreadyExists string | KInvalid string | KBadRequest string
  | KForbidden string | KUnauthorized string | KOther string

fun kerr_text :: "kerr \<Rightarrow> string" where
  "kerr_text (KNotFound t) = t"
| "kerr_text (KConflict t) = t"
| "kerr_text (KAlreadyExists t) = t"
| "kerr_text (KInvalid t) = t"
| "kerr_text (KBadRequest t) = t"
| "kerr_text (KForbidden t) = t"
| "kerr_text (KUnauthorized t) = t"
| "kerr_text (KOther t) = t"

fun IsNotFound :: "kerr \<Rightarrow> bool" where
  "IsNotFound (KNotFound t) = True"
| "IsNotFound e = False"

fun IsConflict :: "kerr \<Rightarrow> bool" where
  "IsConflict (KConflict t) = True"
| "IsConflict e = False"

text \<open>The parts of \<open>corev1.Pod\<close>, \<open>corev1.Node\<close>, \<open>corev1.Namespace\<close> and \<open>nodev1.RuntimeClass\<close> that
  the operator reads or writes. Taints carry their key, value and effect; a toleration is opaque. What
  is left of a container, an environment variable, a volume, a mount or a pod's spec is the opaque
  field \<open>Rest\<close> of its record; a projected volume keeps its service account tokens.\<close>

type_synonym Toleration = json

record Taint =
  tn_Key :: string
  tn_Value :: string
  tn_Effect :: string

record EnvVar =
  env_Name :: string
  env_Value :: string
  env_FieldPath :: "string option"
  env_Rest :: json

record VolumeMount =
  vm_Name :: string
  vm_MountPath :: string
  vm_ReadOnly :: bool
  vm_Rest :: json

record SecurityContext =
  sx_AllowPrivilegeEscalation :: "bool option"
  sx_RunAsNonRoot :: "bool option"
  sx_ReadOnlyRootFilesystem :: "bool option"
  sx_Drop :: "string list"
  sx_Rest :: json

record Container =
  ct_Name :: string
  ct_Image :: string
  ct_ImagePullPolicy :: string
  ct_Command :: "string list"
  ct_Args :: "string list"
  ct_Env :: "EnvVar list"
  ct_VolumeMounts :: "VolumeMount list"
  ct_SecurityContext :: "SecurityContext option"
  ct_Rest :: json

record TokenProjection =
  tp_Audience :: string
  tp_ExpirationSeconds :: int
  tp_Path :: string

record Volume =
  vol_Name :: string
  vol_Projected :: "TokenProjection list"
  vol_Rest :: json

record PodSpec =
  ps_NodeName :: string
  ps_SchedulerName :: string
  ps_NodeSelector :: gomap
  ps_Tolerations :: "Toleration list"
  ps_RuntimeClassName :: "string option"
  ps_Containers :: "Container list"
  ps_Volumes :: "Volume list"
  ps_SchedulingGates :: "string list"
  ps_Rest :: json

record Pod =
  pod_Meta :: ObjectMeta
  pod_Spec :: PodSpec
  pod_Phase :: string

record Node =
  node_Name :: string
  node_Labels :: gomap
  node_Unschedulable :: bool
  node_Taints :: "Taint list"

record Scheduling =
  sch_NodeSelector :: gomap
  sch_Tolerations :: "Toleration list"

record RuntimeClass =
  rc_Labels :: gomap
  rc_Handler :: string
  rc_Scheduling :: "Scheduling option"

record Namespace =
  ns_Labels :: gomap
  ns_Annotations :: gomap


text \<open>Webhook configurations of \<open>admissionregistration.k8s.io\<close>: the selector lists the namespaces that are
  left out. Certificates of \<open>crypto/x509\<close> by the fields their templates set.\<close>

record Rule =
  rl_Operations :: "string list"
  rl_APIGroups :: "string list"
  rl_APIVersions :: "string list"
  rl_Resources :: "string list"

record Webhook =
  wh_Name :: string
  wh_FailurePolicy :: string
  wh_Reinvocation :: "string option"
  wh_NotInNamespaces :: "string list option"
  wh_CABundle :: string
  wh_ServiceName :: string
  wh_ServiceNamespace :: string
  wh_Path :: string
  wh_Port :: int
  wh_TimeoutSeconds :: int
  wh_MatchPolicy :: string
  wh_SideEffects :: string
  wh_ReviewVersions :: "string list"
  wh_Rules :: "Rule list"

record Certificate =
  crt_Serial :: int
  crt_CommonName :: string
  crt_NotBefore :: gotime
  crt_NotAfter :: gotime
  crt_KeyUsage :: "string list"
  crt_ExtKeyUsage :: "string list"
  crt_BasicConstraintsValid :: bool
  crt_IsCA :: bool
  crt_DNSNames :: "string list"

record GVR =
  gvr_Group :: string
  gvr_Version :: string
  gvr_Resource :: string


section \<open>Calls and replies\<close>

text \<open>Next to the typed client: the dynamic client of the console, files, random numbers, keys and
  certificates, and the helper process of the node agent. A list of the dynamic client is the list
  object and its items.\<close>

datatype call =
    Now
  | Sleep duration
  | GetNamespace string
  | GetPod string string
  | ListNodes
  | GetRuntimeClass string
  | ListPolicies string
  | GetPolicy string string
  | ListEvidence
  | GetEvidence string string
  | GetDecision string string
  | CreateDecision AIPlacementDecision
  | UpdateDecision AIPlacementDecision
  | StatusDecision AIPlacementDecision
  | CreateBinding string string string
  | GetReport string string
  | HttpGet string
  | FetchURL string
  | ReadBody nat
  | UpsertEvidence string string "AttestationEvidence \<Rightarrow> AttestationEvidence"
  | StatusEvidence AttestationEvidence
  | StatusReport RawAttestationReport
  | GetRevocation string string
  | ListRevocations string
  | StatusRevocation AIRevocationPolicy
  | GetKeyPolicy string string
  | StatusKeyPolicy AIKeyReleasePolicy
  | GetRecord string string
  | StatusRecord AIEvidenceRecord
  | CreateReport RawAttestationReport
  | UpsertRuntimeClass string "RuntimeClass \<Rightarrow> RuntimeClass"
  | UpsertMutating string "Webhook list"
  | UpsertValidating string "Webhook list"
  | DynList GVR string
  | DynGet GVR string string
  | DynCreate GVR string json
  | DynUpdate GVR string json
  | DynDelete GVR string string
  | MkdirAll string
  | WriteFile string string
  | ReadFile string
  | RandomBytes nat
  | RandomInt int
  | GenerateEd25519
  | GenerateRSA int
  | CreateCertificate Certificate Certificate string string
  | RunHelper string "string list" "string list" duration

datatype reply =
    RTime gotime
  | RDone "string option"
  | RNamespace "kerr + Namespace"
  | RPod "kerr + Pod"
  | RNodes "kerr + Node list"
  | RRuntimeClass "kerr + RuntimeClass"
  | RPolicies "kerr + ConfidentialInferencePolicy list"
  | RPolicy "kerr + ConfidentialInferencePolicy"
  | REvidences "kerr + AttestationEvidence list"
  | REvidence "kerr + AttestationEvidence"
  | RDecision "kerr + AIPlacementDecision"
  | RReport "kerr + RawAttestationReport"
  | RHttp "string + int \<times> string"
  | RRevocation "kerr + AIRevocationPolicy"
  | RRevocations "kerr + AIRevocationPolicy list"
  | RKeyPolicy "kerr + AIKeyReleasePolicy"
  | RRecord "kerr + AIEvidenceRecord"
  | RUnit "kerr option"
  | RObject "kerr + json"
  | RObjects "kerr + json \<times> json list"
  | RText "string + string"
  | RNum "string + int"
  | RStatus "string + int"
  | RKeyPair "string + string \<times> string"
  | RProcess bool "string option" string string
    \<comment> \<open>the deadline passed, the error, the standard output and error\<close>

definition bad :: kerr where "bad = KOther ''unexpected reply''"

fun as_time :: "reply \<Rightarrow> gotime" where "as_time (RTime t) = t" | "as_time _ = 0"
fun as_done :: "reply \<Rightarrow> string option" where "as_done (RDone x) = x" | "as_done _ = Some ''unexpected reply''"
fun as_namespace :: "reply \<Rightarrow> kerr + Namespace" where
  "as_namespace (RNamespace x) = x" | "as_namespace _ = Inl bad"
fun as_pod :: "reply \<Rightarrow> kerr + Pod" where "as_pod (RPod x) = x" | "as_pod _ = Inl bad"
fun as_nodes :: "reply \<Rightarrow> kerr + Node list" where "as_nodes (RNodes x) = x" | "as_nodes _ = Inl bad"
fun as_runtimeClass :: "reply \<Rightarrow> kerr + RuntimeClass" where
  "as_runtimeClass (RRuntimeClass x) = x" | "as_runtimeClass _ = Inl bad"
fun as_policies :: "reply \<Rightarrow> kerr + ConfidentialInferencePolicy list" where
  "as_policies (RPolicies x) = x" | "as_policies _ = Inl bad"
fun as_policy :: "reply \<Rightarrow> kerr + ConfidentialInferencePolicy" where
  "as_policy (RPolicy x) = x" | "as_policy _ = Inl bad"
fun as_evidences :: "reply \<Rightarrow> kerr + AttestationEvidence list" where
  "as_evidences (REvidences x) = x" | "as_evidences _ = Inl bad"
fun as_evidence :: "reply \<Rightarrow> kerr + AttestationEvidence" where
  "as_evidence (REvidence x) = x" | "as_evidence _ = Inl bad"
fun as_decision :: "reply \<Rightarrow> kerr + AIPlacementDecision" where
  "as_decision (RDecision x) = x" | "as_decision _ = Inl bad"
fun as_report :: "reply \<Rightarrow> kerr + RawAttestationReport" where
  "as_report (RReport x) = x" | "as_report _ = Inl bad"
fun as_http :: "reply \<Rightarrow> string + int \<times> string" where
  "as_http (RHttp x) = x" | "as_http _ = Inl ''unexpected reply''"
fun as_revocation :: "reply \<Rightarrow> kerr + AIRevocationPolicy" where
  "as_revocation (RRevocation x) = x" | "as_revocation _ = Inl bad"
fun as_revocations :: "reply \<Rightarrow> kerr + AIRevocationPolicy list" where
  "as_revocations (RRevocations x) = x" | "as_revocations _ = Inl bad"
fun as_key_policy :: "reply \<Rightarrow> kerr + AIKeyReleasePolicy" where
  "as_key_policy (RKeyPolicy x) = x" | "as_key_policy _ = Inl bad"
fun as_record :: "reply \<Rightarrow> kerr + AIEvidenceRecord" where
  "as_record (RRecord x) = x" | "as_record _ = Inl bad"
fun as_unit :: "reply \<Rightarrow> kerr option" where "as_unit (RUnit x) = x" | "as_unit _ = Some bad"
fun as_object :: "reply \<Rightarrow> kerr + json" where "as_object (RObject x) = x" | "as_object _ = Inl bad"
fun as_objects :: "reply \<Rightarrow> kerr + json \<times> json list" where
  "as_objects (RObjects x) = x" | "as_objects _ = Inl bad"
fun as_text :: "reply \<Rightarrow> string + string" where
  "as_text (RText x) = x" | "as_text _ = Inl ''unexpected reply''"
fun as_num :: "reply \<Rightarrow> string + int" where "as_num (RNum x) = x" | "as_num _ = Inl ''unexpected reply''"
fun as_status :: "reply \<Rightarrow> string + int" where
  "as_status (RStatus x) = x" | "as_status _ = Inl ''unexpected reply''"
fun as_keyPair :: "reply \<Rightarrow> string + string \<times> string" where
  "as_keyPair (RKeyPair x) = x" | "as_keyPair _ = Inl ''unexpected reply''"
fun as_process :: "reply \<Rightarrow> bool \<times> string option \<times> string \<times> string" where
  "as_process (RProcess d e out err) = (d, e, out, err)"
| "as_process _ = (False, Some ''unexpected reply'', '''', '''')"


section \<open>Libraries\<close>

record klib =
  kl_selMatches :: "LabelSelector \<Rightarrow> gomap \<Rightarrow> bool option"
    \<comment> \<open>\<open>LabelSelectorAsSelector\<close> and \<open>Matches\<close>; \<open>None\<close> is an invalid selector\<close>
  kl_setMatches :: "gomap \<Rightarrow> gomap \<Rightarrow> bool" \<comment> \<open>\<open>labels.SelectorFromSet(m).Matches(labels)\<close>\<close>
  kl_tolerates :: "Toleration \<Rightarrow> Taint \<Rightarrow> bool" \<comment> \<open>\<open>Toleration.ToleratesTaint\<close>\<close>
  kl_timeJSON :: "gotime \<Rightarrow> json" \<comment> \<open>the JSON form of \<open>metav1.Time\<close>\<close>
  kl_condJSON :: "Condition \<Rightarrow> json" \<comment> \<open>the JSON form of \<open>metav1.Condition\<close>\<close>
  kl_podSpecJSON :: "PodSpec \<Rightarrow> json" \<comment> \<open>the JSON form of \<open>corev1.PodSpec\<close>\<close>
  kl_durText :: "duration \<Rightarrow> string" \<comment> \<open>\<open>time.Duration.String\<close>\<close>
  kl_setCond :: "gotime \<Rightarrow> Condition list \<Rightarrow> Condition \<Rightarrow> Condition list" \<comment> \<open>\<open>meta.SetStatusCondition\<close>, at a time\<close>


section \<open>Programs\<close>

type_synonym log = "(call \<times> reply) list"

record 's world =
  w_state :: 's
  w_log :: log

type_synonym 's server = "call \<Rightarrow> 's \<Rightarrow> reply \<times> 's"
type_synonym ('s, 'a) prog = "('s world, 'a) state"

definition api :: "'s server \<Rightarrow> call \<Rightarrow> ('s, reply) prog" where
  "api srv c = State (\<lambda>w. case srv c (w_state w) of
     (r, s) \<Rightarrow> (r, \<lparr>w_state = s, w_log = w_log w @ [(c, r)]\<rparr>))"

text \<open>Running a program from a server state, with an empty log.\<close>

definition run :: "('s, 'a) prog \<Rightarrow> 's \<Rightarrow> 'a \<times> log" where
  "run m s = (case run_state m \<lparr>w_state = s, w_log = []\<rparr> of (a, w) \<Rightarrow> (a, w_log w))"

definition ensures :: "('s, 'a) prog \<Rightarrow> ('a \<Rightarrow> log \<Rightarrow> bool) \<Rightarrow> bool" where
  "ensures m R \<longleftrightarrow> (\<forall>w. case run_state m w of (a, w') \<Rightarrow> \<exists>tr. w_log w' = w_log w @ tr \<and> R a tr)"

lemma ensures_return [ens]: "R a [] \<Longrightarrow> ensures (State_Monad.return a) R"
  by (simp add: ensures_def State_Monad.return_def)

lemma ensures_api: "(\<And>r. R r [(c, r)]) \<Longrightarrow> ensures (api srv c) R"
  by (simp add: ensures_def api_def split: prod.splits)

lemma ensuresD:
  "ensures m R \<Longrightarrow> run_state m w = (a, w') \<Longrightarrow> \<exists>tr. w_log w' = w_log w @ tr \<and> R a tr"
  unfolding ensures_def by (drule spec [of _ w]) simp

lemma ensures_bind:
  assumes "ensures m R1" and "\<And>a tr1. R1 a tr1 \<Longrightarrow> ensures (f a) (\<lambda>b tr2. R b (tr1 @ tr2))"
  shows "ensures (State_Monad.bind m f) R"
  unfolding ensures_def
proof
  fix w
  obtain a w1 where m: "run_state m w = (a, w1)" by (cases "run_state m w")
  from ensuresD [OF assms(1) m] obtain tr1 where 1: "w_log w1 = w_log w @ tr1" "R1 a tr1" by blast
  obtain b w2 where f: "run_state (f a) w1 = (b, w2)" by (cases "run_state (f a) w1")
  from ensuresD [OF assms(2) [OF 1(2)] f] obtain tr2
    where 2: "w_log w2 = w_log w1 @ tr2" "R b (tr1 @ tr2)" by blast
  show "case run_state (State_Monad.bind m f) w of (a, w') \<Rightarrow> \<exists>tr. w_log w' = w_log w @ tr \<and> R a tr"
    using m f 1 2 by (simp add: State_Monad.bind_def)
qed

lemma ensures_bind_api [ens]:
  assumes "\<And>r. ensures (f r) (\<lambda>b tr. R b ((c, r) # tr))"
  shows "ensures (State_Monad.bind (api srv c) f) R"
  by (rule ensures_bind [where ?R1.0 = "\<lambda>r tr. tr = [(c, r)]"])
    (auto intro: ensures_api simp: assms)

lemma ensures_conseq: "ensures m R \<Longrightarrow> (\<And>a tr. R a tr \<Longrightarrow> S a tr) \<Longrightarrow> ensures m S"
  by (fastforce simp: ensures_def split: prod.splits)

lemma ensures_run: "ensures m R \<Longrightarrow> run m s = (a, l) \<Longrightarrow> R a l"
  unfolding run_def by (auto split: prod.splits dest!: ensuresD)

lemma ensures_if [ens]: "(b \<Longrightarrow> ensures m R) \<Longrightarrow> (\<not> b \<Longrightarrow> ensures n R) \<Longrightarrow> ensures (if b then m else n) R"
  by simp

lemma ensures_option [ens]:
  "(x = None \<Longrightarrow> ensures m R) \<Longrightarrow> (\<And>y. x = Some y \<Longrightarrow> ensures (f y) R) \<Longrightarrow>
    ensures (case x of None \<Rightarrow> m | Some y \<Rightarrow> f y) R"
  by (cases x) simp_all

lemma ensures_sum [ens]:
  "(\<And>e. x = Inl e \<Longrightarrow> ensures (f e) R) \<Longrightarrow> (\<And>y. x = Inr y \<Longrightarrow> ensures (g y) R) \<Longrightarrow>
    ensures (case x of Inl e \<Rightarrow> f e | Inr y \<Rightarrow> g y) R"
  by (cases x) simp_all

lemma ensures_prod [ens]:
  "(\<And>a b. x = (a, b) \<Longrightarrow> ensures (f a b) R) \<Longrightarrow> ensures (case x of (a, b) \<Rightarrow> f a b) R"
  by (cases x) simp

lemma ensures_Let [ens]: "ensures (f x) R \<Longrightarrow> ensures (let y = x in f y) R"
  by simp

text \<open>A reply that reads as an object is that object.\<close>

lemma as_unit_None [simp]: "as_unit r = None \<longleftrightarrow> r = RUnit None"
  by (cases r) simp_all

lemma as_Inr [simp]:
  "as_namespace r = Inr x1 \<longleftrightarrow> r = RNamespace (Inr x1)"
  "as_pod r = Inr x2 \<longleftrightarrow> r = RPod (Inr x2)"
  "as_nodes r = Inr x3 \<longleftrightarrow> r = RNodes (Inr x3)"
  "as_runtimeClass r = Inr x4 \<longleftrightarrow> r = RRuntimeClass (Inr x4)"
  "as_policies r = Inr x5 \<longleftrightarrow> r = RPolicies (Inr x5)"
  "as_policy r = Inr x6 \<longleftrightarrow> r = RPolicy (Inr x6)"
  "as_evidences r = Inr x7 \<longleftrightarrow> r = REvidences (Inr x7)"
  "as_evidence r = Inr x8 \<longleftrightarrow> r = REvidence (Inr x8)"
  "as_decision r = Inr x9 \<longleftrightarrow> r = RDecision (Inr x9)"
  "as_report r = Inr x10 \<longleftrightarrow> r = RReport (Inr x10)"
  "as_revocation r = Inr x11 \<longleftrightarrow> r = RRevocation (Inr x11)"
  "as_revocations r = Inr x12 \<longleftrightarrow> r = RRevocations (Inr x12)"
  "as_key_policy r = Inr x13 \<longleftrightarrow> r = RKeyPolicy (Inr x13)"
  "as_record r = Inr x14 \<longleftrightarrow> r = RRecord (Inr x14)"
  "as_http r = Inr x15 \<longleftrightarrow> r = RHttp (Inr x15)"
  "as_object r = Inr x16 \<longleftrightarrow> r = RObject (Inr x16)"
  "as_objects r = Inr x17 \<longleftrightarrow> r = RObjects (Inr x17)"
  "as_text r = Inr x18 \<longleftrightarrow> r = RText (Inr x18)"
  "as_num r = Inr x19 \<longleftrightarrow> r = RNum (Inr x19)"
  "as_keyPair r = Inr x20 \<longleftrightarrow> r = RKeyPair (Inr x20)"
  "as_status r = Inr x21 \<longleftrightarrow> r = RStatus (Inr x21)"
  by (cases r; simp)+

text \<open>Rules that bring a program into the form of one call after the other, for programs whose posts are
  about the whole list of calls.\<close>

lemma bind_bind: "State_Monad.bind (State_Monad.bind m f) g = State_Monad.bind m (\<lambda>a. State_Monad.bind (f a) g)"
  by (simp add: State_Monad.bind_def split_beta)

lemma ensures_bind_bind:
  "ensures (State_Monad.bind m (\<lambda>a. State_Monad.bind (f a) g)) R \<Longrightarrow>
    ensures (State_Monad.bind (State_Monad.bind m f) g) R"
  by (simp add: bind_bind)

lemma ensures_bind_return: "ensures (f a) R \<Longrightarrow> ensures (State_Monad.bind (State_Monad.return a) f) R"
  by (simp add: State_Monad.bind_def State_Monad.return_def)

lemma ensures_bind_if:
  "(b \<Longrightarrow> ensures (State_Monad.bind m f) R) \<Longrightarrow> (\<not> b \<Longrightarrow> ensures (State_Monad.bind n f) R) \<Longrightarrow>
    ensures (State_Monad.bind (if b then m else n) f) R"
  by simp

lemma ensures_bind_option:
  "(x = None \<Longrightarrow> ensures (State_Monad.bind m f) R) \<Longrightarrow> (\<And>y. x = Some y \<Longrightarrow> ensures (State_Monad.bind (g y) f) R) \<Longrightarrow>
    ensures (State_Monad.bind (case x of None \<Rightarrow> m | Some y \<Rightarrow> g y) f) R"
  by (cases x) simp_all

lemma ensures_bind_sum:
  "(\<And>e. x = Inl e \<Longrightarrow> ensures (State_Monad.bind (g e) f) R) \<Longrightarrow> (\<And>y. x = Inr y \<Longrightarrow> ensures (State_Monad.bind (h y) f) R) \<Longrightarrow>
    ensures (State_Monad.bind (case x of Inl e \<Rightarrow> g e | Inr y \<Rightarrow> h y) f) R"
  by (cases x) simp_all

lemmas ens_flat = ensures_return ensures_bind_api ensures_bind_bind ensures_bind_return ensures_bind_if
  ensures_bind_option ensures_bind_sum ensures_if ensures_option ensures_sum ensures_prod ensures_Let

text \<open>Deterministic evaluation, for concrete servers.\<close>

lemma run_state_simps [simp]:
  "run_state (State_Monad.return a) w = (a, w)"
  "run_state (State_Monad.bind m f) w = (case run_state m w of (a, w') \<Rightarrow> run_state (f a) w')"
  "run_state (api srv c) w = (case srv c (w_state w) of
     (r, s) \<Rightarrow> (r, \<lparr>w_state = s, w_log = w_log w @ [(c, r)]\<rparr>))"
  by (simp_all add: State_Monad.return_def State_Monad.bind_def api_def)

end
