(* ===== verification/Token.thy ===== *)
theory Token
  imports Crypto
begin

text \<open>
  The package \<open>pkg/token\<close>: placement tokens, which bind a pod to a node under an evidence set and a
  policy.

  \<open>time.Now()\<close> is an argument of every function that reads it. A nil key is \<open>None\<close>; the keys that
  reach these functions come from \<open>PrivKeyFromHex\<close> and \<open>PubKeyFromHex\<close>, which fix their lengths.
  \<open>json.Marshal\<close> cannot fail on these structs, so the branches that report its errors have no case.
  \<open>json.Unmarshal\<close> into the two structs is written out: names are matched without case, unknown
  members are ignored, \<open>null\<close> leaves a field as it is, a repeated member overwrites, and the first
  type error is reported after the whole input was read. The text of a syntax error is the parameter
  \<open>syn\<close>, a function of the input.

  Shown here: a minted token verifies until it expires, encoding and decoding round-trip up to invalid UTF-8,
  the exact condition under which a token is accepted for a pod, and that a signature pins every field.
\<close>

record Payload =
  pl_PodUID :: string
  pl_PodSpecHash :: string
  pl_ImageDigest :: string
  pl_ModelDigest :: string
  pl_NodeIdentity :: string
  pl_GPUIdentity :: string
  pl_RuntimeClass :: string
  pl_EvidenceHash :: string
  pl_PolicyHash :: string
  pl_KeyIdentifier :: string
  pl_IssuedAt :: int
  pl_ExpiresAt :: int

record Token =
  tok_Payload :: Payload
  tok_Signature :: string

record MintOptions =
  mo_GPUIdentity :: string
  mo_KeyIdentifier :: string

definition zero_payload :: Payload where
  "zero_payload =
     \<lparr>pl_PodUID = '''', pl_PodSpecHash = '''', pl_ImageDigest = '''', pl_ModelDigest = '''',
      pl_NodeIdentity = '''', pl_GPUIdentity = '''', pl_RuntimeClass = '''', pl_EvidenceHash = '''',
      pl_PolicyHash = '''', pl_KeyIdentifier = '''', pl_IssuedAt = 0, pl_ExpiresAt = 0\<rparr>"


section \<open>Encoding\<close>

definition opt_str :: "string \<Rightarrow> string \<Rightarrow> (string \<times> json) list" where
  "opt_str k s = (if s = '''' then [] else [(k, JStr s)])"

definition payload_json :: "Payload \<Rightarrow> json" where
  "payload_json p = JObj (
     [(''pod_uid'', JStr (pl_PodUID p)),
      (''pod_spec_hash'', JStr (pl_PodSpecHash p)),
      (''image_digest'', JStr (pl_ImageDigest p)),
      (''model_digest'', JStr (pl_ModelDigest p)),
      (''node_identity'', JStr (pl_NodeIdentity p))] @
     opt_str ''gpu_identity'' (pl_GPUIdentity p) @
     [(''runtime_class'', JStr (pl_RuntimeClass p)),
      (''evidence_hash'', JStr (pl_EvidenceHash p)),
      (''policy_hash'', JStr (pl_PolicyHash p))] @
     opt_str ''key_identifier'' (pl_KeyIdentifier p) @
     [(''issued_at'', JNum (pl_IssuedAt p)),
      (''expires_at'', JNum (pl_ExpiresAt p))])"

definition token_json :: "Token \<Rightarrow> json" where
  "token_json t =
     JObj [(''payload'', payload_json (tok_Payload t)), (''signature'', JStr (tok_Signature t))]"

definition Encode :: "Token \<Rightarrow> string" where
  "Encode tok = marshal (token_json tok)"


section \<open>Decoding\<close>

text \<open>The name folding of \<open>encoding/json\<close>: upper case on ASCII, and the two runes outside ASCII whose
  folding is an ASCII letter, the long s and the Kelvin sign.\<close>

fun foldName :: "string \<Rightarrow> string" where
  "foldName [] = []"
| "foldName (c # s) =
     (if starts [CHR 0xC5, CHR 0xBF] (c # s) then CHR ''S'' # foldName (drop 1 s)
      else if starts [CHR 0xE2, CHR 0x84, CHR 0xAA] (c # s) then CHR ''K'' # foldName (drop 2 s)
      else upper_char c # foldName s)"

text \<open>\<open>json.UnmarshalTypeError\<close>: the JSON value found, the struct and the dotted field path, the Go
  type.\<close>

datatype type_error = UnmarshalTypeError string string string string

fun type_error_text :: "type_error \<Rightarrow> string" where
  "type_error_text (UnmarshalTypeError val struct field typ) =
     (if struct = '''' then ''json: cannot unmarshal '' @ val @ '' into Go value of type '' @ typ
      else ''json: cannot unmarshal '' @ val @ '' into Go struct field '' @ struct @ ''.'' @ field @
           '' of type '' @ typ)"

fun kind :: "json \<Rightarrow> string" where
  "kind JNull = ''null''"
| "kind (JBool b) = ''bool''"
| "kind (JNum n) = ''number''"
| "kind (JDec t) = ''number''"
| "kind (JStr s) = ''string''"
| "kind (JArr xs) = ''array''"
| "kind (JObj m) = ''object''"

text \<open>Decoding one value into a \<open>string\<close> or an \<open>int64\<close> that holds \<open>old\<close>; \<open>Inl\<close> is the value's
  description in the error.\<close>

fun dec_string :: "json \<Rightarrow> string \<Rightarrow> string + string" where
  "dec_string JNull old = Inr old"
| "dec_string (JStr s) old = Inr s"
| "dec_string j old = Inl (kind j)"

fun dec_int64 :: "json \<Rightarrow> int \<Rightarrow> string + int" where
  "dec_int64 JNull old = Inr old"
| "dec_int64 (JNum n) old = (if int64 n then Inr n else Inl (''number '' @ itoa n))"
| "dec_int64 (JDec t) old = Inl (''number '' @ t)"
| "dec_int64 j old = Inl (kind j)"

text \<open>A struct under construction and the first type error so far (\<open>saveError\<close>).\<close>

type_synonym 'a decoding = "'a \<times> type_error option"

fun saveError :: "type_error \<Rightarrow> 'a decoding \<Rightarrow> 'a decoding" where
  "saveError e (x, None) = (x, Some e)"
| "saveError e (x, Some e0) = (x, Some e0)"

definition str_field :: "string \<Rightarrow> ('a \<Rightarrow> string) \<Rightarrow> ((string \<Rightarrow> string) \<Rightarrow> 'a \<Rightarrow> 'a) \<Rightarrow>
    (string \<times> string) \<Rightarrow> json \<Rightarrow> 'a decoding \<Rightarrow> 'a decoding" where
  "str_field name get upd ctx v d =
     (case dec_string v (get (fst d)) of
        Inr s \<Rightarrow> (upd (\<lambda>_. s) (fst d), snd d)
      | Inl k \<Rightarrow> saveError (UnmarshalTypeError k (fst ctx) (snd ctx @ name) ''string'') d)"

definition int_field :: "string \<Rightarrow> ('a \<Rightarrow> int) \<Rightarrow> ((int \<Rightarrow> int) \<Rightarrow> 'a \<Rightarrow> 'a) \<Rightarrow>
    (string \<times> string) \<Rightarrow> json \<Rightarrow> 'a decoding \<Rightarrow> 'a decoding" where
  "int_field name get upd ctx v d =
     (case dec_int64 v (get (fst d)) of
        Inr n \<Rightarrow> (upd (\<lambda>_. n) (fst d), snd d)
      | Inl k \<Rightarrow> saveError (UnmarshalTypeError k (fst ctx) (snd ctx @ name) ''int64'') d)"

text \<open>The fields of \<open>Payload\<close>, each with the decoder of its type.\<close>

definition payload_fields ::
  "(string \<times> ((string \<times> string) \<Rightarrow> json \<Rightarrow> Payload decoding \<Rightarrow> Payload decoding)) list" where
  "payload_fields =
     [(''pod_uid'', str_field ''pod_uid'' pl_PodUID pl_PodUID_update),
      (''pod_spec_hash'', str_field ''pod_spec_hash'' pl_PodSpecHash pl_PodSpecHash_update),
      (''image_digest'', str_field ''image_digest'' pl_ImageDigest pl_ImageDigest_update),
      (''model_digest'', str_field ''model_digest'' pl_ModelDigest pl_ModelDigest_update),
      (''node_identity'', str_field ''node_identity'' pl_NodeIdentity pl_NodeIdentity_update),
      (''gpu_identity'', str_field ''gpu_identity'' pl_GPUIdentity pl_GPUIdentity_update),
      (''runtime_class'', str_field ''runtime_class'' pl_RuntimeClass pl_RuntimeClass_update),
      (''evidence_hash'', str_field ''evidence_hash'' pl_EvidenceHash pl_EvidenceHash_update),
      (''policy_hash'', str_field ''policy_hash'' pl_PolicyHash pl_PolicyHash_update),
      (''key_identifier'', str_field ''key_identifier'' pl_KeyIdentifier pl_KeyIdentifier_update),
      (''issued_at'', int_field ''issued_at'' pl_IssuedAt pl_IssuedAt_update),
      (''expires_at'', int_field ''expires_at'' pl_ExpiresAt pl_ExpiresAt_update)]"

fun find_field :: "(string \<times> 'b) list \<Rightarrow> string \<Rightarrow> 'b option" where
  "find_field [] k = None"
| "find_field ((n, f) # fs) k = (if foldName k = foldName n then Some f else find_field fs k)"

definition dec_payload_member :: "Payload decoding \<Rightarrow> (string \<times> json) \<Rightarrow> Payload decoding" where
  "dec_payload_member d kv =
     (case find_field payload_fields (fst kv) of
        None \<Rightarrow> d
      | Some f \<Rightarrow> f (''Payload'', ''payload.'') (snd kv) d)"

fun dec_payload :: "json \<Rightarrow> Payload decoding \<Rightarrow> Payload decoding" where
  "dec_payload JNull d = d"
| "dec_payload (JObj kvs) d = foldl dec_payload_member d kvs"
| "dec_payload j d = saveError (UnmarshalTypeError (kind j) ''Token'' ''payload'' ''token.Payload'') d"

definition dec_token_member :: "Token decoding \<Rightarrow> (string \<times> json) \<Rightarrow> Token decoding" where
  "dec_token_member d kv =
     (if foldName (fst kv) = foldName ''payload'' then
        (case dec_payload (snd kv) (tok_Payload (fst d), snd d) of
           (p, e) \<Rightarrow> ((fst d)\<lparr>tok_Payload := p\<rparr>, e))
      else if foldName (fst kv) = foldName ''signature'' then
        str_field ''signature'' tok_Signature tok_Signature_update (''Token'', '''') (snd kv) d
      else d)"

fun dec_token :: "json \<Rightarrow> Token decoding \<Rightarrow> Token decoding" where
  "dec_token JNull d = d"
| "dec_token (JObj kvs) d = foldl dec_token_member d kvs"
| "dec_token j d = saveError (UnmarshalTypeError (kind j) '''' '''' ''token.Token'') d"

definition zero_token :: Token where
  "zero_token = \<lparr>tok_Payload = zero_payload, tok_Signature = ''''\<rparr>"

definition Decode :: "(string \<Rightarrow> string) \<Rightarrow> string \<Rightarrow> string + Token" where
  "Decode syn raw =
     (case parse_json raw of
        None \<Rightarrow> Inl (''decode token: '' @ syn raw)
      | Some j \<Rightarrow>
        (case dec_token j (zero_token, None) of
           (tok, None) \<Rightarrow> Inr tok
         | (tok, Some e) \<Rightarrow> Inl (''decode token: '' @ type_error_text e)))"


section \<open>Minting and verification\<close>

definition Mint :: "prims \<Rightarrow> gotime \<Rightarrow> string option \<Rightarrow> string \<Rightarrow> string \<Rightarrow> string \<Rightarrow> string \<Rightarrow>
    string \<Rightarrow> string \<Rightarrow> string \<Rightarrow> string \<Rightarrow> duration \<Rightarrow> MintOptions \<Rightarrow> string + Token" where
  "Mint P now priv podUID podSpecHash imageDigest modelDigest nodeIdentity runtimeClass evidenceHash
     policyHash ttl opts =
     (case priv of
        None \<Rightarrow> Inl ''private key is nil''
      | Some k \<Rightarrow>
        if TrimSpace podUID = '''' then Inl ''podUID is required''
        else
          (let payload =
             \<lparr>pl_PodUID = podUID, pl_PodSpecHash = podSpecHash, pl_ImageDigest = imageDigest,
              pl_ModelDigest = modelDigest, pl_NodeIdentity = nodeIdentity,
              pl_GPUIdentity = mo_GPUIdentity opts, pl_RuntimeClass = runtimeClass,
              pl_EvidenceHash = evidenceHash, pl_PolicyHash = policyHash,
              pl_KeyIdentifier = mo_KeyIdentifier opts,
              pl_IssuedAt = timeUnix now, pl_ExpiresAt = timeUnix (now + ttl)\<rparr>
           in Inr \<lparr>tok_Payload = payload,
                   tok_Signature = Ed25519Sign P k (marshal (payload_json payload))\<rparr>))"

text \<open>The error of \<open>Verify\<close>, \<open>None\<close> standing for nil.\<close>

definition Verify :: "prims \<Rightarrow> gotime \<Rightarrow> string option \<Rightarrow> Token \<Rightarrow> string option" where
  "Verify P now pub tok =
     (case pub of
        None \<Rightarrow> Some ''public key is nil''
      | Some k \<Rightarrow>
        if pl_ExpiresAt (tok_Payload tok) < timeUnix now then Some ''token expired''
        else
          (case Ed25519Verify P k (marshal (payload_json (tok_Payload tok))) (tok_Signature tok) of
             Inl e \<Rightarrow> Some (''verify token signature: '' @ e)
           | Inr ok \<Rightarrow> if ok then None else Some ''token signature invalid''))"

text \<open>\<open>token=%q request=%q\<close>, the form of every mismatch message.\<close>

definition mismatch :: "string \<Rightarrow> string \<Rightarrow> string \<Rightarrow> string" where
  "mismatch what a b = what @ '' mismatch: token='' @ fmt_q a @ '' request='' @ fmt_q b"

definition VerifyForPod :: "prims \<Rightarrow> gotime \<Rightarrow> string option \<Rightarrow> Token \<Rightarrow> string \<Rightarrow> string \<Rightarrow> string \<Rightarrow>
    string \<Rightarrow> string \<Rightarrow> string option" where
  "VerifyForPod P now pub tok podUID podSpecHash nodeIdentity evidenceHash policyHash =
     (case Verify P now pub tok of
        Some e \<Rightarrow> Some e
      | None \<Rightarrow>
        if pl_PodUID (tok_Payload tok) \<noteq> podUID
          then Some (mismatch ''pod UID'' (pl_PodUID (tok_Payload tok)) podUID)
        else if podSpecHash \<noteq> '''' \<and> pl_PodSpecHash (tok_Payload tok) \<noteq> podSpecHash
          then Some ''pod spec hash mismatch''
        else if nodeIdentity \<noteq> '''' \<and> pl_NodeIdentity (tok_Payload tok) \<noteq> nodeIdentity
          then Some ''node identity mismatch''
        else if evidenceHash \<noteq> '''' \<and> pl_EvidenceHash (tok_Payload tok) \<noteq> evidenceHash
          then Some ''evidence hash mismatch''
        else if policyHash \<noteq> '''' \<and> pl_PolicyHash (tok_Payload tok) \<noteq> policyHash
          then Some ''policy hash mismatch''
        else None)"


section \<open>Lemmas\<close>

lemma payload_json_no_dec [simp]: "no_dec (payload_json p)"
  by (simp add: payload_json_def opt_str_def)

lemma token_json_no_dec [simp]: "no_dec (token_json t)"
  by (simp add: token_json_def)

text \<open>The strings of a payload, and what becomes of a token whose strings are not valid UTF-8.\<close>

definition payload_text :: "Payload \<Rightarrow> bool" where
  "payload_text p \<longleftrightarrow> list_all valid_utf8
     [pl_PodUID p, pl_PodSpecHash p, pl_ImageDigest p, pl_ModelDigest p, pl_NodeIdentity p, pl_GPUIdentity p,
      pl_RuntimeClass p, pl_EvidenceHash p, pl_PolicyHash p, pl_KeyIdentifier p]"

definition clean_payload :: "Payload \<Rightarrow> Payload" where
  "clean_payload p =
     \<lparr>pl_PodUID = coerce (pl_PodUID p), pl_PodSpecHash = coerce (pl_PodSpecHash p),
      pl_ImageDigest = coerce (pl_ImageDigest p), pl_ModelDigest = coerce (pl_ModelDigest p),
      pl_NodeIdentity = coerce (pl_NodeIdentity p), pl_GPUIdentity = coerce (pl_GPUIdentity p),
      pl_RuntimeClass = coerce (pl_RuntimeClass p), pl_EvidenceHash = coerce (pl_EvidenceHash p),
      pl_PolicyHash = coerce (pl_PolicyHash p), pl_KeyIdentifier = coerce (pl_KeyIdentifier p),
      pl_IssuedAt = pl_IssuedAt p, pl_ExpiresAt = pl_ExpiresAt p\<rparr>"

definition clean_token :: "Token \<Rightarrow> Token" where
  "clean_token t = \<lparr>tok_Payload = clean_payload (tok_Payload t), tok_Signature = coerce (tok_Signature t)\<rparr>"

lemma clean_payload_json: "clean (payload_json p) = payload_json (clean_payload p)"
  by (simp add: payload_json_def opt_str_def clean_payload_def)

lemma clean_token_json: "clean (token_json t) = token_json (clean_token t)"
  by (simp add: token_json_def clean_token_def clean_payload_json)

lemma clean_payload_id: "payload_text p \<Longrightarrow> clean_payload p = p"
  by (cases p) (simp add: payload_text_def clean_payload_def)

lemma clean_token_id: "payload_text (tok_Payload t) \<Longrightarrow> valid_utf8 (tok_Signature t) \<Longrightarrow> clean_token t = t"
  by (cases t) (simp add: clean_token_def clean_payload_id)

lemma payload_json_inj: "payload_json p = payload_json q \<longleftrightarrow> p = q"
  by (cases p; cases q) (auto simp: payload_json_def opt_str_def split: if_splits)

lemma payload_bytes_inj:
  assumes "payload_text p" and "payload_text q"
  shows "marshal (payload_json p) = marshal (payload_json q) \<longleftrightarrow> p = q"
  using marshal_clean [of "payload_json p" "payload_json q"] assms
  by (auto simp: clean_payload_json clean_payload_id payload_json_inj)

lemma find_payload_field:
  "find_field payload_fields ''pod_uid'' =
     Some (str_field ''pod_uid'' pl_PodUID pl_PodUID_update)"
  "find_field payload_fields ''pod_spec_hash'' =
     Some (str_field ''pod_spec_hash'' pl_PodSpecHash pl_PodSpecHash_update)"
  "find_field payload_fields ''image_digest'' =
     Some (str_field ''image_digest'' pl_ImageDigest pl_ImageDigest_update)"
  "find_field payload_fields ''model_digest'' =
     Some (str_field ''model_digest'' pl_ModelDigest pl_ModelDigest_update)"
  "find_field payload_fields ''node_identity'' =
     Some (str_field ''node_identity'' pl_NodeIdentity pl_NodeIdentity_update)"
  "find_field payload_fields ''gpu_identity'' =
     Some (str_field ''gpu_identity'' pl_GPUIdentity pl_GPUIdentity_update)"
  "find_field payload_fields ''runtime_class'' =
     Some (str_field ''runtime_class'' pl_RuntimeClass pl_RuntimeClass_update)"
  "find_field payload_fields ''evidence_hash'' =
     Some (str_field ''evidence_hash'' pl_EvidenceHash pl_EvidenceHash_update)"
  "find_field payload_fields ''policy_hash'' =
     Some (str_field ''policy_hash'' pl_PolicyHash pl_PolicyHash_update)"
  "find_field payload_fields ''key_identifier'' =
     Some (str_field ''key_identifier'' pl_KeyIdentifier pl_KeyIdentifier_update)"
  "find_field payload_fields ''issued_at'' =
     Some (int_field ''issued_at'' pl_IssuedAt pl_IssuedAt_update)"
  "find_field payload_fields ''expires_at'' =
     Some (int_field ''expires_at'' pl_ExpiresAt pl_ExpiresAt_update)"
  by (simp_all add: payload_fields_def upper_char_def Let_def char_of_def bit_0)

text \<open>Reading back the members that \<open>payload_json\<close> writes rebuilds the payload.\<close>

lemma dec_payload_json:
  assumes "int64 (pl_IssuedAt p)" and "int64 (pl_ExpiresAt p)"
  shows "dec_payload (payload_json p) (zero_payload, e) = (p, e)"
  using assms
  by (cases p)
    (simp add: payload_json_def opt_str_def dec_payload_member_def find_payload_field str_field_def
      int_field_def zero_payload_def)

definition payload_times :: "Payload \<Rightarrow> bool" where
  "payload_times p \<longleftrightarrow> int64 (pl_IssuedAt p) \<and> int64 (pl_ExpiresAt p)"

definition payload_ok :: "Payload \<Rightarrow> bool" where
  "payload_ok p \<longleftrightarrow> payload_times p \<and> payload_text p"

lemma dec_token_json:
  "payload_times (tok_Payload t) \<Longrightarrow> dec_token (token_json t) (zero_token, None) = (t, None)"
proof -
  assume "payload_times (tok_Payload t)"
  moreover have "foldName ''payload'' \<noteq> foldName ''signature''"
    by (simp add: upper_char_def Let_def char_of_def bit_0)
  ultimately show ?thesis
    by (cases t) (simp add: token_json_def dec_token_member_def dec_payload_json payload_times_def
        str_field_def zero_token_def del: foldName.simps)
qed

lemma Decode_Encode_clean: "payload_times (tok_Payload t) \<Longrightarrow> Decode syn (Encode t) = Inr (clean_token t)"
  using dec_token_json [of "clean_token t"]
  by (simp add: Decode_def Encode_def parse_json_marshal clean_token_json)
    (simp add: clean_token_def clean_payload_def payload_times_def)

lemma Decode_Encode:
  "payload_ok (tok_Payload t) \<Longrightarrow> valid_utf8 (tok_Signature t) \<Longrightarrow> Decode syn (Encode t) = Inr t"
  by (simp add: Decode_Encode_clean payload_ok_def clean_token_id)

text \<open>A payload is what its signed bytes say: the contract of a signed payload.\<close>

interpretation placement_token: signable "\<lambda>p. Some (marshal (payload_json p))" payload_text "(=)"
  by unfold_locales (simp_all add: payload_bytes_inj)

lemma Verify_ok_iff:
  "Verify P now (Some pub) tok = None \<longleftrightarrow>
     timeUnix now \<le> pl_ExpiresAt (tok_Payload tok) \<and>
     Ed25519Verify P pub (marshal (payload_json (tok_Payload tok))) (tok_Signature tok) = Inr True"
  by (auto simp: Verify_def split: sum.splits if_splits)

lemma Verify_nil: "Verify P now None tok \<noteq> None"
  by (simp add: Verify_def)

lemma Verify_expired:
  "pl_ExpiresAt (tok_Payload tok) < timeUnix now \<Longrightarrow> Verify P now (Some pub) tok = Some ''token expired''"
  by (simp add: Verify_def)

lemma MintE:
  assumes "Mint P now priv u sh im md nd rc eh ph ttl opts = Inr tok"
  obtains k where "priv = Some k" "TrimSpace u \<noteq> ''''"
    "pl_PodUID (tok_Payload tok) = u" "pl_PodSpecHash (tok_Payload tok) = sh"
    "pl_ImageDigest (tok_Payload tok) = im" "pl_ModelDigest (tok_Payload tok) = md"
    "pl_NodeIdentity (tok_Payload tok) = nd" "pl_RuntimeClass (tok_Payload tok) = rc"
    "pl_EvidenceHash (tok_Payload tok) = eh" "pl_PolicyHash (tok_Payload tok) = ph"
    "pl_IssuedAt (tok_Payload tok) = timeUnix now"
    "pl_ExpiresAt (tok_Payload tok) = timeUnix (now + ttl)"
    "tok_Signature tok = Ed25519Sign P k (marshal (payload_json (tok_Payload tok)))"
    "pl_GPUIdentity (tok_Payload tok) = mo_GPUIdentity opts" "pl_KeyIdentifier (tok_Payload tok) = mo_KeyIdentifier opts"
  using assms by (auto simp: Mint_def Let_def split: option.splits if_splits)

lemma Mint_signature: "Mint P now priv u sh im md nd rc eh ph ttl opts = Inr tok \<Longrightarrow> valid_utf8 (tok_Signature tok)"
  by (erule MintE) (simp add: Ed25519Sign_def)

lemma Mint_Verify:
  assumes "ed25519_ok P" and "length k = PrivateKeySize"
    and "Mint P now (Some k) u sh im md nd rc eh ph ttl opts = Inr tok"
  shows "Verify P t (Some (p_public P k)) tok =
    (if timeUnix t \<le> timeUnix (now + ttl) then None else Some ''token expired'')"
proof -
  from assms(3) obtain k' where k': "Some k = Some k'"
    and e: "pl_ExpiresAt (tok_Payload tok) = timeUnix (now + ttl)"
    and s: "tok_Signature tok = Ed25519Sign P k' (marshal (payload_json (tok_Payload tok)))"
    by (rule MintE)
  show ?thesis
  proof (cases "timeUnix t \<le> timeUnix (now + ttl)")
    case True
    then have "Verify P t (Some (p_public P k)) tok = None"
      unfolding Verify_ok_iff using e s k' Ed25519Verify_Sign [OF assms(1,2)] by simp
    with True show ?thesis by simp
  next
    case False
    then show ?thesis using e by (simp add: Verify_expired)
  qed
qed


section \<open>Consumers of tokens\<close>

text \<open>The contract of a program that checks the text of a token against a public key: it accepts the text of
  a token exactly when the token verifies and its payload fits what the program asks for. What follows for
  tokens that were minted is shown once.\<close>

locale token_check =
  fixes P :: prims and pub :: string and check :: "gotime \<Rightarrow> string \<Rightarrow> bool" and fits :: "Payload \<Rightarrow> bool"
  assumes check_encoded: "length pub = PublicKeySize \<Longrightarrow> payload_ok (tok_Payload tok) \<Longrightarrow>
    valid_utf8 (tok_Signature tok) \<Longrightarrow> check now (Encode tok) \<longleftrightarrow> Verify P now (Some pub) tok = None \<and> fits (tok_Payload tok)"
begin

text \<open>A minted token is accepted until its last second, where it fits.\<close>

lemma check_minted:
  assumes "ed25519_ok P" and "length k = PrivateKeySize" and "pub = p_public P k"
    and "Mint P now (Some k) u sh im md nd rc eh ph ttl opts = Inr tok" and "payload_ok (tok_Payload tok)"
  shows "check t (Encode tok) \<longleftrightarrow> timeUnix t \<le> timeUnix (now + ttl) \<and> fits (tok_Payload tok)"
proof -
  have "length pub = PublicKeySize" using assms(1-3) by (simp add: ed25519_ok_def)
  then show ?thesis
    using check_encoded [OF _ assms(5) Mint_signature [OF assms(4)]] Mint_Verify [OF assms(1, 2, 4), of t] assms(3) by simp
qed

end


section \<open>Properties\<close>

text \<open>Minting succeeds with a key and a pod UID that is not blank; the token carries the given
  bindings and, under the minting key's public half, verifies at every instant up to its expiry
  second and is reported expired after it.\<close>

theorem mint_verify:
  assumes "ed25519_ok P" and "length k = PrivateKeySize" and "TrimSpace u \<noteq> ''''"
  shows "\<exists>tok. Mint P now (Some k) u sh im md nd rc eh ph ttl opts = Inr tok \<and>
     pl_PodUID (tok_Payload tok) = u \<and> pl_PodSpecHash (tok_Payload tok) = sh \<and>
     pl_ImageDigest (tok_Payload tok) = im \<and> pl_ModelDigest (tok_Payload tok) = md \<and>
     pl_NodeIdentity (tok_Payload tok) = nd \<and> pl_RuntimeClass (tok_Payload tok) = rc \<and>
     pl_EvidenceHash (tok_Payload tok) = eh \<and> pl_PolicyHash (tok_Payload tok) = ph \<and>
     (\<forall>t. Verify P t (Some (p_public P k)) tok =
        (if timeUnix t \<le> timeUnix (now + ttl) then None else Some ''token expired''))"
proof -
  obtain tok where m: "Mint P now (Some k) u sh im md nd rc eh ph ttl opts = Inr tok"
    using assms(3) by (simp add: Mint_def Let_def)
  show ?thesis
    by (rule exI [of _ tok]) (use m Mint_Verify [OF assms(1,2) m] in \<open>auto elim!: MintE\<close>)
qed

definition demo_key :: string where
  "demo_key = replicate 64 CHR ''k''"

lemma demo_key_length [simp]: "length demo_key = PrivateKeySize"
  by (simp add: demo_key_def PrivateKeySize_def)

theorem mint_verify_witness:
  "\<exists>tok. Mint demo_prims 0 (Some demo_key) ''uid-1'' ''sh'' ''im'' ''md'' ''node-1'' ''rc'' ''eh'' ''ph''
      (300 * Second) \<lparr>mo_GPUIdentity = '''', mo_KeyIdentifier = ''''\<rparr> = Inr tok \<and>
    Verify demo_prims (300 * Second) (Some (p_public demo_prims demo_key)) tok = None \<and>
    Verify demo_prims (301 * Second) (Some (p_public demo_prims demo_key)) tok = Some ''token expired''"
proof -
  have u: "TrimSpace ''uid-1'' \<noteq> ''''" by (simp add: TrimSpace_graphic graphic_def)
  show ?thesis
    using mint_verify [OF demo_prims_ok demo_key_length u, of 0 "''sh''" "''im''" "''md''" "''node-1''"
        "''rc''" "''eh''" "''ph''" "300 * Second" "\<lparr>mo_GPUIdentity = '''', mo_KeyIdentifier = ''''\<rparr>"]
    by (force simp: timeUnix_def Second_def)
qed

text \<open>C20. Encoding and decoding round-trip: a token whose two times are \<open>int64\<close> values is read back
  field by field from its JSON text, whatever quotes, control characters or empty fields it has. Bytes that are not
  valid UTF-8 come back as U+FFFD, and a token of valid UTF-8 comes back unchanged, so that the decoded token
  verifies exactly when the encoded one did.\<close>

theorem token_roundtrip:
  assumes "payload_times (tok_Payload tok)"
  shows "Decode syn (Encode tok) = Inr (clean_token tok) \<and>
    (payload_text (tok_Payload tok) \<and> valid_utf8 (tok_Signature tok) \<longrightarrow> Decode syn (Encode tok) = Inr tok)"
  using Decode_Encode_clean [OF assms] clean_token_id by simp

definition demo_payload :: Payload where
  "demo_payload = zero_payload\<lparr>pl_PodUID := ''uid-1'', pl_NodeIdentity := ''node-1'',
     pl_GPUIdentity := ''gpu <0>'', pl_ExpiresAt := 300\<rparr>"

theorem token_roundtrip_witness:
  "Decode (\<lambda>_. '''') (Encode \<lparr>tok_Payload = demo_payload, tok_Signature = ''ab''\<rparr>)
     = Inr \<lparr>tok_Payload = demo_payload, tok_Signature = ''ab''\<rparr>"
proof -
  have "payload_times demo_payload" "payload_text demo_payload"
    by (simp_all add: payload_times_def payload_text_def demo_payload_def zero_payload_def int64_def)
  then show ?thesis by (intro token_roundtrip [THEN conjunct2, rule_format]) simp_all
qed

text \<open>C19. \<open>VerifyForPod\<close> accepts a token exactly when a public key is given, the token has not
  expired, its signature verifies, it is bound to this pod, and each of the spec hash, node, evidence
  hash and policy hash that the caller supplies is the token's.\<close>

theorem verify_for_pod_exact:
  "VerifyForPod P now pub tok uid sh nd eh ph = None \<longleftrightarrow>
     (\<exists>k. pub = Some k \<and> timeUnix now \<le> pl_ExpiresAt (tok_Payload tok) \<and>
        Ed25519Verify P k (marshal (payload_json (tok_Payload tok))) (tok_Signature tok) = Inr True) \<and>
     pl_PodUID (tok_Payload tok) = uid \<and>
     sh \<in> {'''', pl_PodSpecHash (tok_Payload tok)} \<and>
     nd \<in> {'''', pl_NodeIdentity (tok_Payload tok)} \<and>
     eh \<in> {'''', pl_EvidenceHash (tok_Payload tok)} \<and>
     ph \<in> {'''', pl_PolicyHash (tok_Payload tok)}"
proof (cases pub)
  case None
  then show ?thesis by (auto simp: VerifyForPod_def Verify_def)
next
  case (Some k)
  show ?thesis
  proof (cases "Verify P now pub tok")
    case None
    then have "timeUnix now \<le> pl_ExpiresAt (tok_Payload tok) \<and>
        Ed25519Verify P k (marshal (payload_json (tok_Payload tok))) (tok_Signature tok) = Inr True"
      using Some by (simp add: Verify_ok_iff)
    then show ?thesis using None Some by (auto simp: VerifyForPod_def)
  next
    case (Some e)
    then show ?thesis using \<open>pub = Some k\<close> Verify_ok_iff [of P now k tok]
      by (auto simp: VerifyForPod_def)
  qed
qed

text \<open>C18. A signature pins every field of a token. If the owner of the key signed the payloads of \<open>S\<close> and
  \<open>Verify\<close> accepts a token, then its payload is one of them, unchanged, or the token's signature is an Ed25519
  forgery on the token's own bytes.\<close>

theorem token_unforgeable:
  assumes "Verify P now (Some pub) tok = None" and "payload_text (tok_Payload tok)" and "\<forall>q\<in>S. payload_text q"
  shows "tok_Payload tok \<in> S \<or>
    (\<exists>sig. DecodeString (tok_Signature tok) = Inr sig \<and>
       forgery P pub {marshal (payload_json q) |q. q \<in> S} (marshal (payload_json (tok_Payload tok))) sig)"
proof -
  from assms(1) obtain sig where "DecodeString (tok_Signature tok) = Inr sig"
    and v: "p_verify P pub (marshal (payload_json (tok_Payload tok))) sig"
    by (auto simp: Verify_ok_iff Ed25519Verify_def split: sum.splits)
  moreover have "{m. \<exists>q\<in>S. Some (marshal (payload_json q)) = Some m} = {marshal (payload_json q) |q. q \<in> S}" by auto
  ultimately show ?thesis using placement_token.signed_or_forged [OF assms(3,2) refl v] by auto
qed

text \<open>The key's owner signed a payload for another node: that a token for \<open>node-1\<close> verifies shows a signature
  beyond what was signed for \<open>S\<close>.\<close>

theorem token_unforgeable_witness:
  "\<exists>tok sig. Verify demo_prims 0 (Some (p_public demo_prims demo_key)) tok = None \<and> tok_Payload tok = demo_payload \<and>
     forgery demo_prims (p_public demo_prims demo_key)
       {marshal (payload_json q) |q. q \<in> {demo_payload\<lparr>pl_NodeIdentity := ''node-2''\<rparr>}} (marshal (payload_json demo_payload)) sig"
proof -
  let ?t = "\<lparr>tok_Payload = demo_payload, tok_Signature = Ed25519Sign demo_prims demo_key (marshal (payload_json demo_payload))\<rparr>"
  let ?q = "demo_payload\<lparr>pl_NodeIdentity := ''node-2''\<rparr>"
  have e: "pl_ExpiresAt demo_payload = 300" by (simp add: demo_payload_def zero_payload_def)
  have v: "Verify demo_prims 0 (Some (p_public demo_prims demo_key)) ?t = None"
    using Ed25519Verify_Sign [OF demo_prims_ok demo_key_length] by (simp add: Verify_ok_iff timeUnix_def e)
  have t: "payload_text (tok_Payload ?t)" "\<forall>q\<in>{?q}. payload_text q"
    by (simp_all add: payload_text_def demo_payload_def zero_payload_def)
  have "demo_payload \<noteq> ?q" by (simp add: demo_payload_def zero_payload_def)
  then show ?thesis using token_unforgeable [OF v t] v by auto
qed

end
