(* ===== verification/Float64.thy ===== *)
theory Float64
  imports Complex_Main "HOL-Library.Log_Nat"
begin

text \<open>
  Go's \<open>float64\<close> as far as the scheduler's score uses it: a finite value is the rational it stands
  for, and every operation is the exact one followed by \<open>f64\<close>, rounding to 53 significant bits, ties
  to even. The exponent is unbounded: the quotients and products of the score stay between
  \<open>2 ^ - 70\<close> and \<open>2 ^ 70\<close> in magnitude (or are zero), far from overflow and from subnormal numbers.

  Shown here: rounding is monotone, keeps the sign, and is exact on the small integers.
\<close>

definition pow2 :: "int \<Rightarrow> rat" where
  "pow2 e = (if 0 \<le> e then 2 ^ nat e else 1 / 2 ^ nat (- e))"

text \<open>Rounding to an integer, ties to even.\<close>

definition rne :: "rat \<Rightarrow> int" where
  "rne y = (let f = \<lfloor>y\<rfloor>; r = y - of_int f in
     if r < 1 / 2 then f else if 1 / 2 < r then f + 1 else if even f then f else f + 1)"

text \<open>The binary logarithm of a positive rational, rounded down.\<close>

definition lg :: "rat \<Rightarrow> int" where
  "lg x = (case quotient_of x of (n, d) \<Rightarrow>
     let k = int (floorlog 2 (nat n)) - int (floorlog 2 (nat d)) in if pow2 k \<le> x then k else k - 1)"

definition f64_pos :: "rat \<Rightarrow> rat" where
  "f64_pos x = of_int (rne (x / pow2 (lg x - 52))) * pow2 (lg x - 52)"

definition f64 :: "rat \<Rightarrow> rat" where
  "f64 x = (if x = 0 then 0 else if 0 < x then f64_pos x else - f64_pos (- x))"

text \<open>Conversion to an integer truncates.\<close>

definition trunc :: "rat \<Rightarrow> int" where
  "trunc x = (if 0 \<le> x then \<lfloor>x\<rfloor> else - \<lfloor>- x\<rfloor>)"


section \<open>Powers of two\<close>

lemma pow2_pos [simp]: "0 < pow2 e"
  by (simp add: pow2_def)

lemma pow2_nonneg [simp]: "0 \<le> pow2 e"
  using pow2_pos [of e] by linarith

lemma pow2_Suc: "pow2 (e + 1) = 2 * pow2 e"
proof (cases "0 \<le> e")
  case True
  then show ?thesis by (simp add: pow2_def nat_add_distrib)
next
  case False
  then have "nat (- e) = Suc (nat (- (e + 1)))" by simp
  then show ?thesis using False by (cases "e = - 1") (simp_all add: pow2_def)
qed

lemma pow2_add_nat: "pow2 (e + int n) = 2 ^ n * pow2 e"
proof (induction n)
  case 0
  then show ?case by simp
next
  case (Suc n)
  have "pow2 (e + int (Suc n)) = pow2 ((e + int n) + 1)" by (simp add: ac_simps)
  then show ?case using Suc by (simp add: pow2_Suc)
qed

lemma pow2_mono: "a \<le> b \<Longrightarrow> pow2 a \<le> pow2 b"
proof -
  assume "a \<le> b"
  then obtain n where "b = a + int n" using zle_iff_zadd by auto
  moreover have "1 * pow2 a \<le> 2 ^ n * pow2 a" by (rule mult_right_mono) simp_all
  ultimately show ?thesis by (simp add: pow2_add_nat)
qed

lemma pow2_strict_mono_iff: "pow2 a < pow2 b \<Longrightarrow> a < b"
  using pow2_mono [of b a] by force

lemma pow2_nat: "pow2 (int n) = 2 ^ n"
  using pow2_add_nat [of 0 n] by (simp add: pow2_def)

lemma pow2_diff: "pow2 (int a - int b) = 2 ^ a / 2 ^ b"
proof -
  have "pow2 (int a - int b + int b) = 2 ^ b * pow2 (int a - int b)" by (rule pow2_add_nat)
  then show ?thesis by (simp add: pow2_nat field_simps)
qed

text \<open>The logarithm brackets its argument.\<close>

lemma floorlog_bounds:
  assumes "0 < (n :: int)"
  shows "(2 :: rat) ^ (floorlog 2 (nat n)) \<le> 2 * of_int n" and "of_int n < (2 :: rat) ^ floorlog 2 (nat n)"
proof -
  have b: "2 ^ (floorlog 2 (nat n) - 1) \<le> nat n" "nat n < 2 ^ floorlog 2 (nat n)"
    using floorlog_bounds [of "nat n" 2] assms by auto
  have "floorlog 2 (nat n) \<noteq> 0" using assms by (simp add: floorlog_def)
  then have e: "(2 :: nat) ^ floorlog 2 (nat n) = 2 * 2 ^ (floorlog 2 (nat n) - 1)"
    by (cases "floorlog 2 (nat n)") simp_all
  have "(2 :: nat) ^ floorlog 2 (nat n) \<le> 2 * nat n" using b(1) e by simp
  then have "(of_nat (2 ^ floorlog 2 (nat n)) :: rat) \<le> of_nat (2 * nat n)" by (simp only: of_nat_le_iff)
  then show "(2 :: rat) ^ (floorlog 2 (nat n)) \<le> 2 * of_int n" using assms by simp
  have "(of_nat (nat n) :: rat) < of_nat (2 ^ floorlog 2 (nat n))" using b(2) by (simp only: of_nat_less_iff)
  then show "of_int n < (2 :: rat) ^ floorlog 2 (nat n)" using assms by simp
qed

lemma lg_bounds:
  assumes "0 < x"
  shows "pow2 (lg x) \<le> x" and "x < pow2 (lg x + 1)"
proof -
  obtain n d where q: "quotient_of x = (n, d)" by (cases "quotient_of x")
  have d: "0 < d" and x: "x = of_int n / of_int d"
    using quotient_of_denom_pos [OF q] quotient_of_div [OF q] by simp_all
  have n: "0 < n" using assms d x by (simp add: zero_less_divide_iff)
  let ?a = "floorlog 2 (nat n)" and ?b = "floorlog 2 (nat d)"
  let ?k = "int ?a - int ?b"
  note nb = floorlog_bounds [OF n] and db = floorlog_bounds [OF d]
  have up: "x < pow2 (?k + 1)"
  proof -
    have "of_int n * 2 ^ ?b < 2 ^ ?a * (2 * of_int d :: rat)"
      using nb(2) db(1) d n by (intro mult_less_le_imp_less) simp_all
    then show ?thesis using d unfolding pow2_Suc pow2_diff x by (simp add: field_simps)
  qed
  have lo: "pow2 (?k - 1) \<le> x"
  proof -
    have "(2 :: rat) ^ ?a * of_int d \<le> (2 * of_int n) * 2 ^ ?b"
      using nb(1) db(2) d n by (intro mult_mono) simp_all
    then have "pow2 ?k \<le> 2 * x" using d unfolding pow2_diff x by (simp add: field_simps)
    moreover have "pow2 ?k = 2 * pow2 (?k - 1)" using pow2_Suc [of "?k - 1"] by simp
    ultimately show ?thesis by simp
  qed
  have l: "lg x = (if pow2 ?k \<le> x then ?k else ?k - 1)" by (simp add: lg_def q Let_def)
  show "pow2 (lg x) \<le> x" using l lo by simp
  show "x < pow2 (lg x + 1)" using l up by (simp add: not_le)
qed

lemma lg_mono: "0 < x \<Longrightarrow> x \<le> y \<Longrightarrow> lg x \<le> lg y"
proof -
  assume x: "0 < x" "x \<le> y"
  then have "pow2 (lg x) < pow2 (lg y + 1)" using lg_bounds [of x] lg_bounds [of y] by linarith
  then show ?thesis using pow2_strict_mono_iff by fastforce
qed


section \<open>Rounding\<close>

lemma rne_of_int: "rne (of_int m) = m"
  by (simp add: rne_def)

lemma rne_le: "y \<le> of_int m \<Longrightarrow> rne y \<le> m"
proof -
  assume y: "y \<le> of_int m"
  then have f: "\<lfloor>y\<rfloor> \<le> m" by (simp add: floor_le_iff)
  show ?thesis
  proof (cases "\<lfloor>y\<rfloor> = m")
    case True
    then have "y = of_int m" using y of_int_floor_le [of y] by simp
    then show ?thesis by (simp add: rne_def Let_def)
  next
    case False
    then show ?thesis using f by (simp add: rne_def Let_def)
  qed
qed

lemma rne_ge_floor: "\<lfloor>y\<rfloor> \<le> rne y"
  by (simp add: rne_def Let_def)

lemma rne_ge: "of_int m \<le> y \<Longrightarrow> m \<le> rne y"
  using rne_ge_floor [of y] by (metis le_floor_iff order_trans)

lemma rne_mono: "x \<le> y \<Longrightarrow> rne x \<le> rne y"
proof -
  assume xy: "x \<le> y"
  show ?thesis
  proof (cases "\<lfloor>x\<rfloor> = \<lfloor>y\<rfloor>")
    case True
    then show ?thesis using xy by (simp add: rne_def Let_def)
  next
    case False
    then have "\<lfloor>x\<rfloor> + 1 \<le> \<lfloor>y\<rfloor>" using floor_mono [OF xy] by simp
    moreover have "rne x \<le> \<lfloor>x\<rfloor> + 1" by (simp add: rne_def Let_def)
    ultimately show ?thesis using rne_ge_floor [of y] by simp
  qed
qed

lemma f64_pos_nonneg: "0 < x \<Longrightarrow> 0 \<le> f64_pos x"
proof -
  assume "0 < x"
  then have "0 \<le> rne (x / pow2 (lg x - 52))" by (intro rne_ge) simp
  then show ?thesis by (simp add: f64_pos_def)
qed

text \<open>A rounded value lies between the powers of two that bracket its argument.\<close>

lemma f64_pos_bracket:
  assumes "0 < x"
  shows "pow2 (lg x) \<le> f64_pos x" and "f64_pos x \<le> pow2 (lg x + 1)"
proof -
  let ?u = "pow2 (lg x - 52)"
  have p: "pow2 (lg x) = 2 ^ 52 * ?u" "pow2 (lg x + 1) = 2 ^ 53 * ?u"
    using pow2_add_nat [of "lg x - 52" 52] pow2_add_nat [of "lg x - 52" 53]
    by (simp_all add: add.commute)
  have "of_int (2 ^ 52) \<le> x / ?u" "x / ?u \<le> of_int (2 ^ 53)"
    using lg_bounds [OF assms] p by (simp_all add: field_simps)
  then have "2 ^ 52 \<le> rne (x / ?u)" "rne (x / ?u) \<le> 2 ^ 53"
    using rne_ge rne_le by blast+
  then have "(of_int (2 ^ 52) :: rat) \<le> of_int (rne (x / ?u))" "(of_int (rne (x / ?u)) :: rat) \<le> of_int (2 ^ 53)"
    by (simp_all only: of_int_le_iff)
  then show "pow2 (lg x) \<le> f64_pos x" "f64_pos x \<le> pow2 (lg x + 1)"
    unfolding p f64_pos_def by (intro mult_right_mono; simp)+
qed

lemma f64_pos_mono: "0 < x \<Longrightarrow> x \<le> y \<Longrightarrow> f64_pos x \<le> f64_pos y"
proof -
  assume x: "0 < x" "x \<le> y"
  show ?thesis
  proof (cases "lg x = lg y")
    case True
    have "x / pow2 (lg y - 52) \<le> y / pow2 (lg y - 52)" using x by (simp add: divide_right_mono)
    then show ?thesis using True rne_mono by (simp add: f64_pos_def mult_right_mono)
  next
    case False
    then have "lg x + 1 \<le> lg y" using lg_mono [OF x] by simp
    then have "pow2 (lg x + 1) \<le> pow2 (lg y)" by (rule pow2_mono)
    then show ?thesis using f64_pos_bracket [of x] f64_pos_bracket [of y] x by linarith
  qed
qed

lemma f64_mono: "x \<le> y \<Longrightarrow> f64 x \<le> f64 y"
proof -
  assume xy: "x \<le> y"
  consider "0 < x" | "x = 0" | "x < 0" "0 \<le> y" | "x < 0" "y < 0" by linarith
  then show ?thesis
  proof cases
    case 1
    then show ?thesis using xy f64_pos_mono by (simp add: f64_def)
  next
    case 2
    then show ?thesis using xy f64_pos_nonneg by (auto simp: f64_def)
  next
    case 3
    then show ?thesis using f64_pos_nonneg [of "- x"] f64_pos_nonneg [of y] by (auto simp: f64_def)
  next
    case 4
    then show ?thesis using f64_pos_mono [of "- y" "- x"] xy by (simp add: f64_def)
  qed
qed

lemma f64_0 [simp]: "f64 0 = 0"
  by (simp add: f64_def)

lemma f64_small_int:
  assumes "0 < n" and "n < 2 ^ 53"
  shows "f64 (of_int n) = of_int n"
proof -
  let ?x = "of_int n :: rat"
  have x: "0 < ?x" using assms(1) by simp
  have "of_int n < (of_int (2 ^ 53) :: rat)" using assms(2) by (simp only: of_int_less_iff)
  then have "pow2 (lg ?x) < pow2 53" using lg_bounds(1) [OF x] pow2_nat [of 53] by simp
  then have "lg ?x < 53" by (rule pow2_strict_mono_iff)
  then obtain k where k: "52 - lg ?x = int k" using nonneg_int_cases [of "52 - lg ?x"] by auto
  then have "lg ?x - 52 = int 0 - int k" by simp
  then have u: "pow2 (lg ?x - 52) = 1 / 2 ^ k" using pow2_diff [of 0 k] by (simp only:) simp
  have "?x / pow2 (lg ?x - 52) = of_int (n * 2 ^ k)" by (simp add: u)
  then have "rne (?x / pow2 (lg ?x - 52)) = n * 2 ^ k" by (simp only: rne_of_int)
  then show ?thesis using x by (simp add: f64_def f64_pos_def u)
qed

lemma f64_numerals [simp]: "f64 1 = 1" "f64 50 = 50"
  using f64_small_int [of 1] f64_small_int [of 50] by simp_all

lemma f64_nonneg: "0 \<le> x \<Longrightarrow> 0 \<le> f64 x"
  using f64_mono [of 0 x] by simp

lemma trunc_mono: "0 \<le> x \<Longrightarrow> x \<le> y \<Longrightarrow> trunc x \<le> trunc y"
  by (simp add: trunc_def floor_mono)

end
