(* ===== verification/Maa.thy ===== *)
theory Maa
  imports Kube Token Float64
begin

text \<open>
  The verifier of Microsoft Azure Attestation tokens, \<open>pkg/attestation/maa\<close>.

  The JWT library, X.509 parsing and RSA signatures are parameters, the record \<open>jwtlib\<close>: parsing
  without verification, parsing with a key function, and reading an RSA key out of a certificate. The
  claims are the JSON members of the token's payload. Fetching the signing keys is a call of the
  server, like the clock. The fields of \<open>Options\<close> that only tests set (a clock, a key function, an HTTP
  client) are left out. Of several members \<open>keys\<close> of a key set the last one counts.
\<close>

definition StatusVerified :: string where "StatusVerified = ''Verified''"
definition StatusFailed :: string where "StatusFailed = ''Failed''"
definition StatusUnavailable :: string where "StatusUnavailable = ''Unavailable''"

type_synonym jmap = "(string \<times> json) list"

record Claims =
  cl_Issuer :: string
  cl_IssuedAt :: int
  cl_NotBefore :: int
  cl_ExpiresAt :: int
  cl_Nonce :: string
  cl_AttestationType :: string
  cl_ComplianceState :: string
  cl_IsolationTEE :: "jmap option"
  cl_Raw :: jmap

record MaaOptions =
  mao_ExpectedNonce :: string
  mao_ExpectedTEE :: string
  mao_MaxAge :: duration
  mao_AllowedIssuerPrefix :: string

record MaaResult =
  mr_Status :: string
  mr_Reason :: string
  mr_Claims :: "Claims option"
  mr_ClaimsDigest :: string
  mr_TokenHash :: string
  mr_IssuedAt :: gotime
  mr_ExpiresAt :: gotime

record rsaPub =
  rsa_N :: nat
  rsa_E :: int

record jwtlib =
  jw_peek :: "string \<Rightarrow> string + jmap" \<comment> \<open>\<open>ParseUnverified\<close> into \<open>MapClaims\<close>\<close>
  jw_parse :: "gotime \<Rightarrow> string \<Rightarrow> (string \<Rightarrow> string + rsaPub) \<Rightarrow> string + bool \<times> jmap"
    \<comment> \<open>\<open>Parse\<close> with RS256 only: the key function is given the header's \<open>kid\<close> (empty when it has none);
      the result is \<open>Valid\<close> and the claims\<close>
  jw_cert :: "string \<Rightarrow> string + rsaPub option" \<comment> \<open>\<open>x509.ParseCertificate\<close>; \<open>None\<close> is a key that is not RSA\<close>
  jw_durText :: "duration \<Rightarrow> string" \<comment> \<open>\<open>Duration.String\<close>\<close>
  jw_roundText :: "duration \<Rightarrow> string" \<comment> \<open>\<open>Duration.Round(time.Second).String\<close>\<close>
  jw_syntax :: "string \<Rightarrow> string" \<comment> \<open>the text of a JSON syntax error\<close>


section \<open>Base64\<close>

definition b64_std :: "char \<Rightarrow> nat option" where
  "b64_std c =
     (let n = of_char c :: nat in
      if 65 \<le> n \<and> n \<le> 90 then Some (n - 65)
      else if 97 \<le> n \<and> n \<le> 122 then Some (n - 71)
      else if 48 \<le> n \<and> n \<le> 57 then Some (n + 4)
      else if n = 43 then Some 62 else if n = 47 then Some 63 else None)"

definition b64_url :: "char \<Rightarrow> nat option" where
  "b64_url c =
     (let n = of_char c :: nat in
      if 65 \<le> n \<and> n \<le> 90 then Some (n - 65)
      else if 97 \<le> n \<and> n \<le> 122 then Some (n - 71)
      else if 48 \<le> n \<and> n \<le> 57 then Some (n + 4)
      else if n = 45 then Some 62 else if n = 95 then Some 63 else None)"

text \<open>Groups of two, three and four digits: one, two and three bytes.\<close>

definition b64_two :: "(char \<Rightarrow> nat option) \<Rightarrow> char \<Rightarrow> char \<Rightarrow> string option" where
  "b64_two v a b = (case (v a, v b) of (Some p, Some q) \<Rightarrow> Some [char_of (p * 4 + q div 16)] | _ \<Rightarrow> None)"

definition b64_three :: "(char \<Rightarrow> nat option) \<Rightarrow> char \<Rightarrow> char \<Rightarrow> char \<Rightarrow> string option" where
  "b64_three v a b c =
     (case (v a, v b, v c) of
        (Some p, Some q, Some r) \<Rightarrow> Some [char_of (p * 4 + q div 16), char_of (q mod 16 * 16 + r div 4)]
      | _ \<Rightarrow> None)"

definition b64_four :: "(char \<Rightarrow> nat option) \<Rightarrow> char \<Rightarrow> char \<Rightarrow> char \<Rightarrow> char \<Rightarrow> string option" where
  "b64_four v a b c d =
     (case (v a, v b, v c, v d) of
        (Some p, Some q, Some r, Some s) \<Rightarrow>
          Some [char_of (p * 4 + q div 16), char_of (q mod 16 * 16 + r div 4), char_of (r mod 4 * 64 + s)]
      | _ \<Rightarrow> None)"

fun b64_groups :: "(char \<Rightarrow> nat option) \<Rightarrow> bool \<Rightarrow> string \<Rightarrow> string option" where
  "b64_groups v pad [] = Some []"
| "b64_groups v pad [a] = None"
| "b64_groups v pad [a, b] = (if pad then None else b64_two v a b)"
| "b64_groups v pad [a, b, c] = (if pad then None else b64_three v a b c)"
| "b64_groups v pad (a # b # c # d # r) =
     (if pad \<and> d = CHR ''='' then
        (if r \<noteq> [] then None
         else if c = CHR ''='' then b64_two v a b else b64_three v a b c)
      else
        (case b64_four v a b c d of None \<Rightarrow> None
         | Some x \<Rightarrow> map_option ((@) x) (b64_groups v pad r)))"

text \<open>Line breaks are skipped.\<close>

definition b64_decode :: "(char \<Rightarrow> nat option) \<Rightarrow> bool \<Rightarrow> string \<Rightarrow> string option" where
  "b64_decode v pad s = b64_groups v pad (filter (\<lambda>c. c \<noteq> CHR 0x0A \<and> c \<noteq> CHR 0x0D) s)"

definition StdEncoding_Decode :: "string \<Rightarrow> string option" where
  "StdEncoding_Decode s = b64_decode b64_std True s"

definition RawURLEncoding_Decode :: "string \<Rightarrow> string option" where
  "RawURLEncoding_Decode s = b64_decode b64_url False s"


section \<open>Claims\<close>

text \<open>Conversion of a \<open>float64\<close> claim; out of range it gives the least \<open>int64\<close>, as on amd64.\<close>

definition f64_int64 :: "rat \<Rightarrow> int" where
  "f64_int64 x = (let i = trunc x in if int64 i then i else - (2 ^ 63))"

fun asInt64 :: "json option \<Rightarrow> int" where
  "asInt64 (Some (JNum n)) = f64_int64 (f64 (of_int n))"
| "asInt64 (Some (JDec t)) = f64_int64 (f64 (dec_rat t))"
| "asInt64 _ = 0"

fun as_str :: "json option \<Rightarrow> string option" where
  "as_str (Some (JStr s)) = Some s"
| "as_str _ = None"

fun as_map :: "json option \<Rightarrow> jmap option" where
  "as_map (Some (JObj m)) = Some m"
| "as_map _ = None"

definition str_or :: "json option \<Rightarrow> string" where
  "str_or v = (case as_str v of None \<Rightarrow> '''' | Some s \<Rightarrow> s)"

definition decodeRuntimePayloadValue :: "string \<Rightarrow> string" where
  "decodeRuntimePayloadValue s =
     (if s = '''' then ''''
      else (case StdEncoding_Decode s of None \<Rightarrow> s | Some b \<Rightarrow> if b \<noteq> [] then b else s))"

text \<open>The first of the two spellings that is a string.\<close>

definition nonce_of :: "jmap \<Rightarrow> string option" where
  "nonce_of m =
     (case as_str (map_of m ''nonce'') of
        Some raw \<Rightarrow> Some (decodeRuntimePayloadValue raw)
      | None \<Rightarrow> map_option decodeRuntimePayloadValue (as_str (map_of m ''Nonce'')))"

definition extractNonceFromRuntime :: "json option \<Rightarrow> string" where
  "extractNonceFromRuntime v =
     (case as_map v of
        None \<Rightarrow> ''''
      | Some runtime \<Rightarrow>
        (case map_of runtime ''client-payload'' of
           Some (JObj p) \<Rightarrow> (case nonce_of p of None \<Rightarrow> '''' | Some n \<Rightarrow> n)
         | Some (JStr p) \<Rightarrow>
             (let decoded = decodeRuntimePayloadValue p in
              case unmarshal_any decoded of
                Some (JObj m) \<Rightarrow> (case nonce_of m of None \<Rightarrow> decoded | Some n \<Rightarrow> n)
              | _ \<Rightarrow> decoded)
         | _ \<Rightarrow> ''''))"

definition claimsFromMap :: "jmap \<Rightarrow> Claims" where
  "claimsFromMap m =
     (let iso = as_map (map_of m ''x-ms-isolation-tee'');
          n0 = str_or (map_of m ''nonce'');
          n1 = (if n0 = '''' then extractNonceFromRuntime (map_of m ''x-ms-runtime'') else n0);
          n2 = (case iso of
                  None \<Rightarrow> n1
                | Some t \<Rightarrow> if n1 = '''' then extractNonceFromRuntime (map_of t ''x-ms-runtime'') else n1);
          c0 = str_or (map_of m ''x-ms-compliance-status'');
          c1 = (case iso of
                  None \<Rightarrow> c0
                | Some t \<Rightarrow> if c0 = '''' then str_or (map_of t ''x-ms-compliance-status'') else c0)
      in \<lparr>cl_Issuer = str_or (map_of m ''iss''), cl_IssuedAt = asInt64 (map_of m ''iat''),
          cl_NotBefore = asInt64 (map_of m ''nbf''), cl_ExpiresAt = asInt64 (map_of m ''exp''),
          cl_Nonce = n2, cl_AttestationType = str_or (map_of m ''x-ms-attestation-type''),
          cl_ComplianceState = c1, cl_IsolationTEE = iso, cl_Raw = m\<rparr>)"

definition ParseMAAToken :: "jwtlib \<Rightarrow> string \<Rightarrow> string + Claims" where
  "ParseMAAToken J token =
     (case jw_peek J token of
        Inl e \<Rightarrow> Inl (''parse token: '' @ e)
      | Inr raw \<Rightarrow> Inr (claimsFromMap raw))"

definition ExtractClaims :: "jwtlib \<Rightarrow> string \<Rightarrow> string + Claims" where
  "ExtractClaims J token = ParseMAAToken J token"

definition TokenHash :: "prims \<Rightarrow> string \<Rightarrow> string" where
  "TokenHash P token = EncodeToString (p_sha256 P token)"

text \<open>The map that is hashed; \<open>json.Marshal\<close> sorts the keys of maps at every level.\<close>

definition claims_json :: "Claims \<Rightarrow> json" where
  "claims_json c =
     JObj [(''iss'', JStr (cl_Issuer c)), (''iat'', JNum (cl_IssuedAt c)), (''exp'', JNum (cl_ExpiresAt c)),
           (''nonce'', JStr (cl_Nonce c)), (''x-ms-attestation-type'', JStr (cl_AttestationType c)),
           (''x-ms-compliance-status'', JStr (cl_ComplianceState c)),
           (''x-ms-isolation-tee'', case cl_IsolationTEE c of None \<Rightarrow> JNull | Some t \<Rightarrow> JObj t)]"

definition ComputeClaimsDigest :: "prims \<Rightarrow> Claims option \<Rightarrow> string + string" where
  "ComputeClaimsDigest P c =
     (case c of None \<Rightarrow> Inl ''nil claims''
      | Some c \<Rightarrow> Inr (EncodeToString (p_sha256 P (marshal (canon (claims_json c))))))"

text \<open>\<open>time.Unix(secs, 0)\<close>: Go counts from year 1, in an \<open>int64\<close>.\<close>

definition unixTime :: "int \<Rightarrow> gotime" where
  "unixTime secs = (wrap64 (secs + 62135596800) - 62135596800) * Second"

definition ValidateFreshness :: "jwtlib \<Rightarrow> Claims \<Rightarrow> string \<Rightarrow> duration \<Rightarrow> gotime \<Rightarrow> string option" where
  "ValidateFreshness J c expectedNonce maxAge clock =
     (if expectedNonce \<noteq> '''' \<and> cl_Nonce c \<noteq> expectedNonce then Some ''nonce mismatch''
      else if 0 < cl_ExpiresAt c \<and> cl_ExpiresAt c < timeUnix clock then Some ''token expired''
      else if 0 < cl_NotBefore c \<and> timeUnix clock + 1 < cl_NotBefore c then Some ''token not yet valid''
      else if 0 < maxAge \<and> 0 < cl_IssuedAt c \<and> maxAge < timeSub clock (unixTime (cl_IssuedAt c))
        then Some (''token age '' @ jw_roundText J (timeSub clock (unixTime (cl_IssuedAt c))) @
                   '' exceeds max '' @ jw_durText J maxAge)
      else None)"

definition ValidateTEEClaims :: "Claims \<Rightarrow> string \<Rightarrow> string option" where
  "ValidateTEEClaims c expectedTEE =
     (if expectedTEE = '''' then None
      else if ToLower (cl_AttestationType c) = ToLower expectedTEE then None
      else if (case cl_IsolationTEE c of None \<Rightarrow> False
               | Some t \<Rightarrow> (case as_str (map_of t ''x-ms-attestation-type'') of None \<Rightarrow> False
                           | Some v \<Rightarrow> ToLower v = ToLower expectedTEE)) then None
      else Some (''attestation-type '' @ fmt_q (cl_AttestationType c) @ '' does not match expected '' @
                 fmt_q expectedTEE))"

definition ValidateNodeBinding :: "Claims \<Rightarrow> string \<Rightarrow> string option" where
  "ValidateNodeBinding c expectedNonce =
     (if expectedNonce = '''' then None
      else if cl_Nonce c \<noteq> expectedNonce then Some ''node-binding nonce mismatch'' else None)"

section \<open>The issuer's signing keys\<close>

record jwk =
  jwk_Kid :: string
  jwk_Kty :: string
  jwk_N :: string
  jwk_E :: string
  jwk_X5c :: "string list"

record jwksDoc =
  doc_Keys :: "jwk list"

definition zero_jwk :: jwk where
  "zero_jwk = \<lparr>jwk_Kid = '''', jwk_Kty = '''', jwk_N = '''', jwk_E = '''', jwk_X5c = []\<rparr>"

text \<open>Decoding, with the first type error as in \<open>encoding/json\<close>.\<close>

fun dec_strings :: "json list \<Rightarrow> string list decoding" where
  "dec_strings [] = ([], None)"
| "dec_strings (v # vs) =
     (case (dec_string v '''', dec_strings vs) of
        (Inr s, (ss, e)) \<Rightarrow> (s # ss, e)
      | (Inl k, (ss, e)) \<Rightarrow> ('''' # ss, Some (UnmarshalTypeError k ''jwk'' ''keys.x5c'' ''string'')))"

definition x5c_field :: "json \<Rightarrow> jwk decoding \<Rightarrow> jwk decoding" where
  "x5c_field v d =
     (case v of
        JNull \<Rightarrow> ((fst d)\<lparr>jwk_X5c := []\<rparr>, snd d)
      | JArr vs \<Rightarrow> (case dec_strings vs of
            (ss, None) \<Rightarrow> ((fst d)\<lparr>jwk_X5c := ss\<rparr>, snd d)
          | (ss, Some e) \<Rightarrow> saveError e ((fst d)\<lparr>jwk_X5c := ss\<rparr>, snd d))
      | _ \<Rightarrow> saveError (UnmarshalTypeError (kind v) ''jwk'' ''keys.x5c'' ''[]string'') d)"

definition dec_jwk_member :: "jwk decoding \<Rightarrow> (string \<times> json) \<Rightarrow> jwk decoding" where
  "dec_jwk_member d kv =
     (let k = foldName (fst kv); ctx = (''jwk'', ''keys.'') in
      if k = foldName ''kid'' then str_field ''kid'' jwk_Kid jwk_Kid_update ctx (snd kv) d
      else if k = foldName ''kty'' then str_field ''kty'' jwk_Kty jwk_Kty_update ctx (snd kv) d
      else if k = foldName ''n'' then str_field ''n'' jwk_N jwk_N_update ctx (snd kv) d
      else if k = foldName ''e'' then str_field ''e'' jwk_E jwk_E_update ctx (snd kv) d
      else if k = foldName ''x5c'' then x5c_field (snd kv) d
      else d)"

fun dec_jwk :: "json \<Rightarrow> jwk decoding" where
  "dec_jwk JNull = (zero_jwk, None)"
| "dec_jwk (JObj kvs) = foldl dec_jwk_member (zero_jwk, None) kvs"
| "dec_jwk j = (zero_jwk, Some (UnmarshalTypeError (kind j) ''jwksDoc'' ''keys'' ''maa.jwk''))"

fun dec_jwks :: "json list \<Rightarrow> jwk list decoding" where
  "dec_jwks [] = ([], None)"
| "dec_jwks (v # vs) =
     (case (dec_jwk v, dec_jwks vs) of
        ((k, None), (ks, e)) \<Rightarrow> (k # ks, e)
      | ((k, Some e), (ks, _)) \<Rightarrow> (k # ks, Some e))"

definition dec_doc_member :: "jwksDoc decoding \<Rightarrow> (string \<times> json) \<Rightarrow> jwksDoc decoding" where
  "dec_doc_member d kv =
     (if foldName (fst kv) = foldName ''keys'' then
        (case snd kv of
           JNull \<Rightarrow> ((fst d)\<lparr>doc_Keys := []\<rparr>, snd d)
         | JArr vs \<Rightarrow> (case dec_jwks vs of
               (ks, None) \<Rightarrow> ((fst d)\<lparr>doc_Keys := ks\<rparr>, snd d)
             | (ks, Some e) \<Rightarrow> saveError e ((fst d)\<lparr>doc_Keys := ks\<rparr>, snd d))
         | v \<Rightarrow> saveError (UnmarshalTypeError (kind v) ''jwksDoc'' ''keys'' ''[]maa.jwk'') d)
      else d)"

fun dec_doc :: "json \<Rightarrow> jwksDoc decoding" where
  "dec_doc JNull = (\<lparr>doc_Keys = []\<rparr>, None)"
| "dec_doc (JObj kvs) = foldl dec_doc_member (\<lparr>doc_Keys = []\<rparr>, None) kvs"
| "dec_doc j = (\<lparr>doc_Keys = []\<rparr>, Some (UnmarshalTypeError (kind j) '''' '''' ''maa.jwksDoc''))"

text \<open>A \<open>json.Decoder\<close> reads the first value of the stream.\<close>

definition decode_first :: "jwtlib \<Rightarrow> string \<Rightarrow> string + jwksDoc" where
  "decode_first J body =
     (case pval (2 * length body + 2) body of
        None \<Rightarrow> Inl (jw_syntax J body)
      | Some (v, rest) \<Rightarrow>
        (case dec_doc v of
           (doc, None) \<Rightarrow> Inr doc
         | (doc, Some e) \<Rightarrow> Inl (type_error_text e)))"

text \<open>The exponent is an \<open>int\<close>: it is shifted and combined in 64 bits.\<close>

definition exponent_of :: "string \<Rightarrow> int" where
  "exponent_of bs = foldl (\<lambda>e b. wrap64 (e * 256) + int (of_char b)) 0 bs"

definition bytes_nat :: "string \<Rightarrow> nat" where
  "bytes_nat bs = foldl (\<lambda>n b. n * 256 + of_char b) 0 bs"

definition rsaKeyFromJWK :: "jwtlib \<Rightarrow> jwk \<Rightarrow> string + rsaPub" where
  "rsaKeyFromJWK J k =
     (case jwk_X5c k of
        x # _ \<Rightarrow>
          (case StdEncoding_Decode x of
             None \<Rightarrow> Inl ''illegal base64 data''
           | Some der \<Rightarrow>
             (case jw_cert J der of
                Inl e \<Rightarrow> Inl e
              | Inr (Some pub) \<Rightarrow> Inr pub
              | Inr None \<Rightarrow> Inl ''x5c is not RSA''))
      | [] \<Rightarrow>
        if jwk_Kty k \<noteq> ''RSA'' \<or> jwk_N k = '''' \<or> jwk_E k = '''' then Inl ''unsupported jwk''
        else
          (case RawURLEncoding_Decode (jwk_N k) of
             None \<Rightarrow> Inl ''illegal base64 data''
           | Some nBytes \<Rightarrow>
             (case RawURLEncoding_Decode (jwk_E k) of
                None \<Rightarrow> Inl ''illegal base64 data''
              | Some eBytes \<Rightarrow> Inr \<lparr>rsa_N = bytes_nat nBytes, rsa_E = exponent_of eBytes\<rparr>)))"

fun usable_keys :: "jwtlib \<Rightarrow> jwk list \<Rightarrow> (string \<times> rsaPub) list \<Rightarrow> (string \<times> rsaPub) list" where
  "usable_keys J [] keys = keys"
| "usable_keys J (k # ks) keys =
     usable_keys J ks (case rsaKeyFromJWK J k of Inl e \<Rightarrow> keys | Inr pub \<Rightarrow> AList.update (jwk_Kid k) pub keys)"

definition key_for :: "(string \<times> rsaPub) list \<Rightarrow> string \<Rightarrow> string + rsaPub" where
  "key_for keys kid =
     (case map_of keys kid of
        Some pub \<Rightarrow> Inr pub
      | None \<Rightarrow>
        (case keys of
           [(_, pub)] \<Rightarrow> if kid = '''' then Inr pub else Inl (''no signing key for kid '' @ fmt_q kid)
         | _ \<Rightarrow> Inl (''no signing key for kid '' @ fmt_q kid)))"

definition certs_url :: "string \<Rightarrow> string" where
  "certs_url issuer = rev (dropWhile (\<lambda>c. c = CHR ''/'') (rev issuer)) @ ''/certs''"

definition fetchJWKS :: "jwtlib \<Rightarrow> 's server \<Rightarrow> string \<Rightarrow> ('s, string + (string \<Rightarrow> string + rsaPub)) prog" where
  "fetchJWKS J srv issuer =
     (if issuer = '''' then State_Monad.return (Inl ''empty issuer'')
      else do {
        r \<leftarrow> api srv (HttpGet (certs_url issuer));
        case as_http r of
          Inl e \<Rightarrow> State_Monad.return (Inl e)
        | Inr (code, body) \<Rightarrow>
          if code \<noteq> 200 then State_Monad.return (Inl (''jwks endpoint returned '' @ itoa code))
          else
            (case decode_first J body of
               Inl e \<Rightarrow> State_Monad.return (Inl e)
             | Inr doc \<Rightarrow>
               let keys = usable_keys J (doc_Keys doc) [] in
               if keys = [] then State_Monad.return (Inl ''no usable RSA keys in JWKS'')
               else State_Monad.return (Inr (key_for keys)))
      })"


section \<open>Verification\<close>

definition failed :: "MaaResult \<Rightarrow> string \<Rightarrow> MaaResult" where
  "failed res reason = res\<lparr>mr_Status := StatusFailed, mr_Reason := reason\<rparr>"

text \<open>The part after the signature was checked.\<close>

definition check_claims :: "prims \<Rightarrow> jwtlib \<Rightarrow> MaaOptions \<Rightarrow> gotime \<Rightarrow> Claims \<Rightarrow> MaaResult \<Rightarrow> MaaResult" where
  "check_claims P J opts clock c res0 =
     (let res = res0\<lparr>mr_Claims := Some c\<rparr> in
      case ValidateFreshness J c (mao_ExpectedNonce opts) (mao_MaxAge opts) clock of
        Some e \<Rightarrow> failed res e
      | None \<Rightarrow>
        (case ValidateTEEClaims c (mao_ExpectedTEE opts) of
           Some e \<Rightarrow> failed res e
         | None \<Rightarrow>
           (case ComputeClaimsDigest P (Some c) of
              Inl e \<Rightarrow> failed res e
            | Inr digest \<Rightarrow>
              res\<lparr>mr_ClaimsDigest := digest,
                  mr_IssuedAt := (if 0 < cl_IssuedAt c then unixTime (cl_IssuedAt c) else mr_IssuedAt res),
                  mr_ExpiresAt := (if 0 < cl_ExpiresAt c then unixTime (cl_ExpiresAt c) else mr_ExpiresAt res),
                  mr_Status := StatusVerified, mr_Reason := ''signature and claims verified''\<rparr>)))"

definition VerifyMAAToken :: "prims \<Rightarrow> jwtlib \<Rightarrow> 's server \<Rightarrow> string \<Rightarrow> MaaOptions \<Rightarrow> ('s, MaaResult) prog" where
  "VerifyMAAToken P J srv token opts = do {
     t \<leftarrow> api srv Now;
     let clock = as_time t;
     let res = \<lparr>mr_Status = '''', mr_Reason = '''', mr_Claims = None, mr_ClaimsDigest = '''',
                mr_TokenHash = TokenHash P token, mr_IssuedAt = zeroTime, mr_ExpiresAt = zeroTime\<rparr>;
     case ParseMAAToken J token of
       Inl e \<Rightarrow> State_Monad.return (failed res e)
     | Inr peek \<Rightarrow>
       if mao_AllowedIssuerPrefix opts \<noteq> '''' \<and> \<not> HasPrefix (cl_Issuer peek) (mao_AllowedIssuerPrefix opts)
       then State_Monad.return (failed res (''issuer '' @ fmt_q (cl_Issuer peek) @ '' not allowed''))
       else do {
         ks \<leftarrow> fetchJWKS J srv (cl_Issuer peek);
         case ks of
           Inl e \<Rightarrow> State_Monad.return (res\<lparr>mr_Status := StatusUnavailable,
             mr_Reason := ''cannot fetch signing keys: '' @ e, mr_Claims := Some peek\<rparr>)
         | Inr keyFunc \<Rightarrow> do {
             tp \<leftarrow> api srv Now;
             case jw_parse J (as_time tp) token keyFunc of
               Inl e \<Rightarrow> State_Monad.return (failed res (''signature verification failed: '' @ e))
             | Inr (valid, mc) \<Rightarrow>
               if \<not> valid then State_Monad.return (failed res ''token invalid after signature check'')
               else State_Monad.return (check_claims P J opts clock (claimsFromMap mc) res)
           }
       }
   }"

section \<open>Lemmas\<close>

text \<open>What the JWT library documents: a token it accepts verifies under a key that the key function gave,
  and carries the claims that parsing without verification reads; \<open>rs256\<close> is RSA verification.\<close>

definition jwt_sound :: "jwtlib \<Rightarrow> (rsaPub \<Rightarrow> string \<Rightarrow> bool) \<Rightarrow> bool" where
  "jwt_sound J rs256 \<longleftrightarrow> (\<forall>t tok kf mc. jw_parse J t tok kf = Inr (True, mc) \<longrightarrow>
     (\<exists>kid pub. kf kid = Inr pub \<and> rs256 pub tok) \<and> jw_peek J tok = Inr mc)"

text \<open>The keys a document offers.\<close>

definition offers :: "jwtlib \<Rightarrow> jwksDoc \<Rightarrow> rsaPub \<Rightarrow> bool" where
  "offers J doc pub \<longleftrightarrow> (\<exists>k\<in>set (doc_Keys doc). rsaKeyFromJWK J k = Inr pub)"

lemma in_set_AList_update: "(a, b) \<in> set (AList.update k v al) \<Longrightarrow> (a, b) = (k, v) \<or> (a, b) \<in> set al"
  by (induction al) (auto split: if_splits)

lemma usable_keys_from:
  "(kid, pub) \<in> set (usable_keys J ks keys) \<Longrightarrow>
    (kid, pub) \<in> set keys \<or> (\<exists>k\<in>set ks. rsaKeyFromJWK J k = Inr pub)"
proof (induction ks arbitrary: keys)
  case (Cons k ks)
  then show ?case
    by (auto split: sum.splits dest!: Cons.IH dest: in_set_AList_update)
qed simp

lemma key_for_member: "key_for keys kid = Inr pub \<Longrightarrow> pub \<in> snd ` set keys"
  by (auto simp: key_for_def split: option.splits list.splits prod.splits if_splits dest: map_of_SomeD
      intro: rev_image_eqI)

lemma key_for_offers: "key_for (usable_keys J (doc_Keys doc) []) kid = Inr pub \<Longrightarrow> offers J doc pub"
  unfolding offers_def by (auto dest!: key_for_member usable_keys_from)

text \<open>What verification demands of the claims.\<close>

definition claims_good :: "Claims \<Rightarrow> MaaOptions \<Rightarrow> gotime \<Rightarrow> bool" where
  "claims_good c opts now \<longleftrightarrow>
     (mao_ExpectedNonce opts = '''' \<or> cl_Nonce c = mao_ExpectedNonce opts) \<and>
     (cl_ExpiresAt c \<le> 0 \<or> timeUnix now \<le> cl_ExpiresAt c) \<and>
     (cl_NotBefore c \<le> 0 \<or> cl_NotBefore c \<le> timeUnix now + 1) \<and>
     (mao_MaxAge opts \<le> 0 \<or> cl_IssuedAt c \<le> 0 \<or> timeSub now (unixTime (cl_IssuedAt c)) \<le> mao_MaxAge opts) \<and>
     (mao_ExpectedTEE opts = '''' \<or> ToLower (cl_AttestationType c) = ToLower (mao_ExpectedTEE opts) \<or>
      (\<exists>t v. cl_IsolationTEE c = Some t \<and> map_of t ''x-ms-attestation-type'' = Some (JStr v) \<and>
         ToLower v = ToLower (mao_ExpectedTEE opts)))"

lemma as_str_Some [simp]: "as_str v = Some s \<longleftrightarrow> v = Some (JStr s)"
  by (cases v rule: as_str.cases) auto

lemma ValidateTEEClaims_None:
  "ValidateTEEClaims c tee = None \<longleftrightarrow> tee = '''' \<or> ToLower (cl_AttestationType c) = ToLower tee \<or>
     (\<exists>t v. cl_IsolationTEE c = Some t \<and> map_of t ''x-ms-attestation-type'' = Some (JStr v) \<and> ToLower v = ToLower tee)"
  by (auto simp: ValidateTEEClaims_def split: option.splits)

lemma ValidateFreshness_None:
  "ValidateFreshness J c nonce maxAge now = None \<longleftrightarrow>
     (nonce = '''' \<or> cl_Nonce c = nonce) \<and> (cl_ExpiresAt c \<le> 0 \<or> timeUnix now \<le> cl_ExpiresAt c) \<and>
     (cl_NotBefore c \<le> 0 \<or> cl_NotBefore c \<le> timeUnix now + 1) \<and>
     (maxAge \<le> 0 \<or> cl_IssuedAt c \<le> 0 \<or> timeSub now (unixTime (cl_IssuedAt c)) \<le> maxAge)"
  by (auto simp: ValidateFreshness_def not_less not_le)

lemma statuses [simp]:
  "StatusFailed \<noteq> StatusVerified" "StatusUnavailable \<noteq> StatusVerified" "StatusFailed \<noteq> StatusUnavailable"
  "StatusVerified \<noteq> StatusFailed" "StatusVerified \<noteq> StatusUnavailable" "StatusUnavailable \<noteq> StatusFailed"
  "StatusVerified \<noteq> ''''" "StatusUnavailable \<noteq> ''''" "StatusFailed \<noteq> ''''"
  by (simp_all add: StatusFailed_def StatusVerified_def StatusUnavailable_def)

lemma claims_good_iff:
  "claims_good c opts now \<longleftrightarrow>
     ValidateFreshness J c (mao_ExpectedNonce opts) (mao_MaxAge opts) now = None \<and>
     ValidateTEEClaims c (mao_ExpectedTEE opts) = None"
  unfolding claims_good_def ValidateFreshness_None ValidateTEEClaims_None by blast

lemma check_claims_status:
  "mr_Status (check_claims P J opts now c res) = (if claims_good c opts now then StatusVerified else StatusFailed)"
  unfolding claims_good_iff [of c opts now J]
  by (cases "ValidateFreshness J c (mao_ExpectedNonce opts) (mao_MaxAge opts) now";
      cases "ValidateTEEClaims c (mao_ExpectedTEE opts)")
    (simp_all add: check_claims_def failed_def ComputeClaimsDigest_def Let_def)

text \<open>Fetching the keys.\<close>

definition keys_served :: "jwtlib \<Rightarrow> string \<Rightarrow> log \<Rightarrow> jwksDoc \<Rightarrow> bool" where
  "keys_served J iss tr doc \<longleftrightarrow>
     (\<exists>body. iss \<noteq> '''' \<and> (HttpGet (certs_url iss), RHttp (Inr (200, body))) \<in> set tr \<and>
        decode_first J body = Inr doc \<and> usable_keys J (doc_Keys doc) [] \<noteq> [])"

lemma fetchJWKS_ens:
  "ensures (fetchJWKS J srv iss)
     (\<lambda>r tr. case r of
        Inr kf \<Rightarrow> \<exists>rep doc. tr = [(HttpGet (certs_url iss), rep)] \<and> keys_served J iss tr doc \<and>
          kf = key_for (usable_keys J (doc_Keys doc) [])
      | Inl e \<Rightarrow> (\<forall>doc. \<not> keys_served J iss tr doc) \<and> length tr \<le> 1)"
  unfolding fetchJWKS_def Let_def by (intro ens) (auto simp: keys_served_def)

text \<open>The issuer that the unverified token names, if the options allow it.\<close>

definition issuer_ok :: "jwtlib \<Rightarrow> string \<Rightarrow> MaaOptions \<Rightarrow> string \<Rightarrow> bool" where
  "issuer_ok J token opts iss \<longleftrightarrow>
     (\<exists>raw. jw_peek J token = Inr raw \<and> iss = cl_Issuer (claimsFromMap raw) \<and>
        (mao_AllowedIssuerPrefix opts = '''' \<or> HasPrefix iss (mao_AllowedIssuerPrefix opts)))"

text \<open>Acceptance: the issuer is allowed, its endpoint served usable keys, the token verified under the
  key function of those keys, and the claims read from it are good at the time read first.\<close>

definition maa_accepts :: "jwtlib \<Rightarrow> string \<Rightarrow> MaaOptions \<Rightarrow> log \<Rightarrow> bool" where
  "maa_accepts J token opts tr \<longleftrightarrow>
     (\<exists>iss rt rep rp doc mc. issuer_ok J token opts iss \<and>
        tr = [(Now, rt), (HttpGet (certs_url iss), rep), (Now, rp)] \<and> keys_served J iss tr doc \<and>
        jw_parse J (as_time rp) token (key_for (usable_keys J (doc_Keys doc) [])) = Inr (True, mc) \<and>
        claims_good (claimsFromMap mc) opts (as_time rt))"

definition maa_post :: "prims \<Rightarrow> jwtlib \<Rightarrow> string \<Rightarrow> MaaOptions \<Rightarrow> MaaResult \<Rightarrow> log \<Rightarrow> bool" where
  "maa_post P J token opts res tr \<longleftrightarrow>
     (mr_Status res = StatusVerified \<longleftrightarrow> maa_accepts J token opts tr) \<and>
     (mr_Status res = StatusUnavailable \<longleftrightarrow>
        (\<exists>iss. issuer_ok J token opts iss \<and> (\<forall>doc. \<not> keys_served J iss tr doc))) \<and>
     mr_Status res \<in> {StatusVerified, StatusFailed, StatusUnavailable} \<and> mr_TokenHash res = TokenHash P token"

lemma failed_simps [simp]:
  "mr_Status (failed res e) = StatusFailed" "mr_TokenHash (failed res e) = mr_TokenHash res"
  by (simp_all add: failed_def)

lemma check_claims_hash [simp]: "mr_TokenHash (check_claims P J opts now c res) = mr_TokenHash res"
  by (auto simp: check_claims_def failed_def ComputeClaimsDigest_def Let_def split: option.split)

lemma issuer_ok_unique: "issuer_ok J token opts a \<Longrightarrow> issuer_ok J token opts b \<Longrightarrow> a = b"
  by (auto simp: issuer_ok_def)

lemma keys_served_Now [simp]: "keys_served J iss ((Now, r) # tr) doc = keys_served J iss tr doc"
  "keys_served J iss (tr @ [(Now, r)]) doc = keys_served J iss tr doc"
  by (auto simp: keys_served_def)

lemma keys_served_unique:
  "keys_served J iss [(c, rep)] a \<Longrightarrow> keys_served J iss [(c, rep)] b \<Longrightarrow> a = b"
  by (auto simp: keys_served_def)

lemma VerifyMAAToken_ens:
  "ensures (VerifyMAAToken P J srv token opts) (maa_post P J token opts)"
  unfolding VerifyMAAToken_def Let_def
proof (rule ensures_bind_api, rule ensures_sum, goal_cases)
  case (1 rt e)
  then have "\<not> issuer_ok J token opts iss" for iss
    by (auto simp: ParseMAAToken_def issuer_ok_def split: sum.splits)
  then show ?case by (auto intro!: ensures_return simp: maa_post_def maa_accepts_def)
next
  case (2 rt peek)
  then obtain raw where raw: "jw_peek J token = Inr raw" "peek = claimsFromMap raw"
    by (auto simp: ParseMAAToken_def split: sum.splits)
  let ?iss = "cl_Issuer peek"
  show ?case
  proof (rule ensures_if, goal_cases)
    case 1
    then have "\<not> issuer_ok J token opts iss" for iss using raw by (auto simp: issuer_ok_def)
    then show ?case by (auto intro!: ensures_return simp: maa_post_def maa_accepts_def)
  next
    case 2
    then have ok: "issuer_ok J token opts iss \<longleftrightarrow> iss = ?iss" for iss using raw by (auto simp: issuer_ok_def)
    show ?case
    proof (rule ensures_bind [OF fetchJWKS_ens], rule ensures_sum, goal_cases)
      case (1 ks tr e)
      then show ?case by (auto intro!: ensures_return simp: maa_post_def maa_accepts_def ok)
    next
      case (2 ks tr kf)
      then obtain rep doc where f: "tr = [(HttpGet (certs_url ?iss), rep)]" "keys_served J ?iss tr doc"
        "kf = key_for (usable_keys J (doc_Keys doc) [])" by auto
      have uniq: "keys_served J ?iss [(HttpGet (certs_url ?iss), rep)] d \<longleftrightarrow> d = doc" for d
        using f keys_served_unique by blast
      have ks: "keys_served J ?iss [(HttpGet (certs_url ?iss), rep), (Now, rp)] doc" for rp
        using f(1,2) keys_served_Now(2) [of J ?iss "[(HttpGet (certs_url ?iss), rep)]"] by simp
      have acc: "maa_accepts J token opts ((Now, rt) # tr @ [(Now, rp)]) \<longleftrightarrow>
          (\<exists>mc. jw_parse J (as_time rp) token kf = Inr (True, mc) \<and> claims_good (claimsFromMap mc) opts (as_time rt))" for rp
        using f(1,3) by (auto simp: maa_accepts_def ok uniq keys_served_Now(2) [of J ?iss "[x]" for x, simplified])
      show ?case
      proof (rule ensures_bind_api, rule ensures_sum, goal_cases)
        case (1 rp e)
        then show ?case
          using acc [of rp] f ks by (auto intro!: ensures_return simp: maa_post_def ok)
      next
        case (2 rp y)
        obtain valid mc where y: "y = (valid, mc)" by (cases y)
        show ?case
          unfolding y case_prod_conv
          by (rule ensures_if; rule ensures_return)
            (use acc [of rp] f ks 2 y in \<open>auto simp: maa_post_def check_claims_status ok\<close>)
      qed
    qed
  qed
qed


section \<open>Base64 encoding as a reference\<close>

definition url_digit :: "nat \<Rightarrow> char" where
  "url_digit n =
     (if n < 26 then char_of (n + 65) else if n < 52 then char_of (n + 71)
      else if n < 62 then char_of (n - 4) else if n = 62 then CHR ''-'' else CHR ''_'')"

fun url_encode :: "string \<Rightarrow> string" where
  "url_encode [] = []"
| "url_encode [a] = (let p = of_char a in [url_digit (p div 4), url_digit (p mod 4 * 16)])"
| "url_encode [a, b] =
     (let p = of_char a; q = of_char b in
      [url_digit (p div 4), url_digit (p mod 4 * 16 + q div 16), url_digit (q mod 16 * 4)])"
| "url_encode (a # b # c # r) =
     (let p = of_char a; q = of_char b; s = of_char c in
      [url_digit (p div 4), url_digit (p mod 4 * 16 + q div 16), url_digit (q mod 16 * 4 + s div 64),
       url_digit (s mod 64)] @ url_encode r)"

lemma url_digit_inv: "n < 64 \<Longrightarrow> b64_url (url_digit n) = Some n"
  by (auto simp: url_digit_def b64_url_def Let_def)

lemma url_digit_no_break: "n < 64 \<Longrightarrow> url_digit n \<noteq> CHR 0x0A \<and> url_digit n \<noteq> CHR 0x0D"
  using url_digit_inv [of n] by (auto simp: b64_url_def)

lemma char_lt_256: "(of_char c :: nat) < 256"
  by (metis nat_of_char_less_256)

lemma digit_pair: "y < m \<Longrightarrow> (x * m + y) div m = x" "y < m \<Longrightarrow> (x * m + y) mod m = y" for x y m :: nat
  by simp_all

lemma group_bytes:
  assumes "p < 256" and "q < 256" and "s < (256 :: nat)"
  shows "p div 4 * 4 + (p mod 4 * 16 + q div 16) div 16 = p"
    "(p mod 4 * 16 + q div 16) mod 16 * 16 + (q mod 16 * 4 + s div 64) div 4 = q"
    "(q mod 16 * 4 + s div 64) mod 4 * 64 + s mod 64 = s"
    "p div 4 < 64" "p mod 4 * 16 + q div 16 < 64" "q mod 16 * 4 + s div 64 < 64" "s mod 64 < 64"
proof -
  have q: "q div 16 < 16" and s: "s div 64 < 4" using assms by (simp_all add: less_mult_imp_div_less)
  show "p div 4 < 64" "s mod 64 < 64" using assms(1) by (simp_all add: less_mult_imp_div_less)
  have "p mod 4 < 4" "q mod 16 < 16" by simp_all
  then show "p mod 4 * 16 + q div 16 < 64" "q mod 16 * 4 + s div 64 < 64" using q s by linarith+
  show "p div 4 * 4 + (p mod 4 * 16 + q div 16) div 16 = p" unfolding digit_pair(1) [OF q] by simp
  show "(p mod 4 * 16 + q div 16) mod 16 * 16 + (q mod 16 * 4 + s div 64) div 4 = q"
    unfolding digit_pair(2) [OF q] digit_pair(1) [OF s] by simp
  show "(q mod 16 * 4 + s div 64) mod 4 * 64 + s mod 64 = s" unfolding digit_pair(2) [OF s] by simp
qed

lemma b64_groups_encode: "b64_groups b64_url False (url_encode bs) = Some bs"
proof (induction bs rule: url_encode.induct)
  case 1
  then show ?case by simp
next
  case (2 a)
  show ?case
    using group_bytes [OF char_lt_256 [of a], of 0 0] 
    by (simp add: Let_def b64_two_def url_digit_inv)
next
  case (3 a b)
  show ?case
    using group_bytes [OF char_lt_256 [of a] char_lt_256 [of b], of 0]
    by (simp add: Let_def b64_three_def url_digit_inv)
next
  case (4 a b c r)
  show ?case
    using 4 group_bytes [OF char_lt_256 [of a] char_lt_256 [of b] char_lt_256 [of c]]
    by (simp add: Let_def b64_four_def url_digit_inv)
qed

lemma url_encode_no_break: "filter (\<lambda>c. c \<noteq> CHR 0x0A \<and> c \<noteq> CHR 0x0D) (url_encode bs) = url_encode bs"
proof (induction bs rule: url_encode.induct)
  case (2 a)
  show ?case
    using group_bytes [OF char_lt_256 [of a], of 0 0] url_digit_no_break by (simp add: Let_def)
next
  case (3 a b)
  show ?case
    using group_bytes [OF char_lt_256 [of a] char_lt_256 [of b], of 0] url_digit_no_break by (simp add: Let_def)
next
  case (4 a b c r)
  show ?case
    using 4 group_bytes [OF char_lt_256 [of a] char_lt_256 [of b] char_lt_256 [of c]] url_digit_no_break
    by (simp add: Let_def)
qed simp

lemma RawURL_roundtrip: "RawURLEncoding_Decode (url_encode bs) = Some bs"
  by (simp add: RawURLEncoding_Decode_def b64_decode_def url_encode_no_break b64_groups_encode)

text \<open>The big-endian bytes of a number.\<close>

fun nat_bytes :: "nat \<Rightarrow> string" where
  "nat_bytes n = (if n = 0 then [] else nat_bytes (n div 256) @ [char_of (n mod 256)])"

declare nat_bytes.simps [simp del]

lemma bytes_nat_bytes: "bytes_nat (nat_bytes n) = n"
proof (induction n rule: nat_bytes.induct)
  case (1 n)
  then show ?case by (subst nat_bytes.simps) (auto simp: bytes_nat_def)
qed

lemma exponent_bytes: "n < 2 ^ 55 \<Longrightarrow> exponent_of (nat_bytes n) = int n"
proof (induction n rule: nat_bytes.induct)
  case (1 n)
  show ?case
  proof (cases "n = 0")
    case True
    then show ?thesis by (subst nat_bytes.simps) (simp add: exponent_of_def)
  next
    case False
    have "exponent_of (nat_bytes (n div 256)) = int (n div 256)" using 1 False by simp
    moreover have "wrap64 (int (n div 256) * 256) = int (n div 256) * 256"
      using 1(2) by (simp add: wrap64_def zdiv_int)
    ultimately show ?thesis
      by (subst nat_bytes.simps) (use False in \<open>simp add: exponent_of_def zdiv_int zmod_int\<close>)
  qed
qed

section \<open>Claims and their digest\<close>

lemma jmap_ok_lookup:
  assumes "json_ok (claims_json c)" and "json_ok (claims_json d)" and "jequiv (claims_json c) (claims_json d)"
  shows "cl_Issuer c = cl_Issuer d \<and> cl_IssuedAt c = cl_IssuedAt d \<and> cl_ExpiresAt c = cl_ExpiresAt d \<and>
    cl_Nonce c = cl_Nonce d \<and> cl_AttestationType c = cl_AttestationType d \<and>
    cl_ComplianceState c = cl_ComplianceState d \<and>
    rel_option (\<lambda>s t. jequiv (JObj s) (JObj t)) (cl_IsolationTEE c) (cl_IsolationTEE d)"
  using assms(3) by (auto simp: claims_json_def split: option.splits)


section \<open>Properties\<close>

text \<open>C9. The verdict on an attestation token, exactly. It is \<open>Verified\<close> precisely when the issuer that the
  token names is allowed, that issuer's endpoint served usable keys, the token's signature and
  lifetime passed under those keys, and its claims carry the expected nonce, are neither expired nor
  early nor too old, and attest the expected TEE; it is \<open>Unavailable\<close> precisely when the allowed issuer
  served no usable keys, so that a missing key never passes for a verified token; every other token
  is \<open>Failed\<close>.\<close>

theorem maa_verdict_exact:
  assumes "run (VerifyMAAToken P J srv token opts) st = (res, calls)"
  shows "(mr_Status res = StatusVerified \<longleftrightarrow> maa_accepts J token opts calls) \<and>
    (mr_Status res = StatusUnavailable \<longleftrightarrow>
       (\<exists>iss. issuer_ok J token opts iss \<and> (\<forall>doc. \<not> keys_served J iss calls doc))) \<and>
    mr_Status res \<in> {StatusVerified, StatusFailed, StatusUnavailable} \<and> mr_TokenHash res = TokenHash P token"
  using ensures_run [OF VerifyMAAToken_ens assms] unfolding maa_post_def .

definition demo_jwt :: jwtlib where
  "demo_jwt =
     \<lparr>jw_peek = (\<lambda>tok. Inr [(''iss'', JStr ''https://maa''), (''nonce'', JStr ''n1''), (''x-ms-attestation-type'', JStr ''sevsnpvm'')]),
      jw_parse = (\<lambda>t tok kf. case kf ''k1'' of Inl e \<Rightarrow> Inl e | Inr pub \<Rightarrow>
        Inr (True, [(''iss'', JStr ''https://maa''), (''nonce'', JStr ''n1''), (''x-ms-attestation-type'', JStr ''sevsnpvm'')])),
      jw_cert = (\<lambda>der. Inr None), jw_durText = (\<lambda>d. ''5m0s''), jw_roundText = (\<lambda>d. ''5m0s''), jw_syntax = (\<lambda>s. ''EOF'')\<rparr>"

definition demo_opts :: MaaOptions where
  "demo_opts = \<lparr>mao_ExpectedNonce = ''n1'', mao_ExpectedTEE = ''sevsnpvm'', mao_MaxAge = 300 * Second,
     mao_AllowedIssuerPrefix = ''https://''\<rparr>"

definition offline :: "unit server" where
  "offline c st = (case c of Now \<Rightarrow> (RTime 0, st) | _ \<Rightarrow> (RHttp (Inl ''connection refused''), st))"

theorem maa_verdict_exact_witness:
  "\<exists>res calls. run (VerifyMAAToken demo_prims demo_jwt offline ''tok'' demo_opts) () = (res, calls) \<and>
     mr_Status res = StatusUnavailable \<and> \<not> maa_accepts demo_jwt ''tok'' demo_opts calls"
proof -
  obtain res calls where r: "run (VerifyMAAToken demo_prims demo_jwt offline ''tok'' demo_opts) () = (res, calls)"
    by (cases "run (VerifyMAAToken demo_prims demo_jwt offline ''tok'' demo_opts) ()")
  have "mr_Status res = StatusUnavailable"
    using r by (auto simp: run_def VerifyMAAToken_def ParseMAAToken_def demo_jwt_def offline_def fetchJWKS_def
        claimsFromMap_def str_or_def Let_def demo_opts_def HasPrefix_def)
  with maa_verdict_exact [OF r] r show ?thesis by auto
qed

text \<open>C10. A verified token was signed by its own issuer. If the JWT library accepts a token only under a
  key that its key function gave and that verifies the token, and reads the same claims with and
  without verification, then a \<open>Verified\<close> token names the issuer whose endpoint served the key it
  verifies under, and that issuer has the allowed prefix.\<close>

theorem maa_signed_by_issuer:
  assumes "jwt_sound J rs256" and "run (VerifyMAAToken P J srv token opts) st = (res, calls)" and "mr_Status res = StatusVerified"
  shows "\<exists>mc body doc pub. jw_peek J token = Inr mc \<and>
    (mao_AllowedIssuerPrefix opts = '''' \<or> HasPrefix (cl_Issuer (claimsFromMap mc)) (mao_AllowedIssuerPrefix opts)) \<and>
    (HttpGet (certs_url (cl_Issuer (claimsFromMap mc))), RHttp (Inr (200, body))) \<in> set calls \<and>
    decode_first J body = Inr doc \<and> offers J doc pub \<and> rs256 pub token"
proof -
  have "maa_accepts J token opts calls"
    using ensures_run [OF VerifyMAAToken_ens assms(2)] assms(3) by (simp add: maa_post_def)
  then obtain iss rp doc mc where i: "issuer_ok J token opts iss" "keys_served J iss calls doc"
    "jw_parse J (as_time rp) token (key_for (usable_keys J (doc_Keys doc) [])) = Inr (True, mc)"
    unfolding maa_accepts_def by blast
  with assms(1) obtain kid pub where k: "key_for (usable_keys J (doc_Keys doc) []) kid = Inr pub"
    "rs256 pub token" "jw_peek J token = Inr mc" unfolding jwt_sound_def by blast
  with i key_for_offers [OF k(1)] show ?thesis unfolding issuer_ok_def keys_served_def by auto
qed

definition served_doc :: json where
  "served_doc = JObj [(''keys'', JArr [JObj [(''kid'', JStr ''k1''), (''kty'', JStr ''RSA''),
     (''n'', JStr ''BQ''), (''e'', JStr ''Aw'')]])]"

definition online :: "unit server" where
  "online c st = (case c of Now \<Rightarrow> (RTime 0, st)
     | _ \<Rightarrow> (RHttp (Inr (200, marshal served_doc)), st))"

lemma decode_served: "decode_first demo_jwt (marshal served_doc) = Inr \<lparr>doc_Keys = [\<lparr>jwk_Kid = ''k1'', jwk_Kty = ''RSA'',
    jwk_N = ''BQ'', jwk_E = ''Aw'', jwk_X5c = []\<rparr>]\<rparr>"
proof -
  have "parse_json (marshal served_doc) = Some served_doc"
    using parse_json_marshal [of served_doc] by (simp add: served_doc_def)
  then obtain rest where "pval (2 * length (marshal served_doc) + 2) (marshal served_doc) = Some (served_doc, rest)"
    by (auto simp: parse_json_def split: option.splits if_splits)
  moreover have "dec_doc served_doc = (\<lparr>doc_Keys = [\<lparr>jwk_Kid = ''k1'', jwk_Kty = ''RSA'',
      jwk_N = ''BQ'', jwk_E = ''Aw'', jwk_X5c = []\<rparr>]\<rparr>, None)"
    by (simp add: served_doc_def dec_doc_member_def dec_jwk_member_def str_field_def zero_jwk_def Let_def
        foldName.simps upper_char_def char_of_def bit_0)
  ultimately show ?thesis by (simp add: decode_first_def)
qed

theorem maa_signed_by_issuer_witness:
  "\<exists>res calls pub doc. run (VerifyMAAToken demo_prims demo_jwt online ''tok'' demo_opts) () = (res, calls) \<and>
     mr_Status res = StatusVerified \<and> offers demo_jwt doc pub"
proof -
  let ?k = "\<lparr>rsa_N = 5, rsa_E = 3\<rparr>"
  have k: "rsaKeyFromJWK demo_jwt \<lparr>jwk_Kid = ''k1'', jwk_Kty = ''RSA'', jwk_N = ''BQ'', jwk_E = ''Aw'', jwk_X5c = []\<rparr> = Inr ?k"
    by (simp add: rsaKeyFromJWK_def RawURLEncoding_Decode_def b64_decode_def b64_two_def b64_url_def
        bytes_nat_def exponent_of_def wrap64_def)
  obtain res calls where r: "run (VerifyMAAToken demo_prims demo_jwt online ''tok'' demo_opts) () = (res, calls)"
    by (cases "run (VerifyMAAToken demo_prims demo_jwt online ''tok'' demo_opts) ()")
  have v: "mr_Status res = StatusVerified"
    using r k decode_served
    by (auto simp: run_def VerifyMAAToken_def ParseMAAToken_def fetchJWKS_def online_def key_for_def
        claimsFromMap_def str_or_def Let_def demo_opts_def HasPrefix_def check_claims_status claims_good_def demo_jwt_def)
  have c: "jwt_sound demo_jwt (\<lambda>p t. True)"
    by (auto simp: jwt_sound_def demo_jwt_def split: sum.splits)
  have "\<exists>doc pub. offers demo_jwt doc pub"
    using maa_signed_by_issuer [OF c r v] by blast
  then show ?thesis using r v by blast
qed


text \<open>C38. RSA keys are read as published: a key given by modulus and exponent in unpadded base64url,
  big-endian, is read back exactly, for every modulus and every exponent below \<open>2 ^ 55\<close>.\<close>

theorem jwk_roundtrip:
  assumes "0 < n" and "0 < e" and "e < 2 ^ 55"
  shows "rsaKeyFromJWK J \<lparr>jwk_Kid = kid, jwk_Kty = ''RSA'', jwk_N = url_encode (nat_bytes n),
      jwk_E = url_encode (nat_bytes e), jwk_X5c = []\<rparr> = Inr \<lparr>rsa_N = n, rsa_E = int e\<rparr>"
proof -
  have ne: "url_encode bs \<noteq> []" if "bs \<noteq> []" for bs
    using that by (cases bs rule: url_encode.cases) (simp_all add: Let_def)
  have "nat_bytes k \<noteq> []" if "0 < k" for k using that by (subst nat_bytes.simps) simp
  then show ?thesis
    using ne assms by (simp add: rsaKeyFromJWK_def RawURL_roundtrip bytes_nat_bytes exponent_bytes)
qed

theorem jwk_roundtrip_witness:
  "rsaKeyFromJWK demo_jwt \<lparr>jwk_Kid = ''k1'', jwk_Kty = ''RSA'', jwk_N = url_encode (nat_bytes 3233),
      jwk_E = url_encode (nat_bytes 65537), jwk_X5c = []\<rparr> = Inr \<lparr>rsa_N = 3233, rsa_E = 65537\<rparr>"
  using jwk_roundtrip [of 3233 65537 demo_jwt "''k1''"] by simp

text \<open>C37. The claims digest pins the claims: where the strings are valid UTF-8 and SHA-256 does not collide on the two
  canonical texts, tokens with equal digests agree in issuer, times, nonce, attestation type, compliance state
  and the isolation claim. Only the nonce, which may be decoded from base64, can be anything but valid UTF-8.\<close>

theorem claims_digest_pins_claims:
  assumes "json_ok (claims_json c)" and "json_ok (claims_json d)"
    and "collision_free P (canonical_bytes [claims_json c, claims_json d])"
    and "ComputeClaimsDigest P (Some c) = ComputeClaimsDigest P (Some d)"
  shows "cl_Issuer c = cl_Issuer d \<and> cl_IssuedAt c = cl_IssuedAt d \<and> cl_ExpiresAt c = cl_ExpiresAt d \<and>
    cl_Nonce c = cl_Nonce d \<and> cl_AttestationType c = cl_AttestationType d \<and>
    cl_ComplianceState c = cl_ComplianceState d \<and>
    rel_option (\<lambda>s t. jequiv (JObj s) (JObj t)) (cl_IsolationTEE c) (cl_IsolationTEE d)"
proof -
  have "CanonicalSHA256Hex P (claims_json c) = CanonicalSHA256Hex P (claims_json d)"
    using assms(4) CanonicalJSON_canon [OF assms(1)] CanonicalJSON_canon [OF assms(2)]
    by (simp add: ComputeClaimsDigest_def CanonicalSHA256Hex_def SHA256Hex_def)
  then show ?thesis
    using jmap_ok_lookup [OF assms(1,2)] CanonicalSHA256Hex_eqD [OF assms(1,2,3)] by blast
qed

definition demo_claims :: Claims where
  "demo_claims = claimsFromMap [(''iss'', JStr ''https://maa''), (''nonce'', JStr ''n1'')]"

text \<open>Claims that differ in their nonce only have different digests.\<close>

theorem claims_digest_pins_claims_witness:
  "ComputeClaimsDigest demo_prims (Some demo_claims) \<noteq> ComputeClaimsDigest demo_prims (Some (demo_claims\<lparr>cl_Nonce := ''n2''\<rparr>))"
proof
  let ?d = "demo_claims\<lparr>cl_Nonce := ''n2''\<rparr>"
  assume e: "ComputeClaimsDigest demo_prims (Some demo_claims) = ComputeClaimsDigest demo_prims (Some ?d)"
  have c: "cl_Issuer demo_claims = ''https://maa''" "cl_Nonce demo_claims = ''n1''" "cl_IssuedAt demo_claims = 0"
    "cl_ExpiresAt demo_claims = 0" "cl_AttestationType demo_claims = ''''" "cl_ComplianceState demo_claims = ''''"
    "cl_IsolationTEE demo_claims = None"
    by (simp_all add: demo_claims_def claimsFromMap_def str_or_def Let_def)
  have ok: "json_ok (claims_json demo_claims)" "json_ok (claims_json ?d)" by (simp_all add: claims_json_def c)
  have "collision_free demo_prims M" for M by (simp add: collision_free_def demo_prims_def)
  from claims_digest_pins_claims [OF ok this e] show False by (simp add: c)
qed

text \<open>Nonces that are not valid UTF-8 need not change the digest: the bytes 128 and 255 are both written as
  U+FFFD. A runtime payload whose nonce is the base64 text of such a byte has them as its nonce.\<close>

theorem claims_digest_blind_to_bytes:
  "ComputeClaimsDigest P (Some (c\<lparr>cl_Nonce := [CHR 0x80]\<rparr>)) = ComputeClaimsDigest P (Some (c\<lparr>cl_Nonce := [CHR 0xFF]\<rparr>)) \<and>
   extractNonceFromRuntime (Some (JObj [(''client-payload'', JObj [(''nonce'', JStr ''gA=='')])])) = [CHR 0x80] \<and>
   extractNonceFromRuntime (Some (JObj [(''client-payload'', JObj [(''nonce'', JStr ''/w=='')])])) = [CHR 0xFF]"
proof (intro conjI)
  have "escape [CHR 0x80] = escape [CHR 0xFF]" by (simp add: escape.simps(2) utf8_size_def utf8_tail_def)
  then have q: "quote [CHR 0x80] = quote [CHR 0xFF]" by (simp add: quote_def)
  have "marshal (canon (claims_json (c\<lparr>cl_Nonce := n\<rparr>))) =
      Join (map (\<lambda>t. t) [''{'' @ quote ''exp'' @ '':'' @ itoa (cl_ExpiresAt c), quote ''iat'' @ '':'' @ itoa (cl_IssuedAt c),
        quote ''iss'' @ '':'' @ quote (cl_Issuer c), quote ''nonce'' @ '':'' @ quote n,
        quote ''x-ms-attestation-type'' @ '':'' @ quote (cl_AttestationType c),
        quote ''x-ms-compliance-status'' @ '':'' @ quote (cl_ComplianceState c),
        quote ''x-ms-isolation-tee'' @ '':'' @
          marshal (canon (case cl_IsolationTEE c of None \<Rightarrow> JNull | Some t \<Rightarrow> JObj t)) @ ''}'']) '',''" for n
    by (simp add: claims_json_def)
  then show "ComputeClaimsDigest P (Some (c\<lparr>cl_Nonce := [CHR 0x80]\<rparr>)) = ComputeClaimsDigest P (Some (c\<lparr>cl_Nonce := [CHR 0xFF]\<rparr>))"
    by (simp add: ComputeClaimsDigest_def q)
qed (simp_all add: extractNonceFromRuntime_def nonce_of_def decodeRuntimePayloadValue_def StdEncoding_Decode_def b64_decode_def
    b64_two_def b64_std_def char_of_def bit_0)

end
