(* ===== verification/Placement.thy ===== *)
theory Placement
  imports Api_Types
begin

text \<open>
  The package \<open>internal/placement\<close>: the pure decision that the manager's reconciler makes for an
  \<open>AIPlacementDecision\<close>. The two ages are Go \<open>int32\<close> values; the multiplication in the score wraps
  at that width, as in Go.
\<close>

record Evidence =
  pe_TEE :: string
  pe_AgeSeconds :: int
  pe_Revoked :: bool
  pe_RuntimeClassName :: string

record Policy =
  pp_AllowedTEEs :: "string list"
  pp_MaxEvidenceAgeSeconds :: int
  pp_RequiredRuntimeClass :: string

record Decision =
  pd_Allow :: bool
  pd_Reason :: string
  pd_Score :: int
  pd_Runtime :: string

definition refuse :: "string \<Rightarrow> Decision" where
  "refuse reason = \<lparr>pd_Allow = False, pd_Reason = reason, pd_Score = 0, pd_Runtime = ''''\<rparr>"

text \<open>The loop over the allowed TEEs, which stops at the first match.\<close>

fun tee_matched :: "string \<Rightarrow> string list \<Rightarrow> bool" where
  "tee_matched t [] = False"
| "tee_matched t (a # as) =
     (if EqualFold (TrimSpace a) (TrimSpace t) then True else tee_matched t as)"

definition place_score :: "Policy \<Rightarrow> Evidence \<Rightarrow> int" where
  "place_score p e =
     (if 0 < pp_MaxEvidenceAgeSeconds p \<and> 0 < pe_AgeSeconds e then
        (let score = 100 - quot (wrap32 (100 * pe_AgeSeconds e)) (pp_MaxEvidenceAgeSeconds p)
         in if score < 1 then 1 else score)
      else 100)"

definition Evaluate :: "Policy \<Rightarrow> Evidence \<Rightarrow> Decision" where
  "Evaluate p e =
     (if pe_Revoked e then refuse ''evidence revoked''
      else if 0 < pp_MaxEvidenceAgeSeconds p \<and> pp_MaxEvidenceAgeSeconds p < pe_AgeSeconds e
        then refuse ''evidence expired''
      else if pp_AllowedTEEs p \<noteq> [] \<and> \<not> tee_matched (pe_TEE e) (pp_AllowedTEEs p)
        then refuse ''TEE not allowed''
      else if pp_RequiredRuntimeClass p \<noteq> '''' \<and>
              pp_RequiredRuntimeClass p \<noteq> pe_RuntimeClassName e
        then refuse ''runtime class mismatch''
      else \<lparr>pd_Allow = True, pd_Reason = ''placement allowed'', pd_Score = place_score p e,
            pd_Runtime = pe_RuntimeClassName e\<rparr>)"

text \<open>What the decision promises: when placement is allowed.\<close>

definition placeable :: "Policy \<Rightarrow> Evidence \<Rightarrow> bool" where
  "placeable p e \<longleftrightarrow>
     \<not> pe_Revoked e \<and>
     (0 < pp_MaxEvidenceAgeSeconds p \<longrightarrow> pe_AgeSeconds e \<le> pp_MaxEvidenceAgeSeconds p) \<and>
     (pp_AllowedTEEs p \<noteq> [] \<longrightarrow>
        (\<exists>a\<in>set (pp_AllowedTEEs p). EqualFold (TrimSpace a) (TrimSpace (pe_TEE e)))) \<and>
     (pp_RequiredRuntimeClass p \<noteq> '''' \<longrightarrow> pp_RequiredRuntimeClass p = pe_RuntimeClassName e)"

lemma tee_matched_iff: "tee_matched t as \<longleftrightarrow> (\<exists>a\<in>set as. EqualFold (TrimSpace a) (TrimSpace t))"
  by (induction as) auto

lemma Evaluate_Allow [simp]: "pd_Allow (Evaluate p e) \<longleftrightarrow> placeable p e"
  by (auto simp: Evaluate_def placeable_def refuse_def tee_matched_iff)

lemma place_score_lower: "1 \<le> place_score p e"
  by (simp add: place_score_def Let_def)

lemma place_score_upper:
  assumes "pe_AgeSeconds e \<le> 21474836"
  shows "place_score p e \<le> 100"
proof -
  have "wrap32 (100 * pe_AgeSeconds e) = 100 * pe_AgeSeconds e" if "0 < pe_AgeSeconds e"
    using that assms by (intro wrap32_id) (simp add: int32_def)
  then show ?thesis
    by (auto simp: place_score_def Let_def quot_def sgn_if pos_imp_zdiv_nonneg_iff)
qed

text \<open>The checks in their order, each with the condition under which it fails and its reason.\<close>

definition checks :: "Policy \<Rightarrow> Evidence \<Rightarrow> (bool \<times> string) list" where
  "checks p e =
     [(pe_Revoked e, ''evidence revoked''),
      (0 < pp_MaxEvidenceAgeSeconds p \<and> pp_MaxEvidenceAgeSeconds p < pe_AgeSeconds e, ''evidence expired''),
      (pp_AllowedTEEs p \<noteq> [] \<and> (\<forall>a\<in>set (pp_AllowedTEEs p). \<not> EqualFold (TrimSpace a) (TrimSpace (pe_TEE e))),
       ''TEE not allowed''),
      (pp_RequiredRuntimeClass p \<noteq> '''' \<and> pp_RequiredRuntimeClass p \<noteq> pe_RuntimeClassName e, ''runtime class mismatch'')]"

lemma Evaluate_checks:
  "Evaluate p e = (case find fst (checks p e) of
     None \<Rightarrow> \<lparr>pd_Allow = True, pd_Reason = ''placement allowed'', pd_Score = place_score p e,
              pd_Runtime = pe_RuntimeClassName e\<rparr>
   | Some (_, r) \<Rightarrow> refuse r)"
  by (simp add: Evaluate_def checks_def tee_matched_iff)

lemma placeable_checks: "placeable p e \<longleftrightarrow> find fst (checks p e) = None"
  by (auto simp: placeable_def checks_def)

text \<open>C33. The decision allows exactly the evidence that is not revoked, whose age is within the
  policy's limit, whose TEE is one of the allowed ones (compared without case and surrounding white
  space) and whose runtime class is the required one; a refusal carries score 0 and the reason of the first
  check that fails, in the order revocation, age, TEE, runtime class. An allowed placement scores at least 1,
  and at most 100 while the age is at most 21474836 seconds, the largest for which the score does not overflow.\<close>

theorem placement_decision_exact:
  "(pd_Allow (Evaluate p e) \<longleftrightarrow> placeable p e) \<and>
   (\<not> placeable p e \<longrightarrow> pd_Score (Evaluate p e) = 0 \<and> pd_Runtime (Evaluate p e) = '''' \<and>
      find fst (checks p e) = Some (True, pd_Reason (Evaluate p e))) \<and>
   (placeable p e \<longrightarrow> pd_Reason (Evaluate p e) = ''placement allowed'' \<and> 1 \<le> pd_Score (Evaluate p e) \<and>
      pd_Runtime (Evaluate p e) = pe_RuntimeClassName e \<and>
      (pe_AgeSeconds e \<le> 21474836 \<longrightarrow> pd_Score (Evaluate p e) \<le> 100))"
proof (cases "find fst (checks p e)")
  case None
  then show ?thesis by (simp add: placeable_checks Evaluate_checks place_score_lower place_score_upper)
next
  case (Some x)
  then have "fst x" by (auto simp: find_Some_iff)
  with Some show ?thesis by (cases x) (simp add: placeable_checks Evaluate_checks refuse_def)
qed

definition demo_policy :: Policy where
  "demo_policy = \<lparr>pp_AllowedTEEs = [''TDX'', ''SEV-SNP''], pp_MaxEvidenceAgeSeconds = 300,
     pp_RequiredRuntimeClass = ''kata''\<rparr>"

definition demo_evidence :: "int \<Rightarrow> Evidence" where
  "demo_evidence age = \<lparr>pe_TEE = ''sev-snp'', pe_AgeSeconds = age, pe_Revoked = False,
     pe_RuntimeClassName = ''kata''\<rparr>"

lemma demo_placeable: "placeable demo_policy (demo_evidence 60)"
  by (simp add: placeable_def demo_policy_def demo_evidence_def EqualFold_def case_ascii ascii_def
      lower_char_def TrimSpace_graphic graphic_def char_of_def bit_0)

theorem placement_decision_exact_witness:
  "pd_Allow (Evaluate demo_policy (demo_evidence 60)) \<and>
   pd_Score (Evaluate demo_policy (demo_evidence 60)) \<le> 100 \<and>
   pd_Reason (Evaluate demo_policy ((demo_evidence 400)\<lparr>pe_Revoked := True\<rparr>)) = ''evidence revoked''"
proof -
  have "\<not> placeable demo_policy ((demo_evidence 400)\<lparr>pe_Revoked := True\<rparr>)" by (simp add: placeable_def)
  then show ?thesis
    using placement_decision_exact [of demo_policy "demo_evidence 60"] demo_placeable
      placement_decision_exact [of demo_policy "(demo_evidence 400)\<lparr>pe_Revoked := True\<rparr>"]
    by (simp add: demo_evidence_def checks_def)
qed

text \<open>Above that age the \<open>int32\<close> product wraps and the score leaves its range: evidence of
  30000000 seconds under a policy that allows just that age scores 143, more than fresh evidence,
  which scores 100.\<close>

theorem placement_score_overflow:
  "pd_Score (Evaluate \<lparr>pp_AllowedTEEs = [], pp_MaxEvidenceAgeSeconds = 30000000,
                 pp_RequiredRuntimeClass = ''''\<rparr> (demo_evidence 30000000)) = 143 \<and>
   pd_Score (Evaluate \<lparr>pp_AllowedTEEs = [], pp_MaxEvidenceAgeSeconds = 30000000,
                 pp_RequiredRuntimeClass = ''''\<rparr> (demo_evidence 0)) = 100"
  by (simp add: Evaluate_def demo_evidence_def place_score_def wrap32_def quot_def)

end
