(* ===== verification/Key_Release.thy ===== *)
theory Key_Release
  imports Token
begin

text \<open>
  The key release service: the decision engine \<open>internal/keyrelease\<close> and the HTTP handler of
  \<open>cmd/key-release-gateway\<close> with its in-memory key store.

  The two reads of the clock during an evaluation (for the evidence age and for the token's expiry)
  are two arguments. The request body is given as the result of \<open>json.Decoder.Decode\<close>: the decoded
  struct or its error text. The gateway's state is its key store, its verification key and the two
  outcome counters it exports; the latency histogram is an output only and is left out.

  Shown here: the exact condition of release, that a refusal carries no key reference, the HTTP
  status codes, how long a minted token opens the gate, and how the reason of a refusal is derived
  from the text of an error.
\<close>

datatype DenyReason =
    ReasonAllowed | ReasonPolicyNotRequired | ReasonEvidenceRevoked | ReasonEvidenceExpired
  | ReasonEvidenceNotVerified | ReasonTokenInvalid | ReasonTokenExpired | ReasonPodUIDMismatch
  | ReasonModelDigestMismatch | ReasonImageDigestMismatch | ReasonPolicyHashMismatch
  | ReasonRevocationActive | ReasonTTLInvalid | ReasonAuditRequired

fun reason_text :: "DenyReason \<Rightarrow> string" where
  "reason_text ReasonAllowed = ''ALLOWED''"
| "reason_text ReasonPolicyNotRequired = ''POLICY_NOT_REQUIRED''"
| "reason_text ReasonEvidenceRevoked = ''EVIDENCE_REVOKED''"
| "reason_text ReasonEvidenceExpired = ''EVIDENCE_EXPIRED''"
| "reason_text ReasonEvidenceNotVerified = ''EVIDENCE_NOT_VERIFIED''"
| "reason_text ReasonTokenInvalid = ''TOKEN_INVALID''"
| "reason_text ReasonTokenExpired = ''TOKEN_EXPIRED''"
| "reason_text ReasonPodUIDMismatch = ''POD_UID_MISMATCH''"
| "reason_text ReasonModelDigestMismatch = ''MODEL_DIGEST_MISMATCH''"
| "reason_text ReasonImageDigestMismatch = ''IMAGE_DIGEST_MISMATCH''"
| "reason_text ReasonPolicyHashMismatch = ''POLICY_HASH_MISMATCH''"
| "reason_text ReasonRevocationActive = ''REVOCATION_ACTIVE''"
| "reason_text ReasonTTLInvalid = ''TTL_INVALID''"
| "reason_text ReasonAuditRequired = ''AUDIT_REQUIRED_NOT_MET''"

record Request =
  rq_Namespace :: string
  rq_PodName :: string
  rq_PodUID :: string
  rq_PodSpecHash :: string
  rq_KeyID :: string
  rq_ModelDigest :: string
  rq_ImageDigest :: string
  rq_PolicyHash :: string
  rq_EvidenceHash :: string
  rq_PlacementToken :: string
  rq_EvidenceVerified :: bool
  rq_EvidenceRevoked :: bool
  rq_EvidenceLastSeen :: gotime
  rq_MaxEvidenceAgeSecs :: int
  rq_PolicyRequired :: bool
  rq_PolicyTTLSeconds :: int
  rq_PolicyAuditRequired :: bool
  rq_RevocationActive :: bool
  rq_TokenPublicKey :: "string option"

record Response =
  rs_Allowed :: bool
  rs_Reason :: DenyReason
  rs_KeyMaterialRef :: string
  rs_TTLSeconds :: int
  rs_EvidenceRecord :: string

definition deny :: "DenyReason \<Rightarrow> Response" where
  "deny reason =
     \<lparr>rs_Allowed = False, rs_Reason = reason, rs_KeyMaterialRef = '''', rs_TTLSeconds = 0,
      rs_EvidenceRecord = ''''\<rparr>"

definition verifyToken :: "prims \<Rightarrow> (string \<Rightarrow> string) \<Rightarrow> gotime \<Rightarrow> Request \<Rightarrow> string option" where
  "verifyToken P syn now req =
     (case Decode syn (rq_PlacementToken req) of
        Inl e \<Rightarrow> Some (''decode placement token: '' @ e)
      | Inr tok \<Rightarrow>
        (case (if rq_TokenPublicKey req \<noteq> None
               then Verify P now (rq_TokenPublicKey req) tok else None) of
           Some e \<Rightarrow> Some e
         | None \<Rightarrow>
           let p = tok_Payload tok in
           if rq_PodUID req \<noteq> '''' \<and> pl_PodUID p \<noteq> rq_PodUID req
             then Some (mismatch ''pod UID'' (pl_PodUID p) (rq_PodUID req))
           else if rq_ModelDigest req \<noteq> '''' \<and> pl_ModelDigest p \<noteq> '''' \<and>
                   pl_ModelDigest p \<noteq> rq_ModelDigest req
             then Some (mismatch ''model digest'' (pl_ModelDigest p) (rq_ModelDigest req))
           else if rq_ImageDigest req \<noteq> '''' \<and> pl_ImageDigest p \<noteq> '''' \<and>
                   pl_ImageDigest p \<noteq> rq_ImageDigest req
             then Some (mismatch ''image digest'' (pl_ImageDigest p) (rq_ImageDigest req))
           else if rq_PolicyHash req \<noteq> '''' \<and> pl_PolicyHash p \<noteq> '''' \<and>
                   pl_PolicyHash p \<noteq> rq_PolicyHash req
             then Some (mismatch ''policy hash'' (pl_PolicyHash p) (rq_PolicyHash req))
           else None))"

text \<open>The reason of a token failure, read off the text of the error.\<close>

definition classify :: "string \<Rightarrow> DenyReason" where
  "classify e =
     (if Contains e ''expired'' then ReasonTokenExpired
      else if Contains e ''pod UID mismatch'' then ReasonPodUIDMismatch
      else if Contains e ''model'' then ReasonModelDigestMismatch
      else if Contains e ''image'' then ReasonImageDigestMismatch
      else if Contains e ''policy'' then ReasonPolicyHashMismatch
      else ReasonTokenInvalid)"

definition kr_Evaluate ::
  "prims \<Rightarrow> (string \<Rightarrow> string) \<Rightarrow> gotime \<Rightarrow> gotime \<Rightarrow> Request \<Rightarrow> Response" where
  "kr_Evaluate P syn now_evidence now_token req =
     (if \<not> rq_PolicyRequired req then
        \<lparr>rs_Allowed = True, rs_Reason = ReasonPolicyNotRequired, rs_KeyMaterialRef = '''',
         rs_TTLSeconds = rq_PolicyTTLSeconds req, rs_EvidenceRecord = ''''\<rparr>
      else if rq_PolicyTTLSeconds req \<le> 0 then deny ReasonTTLInvalid
      else if rq_RevocationActive req then deny ReasonRevocationActive
      else if rq_EvidenceRevoked req then deny ReasonEvidenceRevoked
      else if \<not> rq_EvidenceVerified req then deny ReasonEvidenceNotVerified
      else if 0 < rq_MaxEvidenceAgeSecs req \<and> rq_EvidenceLastSeen req \<noteq> zeroTime \<and>
              seconds (rq_MaxEvidenceAgeSecs req) < timeSub now_evidence (rq_EvidenceLastSeen req)
        then deny ReasonEvidenceExpired
      else
        (case (if rq_PlacementToken req \<noteq> '''' then verifyToken P syn now_token req else None) of
           Some e \<Rightarrow> deny (classify e)
         | None \<Rightarrow>
           if rq_PolicyAuditRequired req \<and> TrimSpace (rq_EvidenceHash req) = ''''
             then deny ReasonAuditRequired
           else
             \<lparr>rs_Allowed = True, rs_Reason = ReasonAllowed,
              rs_KeyMaterialRef = ''key://'' @ rq_KeyID req,
              rs_TTLSeconds = rq_PolicyTTLSeconds req, rs_EvidenceRecord = ''''\<rparr>))"


section \<open>The gateway\<close>

record releaseRequest =
  rr_Namespace :: string
  rr_PodName :: string
  rr_PodUID :: string
  rr_KeyID :: string
  rr_ModelDigest :: string
  rr_ImageDigest :: string
  rr_PolicyHash :: string
  rr_EvidenceHash :: string
  rr_PlacementToken :: string
  rr_EvidenceVerified :: bool
  rr_EvidenceRevoked :: bool
  rr_EvidenceLastSeen :: gotime
  rr_MaxEvidenceAgeSecs :: int
  rr_PolicyRequired :: bool
  rr_PolicyTTLSeconds :: int
  rr_PolicyAuditRequired :: bool
  rr_RevocationActive :: bool

record releaseResponse =
  rp_Allowed :: bool
  rp_Reason :: DenyReason
  rp_KeyMaterialRef :: string
  rp_TTLSeconds :: int
  rp_EvidenceRecord :: string

type_synonym memoryKeyStore = "(string \<times> string) list"

definition newMemoryKeyStore :: memoryKeyStore where
  "newMemoryKeyStore = []"

definition ks_Set :: "memoryKeyStore \<Rightarrow> string \<Rightarrow> string \<Rightarrow> memoryKeyStore" where
  "ks_Set s keyID material = AList.update keyID material s"

definition ks_Get :: "memoryKeyStore \<Rightarrow> string \<Rightarrow> string option" where
  "ks_Get s keyID = map_of s keyID"

record gateway =
  gw_store :: memoryKeyStore
  gw_tokenPub :: "string option"
  gw_allowed :: nat
  gw_denied :: nat

text \<open>What the handler writes: an error text or a JSON body, with the status code.\<close>

datatype http_reply = HttpError nat string | HttpJson nat releaseResponse

definition to_request :: "gateway \<Rightarrow> releaseRequest \<Rightarrow> Request" where
  "to_request g req =
     \<lparr>rq_Namespace = rr_Namespace req, rq_PodName = rr_PodName req, rq_PodUID = rr_PodUID req,
      rq_PodSpecHash = '''', rq_KeyID = rr_KeyID req, rq_ModelDigest = rr_ModelDigest req,
      rq_ImageDigest = rr_ImageDigest req, rq_PolicyHash = rr_PolicyHash req,
      rq_EvidenceHash = rr_EvidenceHash req, rq_PlacementToken = rr_PlacementToken req,
      rq_EvidenceVerified = rr_EvidenceVerified req, rq_EvidenceRevoked = rr_EvidenceRevoked req,
      rq_EvidenceLastSeen = rr_EvidenceLastSeen req,
      rq_MaxEvidenceAgeSecs = rr_MaxEvidenceAgeSecs req, rq_PolicyRequired = rr_PolicyRequired req,
      rq_PolicyTTLSeconds = rr_PolicyTTLSeconds req,
      rq_PolicyAuditRequired = rr_PolicyAuditRequired req,
      rq_RevocationActive = rr_RevocationActive req, rq_TokenPublicKey = gw_tokenPub g\<rparr>"

definition handleKeyRelease :: "prims \<Rightarrow> (string \<Rightarrow> string) \<Rightarrow> gotime \<Rightarrow> gotime \<Rightarrow> string \<Rightarrow>
    string + releaseRequest \<Rightarrow> gateway \<Rightarrow> http_reply \<times> gateway" where
  "handleKeyRelease P syn now_evidence now_token meth body g =
     (if meth \<noteq> ''POST'' then (HttpError 405 ''method not allowed'', g)
      else
        (case body of
           Inl e \<Rightarrow> (HttpError 400 (''decode request: '' @ e), g)
         | Inr req \<Rightarrow>
           if rr_PodUID req = '''' \<or> rr_KeyID req = ''''
             then (HttpError 400 ''podUID and keyID are required'', g)
           else
             (let decision = kr_Evaluate P syn now_evidence now_token (to_request g req);
                  g' = (if rs_Allowed decision then g\<lparr>gw_allowed := gw_allowed g + 1\<rparr>
                        else g\<lparr>gw_denied := gw_denied g + 1\<rparr>);
                  keyRef =
                    (if rs_Allowed decision then
                       (case ks_Get (gw_store g) (rr_KeyID req) of
                          Some mat \<Rightarrow> ''ref:memory:'' @ take (min 8 (length mat)) mat
                        | None \<Rightarrow> ''key://'' @ rr_KeyID req)
                     else '''');
                  resp = \<lparr>rp_Allowed = rs_Allowed decision, rp_Reason = rs_Reason decision,
                          rp_KeyMaterialRef = keyRef, rp_TTLSeconds = rs_TTLSeconds decision,
                          rp_EvidenceRecord = ''''\<rparr>
              in (HttpJson (if rs_Allowed decision then 200 else 403) resp, g'))))"

text \<open>The gateway that \<open>main\<close> builds from the environment.\<close>

definition new_gateway :: "string \<Rightarrow> gateway" where
  "new_gateway pubHex =
     \<lparr>gw_store = ks_Set newMemoryKeyStore ''demo-key-1'' ''SIMULATED-KEY-MATERIAL-DO-NOT-USE-IN-PRODUCTION'',
      gw_tokenPub =
        (if pubHex = '''' then None
         else (case DecodeString pubHex of
                 Inl e \<Rightarrow> None
               | Inr b \<Rightarrow> if length b = PublicKeySize then Some b else None)),
      gw_allowed = 0, gw_denied = 0\<rparr>"


text \<open>The routes of \<open>main\<close>, for request paths in the clean form to which \<open>http.ServeMux\<close> redirects. Each request comes
  with the two times that its evaluation reads; the metrics are the two counters.\<close>

record gatewayRequest =
  gq_path :: string
  gq_method :: string
  gq_body :: "string + releaseRequest"
  gq_now :: "gotime \<times> gotime"

datatype gatewayReply = KeyReply http_reply | TextReply nat string | MetricsReply nat nat

definition serve :: "prims \<Rightarrow> (string \<Rightarrow> string) \<Rightarrow> gatewayRequest \<Rightarrow> gateway \<Rightarrow> gatewayReply \<times> gateway" where
  "serve P syn rq g =
     (if gq_path rq = ''/v1/key-release'' then
        (case handleKeyRelease P syn (fst (gq_now rq)) (snd (gq_now rq)) (gq_method rq) (gq_body rq) g of
           (r, g') \<Rightarrow> (KeyReply r, g'))
      else if gq_path rq = ''/healthz'' \<or> gq_path rq = ''/readyz'' then (TextReply 200 ''ok'', g)
      else if gq_path rq = ''/metrics'' then (MetricsReply (gw_allowed g) (gw_denied g), g)
      else (TextReply 404 ''404 page not found'', g))"

fun serve_all :: "prims \<Rightarrow> (string \<Rightarrow> string) \<Rightarrow> gatewayRequest list \<Rightarrow> gateway \<Rightarrow> gatewayReply list \<times> gateway" where
  "serve_all P syn [] g = ([], g)"
| "serve_all P syn (rq # rqs) g =
     (case serve P syn rq g of (r, g1) \<Rightarrow> case serve_all P syn rqs g1 of (rs, g2) \<Rightarrow> (r # rs, g2))"


section \<open>The key store as an interface\<close>

locale key_store =
  fixes empty :: 's
    and set_key :: "'s \<Rightarrow> string \<Rightarrow> string \<Rightarrow> 's"
    and get_key :: "'s \<Rightarrow> string \<Rightarrow> string option"
  assumes get_empty: "get_key empty k = None"
    and get_set: "get_key (set_key s k v) k' = (if k' = k then Some v else get_key s k')"
begin

text \<open>After a sequence of writes a key reads as the last value written for it.\<close>

lemma get_after_writes:
  "get_key (foldl (\<lambda>s (k, v). set_key s k v) empty ws) k = map_of (rev ws) k"
proof (induction ws rule: rev_induct)
  case Nil
  then show ?case by (simp add: get_empty)
next
  case (snoc w ws)
  then show ?case by (cases w) (simp add: get_set)
qed

end

interpretation memory_store: key_store newMemoryKeyStore ks_Set ks_Get
  by unfold_locales (simp_all add: newMemoryKeyStore_def ks_Set_def ks_Get_def update_conv)


section \<open>The promise of the decision\<close>

text \<open>A token is good for a request: it decodes, it verifies if the gateway has a key, and every
  binding that both sides name agrees.\<close>

definition agrees :: "string \<Rightarrow> string \<Rightarrow> bool" where
  "agrees given bound \<longleftrightarrow> given = '''' \<or> bound = '''' \<or> bound = given"

definition fits_request :: "Request \<Rightarrow> Payload \<Rightarrow> bool" where
  "fits_request req p \<longleftrightarrow>
     (rq_PodUID req = '''' \<or> pl_PodUID p = rq_PodUID req) \<and> agrees (rq_ModelDigest req) (pl_ModelDigest p) \<and>
     agrees (rq_ImageDigest req) (pl_ImageDigest p) \<and> agrees (rq_PolicyHash req) (pl_PolicyHash p)"

definition token_good :: "prims \<Rightarrow> (string \<Rightarrow> string) \<Rightarrow> gotime \<Rightarrow> Request \<Rightarrow> Token \<Rightarrow> bool" where
  "token_good P syn now req tok \<longleftrightarrow>
     Decode syn (rq_PlacementToken req) = Inr tok \<and>
     (rq_TokenPublicKey req \<noteq> None \<longrightarrow> Verify P now (rq_TokenPublicKey req) tok = None) \<and>
     fits_request req (tok_Payload tok)"

definition evidence_fresh :: "gotime \<Rightarrow> Request \<Rightarrow> bool" where
  "evidence_fresh now req \<longleftrightarrow>
     rq_MaxEvidenceAgeSecs req \<le> 0 \<or> rq_EvidenceLastSeen req = zeroTime \<or>
     now - rq_EvidenceLastSeen req \<le> rq_MaxEvidenceAgeSecs req * Second"

definition releasable :: "prims \<Rightarrow> (string \<Rightarrow> string) \<Rightarrow> gotime \<Rightarrow> gotime \<Rightarrow> Request \<Rightarrow> bool" where
  "releasable P syn now_evidence now_token req \<longleftrightarrow>
     0 < rq_PolicyTTLSeconds req \<and> \<not> rq_RevocationActive req \<and> \<not> rq_EvidenceRevoked req \<and>
     rq_EvidenceVerified req \<and> evidence_fresh now_evidence req \<and>
     (rq_PlacementToken req = '''' \<or> (\<exists>tok. token_good P syn now_token req tok)) \<and>
     (rq_PolicyAuditRequired req \<longrightarrow> TrimSpace (rq_EvidenceHash req) \<noteq> '''')"

lemma verifyToken_ok_iff: "verifyToken P syn now req = None \<longleftrightarrow> (\<exists>tok. token_good P syn now req tok)"
proof (cases "Decode syn (rq_PlacementToken req)")
  case (Inl e)
  then show ?thesis by (simp add: verifyToken_def token_good_def)
next
  case (Inr tok)
  then show ?thesis
    by (cases "rq_TokenPublicKey req = None"; cases "Verify P now (rq_TokenPublicKey req) tok")
      (auto simp: verifyToken_def token_good_def fits_request_def agrees_def Let_def)
qed

lemma fresh_iff:
  assumes "int32 (rq_MaxEvidenceAgeSecs req)"
  shows "evidence_fresh now req \<longleftrightarrow>
     \<not> (0 < rq_MaxEvidenceAgeSecs req \<and> rq_EvidenceLastSeen req \<noteq> zeroTime \<and>
        seconds (rq_MaxEvidenceAgeSecs req) < timeSub now (rq_EvidenceLastSeen req))"
proof -
  have "int64 (rq_MaxEvidenceAgeSecs req * Second)" "rq_MaxEvidenceAgeSecs req * Second \<noteq> 2 ^ 63 - 1"
    using assms by (auto simp: int32_def int64_def Second_def)
  then have "timeSub now (rq_EvidenceLastSeen req) \<le> rq_MaxEvidenceAgeSecs req * Second \<longleftrightarrow>
      now - rq_EvidenceLastSeen req \<le> rq_MaxEvidenceAgeSecs req * Second"
    by (simp add: timeSub_def sat64_le_iff)
  then show ?thesis
    using seconds_int32 [OF assms] by (auto simp: evidence_fresh_def Second_def not_less)
qed

lemma deny_simps [simp]:
  "\<not> rs_Allowed (deny r)" "rs_Reason (deny r) = r" "rs_KeyMaterialRef (deny r) = ''''"
  "rs_TTLSeconds (deny r) = 0"
  by (simp_all add: deny_def)

lemma kr_Evaluate_Allowed:
  assumes "int32 (rq_MaxEvidenceAgeSecs req)"
  shows "rs_Allowed (kr_Evaluate P syn t1 t2 req) \<longleftrightarrow>
    \<not> rq_PolicyRequired req \<or> releasable P syn t1 t2 req"
  unfolding kr_Evaluate_def releasable_def fresh_iff [OF assms] verifyToken_ok_iff [symmetric]
  by (auto split: option.split)

lemma classify_refuses: "classify e \<noteq> ReasonAllowed" "classify e \<noteq> ReasonPolicyNotRequired"
  by (simp_all add: classify_def)

lemma kr_Evaluate_shape:
  "kr_Evaluate P syn t1 t2 req =
     \<lparr>rs_Allowed = True, rs_Reason = ReasonPolicyNotRequired, rs_KeyMaterialRef = '''',
      rs_TTLSeconds = rq_PolicyTTLSeconds req, rs_EvidenceRecord = ''''\<rparr> \<and> \<not> rq_PolicyRequired req \<or>
   kr_Evaluate P syn t1 t2 req =
     \<lparr>rs_Allowed = True, rs_Reason = ReasonAllowed, rs_KeyMaterialRef = ''key://'' @ rq_KeyID req,
      rs_TTLSeconds = rq_PolicyTTLSeconds req, rs_EvidenceRecord = ''''\<rparr> \<or>
   (\<exists>r. kr_Evaluate P syn t1 t2 req = deny r \<and> r \<notin> {ReasonAllowed, ReasonPolicyNotRequired})"
  using classify_refuses unfolding kr_Evaluate_def by (simp split: option.split) blast

lemma kr_Evaluate_refused:
  "\<not> rs_Allowed (kr_Evaluate P syn t1 t2 req) \<Longrightarrow>
    \<exists>r. kr_Evaluate P syn t1 t2 req = deny r \<and> r \<notin> {ReasonAllowed, ReasonPolicyNotRequired}"
  using kr_Evaluate_shape [of P syn t1 t2 req] by auto

lemma kr_Evaluate_governed:
  "rq_PolicyRequired req \<Longrightarrow> rs_Allowed (kr_Evaluate P syn t1 t2 req) \<Longrightarrow>
   kr_Evaluate P syn t1 t2 req =
     \<lparr>rs_Allowed = True, rs_Reason = ReasonAllowed, rs_KeyMaterialRef = ''key://'' @ rq_KeyID req,
      rs_TTLSeconds = rq_PolicyTTLSeconds req, rs_EvidenceRecord = ''''\<rparr>"
  using kr_Evaluate_shape [of P syn t1 t2 req] by auto

lemma Encode_not_Nil [simp]: "Encode tok \<noteq> []"
  by (simp add: Encode_def token_json_def)

text \<open>The decision on an encoded token, once the checks before it have passed.\<close>

lemma verifyToken_Encode:
  assumes "payload_ok (tok_Payload tok)" and "valid_utf8 (tok_Signature tok)" and "rq_PlacementToken req = Encode tok"
    and "rq_TokenPublicKey req = Some pub"
  shows "Verify P now (Some pub) tok = Some e \<Longrightarrow> verifyToken P syn now req = Some e"
    and "Verify P now (Some pub) tok = None \<Longrightarrow> rq_PodUID req \<noteq> '''' \<Longrightarrow>
      pl_PodUID (tok_Payload tok) \<noteq> rq_PodUID req \<Longrightarrow>
      verifyToken P syn now req = Some (mismatch ''pod UID'' (pl_PodUID (tok_Payload tok)) (rq_PodUID req))"
  using assms by (simp_all add: verifyToken_def Decode_Encode Let_def)

text \<open>The gateway's check of a token, with its other conditions fixed by the request.\<close>

interpretation gateway_check: token_check P pub
    "\<lambda>now str. verifyToken P syn now (req\<lparr>rq_PlacementToken := str, rq_TokenPublicKey := Some pub\<rparr>) = None"
    "fits_request req" for P pub syn req
  by unfold_locales (auto simp: verifyToken_ok_iff token_good_def Decode_Encode fits_request_def)

lemma kr_Evaluate_token:
  assumes "rq_PolicyRequired req" and "0 < rq_PolicyTTLSeconds req" and "\<not> rq_RevocationActive req"
    and "\<not> rq_EvidenceRevoked req" and "rq_EvidenceVerified req"
    and "int32 (rq_MaxEvidenceAgeSecs req)" and "evidence_fresh t1 req"
    and "rq_PlacementToken req \<noteq> ''''" and "verifyToken P syn t2 req = Some e"
  shows "kr_Evaluate P syn t1 t2 req = deny (classify e)"
  using assms unfolding fresh_iff [OF assms(6)] by (auto simp: kr_Evaluate_def)

lemma classify_pod_mismatch:
  "classify (mismatch ''pod UID'' a b) \<in> {ReasonPodUIDMismatch, ReasonTokenExpired}"
proof -
  have "mismatch ''pod UID'' a b = ''pod UID mismatch'' @ '': token='' @ fmt_q a @ '' request='' @ fmt_q b"
    by (simp add: mismatch_def)
  then have "Contains (mismatch ''pod UID'' a b) ''pod UID mismatch''"
    by (metis Contains_left)
  then show ?thesis by (simp add: classify_def)
qed

lemma classify_expired: "classify ''token expired'' = ReasonTokenExpired"
  by (simp add: classify_def)


section \<open>Properties\<close>

text \<open>C16. The decision releases a key exactly when the policy does not require key release, or its
  TTL is positive, no revocation is active, the evidence is verified, not revoked and not older than
  the limit (when a limit and a time are given), the placement token, when one is given, decodes,
  verifies under the configured key and agrees with every binding of the request, and an audit hash is
  present if required. A refusal is empty but for its reason, which is never one of the two that
  mean release; an allowed request that the policy governs gets the policy's TTL and a reference to
  the key it asked for.\<close>

theorem key_release_exact:
  assumes "int32 (rq_MaxEvidenceAgeSecs req)"
  shows "(rs_Allowed (kr_Evaluate P syn t1 t2 req) \<longleftrightarrow>
       \<not> rq_PolicyRequired req \<or> releasable P syn t1 t2 req) \<and>
     (\<not> rs_Allowed (kr_Evaluate P syn t1 t2 req) \<longrightarrow>
       (\<exists>r. kr_Evaluate P syn t1 t2 req = deny r \<and> r \<notin> {ReasonAllowed, ReasonPolicyNotRequired})) \<and>
     (rq_PolicyRequired req \<and> rs_Allowed (kr_Evaluate P syn t1 t2 req) \<longrightarrow>
       rs_Reason (kr_Evaluate P syn t1 t2 req) = ReasonAllowed \<and>
       rs_TTLSeconds (kr_Evaluate P syn t1 t2 req) = rq_PolicyTTLSeconds req \<and>
       rs_KeyMaterialRef (kr_Evaluate P syn t1 t2 req) = ''key://'' @ rq_KeyID req)"
  by (intro conjI impI kr_Evaluate_Allowed [OF assms] kr_Evaluate_refused)
    (simp_all add: kr_Evaluate_governed)

definition demo_request :: Request where
  "demo_request =
     \<lparr>rq_Namespace = ''ns'', rq_PodName = ''pod-1'', rq_PodUID = ''uid-1'', rq_PodSpecHash = '''',
      rq_KeyID = ''key-1'', rq_ModelDigest = '''', rq_ImageDigest = '''', rq_PolicyHash = '''',
      rq_EvidenceHash = '''', rq_PlacementToken = '''', rq_EvidenceVerified = True,
      rq_EvidenceRevoked = False, rq_EvidenceLastSeen = 0, rq_MaxEvidenceAgeSecs = 300,
      rq_PolicyRequired = True, rq_PolicyTTLSeconds = 60, rq_PolicyAuditRequired = False,
      rq_RevocationActive = False, rq_TokenPublicKey = Some (p_public demo_prims demo_key)\<rparr>"

theorem key_release_exact_witness:
  "rs_Allowed (kr_Evaluate demo_prims (\<lambda>_. '''') (300 * Second) 0 demo_request) \<and>
   \<not> rs_Allowed (kr_Evaluate demo_prims (\<lambda>_. '''') (300 * Second + 1) 0 demo_request)"
proof -
  have a: "int32 (rq_MaxEvidenceAgeSecs demo_request)" by (simp add: demo_request_def int32_def)
  have r: "releasable demo_prims (\<lambda>_. '''') t 0 demo_request \<longleftrightarrow> t \<le> 300 * Second" for t
    by (simp add: releasable_def evidence_fresh_def demo_request_def zeroTime_def)
  have q: "rq_PolicyRequired demo_request" by (simp add: demo_request_def)
  show ?thesis
    using key_release_exact [OF a, of demo_prims "\<lambda>_. ''''" "300 * Second" 0]
      key_release_exact [OF a, of demo_prims "\<lambda>_. ''''" "300 * Second + 1" 0] r q
    by simp
qed

text \<open>The handler answers 405 to any method but POST, 400 to a body that does not decode or lacks
  the pod UID or key id, 200 to an allowed request and 403 to a refused one. A refusal carries no key
  reference and no TTL; an allowed reply carries at most the first eight bytes of the stored material.
  Every decision is counted once under its outcome and no request changes the key store or the
  verification key.\<close>

theorem gateway_replies:
  "case handleKeyRelease P syn t1 t2 meth body g of (reply, g') \<Rightarrow>
     gw_store g' = gw_store g \<and> gw_tokenPub g' = gw_tokenPub g \<and>
     (case reply of
        HttpError code txt \<Rightarrow> g' = g \<and> code = (if meth \<noteq> ''POST'' then 405 else 400)
      | HttpJson code resp \<Rightarrow>
          meth = ''POST'' \<and> (\<exists>req. body = Inr req \<and> rr_PodUID req \<noteq> '''' \<and> rr_KeyID req \<noteq> '''' \<and>
            rp_Allowed resp = rs_Allowed (kr_Evaluate P syn t1 t2 (to_request g req)) \<and>
            (if rp_Allowed resp
             then code = 200 \<and> g' = g\<lparr>gw_allowed := gw_allowed g + 1\<rparr> \<and>
               rp_KeyMaterialRef resp \<in> {''key://'' @ rr_KeyID req} \<union>
                 {''ref:memory:'' @ take 8 mat |mat. ks_Get (gw_store g) (rr_KeyID req) = Some mat}
             else code = 403 \<and> g' = g\<lparr>gw_denied := gw_denied g + 1\<rparr> \<and>
               rp_KeyMaterialRef resp = '''' \<and> rp_TTLSeconds resp = 0)))"
proof -
  have "rs_TTLSeconds (kr_Evaluate P syn t1 t2 (to_request g req)) = 0"
    if "\<not> rs_Allowed (kr_Evaluate P syn t1 t2 (to_request g req))" for req
    using kr_Evaluate_refused [OF that] by auto
  moreover have "take (min 8 (length m)) m = take 8 m" for m :: string
    by (simp add: min_def)
  ultimately show ?thesis
    by (auto simp: handleKeyRelease_def Let_def split: sum.split option.split)
qed

text \<open>A placement token opens the gate for its own pod and for its lifetime only. Take a token
  minted with the key the gateway verifies against, encoded into a request that passes the policy and
  evidence checks. Until the token's expiry second the key is released to its pod when the named
  digests agree; after it the reason is \<open>TOKEN_EXPIRED\<close>; and it never releases a key to another
  pod.\<close>

theorem minted_token_gates_release:
  assumes P: "ed25519_ok P" "length k = PrivateKeySize"
    and tok: "Mint P now (Some k) uid sh im md nd rc eh ph ttl opts = Inr tok"
      "payload_ok (tok_Payload tok)"
    and req: "rq_PlacementToken req = Encode tok" "rq_TokenPublicKey req = Some (p_public P k)"
      "rq_PodUID req \<noteq> ''''" "rq_PolicyRequired req" "0 < rq_PolicyTTLSeconds req"
      "\<not> rq_RevocationActive req" "\<not> rq_EvidenceRevoked req" "rq_EvidenceVerified req"
      "int32 (rq_MaxEvidenceAgeSecs req)" "evidence_fresh t1 req" "\<not> rq_PolicyAuditRequired req"
  shows "(timeUnix t2 \<le> timeUnix (now + ttl) \<and> rq_PodUID req = uid \<and> agrees (rq_ModelDigest req) md \<and>
       agrees (rq_ImageDigest req) im \<and> agrees (rq_PolicyHash req) ph \<longrightarrow>
       rs_Allowed (kr_Evaluate P syn t1 t2 req)) \<and>
     (timeUnix (now + ttl) < timeUnix t2 \<longrightarrow> kr_Evaluate P syn t1 t2 req = deny ReasonTokenExpired) \<and>
     (rq_PodUID req \<noteq> uid \<longrightarrow> kr_Evaluate P syn t1 t2 req \<in> deny ` {ReasonPodUIDMismatch, ReasonTokenExpired})"
proof -
  note v = Mint_Verify [OF P tok(1), of t2] and sg = Mint_signature [OF tok(1)]
  have exp: "kr_Evaluate P syn t1 t2 req = deny ReasonTokenExpired" if "timeUnix (now + ttl) < timeUnix t2"
  proof -
    have "Verify P t2 (Some (p_public P k)) tok = Some ''token expired''" using v that by simp
    then have "verifyToken P syn t2 req = Some ''token expired''"
      by (rule verifyToken_Encode(1) [OF tok(2) sg req(1,2)])
    then show ?thesis
      using kr_Evaluate_token [of req t1 P syn t2] req classify_expired by simp
  qed
  have uid: "kr_Evaluate P syn t1 t2 req \<in> deny ` {ReasonPodUIDMismatch, ReasonTokenExpired}"
    if n: "rq_PodUID req \<noteq> uid" and t: "timeUnix t2 \<le> timeUnix (now + ttl)"
  proof -
    have "Verify P t2 (Some (p_public P k)) tok = None" using v t by simp
    moreover have "pl_PodUID (tok_Payload tok) \<noteq> rq_PodUID req"
      using tok(1) n by (auto elim!: MintE)
    ultimately have "verifyToken P syn t2 req =
        Some (mismatch ''pod UID'' (pl_PodUID (tok_Payload tok)) (rq_PodUID req))"
      using verifyToken_Encode(2) [OF tok(2) sg req(1,2)] req(3) by blast
    then have "kr_Evaluate P syn t1 t2 req =
        deny (classify (mismatch ''pod UID'' (pl_PodUID (tok_Payload tok)) (rq_PodUID req)))"
      using kr_Evaluate_token [of req t1 P syn t2] req by simp
    then show ?thesis
      using classify_pod_mismatch [of "pl_PodUID (tok_Payload tok)" "rq_PodUID req"] by (metis imageI)
  qed
  have ok: "rs_Allowed (kr_Evaluate P syn t1 t2 req)"
    if "timeUnix t2 \<le> timeUnix (now + ttl)" "rq_PodUID req = uid" "agrees (rq_ModelDigest req) md"
      "agrees (rq_ImageDigest req) im" "agrees (rq_PolicyHash req) ph"
  proof -
    have "token_good P syn t2 req tok"
      unfolding token_good_def fits_request_def using that v req(1,2) Decode_Encode [OF tok(2) sg] tok(1)
      by (auto elim!: MintE)
    then show ?thesis
      using req by (auto simp: kr_Evaluate_Allowed releasable_def)
  qed
  show ?thesis using exp uid ok by fastforce
qed

text \<open>The token of the witnesses, and the request that presents it.\<close>

definition demo_mint :: "string \<Rightarrow> Token" where
  "demo_mint uid =
     (case Mint demo_prims 0 (Some demo_key) uid '''' '''' '''' '''' '''' '''' '''' (300 * Second)
         \<lparr>mo_GPUIdentity = '''', mo_KeyIdentifier = ''''\<rparr> of Inl _ \<Rightarrow> zero_token | Inr t \<Rightarrow> t)"

lemma demo_mint_Mint:
  assumes "TrimSpace uid \<noteq> ''''" and "valid_utf8 uid"
  shows "Mint demo_prims 0 (Some demo_key) uid '''' '''' '''' '''' '''' '''' '''' (300 * Second)
     \<lparr>mo_GPUIdentity = '''', mo_KeyIdentifier = ''''\<rparr> = Inr (demo_mint uid)"
    and "payload_ok (tok_Payload (demo_mint uid))"
    and "pl_PodUID (tok_Payload (demo_mint uid)) = uid"
  using assms
  by (simp_all add: demo_mint_def Mint_def Let_def payload_ok_def payload_times_def payload_text_def timeUnix_def
      Second_def int64_def)

theorem minted_token_gates_release_witness:
  "rs_Allowed (kr_Evaluate demo_prims (\<lambda>_. '''') 0 (300 * Second)
     (demo_request\<lparr>rq_PlacementToken := Encode (demo_mint ''uid-1'')\<rparr>)) \<and>
   kr_Evaluate demo_prims (\<lambda>_. '''') 0 (301 * Second)
     (demo_request\<lparr>rq_PlacementToken := Encode (demo_mint ''uid-1'')\<rparr>) = deny ReasonTokenExpired"
proof -
  let ?r = "demo_request\<lparr>rq_PlacementToken := Encode (demo_mint ''uid-1'')\<rparr>"
  have u: "TrimSpace ''uid-1'' \<noteq> ''''" "valid_utf8 ''uid-1''" by (simp_all add: TrimSpace_graphic graphic_def)
  have r: "rq_PlacementToken ?r = Encode (demo_mint ''uid-1'')"
    "rq_TokenPublicKey ?r = Some (p_public demo_prims demo_key)" "rq_PodUID ?r \<noteq> ''''"
    "rq_PolicyRequired ?r" "0 < rq_PolicyTTLSeconds ?r" "\<not> rq_RevocationActive ?r"
    "\<not> rq_EvidenceRevoked ?r" "rq_EvidenceVerified ?r" "int32 (rq_MaxEvidenceAgeSecs ?r)"
    "evidence_fresh 0 ?r" "\<not> rq_PolicyAuditRequired ?r"
    by (simp_all add: demo_request_def int32_def evidence_fresh_def Second_def)
  note g = minted_token_gates_release [OF demo_prims_ok demo_key_length
      demo_mint_Mint(1) [OF u] demo_mint_Mint(2) [OF u] r, where syn = "\<lambda>_. ''''"]
  have "rq_PodUID ?r = ''uid-1''" "rq_ModelDigest ?r = ''''" "rq_ImageDigest ?r = ''''"
    "rq_PolicyHash ?r = ''''"
    by (simp_all add: demo_request_def)
  then show ?thesis
    using g [of "300 * Second"] g [of "301 * Second"] by (simp add: agrees_def timeUnix_def Second_def)
qed












section \<open>Sequences of requests\<close>

definition outcome_count :: "nat \<Rightarrow> gatewayReply list \<Rightarrow> nat" where
  "outcome_count code rs = length (filter (\<lambda>r. case r of KeyReply (HttpJson c resp) \<Rightarrow> c = code | _ \<Rightarrow> False) rs)"

lemma outcome_count_simps [simp]:
  "outcome_count code [] = 0"
  "outcome_count code (r # rs) = (case r of KeyReply (HttpJson c resp) \<Rightarrow> if c = code then 1 else 0 | _ \<Rightarrow> 0) + outcome_count code rs"
  by (simp_all add: outcome_count_def split: gatewayReply.split http_reply.split)

text \<open>What a reply may be, given the gateway's key and store and the counters when the request came.\<close>

definition reply_ok :: "prims \<Rightarrow> (string \<Rightarrow> string) \<Rightarrow> gateway \<Rightarrow> nat \<Rightarrow> nat \<Rightarrow> gatewayRequest \<Rightarrow> gatewayReply \<Rightarrow> bool" where
  "reply_ok P syn g0 a d rq r =
     (case r of
        KeyReply (HttpJson code resp) \<Rightarrow> gq_path rq = ''/v1/key-release'' \<and> gq_method rq = ''POST'' \<and>
          (case gq_body rq of Inl e \<Rightarrow> False | Inr req \<Rightarrow> rr_PodUID req \<noteq> '''' \<and> rr_KeyID req \<noteq> '''' \<and>
             rp_Allowed resp = rs_Allowed (kr_Evaluate P syn (fst (gq_now rq)) (snd (gq_now rq)) (to_request g0 req)) \<and>
             (if rp_Allowed resp then code = 200 \<and>
                rp_KeyMaterialRef resp = (case ks_Get (gw_store g0) (rr_KeyID req) of
                   Some mat \<Rightarrow> ''ref:memory:'' @ take 8 mat | None \<Rightarrow> ''key://'' @ rr_KeyID req)
              else code = 403 \<and> rp_KeyMaterialRef resp = '''' \<and> rp_TTLSeconds resp = 0))
      | KeyReply (HttpError code txt) \<Rightarrow> gq_path rq = ''/v1/key-release'' \<and> code = (if gq_method rq \<noteq> ''POST'' then 405 else 400)
      | TextReply code txt \<Rightarrow> gq_path rq \<noteq> ''/v1/key-release'' \<and> (code = 200 \<longleftrightarrow> gq_path rq \<in> {''/healthz'', ''/readyz''})
      | MetricsReply a' d' \<Rightarrow> gq_path rq = ''/metrics'' \<and> a' = a \<and> d' = d)"

lemma to_request_key: "gw_tokenPub g = gw_tokenPub g0 \<Longrightarrow> to_request g = to_request g0"
  by (rule ext) (simp add: to_request_def)

lemma serve_ok:
  assumes "gw_tokenPub g = gw_tokenPub g0" and "gw_store g = gw_store g0" and "serve P syn rq g = (r, g')"
  shows "reply_ok P syn g0 (gw_allowed g) (gw_denied g) rq r" "gw_tokenPub g' = gw_tokenPub g0" "gw_store g' = gw_store g0"
    "gw_allowed g' = gw_allowed g + outcome_count 200 [r]" "gw_denied g' = gw_denied g + outcome_count 403 [r]"
proof -
  have z: "rs_TTLSeconds (kr_Evaluate P syn t1 t2 (to_request g0 req)) = 0"
    if "\<not> rs_Allowed (kr_Evaluate P syn t1 t2 (to_request g0 req))" for t1 t2 req
    using kr_Evaluate_refused [OF that] by auto
  have t: "take (min 8 (length m)) m = take 8 m" for m :: string by (simp add: min_def)
  note defs = assms(1,2) to_request_key [OF assms(1)] serve_def handleKeyRelease_def Let_def t
  show "reply_ok P syn g0 (gw_allowed g) (gw_denied g) rq r"
    using assms(3) z by (auto simp: reply_ok_def defs split: if_splits sum.splits option.split)
  show "gw_tokenPub g' = gw_tokenPub g0" "gw_store g' = gw_store g0"
    "gw_allowed g' = gw_allowed g + outcome_count 200 [r]" "gw_denied g' = gw_denied g + outcome_count 403 [r]"
    using assms by (auto simp: serve_def handleKeyRelease_def Let_def split: if_splits sum.splits)
qed

lemma serve_all_ok:
  assumes "gw_tokenPub g = gw_tokenPub g0" and "gw_store g = gw_store g0" and "serve_all P syn rqs g = (rs, g')"
  shows "length rs = length rqs \<and> gw_tokenPub g' = gw_tokenPub g0 \<and> gw_store g' = gw_store g0 \<and>
    gw_allowed g' = gw_allowed g + outcome_count 200 rs \<and> gw_denied g' = gw_denied g + outcome_count 403 rs \<and>
    (\<forall>i<length rqs. reply_ok P syn g0 (gw_allowed g + outcome_count 200 (take i rs))
       (gw_denied g + outcome_count 403 (take i rs)) (rqs ! i) (rs ! i))"
  using assms
proof (induction rqs arbitrary: g rs)
  case (Cons rq rqs)
  obtain r g1 where 1: "serve P syn rq g = (r, g1)" by (cases "serve P syn rq g")
  obtain rs' where 2: "serve_all P syn rqs g1 = (rs', g')" "rs = r # rs'"
    using Cons.prems(3) 1 by (auto split: prod.splits)
  note s = serve_ok [OF Cons.prems(1,2) 1]
  note i = Cons.IH [OF s(2,3) 2(1)]
  have "reply_ok P syn g0 (gw_allowed g + outcome_count 200 (take i rs)) (gw_denied g + outcome_count 403 (take i rs))
      ((rq # rqs) ! i) (rs ! i)" if "i < length (rq # rqs)" for i
    using that i s 2(2) by (cases i) (auto simp: add.assoc)
  then show ?case using i s(4,5) 2(2) by (auto simp: add.assoc)
qed auto

text \<open>C17. A gateway over its whole life. However many requests a started gateway has served, its verification key
  and its stored keys are those of the start, its counters are the numbers of keys released and refused so
  far, and that is what its metrics page shows; a key is released only in the answer to a \<open>POST\<close> on the release
  path with a pod and a key name, exactly when the evaluation against that verification key allows it; and the
  reference it carries is that of the named key.\<close>

theorem gateway_life:
  "case serve_all P syn rqs (new_gateway pubHex) of (rs, g) \<Rightarrow>
     length rs = length rqs \<and> gw_tokenPub g = gw_tokenPub (new_gateway pubHex) \<and> gw_store g = gw_store (new_gateway pubHex) \<and>
     gw_allowed g = outcome_count 200 rs \<and> gw_denied g = outcome_count 403 rs \<and>
     (\<forall>i<length rqs. reply_ok P syn (new_gateway pubHex) (outcome_count 200 (take i rs)) (outcome_count 403 (take i rs))
        (rqs ! i) (rs ! i))"
proof -
  obtain rs g where s: "serve_all P syn rqs (new_gateway pubHex) = (rs, g)" by (cases "serve_all P syn rqs (new_gateway pubHex)")
  have "gw_allowed (new_gateway pubHex) = 0" "gw_denied (new_gateway pubHex) = 0" by (simp_all add: new_gateway_def)
  with serve_all_ok [OF refl refl s] show ?thesis unfolding s by simp
qed

theorem gateway_life_witness:
  "\<exists>rs g. serve_all demo_prims (\<lambda>s. '''') [\<lparr>gq_path = ''/v1/key-release'', gq_method = ''GET'', gq_body = Inl '''', gq_now = (0, 0)\<rparr>,
       \<lparr>gq_path = ''/metrics'', gq_method = ''GET'', gq_body = Inl '''', gq_now = (0, 0)\<rparr>] (new_gateway '''') = (rs, g) \<and>
     rs = [KeyReply (HttpError 405 ''method not allowed''), MetricsReply 0 0] \<and> gw_allowed g = 0 \<and>
     reply_ok demo_prims (\<lambda>s. '''') (new_gateway '''') 0 0
       \<lparr>gq_path = ''/metrics'', gq_method = ''GET'', gq_body = Inl '''', gq_now = (0, 0)\<rparr> (MetricsReply 0 0)"
proof -
  let ?rqs = "[\<lparr>gq_path = ''/v1/key-release'', gq_method = ''GET'', gq_body = Inl '''', gq_now = (0, 0)\<rparr>,
       \<lparr>gq_path = ''/metrics'', gq_method = ''GET'', gq_body = Inl '''', gq_now = (0, 0)\<rparr>] :: gatewayRequest list"
  obtain rs g where s: "serve_all demo_prims (\<lambda>s. '''') ?rqs (new_gateway '''') = (rs, g)"
    by (cases "serve_all demo_prims (\<lambda>s. '''') ?rqs (new_gateway '''')")
  have rs: "rs = [KeyReply (HttpError 405 ''method not allowed''), MetricsReply 0 0]"
    using s by (simp add: serve_def handleKeyRelease_def new_gateway_def)
  have "gw_allowed g = outcome_count 200 rs"
    "\<forall>i<length ?rqs. reply_ok demo_prims (\<lambda>s. '''') (new_gateway '''') (outcome_count 200 (take i rs))
       (outcome_count 403 (take i rs)) (?rqs ! i) (rs ! i)"
    using gateway_life [where P = demo_prims and syn = "\<lambda>s. ''''" and rqs = ?rqs and pubHex = "''''"] unfolding s by simp_all
  then have "gw_allowed g = 0" "reply_ok demo_prims (\<lambda>s. '''') (new_gateway '''') 0 0 (?rqs ! 1) (MetricsReply 0 0)"
    by (simp_all add: rs) (drule spec [of _ 1], simp)
  with s rs show ?thesis by auto
qed

end
