(* ===== verification/Spec_Hash.thy ===== *)
theory Spec_Hash
  imports Api_Types
begin

text \<open>
  What the canonical hash of a resource's spec pins. The operator compares policies and evidence by
  the SHA-256 of the canonical JSON of their specs; here the JSON encodings of the specs are shown to
  determine every field, so that equal hashes mean equal specs wherever SHA-256 does not collide.
\<close>

text \<open>The value of a member of an object.\<close>

definition member :: "(string \<times> json) list \<Rightarrow> string \<Rightarrow> json option" where
  "member kvs k = map_of kvs k"

text \<open>Equality of decoded objects, member by member.\<close>

lemma jequiv_lookup:
  assumes "json_ok (JObj kvs)" and "json_ok (JObj lvs)" and "jequiv (JObj kvs) (JObj lvs)"
  shows "rel_option jequiv (member kvs k) (member lvs k)"
proof -
  have d: "distinct (map fst kvs)" "distinct (map fst lvs)" using assms by auto
  have sub: "\<forall>(k, v)\<in>set kvs. \<exists>w. map_of lvs k = Some w \<and> jequiv v w"
    using assms(3) by (auto simp: list_all_iff split: option.splits)
  have len: "length kvs = length lvs" using assms(3) by simp
  have "fst ` set kvs \<subseteq> fst ` set lvs"
    using sub by (force dest: map_of_SomeD)
  moreover have "card (fst ` set kvs) = card (fst ` set lvs)"
    using d len by (metis distinct_card length_map set_map)
  ultimately have keys: "fst ` set kvs = fst ` set lvs" by (intro card_subset_eq) auto
  show ?thesis
  proof (cases "map_of kvs k")
    case None
    then have "map_of lvs k = None" using keys by (simp add: map_of_eq_None_iff)
    with None show ?thesis by (simp add: member_def)
  next
    case (Some v)
    then show ?thesis using sub by (fastforce simp: member_def dest: map_of_SomeD)
  qed
qed

text \<open>An object written field by field is well formed when its values are and no key is repeated.\<close>

lemma json_ok_fld:
  "json_ok (JObj (fld b k v @ xs)) \<longleftrightarrow> (b \<longrightarrow> valid_utf8 k \<and> json_ok v \<and> k \<notin> fst ` set xs) \<and> json_ok (JObj xs)"
  "json_ok (JObj (fld b k v)) \<longleftrightarrow> (b \<longrightarrow> valid_utf8 k \<and> json_ok v)"
  by (auto simp: fld_def)

lemma key_in_fld:
  "k' \<in> fst ` set (fld b k v @ xs) \<longleftrightarrow> b \<and> k' = k \<or> k' \<in> fst ` set xs"
  "k' \<in> fst ` set (fld b k v) \<longleftrightarrow> b \<and> k' = k"
  by (auto simp: fld_def)

lemma member_fld [simp]:
  "k \<notin> fst ` set xs \<Longrightarrow> member (fld b k v @ xs) k = (if b then Some v else None)"
  "k' \<noteq> k \<Longrightarrow> member (fld b k v @ xs) k' = member xs k'"
  "member (fld b k v) k = (if b then Some v else None)"
  "k' \<noteq> k \<Longrightarrow> member (fld b k v) k' = None"
  by (auto simp: fld_def member_def map_of_eq_None_iff)

lemma jequiv_str [simp]: "jequiv (JStr s) j \<longleftrightarrow> j = JStr s"
  by simp

lemma jequiv_strs: "jequiv (JArr (map JStr xs)) (JArr (map JStr ys)) \<longleftrightarrow> xs = ys"
proof
  assume "jequiv (JArr (map JStr xs)) (JArr (map JStr ys))"
  then have "length xs = length ys" "\<forall>i<length xs. JStr (xs ! i) = JStr (ys ! i)"
    by (auto simp: list_all_length)
  then show "xs = ys" by (simp add: list_eq_iff_nth_eq)
qed (auto simp: list_all_length)

text \<open>The numbers of a policy are \<open>int32\<close> values, its selectors decodable JSON and its strings valid UTF-8, as in every
  object that the API server stores.\<close>

definition sel_ok :: "LabelSelector option \<Rightarrow> bool" where
  "sel_ok s = (case s of None \<Rightarrow> True | Some j \<Rightarrow> json_ok j)"

definition gpu_text :: "ConfidentialGPURequirements \<Rightarrow> bool" where
  "gpu_text g \<longleftrightarrow> valid_utf8 (gpu_Vendor g) \<and> valid_utf8 (gpu_DeviceClass g) \<and> valid_utf8 (gpu_DRAClass g)"

definition cip_text :: "ConfidentialInferencePolicySpec \<Rightarrow> bool" where
  "cip_text s \<longleftrightarrow> list_all valid_utf8 (cips_RequiredTEE s) \<and> list_all valid_utf8 (cips_AllowedRuntimeClasses s) \<and>
     (case cips_GPU s of None \<Rightarrow> True | Some g \<Rightarrow> gpu_text g) \<and> valid_utf8 (aud_Level (cips_Audit s)) \<and>
     valid_utf8 (cips_EnforcementMode s)"

definition cip_spec_ok :: "ConfidentialInferencePolicySpec \<Rightarrow> bool" where
  "cip_spec_ok s \<longleftrightarrow> cip_text s \<and> int32 (cips_MaxEvidenceAgeSeconds s) \<and> int32 (kr_TTLSeconds (cips_KeyRelease s)) \<and>
     sel_ok (wt_NamespaceSelector (cips_Target s)) \<and> sel_ok (wt_WorkloadSelector (cips_Target s))"

lemma int32_json: "int32 n \<Longrightarrow> \<bar>n\<bar> \<le> 2 ^ 53"
  by (simp add: int32_def abs_le_iff)

lemma parts_ok [simp]:
  "valid_utf8 (aud_Level a) \<Longrightarrow> json_ok (audit_json a)" "gpu_text g \<Longrightarrow> json_ok (gpu_json g)"
  "int32 (kr_TTLSeconds k) \<Longrightarrow> json_ok (key_release_json k)"
  "sel_ok (wt_NamespaceSelector t) \<Longrightarrow> sel_ok (wt_WorkloadSelector t) \<Longrightarrow> json_ok (target_json t)"
  unfolding audit_json_def gpu_json_def key_release_json_def target_json_def json_ok_fld key_in_fld
  by (auto simp: sel_ok_def gpu_text_def int32_json [simplified] split: option.splits)

lemma cip_spec_json_ok:
  assumes "cip_spec_ok s"
  shows "json_ok (cip_spec_json s)"
  using assms unfolding cip_spec_json_def cip_spec_ok_def cip_text_def json_ok_fld key_in_fld
  by (simp add: int32_json [simplified] list_all_iff split: option.splits)

text \<open>What a member says about the field it was written from.\<close>

lemma rel_field:
  "rel_option jequiv (if s \<noteq> '''' then Some (JStr s) else None)
     (if t \<noteq> '''' then Some (JStr t) else None) \<longleftrightarrow> s = t"
  "rel_option jequiv (if b then Some (JBool b) else None) (if c then Some (JBool c) else None) \<longleftrightarrow> b = c"
  "rel_option jequiv (if m \<noteq> 0 then Some (JNum m) else None) (if n \<noteq> 0 then Some (JNum n) else None)
     \<longleftrightarrow> m = n"
  "rel_option jequiv (if xs \<noteq> [] then Some (JArr (map JStr xs)) else None)
     (if ys \<noteq> [] then Some (JArr (map JStr ys)) else None) \<longleftrightarrow> xs = ys"
  "rel_option jequiv (if p \<noteq> None then Some (case p of None \<Rightarrow> JNull | Some x \<Rightarrow> f x) else None)
     (if q \<noteq> None then Some (case q of None \<Rightarrow> JNull | Some x \<Rightarrow> f x) else None) \<longleftrightarrow>
     rel_option (\<lambda>x y. jequiv (f x) (f y)) p q"
  using jequiv_strs [of xs ys] by (auto simp del: jequiv.simps(1) split: option.splits)

lemma jequiv_audit:
  assumes "valid_utf8 (aud_Level a)" and "valid_utf8 (aud_Level b)" and "jequiv (audit_json a) (audit_json b)"
  shows "a = b"
proof -
  note l = jequiv_lookup [OF parts_ok(1) [OF assms(1), unfolded audit_json_def]
      parts_ok(1) [OF assms(2), unfolded audit_json_def] assms(3) [unfolded audit_json_def]]
  have "aud_Required a = aud_Required b" using l [of "''required''"] by (simp add: rel_field key_in_fld image_Un)
  moreover have "aud_Level a = aud_Level b" using l [of "''level''"] by (simp add: rel_field key_in_fld image_Un)
  ultimately show ?thesis by simp
qed

lemma jequiv_gpu:
  assumes "gpu_text a" and "gpu_text b" and "jequiv (gpu_json a) (gpu_json b)"
  shows "a = b"
proof -
  note l = jequiv_lookup [OF parts_ok(2) [OF assms(1), unfolded gpu_json_def]
      parts_ok(2) [OF assms(2), unfolded gpu_json_def] assms(3) [unfolded gpu_json_def]]
  have "gpu_Vendor a = gpu_Vendor b" using l [of "''vendor''"] by (simp add: rel_field key_in_fld image_Un)
  moreover have "gpu_DeviceClass a = gpu_DeviceClass b" using l [of "''deviceClass''"] by (simp add: rel_field key_in_fld image_Un)
  moreover have "gpu_DRAClass a = gpu_DRAClass b" using l [of "''draClass''"] by (simp add: rel_field key_in_fld image_Un)
  ultimately show ?thesis by simp
qed

lemma jequiv_key_release:
  assumes "int32 (kr_TTLSeconds a)" and "int32 (kr_TTLSeconds b)"
    and "jequiv (key_release_json a) (key_release_json b)"
  shows "a = b"
proof -
  note l = jequiv_lookup [OF parts_ok(3) [OF assms(1), unfolded key_release_json_def]
      parts_ok(3) [OF assms(2), unfolded key_release_json_def] assms(3) [unfolded key_release_json_def]]
  have "kr_Required a = kr_Required b" using l [of "''required''"] by (simp add: rel_field key_in_fld image_Un)
  moreover have "kr_TTLSeconds a = kr_TTLSeconds b" using l [of "''ttlSeconds''"] by (simp add: rel_field key_in_fld image_Un)
  ultimately show ?thesis by simp
qed

text \<open>Two targets select the same when their selectors are equal as decoded values.\<close>

definition target_same :: "WorkloadTarget \<Rightarrow> WorkloadTarget \<Rightarrow> bool" where
  "target_same a b \<longleftrightarrow>
     rel_option jequiv (wt_NamespaceSelector a) (wt_NamespaceSelector b) \<and>
     rel_option jequiv (wt_WorkloadSelector a) (wt_WorkloadSelector b)"

lemma jequiv_target:
  assumes "json_ok (target_json a)" and "json_ok (target_json b)"
    and "jequiv (target_json a) (target_json b)"
  shows "target_same a b"
proof -
  note l = jequiv_lookup [OF assms [unfolded target_json_def]]
  show ?thesis
    using l [of "''namespaceSelector''"] l [of "''workloadSelector''"]
    by (simp add: rel_field key_in_fld image_Un target_same_def del: not_None_eq)
qed

text \<open>Two policy specs that say the same: equal in every field, the selectors as decoded values.\<close>

definition cip_same :: "ConfidentialInferencePolicySpec \<Rightarrow> ConfidentialInferencePolicySpec \<Rightarrow> bool" where
  "cip_same a b \<longleftrightarrow> target_same (cips_Target a) (cips_Target b) \<and> a\<lparr>cips_Target := cips_Target b\<rparr> = b"

lemma jequiv_cip_spec:
  assumes a: "cip_spec_ok a" and b: "cip_spec_ok b" and j: "jequiv (cip_spec_json a) (cip_spec_json b)"
  shows "cip_same a b"
proof -
  note l = jequiv_lookup [OF cip_spec_json_ok [OF a, unfolded cip_spec_json_def]
      cip_spec_json_ok [OF b, unfolded cip_spec_json_def] j [unfolded cip_spec_json_def]]
  note s = rel_field key_in_fld image_Un
  have "jequiv (target_json (cips_Target a)) (target_json (cips_Target b))"
    using l [of "''target''"] by (simp add: s)
  then have "target_same (cips_Target a) (cips_Target b)"
    using a b by (intro jequiv_target) (simp_all add: cip_spec_ok_def)
  moreover have "cips_RequiredTEE a = cips_RequiredTEE b"
    using l [of "''requiredTEE''"] by (simp add: s)
  moreover have "cips_RequireConfidentialContainers a = cips_RequireConfidentialContainers b"
    using l [of "''requireConfidentialContainers''"] by (simp add: s)
  moreover have "cips_RequireConfidentialGPU a = cips_RequireConfidentialGPU b"
    using l [of "''requireConfidentialGPU''"] by (simp add: s)
  moreover have "rel_option (\<lambda>x y. jequiv (gpu_json x) (gpu_json y)) (cips_GPU a) (cips_GPU b)"
    using l [of "''gpu''"] by (simp add: s del: not_None_eq)
  then have "cips_GPU a = cips_GPU b"
    using a b by (cases "cips_GPU a"; cases "cips_GPU b") (simp_all add: jequiv_gpu cip_spec_ok_def cip_text_def)
  moreover have "cips_AllowedRuntimeClasses a = cips_AllowedRuntimeClasses b"
    using l [of "''allowedRuntimeClasses''"] by (simp add: s)
  moreover have "cips_MaxEvidenceAgeSeconds a = cips_MaxEvidenceAgeSeconds b"
    using l [of "''maxEvidenceAgeSeconds''"] by (simp add: s)
  moreover have "cips_RequireImageDigest a = cips_RequireImageDigest b"
    using l [of "''requireImageDigest''"] by (simp add: s)
  moreover have "cips_RequireModelDigest a = cips_RequireModelDigest b"
    using l [of "''requireModelDigest''"] by (simp add: s)
  moreover have "jequiv (key_release_json (cips_KeyRelease a)) (key_release_json (cips_KeyRelease b))"
    using l [of "''keyRelease''"] by (simp add: s)
  then have "cips_KeyRelease a = cips_KeyRelease b"
    using a b by (intro jequiv_key_release) (simp_all add: cip_spec_ok_def)
  moreover have "jequiv (audit_json (cips_Audit a)) (audit_json (cips_Audit b))"
    using l [of "''audit''"] by (simp add: s)
  then have "cips_Audit a = cips_Audit b" using a b by (intro jequiv_audit) (simp_all add: cip_spec_ok_def cip_text_def)
  moreover have "cips_EnforcementMode a = cips_EnforcementMode b"
    using l [of "''enforcementMode''"] by (simp add: s)
  ultimately show ?thesis by (simp add: cip_same_def)
qed


section \<open>Properties\<close>

text \<open>C22. The policy hash pins the policy: it always exists, and where SHA-256 does not collide on the
  two canonical texts, policies with equal hashes agree in every field of their specs, the label
  selectors as decoded values. A hash recorded on a pod or in a token therefore cannot stand for an
  edited policy.\<close>

theorem policy_hash_pins_policy:
  assumes "cip_spec_ok a" and "cip_spec_ok b"
    and "collision_free P (canonical_bytes [cip_spec_json a, cip_spec_json b])"
    and "CanonicalSHA256Hex P (cip_spec_json a) = CanonicalSHA256Hex P (cip_spec_json b)"
  shows "(\<exists>h. CanonicalSHA256Hex P (cip_spec_json a) = Some h) \<and> cip_same a b"
  using assms CanonicalSHA256Hex_total [OF cip_spec_json_ok [OF assms(1)], of P]
    jequiv_cip_spec CanonicalSHA256Hex_eqD [OF cip_spec_json_ok cip_spec_json_ok] by blast

definition demo_cip_spec :: ConfidentialInferencePolicySpec where
  "demo_cip_spec =
     \<lparr>cips_Target = \<lparr>wt_NamespaceSelector = None, wt_WorkloadSelector = None\<rparr>,
      cips_RequiredTEE = [''SEV-SNP''], cips_RequireConfidentialContainers = True,
      cips_RequireConfidentialGPU = False, cips_GPU = None, cips_AllowedRuntimeClasses = [''kata''],
      cips_MaxEvidenceAgeSeconds = 300, cips_RequireImageDigest = False,
      cips_RequireModelDigest = False, cips_KeyRelease = \<lparr>kr_Required = False, kr_TTLSeconds = 0\<rparr>,
      cips_Audit = \<lparr>aud_Required = False, aud_Level = ''''\<rparr>, cips_EnforcementMode = ''enforce''\<rparr>"

lemma demo_cip_spec_ok: "cip_spec_ok demo_cip_spec"
  by (simp add: demo_cip_spec_def cip_spec_ok_def cip_text_def sel_ok_def int32_def)

theorem policy_hash_pins_policy_witness:
  "(\<exists>h. CanonicalSHA256Hex demo_prims (cip_spec_json demo_cip_spec) = Some h) \<and>
   cip_same demo_cip_spec demo_cip_spec"
proof -
  have "collision_free demo_prims M" for M by (simp add: collision_free_def demo_prims_def)
  then show ?thesis
    using policy_hash_pins_policy [OF demo_cip_spec_ok demo_cip_spec_ok, of demo_prims] by blast
qed

end
