(* ===== verification/Scheduler.thy ===== *)
theory Scheduler
  imports Kube Token Spec_Hash Float64
begin

text \<open>
  The attestation-aware scheduler, \<open>internal/scheduler\<close>, and the reconciler of
  \<open>cmd/attestation-scheduler\<close> that drives it.

  Every call of the Kubernetes client is a call of the server parameter, in the order of the source;
  so are the reads of the clock that influence a result (the phase timings, which are only logged, are
  left out). The pure parts of each phase are functions of their own: the scan over a node's
  evidence, the score of a candidate, the parsing of the expected age. \<open>sort.Slice\<close> is the parameter
  \<open>srt\<close>; the contract it documents, a permutation in the given order with no promise about ties, is
  \<open>sort_slice_ok\<close>. The waiting loop of \<open>permit\<close> runs on fuel, \<open>None\<close> standing for running out of it.
\<close>

definition SchedulerName :: string where
  "SchedulerName = ''ai-attestation-scheduler''"

definition PlacementTokenAnnotation :: string where
  "PlacementTokenAnnotation = ''ai.sovereign.io/placement-token''"

record NodeCandidate =
  nc_Node :: Node
  nc_Evidence :: "AttestationEvidence option"
  nc_Score :: int
  nc_Reason :: string

record Scheduler =
  sc_signingKey :: "string option"
  sc_pubKey :: "string option"
  sc_tokenTTL :: duration
  sc_permitTimeout :: duration
  sc_permitPollInterval :: duration
  sc_preBindDelay :: duration

definition NewScheduler :: "string option \<Rightarrow> string option \<Rightarrow> duration \<Rightarrow> Scheduler" where
  "NewScheduler signingKey pubKey tokenTTL =
     \<lparr>sc_signingKey = signingKey, sc_pubKey = pubKey,
      sc_tokenTTL = (if tokenTTL \<le> 0 then 5 * 60 * Second else tokenTTL),
      sc_permitTimeout = 15 * Second, sc_permitPollInterval = 250 * Millisecond,
      sc_preBindDelay = 0\<rparr>"

definition SetPreBindDelay :: "duration \<Rightarrow> Scheduler \<Rightarrow> Scheduler" where
  "SetPreBindDelay delay s = s\<lparr>sc_preBindDelay := (if delay < 0 then 0 else delay)\<rparr>"


section \<open>Matching\<close>

definition selected_by :: "klib \<Rightarrow> LabelSelector option \<Rightarrow> gomap \<Rightarrow> bool" where
  "selected_by kl sel labels =
     (case sel of None \<Rightarrow> True
      | Some s \<Rightarrow> (case kl_selMatches kl s labels of None \<Rightarrow> False | Some b \<Rightarrow> b))"

definition policyMatchesPod :: "klib \<Rightarrow> ConfidentialInferencePolicy \<Rightarrow> gomap \<Rightarrow> Pod \<Rightarrow> bool" where
  "policyMatchesPod kl policy nsLabels pod =
     (selected_by kl (wt_NamespaceSelector (cips_Target (cip_Spec policy))) nsLabels \<and>
      selected_by kl (wt_WorkloadSelector (cips_Target (cip_Spec policy))) (om_Labels (pod_Meta pod)))"

definition taint_blocks :: "Taint \<Rightarrow> bool" where
  "taint_blocks t = (tn_Effect t = ''NoSchedule'' \<or> tn_Effect t = ''NoExecute'')"

fun taints_ok :: "klib \<Rightarrow> Toleration list \<Rightarrow> Toleration list \<Rightarrow> Taint list \<Rightarrow> bool" where
  "taints_ok kl podTols rtTols [] = True"
| "taints_ok kl podTols rtTols (t # ts) =
     (if \<not> taint_blocks t then taints_ok kl podTols rtTols ts
      else if list_ex (\<lambda>tol. kl_tolerates kl tol t) podTols then taints_ok kl podTols rtTols ts
      else if list_ex (\<lambda>tol. kl_tolerates kl tol t) rtTols then taints_ok kl podTols rtTols ts
      else False)"

definition podMatchesNodeConstraints :: "klib \<Rightarrow> Pod \<Rightarrow> Node \<Rightarrow> Scheduling option \<Rightarrow> bool" where
  "podMatchesNodeConstraints kl pod node sched =
     (let ps = pod_Spec pod in
      if ps_NodeName ps \<noteq> '''' \<and> ps_NodeName ps \<noteq> node_Name node then False
      else if ps_NodeSelector ps \<noteq> [] \<and> \<not> kl_setMatches kl (ps_NodeSelector ps) (node_Labels node)
        then False
      else if (case sched of None \<Rightarrow> False
               | Some sc \<Rightarrow> sch_NodeSelector sc \<noteq> [] \<and>
                   \<not> kl_setMatches kl (sch_NodeSelector sc) (node_Labels node)) then False
      else taints_ok kl (ps_Tolerations ps)
             (case sched of None \<Rightarrow> [] | Some sc \<Rightarrow> sch_Tolerations sc) (node_Taints node))"

fun teeMatches :: "string \<Rightarrow> string list \<Rightarrow> bool" where
  "teeMatches nodeTEE [] = False"
| "teeMatches nodeTEE (req # rs) =
     (if ToUpper (TrimSpace req) = ToUpper (TrimSpace nodeTEE) then True else teeMatches nodeTEE rs)"


section \<open>Evidence of a node\<close>

datatype evReason =
    CannotListEvidence
  | NoEvidenceForNode
  | NoValidEvidence
  | EvRevoked string
  | EvNotVerified string
  | EvTooOld string duration duration
  | EvWrongTEE string string

definition too_old :: "gotime \<Rightarrow> ConfidentialInferencePolicy option \<Rightarrow> AttestationEvidence \<Rightarrow>
    (duration \<times> duration) option" where
  "too_old now policy ev =
     (case (policy, evt_LastVerifiedTime (ev_Status ev)) of
        (Some p, Some t) \<Rightarrow>
          if 0 < cips_MaxEvidenceAgeSeconds (cip_Spec p) then
            (let age = timeSub now t; maxAge = seconds (cips_MaxEvidenceAgeSeconds (cip_Spec p)) in
             if maxAge < age then Some (age, maxAge) else None)
          else None
      | _ \<Rightarrow> None)"

definition wrong_tee :: "ConfidentialInferencePolicy option \<Rightarrow> AttestationEvidence \<Rightarrow> bool" where
  "wrong_tee policy ev =
     (case policy of None \<Rightarrow> False
      | Some p \<Rightarrow> cips_RequiredTEE (cip_Spec p) \<noteq> [] \<and>
          \<not> teeMatches (evs_TEE (ev_Spec ev)) (cips_RequiredTEE (cip_Spec p)))"

fun scan_evidence :: "gotime \<Rightarrow> string \<Rightarrow> ConfidentialInferencePolicy option \<Rightarrow> evReason \<Rightarrow> bool \<Rightarrow>
    AttestationEvidence list \<Rightarrow> evReason + AttestationEvidence" where
  "scan_evidence now node policy lastReason saw [] =
     Inl (if \<not> saw then NoEvidenceForNode else lastReason)"
| "scan_evidence now node policy lastReason saw (ev # evs) =
     (if ref_Name (evs_SubjectRef (ev_Spec ev)) \<noteq> node
        then scan_evidence now node policy lastReason saw evs
      else if evt_Revoked (ev_Status ev)
        then scan_evidence now node policy (EvRevoked (om_Name (ev_Meta ev))) True evs
      else if \<not> evt_Verified (ev_Status ev)
        then scan_evidence now node policy (EvNotVerified (om_Name (ev_Meta ev))) True evs
      else
        (case too_old now policy ev of
           Some (age, maxAge) \<Rightarrow>
             scan_evidence now node policy (EvTooOld (om_Name (ev_Meta ev)) age maxAge) True evs
         | None \<Rightarrow>
           if wrong_tee policy ev
             then scan_evidence now node policy
                    (EvWrongTEE (om_Name (ev_Meta ev)) (evs_TEE (ev_Spec ev))) True evs
           else Inr ev))"

definition nodeHasValidEvidence :: "'s server \<Rightarrow> Node \<Rightarrow> ConfidentialInferencePolicy option \<Rightarrow>
    ('s, evReason + AttestationEvidence) prog" where
  "nodeHasValidEvidence srv node policy = do {
     r \<leftarrow> api srv ListEvidence;
     case as_evidences r of
       Inl e \<Rightarrow> State_Monad.return (Inl CannotListEvidence)
     | Inr evs \<Rightarrow> do {
         t \<leftarrow> api srv Now;
         State_Monad.return
           (scan_evidence (as_time t) (node_Name node) policy NoValidEvidence False evs)
       }
   }"


section \<open>PreFilter, Filter, Permit\<close>

fun first_policy :: "klib \<Rightarrow> gomap \<Rightarrow> Pod \<Rightarrow> ConfidentialInferencePolicy list \<Rightarrow>
    ConfidentialInferencePolicy option" where
  "first_policy kl nsLabels pod [] = None"
| "first_policy kl nsLabels pod (p # ps) =
     (if policyMatchesPod kl p nsLabels pod then Some p else first_policy kl nsLabels pod ps)"

definition preFilter :: "klib \<Rightarrow> 's server \<Rightarrow> Pod \<Rightarrow>
    ('s, string + ConfidentialInferencePolicy option) prog" where
  "preFilter kl srv pod = do {
     r \<leftarrow> api srv (GetNamespace (om_Namespace (pod_Meta pod)));
     case as_namespace r of
       Inl e \<Rightarrow> State_Monad.return
         (Inl (''read namespace '' @ fmt_q (om_Namespace (pod_Meta pod)) @ '': '' @ kerr_text e))
     | Inr ns \<Rightarrow> do {
         r \<leftarrow> api srv (ListPolicies (om_Namespace (pod_Meta pod)));
         case as_policies r of
           Inl e \<Rightarrow> State_Monad.return (Inl (''list ConfidentialInferencePolicy: '' @ kerr_text e))
         | Inr ps \<Rightarrow> State_Monad.return (Inr (first_policy kl (ns_Labels ns) pod ps))
       }
   }"

definition runtimeClassScheduling :: "'s server \<Rightarrow> Pod \<Rightarrow> ('s, string + Scheduling option) prog" where
  "runtimeClassScheduling srv pod =
     (case ps_RuntimeClassName (pod_Spec pod) of
        None \<Rightarrow> State_Monad.return (Inr None)
      | Some rc \<Rightarrow>
        if TrimSpace rc = '''' then State_Monad.return (Inr None)
        else do {
          r \<leftarrow> api srv (GetRuntimeClass (TrimSpace rc));
          case as_runtimeClass r of
            Inl e \<Rightarrow> State_Monad.return
              (Inl (''read RuntimeClass '' @ fmt_q (TrimSpace rc) @ '': '' @ kerr_text e))
          | Inr c \<Rightarrow> State_Monad.return (Inr (rc_Scheduling c))
        })"

fun filter_nodes :: "klib \<Rightarrow> 's server \<Rightarrow> Pod \<Rightarrow> ConfidentialInferencePolicy option \<Rightarrow>
    Scheduling option \<Rightarrow> Node list \<Rightarrow> ('s, NodeCandidate list) prog" where
  "filter_nodes kl srv pod policy sched [] = State_Monad.return []"
| "filter_nodes kl srv pod policy sched (node # nodes) =
     (if node_Unschedulable node then filter_nodes kl srv pod policy sched nodes
      else if \<not> podMatchesNodeConstraints kl pod node sched
        then filter_nodes kl srv pod policy sched nodes
      else do {
        r \<leftarrow> nodeHasValidEvidence srv node policy;
        case r of
          Inl reason \<Rightarrow> filter_nodes kl srv pod policy sched nodes
        | Inr ev \<Rightarrow> do {
            rest \<leftarrow> filter_nodes kl srv pod policy sched nodes;
            State_Monad.return (\<lparr>nc_Node = node, nc_Evidence = Some ev, nc_Score = 0, nc_Reason = ''''\<rparr> # rest)
          }
      })"

definition sched_filter :: "klib \<Rightarrow> 's server \<Rightarrow> Pod \<Rightarrow> ConfidentialInferencePolicy option \<Rightarrow>
    Node list \<Rightarrow> ('s, string + NodeCandidate list) prog" where
  "sched_filter kl srv pod policy nodes = do {
     r \<leftarrow> runtimeClassScheduling srv pod;
     case r of
       Inl e \<Rightarrow> State_Monad.return (Inl e)
     | Inr sched \<Rightarrow> do {
         cs \<leftarrow> filter_nodes kl srv pod policy sched nodes;
         State_Monad.return (Inr cs)
       }
   }"

fun permit_loop :: "nat \<Rightarrow> klib \<Rightarrow> 's server \<Rightarrow> Scheduler \<Rightarrow> Pod \<Rightarrow>
    ConfidentialInferencePolicy option \<Rightarrow> Node list \<Rightarrow> gotime \<Rightarrow>
    ('s, (string + NodeCandidate list) option) prog" where
  "permit_loop 0 kl srv s pod policy nodes deadline = State_Monad.return None"
| "permit_loop (Suc n) kl srv s pod policy nodes deadline = do {
     r \<leftarrow> sched_filter kl srv pod policy nodes;
     case r of
       Inl e \<Rightarrow> State_Monad.return (Some (Inl e))
     | Inr cs \<Rightarrow>
       if cs \<noteq> [] then State_Monad.return (Some (Inr cs))
       else do {
         t \<leftarrow> api srv Now;
         if deadline < as_time t then State_Monad.return (Some (Inl
             (''timed out waiting for valid attestation evidence after '' @
              kl_durText kl (sc_permitTimeout s))))
         else do {
           d \<leftarrow> api srv (Sleep (sc_permitPollInterval s));
           case as_done d of
             Some e \<Rightarrow> State_Monad.return (Some (Inl e))
           | None \<Rightarrow> permit_loop n kl srv s pod policy nodes deadline
         }
       }
   }"

definition permit :: "nat \<Rightarrow> klib \<Rightarrow> 's server \<Rightarrow> Scheduler \<Rightarrow> Pod \<Rightarrow>
    ConfidentialInferencePolicy option \<Rightarrow> Node list \<Rightarrow>
    ('s, (string + NodeCandidate list) option) prog" where
  "permit fuel kl srv s pod policy nodes =
     (if sc_permitTimeout s \<le> 0 then State_Monad.return (Some (Inr []))
      else do {
        t \<leftarrow> api srv Now;
        permit_loop fuel kl srv s pod policy nodes (as_time t + sc_permitTimeout s)
      })"


section \<open>Score\<close>

definition freshness_points :: "gotime \<Rightarrow> gotime \<Rightarrow> int \<Rightarrow> int" where
  "freshness_points now seen maxSecs =
     (let age = timeSub now seen;
          maxAge = seconds maxSecs;
          fraction = f64 (1 - f64 (f64 (of_int age) / f64 (of_int maxAge)));
          fraction = (if fraction < 0 then 0 else fraction)
      in trunc (f64 (fraction * 50)))"

definition kind_points :: "AttestationEvidence \<Rightarrow> int" where
  "kind_points ev =
     (if \<not> evs_Simulated (ev_Spec ev) then 20 else 0) +
     (let tee = ToUpper (evs_TEE (ev_Spec ev)) in
      if tee = ''TDX'' then 10
      else if tee = ''SEV-SNP'' \<or> tee = ''SEV_SNP'' then 5 else 0)"

definition score_one :: "'s server \<Rightarrow> ConfidentialInferencePolicy option \<Rightarrow> NodeCandidate \<Rightarrow>
    ('s, NodeCandidate) prog" where
  "score_one srv policy c =
     (case nc_Evidence c of
        None \<Rightarrow> State_Monad.return (c\<lparr>nc_Score := 100\<rparr>)
      | Some ev \<Rightarrow>
        (case (evt_LastVerifiedTime (ev_Status ev), policy) of
           (Some seen, Some p) \<Rightarrow>
             if 0 < cips_MaxEvidenceAgeSeconds (cip_Spec p) then do {
               t \<leftarrow> api srv Now;
               State_Monad.return (c\<lparr>nc_Score := 100 +
                 freshness_points (as_time t) seen (cips_MaxEvidenceAgeSeconds (cip_Spec p)) +
                 kind_points ev\<rparr>)
             }
             else State_Monad.return (c\<lparr>nc_Score := 100 + kind_points ev\<rparr>)
         | _ \<Rightarrow> State_Monad.return (c\<lparr>nc_Score := 100 + kind_points ev\<rparr>)))"

fun score :: "'s server \<Rightarrow> ConfidentialInferencePolicy option \<Rightarrow> NodeCandidate list \<Rightarrow>
    ('s, NodeCandidate list) prog" where
  "score srv policy [] = State_Monad.return []"
| "score srv policy (c # cs) = do {
     c' \<leftarrow> score_one srv policy c;
     cs' \<leftarrow> score srv policy cs;
     State_Monad.return (c' # cs')
   }"

text \<open>What \<open>sort.Slice\<close> documents, for the order by descending score.\<close>

definition sort_slice_ok :: "(NodeCandidate list \<Rightarrow> NodeCandidate list) \<Rightarrow> bool" where
  "sort_slice_ok srt \<longleftrightarrow>
     (\<forall>cs. mset (srt cs) = mset cs \<and> sorted_wrt (\<lambda>a b. nc_Score b \<le> nc_Score a) (srt cs))"


section \<open>The expected evidence age\<close>

text \<open>\<open>fmt.Sscan\<close> into an \<open>int\<close>: an optional sign, an optional base prefix, then the longest run of
  digits of that base and underscores; the text read that way goes to \<open>strconv.ParseInt\<close> with base 0.
  What follows it is ignored.\<close>

definition digit_in :: "nat \<Rightarrow> char \<Rightarrow> bool" where
  "digit_in base c = (case hex_val c of None \<Rightarrow> False | Some d \<Rightarrow> d < base)"

definition scan_digits :: "nat \<Rightarrow> string \<Rightarrow> string" where
  "scan_digits base s = takeWhile (\<lambda>c. digit_in base c \<or> c = CHR ''_'') s"

definition base_of :: "string \<Rightarrow> (nat \<times> string) option" where
  "base_of s =
     (if starts ''0'' s then
        (case drop 1 s of
           [] \<Rightarrow> Some (8, [])
         | c # r \<Rightarrow>
           if c = CHR ''b'' \<or> c = CHR ''B'' then Some (2, r)
           else if c = CHR ''o'' \<or> c = CHR ''O'' then Some (8, r)
           else if c = CHR ''x'' \<or> c = CHR ''X'' then Some (16, r)
           else None)
      else None)"

text \<open>Underscores may only separate digits, the base prefix counting as a digit.\<close>

fun underscores_ok :: "bool \<Rightarrow> string \<Rightarrow> bool" where
  "underscores_ok prevDigit [] = True"
| "underscores_ok prevDigit [c] = (c \<noteq> CHR ''_'')"
| "underscores_ok prevDigit (c # d # s) =
     (if c = CHR ''_'' then prevDigit \<and> d \<noteq> CHR ''_'' \<and> underscores_ok False (d # s)
      else underscores_ok True (d # s))"

definition digits_val :: "nat \<Rightarrow> string \<Rightarrow> nat" where
  "digits_val base s = foldl (\<lambda>a c. case hex_val c of None \<Rightarrow> a | Some d \<Rightarrow> base * a + d) 0 s"

definition scan_nat :: "string \<Rightarrow> nat option" where
  "scan_nat s =
     (case base_of s of
        Some (b, r) \<Rightarrow>
          if length s = 1 then Some 0
          else
            (let ds = scan_digits b r in
             if ds = [] \<or> \<not> underscores_ok True ds then None else Some (digits_val b ds))
      | None \<Rightarrow>
        if starts ''0'' s then
          (let ds = scan_digits 8 (drop 1 s) in
           if \<not> underscores_ok True ds then None else Some (digits_val 8 ds))
        else
          (let ds = scan_digits 10 s in
           if ds = [] \<or> hd ds = CHR ''_'' \<or> \<not> underscores_ok True ds then None
           else Some (digits_val 10 ds)))"

definition sscan_int :: "string \<Rightarrow> int option" where
  "sscan_int s =
     (let (neg, r) = (case s of [] \<Rightarrow> (False, []) | c # t \<Rightarrow>
             if c = CHR ''-'' then (True, t) else if c = CHR ''+'' then (False, t) else (False, s)) in
      case scan_nat r of
        None \<Rightarrow> None
      | Some n \<Rightarrow> (let i = (if neg then - int n else int n) in if int64 i then Some i else None))"

definition expected_max_age :: "Pod \<Rightarrow> duration" where
  "expected_max_age pod =
     (let ageRaw = TrimSpace (mget (om_Annotations (pod_Meta pod))
                     ''ai.sovereign.io/expected-evidence-age-seconds'') in
      if ageRaw \<noteq> '''' then
        (case sscan_int ageRaw of
           Some secs \<Rightarrow> if 0 < secs then seconds secs else 0
         | None \<Rightarrow> 0)
      else 0)"


section \<open>Reserve, PreBind, Bind\<close>

definition evidence_json :: "klib \<Rightarrow> AttestationEvidence \<Rightarrow> json" where
  "evidence_json kl ev =
     JObj [(''spec'', ev_spec_json (ev_Spec ev)),
           (''status'', ev_status_json (kl_timeJSON kl) (kl_condJSON kl) (ev_Status ev))]"

definition evidenceHashForPlacement :: "prims \<Rightarrow> klib \<Rightarrow> AttestationEvidence \<Rightarrow> string option" where
  "evidenceHashForPlacement P kl ev = CanonicalSHA256Hex P (evidence_json kl ev)"

definition createOrUpdatePlacementDecision :: "'s server \<Rightarrow> AIPlacementDecision \<Rightarrow>
    (AIPlacementDecision \<Rightarrow> AIPlacementDecision) \<Rightarrow> ('s, kerr + AIPlacementDecision) prog" where
  "createOrUpdatePlacementDecision srv decision mutate = do {
     r \<leftarrow> api srv (GetDecision (om_Namespace (apd_Meta decision)) (om_Name (apd_Meta decision)));
     case as_decision r of
       Inl e \<Rightarrow>
         if IsNotFound e then do {
           r \<leftarrow> api srv (CreateDecision (mutate decision));
           State_Monad.return (as_decision r)
         }
         else State_Monad.return (Inl e)
     | Inr existing \<Rightarrow> do {
         r \<leftarrow> api srv (UpdateDecision (mutate existing));
         State_Monad.return (as_decision r)
       }
   }"

text \<open>The checks of \<open>preBind\<close> on the policy, on the evidence it reads again, and the whole of it.\<close>

definition recheck_policy :: "prims \<Rightarrow> 's server \<Rightarrow> Pod \<Rightarrow> AIPlacementDecision \<Rightarrow>
    ('s, string option) prog" where
  "recheck_policy P srv latestPod decision =
     (if ref_Name (apds_PolicyRef (apd_Spec decision)) \<noteq> '''' then do {
        r \<leftarrow> api srv (GetPolicy (ref_Namespace (apds_PolicyRef (apd_Spec decision)))
                             (ref_Name (apds_PolicyRef (apd_Spec decision))));
        case as_policy r of
          Inl e \<Rightarrow> State_Monad.return (Some (''read policy before bind: '' @ kerr_text e))
        | Inr policy \<Rightarrow>
          let expected = TrimSpace (mget (om_Annotations (pod_Meta latestPod))
                           ''ai.sovereign.io/policy-hash'') in
          if expected = '''' then State_Monad.return (Some ''missing policy hash before bind'')
          else
            (case CanonicalSHA256Hex P (cip_spec_json (cip_Spec policy)) of
               None \<Rightarrow> State_Monad.return (Some ''hash policy before bind'')
             | Some current \<Rightarrow>
               if current \<noteq> expected
               then State_Monad.return (Some ''policy hash mismatch before bind'')
               else State_Monad.return None)
      } else State_Monad.return None)"

definition recheck_evidence :: "prims \<Rightarrow> klib \<Rightarrow> 's server \<Rightarrow> Pod \<Rightarrow> NodeCandidate \<Rightarrow>
    AttestationEvidence \<Rightarrow> ('s, string option) prog" where
  "recheck_evidence P kl srv latestPod selected evidence =
     (if evt_Revoked (ev_Status evidence)
        then State_Monad.return (Some ''evidence revoked before bind'')
      else
        (case evidenceHashForPlacement P kl evidence of
           None \<Rightarrow> State_Monad.return (Some ''hash evidence before bind'')
         | Some evidenceHash \<Rightarrow>
           (case (case nc_Evidence selected of
                    None \<Rightarrow> None
                  | Some sel \<Rightarrow>
                    (case evidenceHashForPlacement P kl sel of
                       None \<Rightarrow> Some ''hash selected evidence before bind''
                     | Some selectedHash \<Rightarrow>
                       if evidenceHash \<noteq> selectedHash
                       then Some ''evidence hash mismatch before bind'' else None)) of
              Some e \<Rightarrow> State_Monad.return (Some e)
            | None \<Rightarrow>
              (case evt_LastVerifiedTime (ev_Status evidence) of
                 None \<Rightarrow> State_Monad.return None
               | Some seen \<Rightarrow>
                 if 0 < expected_max_age latestPod then do {
                   t \<leftarrow> api srv Now;
                   if expected_max_age latestPod < timeSub (as_time t) seen
                   then State_Monad.return (Some ''evidence expired before bind'')
                   else State_Monad.return None
                 }
                 else State_Monad.return None))))"

definition preBind :: "prims \<Rightarrow> klib \<Rightarrow> 's server \<Rightarrow> Pod \<Rightarrow> AIPlacementDecision \<Rightarrow>
    NodeCandidate \<Rightarrow> ('s, string option) prog" where
  "preBind P kl srv pod decision selected = do {
     r \<leftarrow> api srv (GetPod (om_Namespace (pod_Meta pod)) (om_Name (pod_Meta pod)));
     case as_pod r of
       Inl e \<Rightarrow> State_Monad.return (Some (''read pod before bind: '' @ kerr_text e))
     | Inr latestPod \<Rightarrow> do {
         pe \<leftarrow> recheck_policy P srv latestPod decision;
         case pe of
           Some e \<Rightarrow> State_Monad.return (Some e)
         | None \<Rightarrow>
           (case apds_EvidenceRef (apd_Spec decision) of
              None \<Rightarrow> State_Monad.return None
            | Some ref \<Rightarrow> do {
                r \<leftarrow> api srv (GetEvidence (ref_Namespace ref) (ref_Name ref));
                case as_evidence r of
                  Inl e \<Rightarrow> State_Monad.return (Some (''read evidence before bind: '' @ kerr_text e))
                | Inr evidence \<Rightarrow> recheck_evidence P kl srv latestPod selected evidence
              })
       }
   }"

definition applyBaseDecision :: "Pod \<Rightarrow> ConfidentialInferencePolicy option \<Rightarrow> NodeCandidate \<Rightarrow>
    AIPlacementDecision \<Rightarrow> AIPlacementDecision" where
  "applyBaseDecision pod policy selected d =
     d\<lparr>apd_Spec := (apd_Spec d)
         \<lparr>apds_TargetRef := \<lparr>ref_Name = om_Name (pod_Meta pod), ref_Namespace = om_Namespace (pod_Meta pod)\<rparr>,
          apds_PolicyRef := (case policy of None \<Rightarrow> apds_PolicyRef (apd_Spec d)
             | Some p \<Rightarrow> \<lparr>ref_Name = om_Name (cip_Meta p), ref_Namespace = om_Namespace (cip_Meta p)\<rparr>),
          apds_EvidenceRef := (case nc_Evidence selected of None \<Rightarrow> apds_EvidenceRef (apd_Spec d)
             | Some ev \<Rightarrow> Some \<lparr>ref_Name = om_Name (ev_Meta ev), ref_Namespace = om_Namespace (ev_Meta ev)\<rparr>),
          apds_SchedulerName := SchedulerName\<rparr>,
       apd_Status := (apd_Status d)
         \<lparr>apdt_NodeName := node_Name (nc_Node selected),
          apdt_Simulated := (case nc_Evidence selected of None \<Rightarrow> False
             | Some ev \<Rightarrow> evs_Simulated (ev_Spec ev))\<rparr>\<rparr>"

definition drop_token :: "AIPlacementDecision \<Rightarrow> AIPlacementDecision" where
  "drop_token d = d\<lparr>apd_Meta := (apd_Meta d)
     \<lparr>om_Annotations := mdelete (om_Annotations (apd_Meta d)) PlacementTokenAnnotation\<rparr>\<rparr>"

definition set_verdict :: "string \<Rightarrow> string \<Rightarrow> AIPlacementDecision \<Rightarrow> AIPlacementDecision" where
  "set_verdict verdict digest d = d\<lparr>apd_Status := (apd_Status d)
     \<lparr>apdt_Decision := verdict, apdt_PlacementTokenDigest := digest\<rparr>\<rparr>"

definition add_token :: "string \<Rightarrow> AIPlacementDecision \<Rightarrow> AIPlacementDecision" where
  "add_token tokenStr d =
     (if tokenStr = '''' then d
      else d\<lparr>apd_Meta := (apd_Meta d)
             \<lparr>om_Annotations := mset_key (om_Annotations (apd_Meta d)) PlacementTokenAnnotation tokenStr\<rparr>\<rparr>)"

definition decisionName :: "Pod \<Rightarrow> string" where
  "decisionName pod = (let n = om_Name (pod_Meta pod) @ ''-'' @ om_Namespace (pod_Meta pod) in
     if 63 < length n then take 63 n else n)"

definition newDecision :: "Pod \<Rightarrow> AIPlacementDecision" where
  "newDecision pod =
     \<lparr>apd_Meta = (newMeta (decisionName pod) (om_Namespace (pod_Meta pod)))
        \<lparr>om_Labels := [(''ai.sovereign.io/pod-name'', om_Name (pod_Meta pod))]\<rparr>,
      apd_Spec = zero_apd_spec, apd_Status = zero_apd_status\<rparr>"

text \<open>Minting the token of a reservation, when the scheduler has a key: its JSON text.\<close>

definition mint_for :: "prims \<Rightarrow> 's server \<Rightarrow> Scheduler \<Rightarrow> Pod \<Rightarrow> string \<Rightarrow> NodeCandidate \<Rightarrow> string \<Rightarrow>
    string \<Rightarrow> ('s, string + string) prog" where
  "mint_for P srv s pod podSpecHash selected evidenceHash policyHash =
     (case sc_signingKey s of
        None \<Rightarrow> State_Monad.return (Inr '''')
      | Some k \<Rightarrow> do {
          t \<leftarrow> api srv Now;
          case Mint P (as_time t) (Some k) (om_UID (pod_Meta pod)) podSpecHash
                 (case ps_Containers (pod_Spec pod) of [] \<Rightarrow> '''' | c # _ \<Rightarrow> ct_Image c)
                 (mget (om_Annotations (pod_Meta pod)) ''ai.sovereign.io/model-digest'')
                 (node_Name (nc_Node selected))
                 (case ps_RuntimeClassName (pod_Spec pod) of None \<Rightarrow> '''' | Some rc \<Rightarrow> rc)
                 evidenceHash policyHash (sc_tokenTTL s)
                 \<lparr>mo_GPUIdentity = '''', mo_KeyIdentifier = ''''\<rparr> of
            Inl e \<Rightarrow> State_Monad.return (Inl (''mint placement token: '' @ e))
          | Inr tok \<Rightarrow> State_Monad.return (Inr (Encode tok))
        })"

definition hash_opt :: "prims \<Rightarrow> json option \<Rightarrow> string option" where
  "hash_opt P j = (case j of None \<Rightarrow> Some '''' | Some v \<Rightarrow> CanonicalSHA256Hex P v)"

text \<open>The three parts of \<open>reserveTimed\<close>: after the re-check, from the delay on, and the whole.\<close>

definition reserve_final :: "prims \<Rightarrow> 's server \<Rightarrow> Scheduler \<Rightarrow> Pod \<Rightarrow>
    ConfidentialInferencePolicy option \<Rightarrow> NodeCandidate \<Rightarrow> string \<Rightarrow> string \<Rightarrow> string \<Rightarrow>
    AIPlacementDecision \<Rightarrow> ('s, string + AIPlacementDecision \<times> string) prog" where
  "reserve_final P srv s pod policy selected podSpecHash policyHash evidenceHash decision = do {
     m \<leftarrow> mint_for P srv s pod podSpecHash selected evidenceHash policyHash;
     case m of
       Inl e \<Rightarrow> State_Monad.return (Inl e)
     | Inr tokenStr \<Rightarrow> do {
         r \<leftarrow> createOrUpdatePlacementDecision srv decision
           (\<lambda>d. set_verdict ''allow'' (SHA256Hex P tokenStr)
              (add_token tokenStr (applyBaseDecision pod policy selected d)));
         case r of
           Inl e \<Rightarrow> State_Monad.return (Inl (''finalize AIPlacementDecision: '' @ kerr_text e))
         | Inr d \<Rightarrow> State_Monad.return (Inr (d, tokenStr))
       }
   }"

definition reserve_checked :: "prims \<Rightarrow> klib \<Rightarrow> 's server \<Rightarrow> Scheduler \<Rightarrow> Pod \<Rightarrow>
    ConfidentialInferencePolicy option \<Rightarrow> NodeCandidate \<Rightarrow> string \<Rightarrow> string \<Rightarrow> string \<Rightarrow>
    AIPlacementDecision \<Rightarrow> ('s, string + AIPlacementDecision \<times> string) prog" where
  "reserve_checked P kl srv s pod policy selected podSpecHash policyHash evidenceHash decision = do {
     pe \<leftarrow> preBind P kl srv pod decision selected;
     case pe of
       Some e \<Rightarrow> do {
         _ \<leftarrow> createOrUpdatePlacementDecision srv decision
           (\<lambda>d. set_verdict ''deny'' '''' (drop_token (applyBaseDecision pod policy selected d)));
         State_Monad.return (Inl (''prebind: '' @ e))
       }
     | None \<Rightarrow>
         reserve_final P srv s pod policy selected podSpecHash policyHash evidenceHash decision
   }"

definition reserveTimed :: "prims \<Rightarrow> klib \<Rightarrow> 's server \<Rightarrow> Scheduler \<Rightarrow> Pod \<Rightarrow>
    ConfidentialInferencePolicy option \<Rightarrow> NodeCandidate \<Rightarrow>
    ('s, string + AIPlacementDecision \<times> string) prog" where
  "reserveTimed P kl srv s pod policy selected =
     (case CanonicalSHA256Hex P (kl_podSpecJSON kl (pod_Spec pod)) of
        None \<Rightarrow> State_Monad.return (Inl ''hash pod spec'')
      | Some podSpecHash \<Rightarrow>
        (case hash_opt P (map_option (\<lambda>p. cip_spec_json (cip_Spec p)) policy) of
           None \<Rightarrow> State_Monad.return (Inl ''hash policy spec'')
         | Some policyHash \<Rightarrow>
           (case hash_opt P (map_option (evidence_json kl) (nc_Evidence selected)) of
              None \<Rightarrow> State_Monad.return (Inl ''hash evidence'')
            | Some evidenceHash \<Rightarrow> do {
                r \<leftarrow> createOrUpdatePlacementDecision srv (newDecision pod)
                       (\<lambda>d. set_verdict ''pending'' '''' (drop_token (applyBaseDecision pod policy selected d)));
                case r of
                  Inl e \<Rightarrow> State_Monad.return
                    (Inl (''upsert pending AIPlacementDecision: '' @ kerr_text e))
                | Inr decision \<Rightarrow>
                  if 0 < sc_preBindDelay s then do {
                    d \<leftarrow> api srv (Sleep (sc_preBindDelay s));
                    case as_done d of
                      Some e \<Rightarrow> State_Monad.return (Inl e)
                    | None \<Rightarrow> reserve_checked P kl srv s pod policy selected podSpecHash policyHash
                                evidenceHash decision
                  }
                  else reserve_checked P kl srv s pod policy selected podSpecHash policyHash
                         evidenceHash decision
              })))"

definition bind_pod :: "'s server \<Rightarrow> Pod \<Rightarrow> string \<Rightarrow> ('s, kerr option) prog" where
  "bind_pod srv pod nodeName = do {
     r \<leftarrow> api srv (CreateBinding (om_Namespace (pod_Meta pod)) (om_Name (pod_Meta pod)) nodeName);
     State_Monad.return (as_unit r)
   }"


section \<open>SchedulePod and the reconciler\<close>

definition finish :: "prims \<Rightarrow> klib \<Rightarrow> 's server \<Rightarrow> (NodeCandidate list \<Rightarrow> NodeCandidate list) \<Rightarrow>
    Scheduler \<Rightarrow> Pod \<Rightarrow> ConfidentialInferencePolicy option \<Rightarrow> NodeCandidate list \<Rightarrow>
    ('s, string option) prog" where
  "finish P kl srv srt s pod policy candidates = do {
     scored \<leftarrow> score srv policy candidates;
     let selected = hd (srt scored);
     r \<leftarrow> reserveTimed P kl srv s pod policy selected;
     case r of
       Inl e \<Rightarrow> State_Monad.return (Some (''reserve: '' @ e))
     | Inr (d, tokenStr) \<Rightarrow> do {
         b \<leftarrow> bind_pod srv pod (node_Name (nc_Node selected));
         case b of
           Some e \<Rightarrow> State_Monad.return (Some (''bind: '' @ kerr_text e))
         | None \<Rightarrow> State_Monad.return None
       }
   }"

text \<open>The error of \<open>SchedulePod\<close>, \<open>Some None\<close> standing for nil and \<open>None\<close> for running out of fuel.\<close>

definition SchedulePod :: "nat \<Rightarrow> prims \<Rightarrow> klib \<Rightarrow> 's server \<Rightarrow>
    (NodeCandidate list \<Rightarrow> NodeCandidate list) \<Rightarrow> Scheduler \<Rightarrow> Pod \<Rightarrow>
    ('s, string option option) prog" where
  "SchedulePod fuel P kl srv srt s pod = do {
     pr \<leftarrow> preFilter kl srv pod;
     case pr of
       Inl e \<Rightarrow> State_Monad.return (Some (Some (''prefilter: '' @ e)))
     | Inr policy \<Rightarrow> do {
         r \<leftarrow> api srv ListNodes;
         case as_nodes r of
           Inl e \<Rightarrow> State_Monad.return (Some (Some (''list nodes: '' @ kerr_text e)))
         | Inr nodes \<Rightarrow> do {
             f \<leftarrow> sched_filter kl srv pod policy nodes;
             case f of
               Inl e \<Rightarrow> State_Monad.return (Some (Some (''filter: '' @ e)))
             | Inr cs \<Rightarrow>
               if cs \<noteq> [] then do {
                 e \<leftarrow> finish P kl srv srt s pod policy cs;
                 State_Monad.return (Some e)
               }
               else do {
                 w \<leftarrow> permit fuel kl srv s pod policy nodes;
                 case w of
                   None \<Rightarrow> State_Monad.return None
                 | Some (Inl e) \<Rightarrow> State_Monad.return (Some (Some (''permit: '' @ e)))
                 | Some (Inr cs) \<Rightarrow>
                   if cs = [] then State_Monad.return (Some (Some
                     (''no suitable node with valid AttestationEvidence for pod '' @
                      om_Namespace (pod_Meta pod) @ ''/'' @ om_Name (pod_Meta pod))))
                   else do {
                     e \<leftarrow> finish P kl srv srt s pod policy cs;
                     State_Monad.return (Some e)
                   }
               }
           }
       }
   }"

text \<open>The reconciler: \<open>Some None\<close> is success, as above.\<close>

definition Reconcile_pod :: "nat \<Rightarrow> prims \<Rightarrow> klib \<Rightarrow> 's server \<Rightarrow>
    (NodeCandidate list \<Rightarrow> NodeCandidate list) \<Rightarrow> Scheduler \<Rightarrow> string \<Rightarrow> string \<Rightarrow>
    ('s, string option option) prog" where
  "Reconcile_pod fuel P kl srv srt s ns name = do {
     r \<leftarrow> api srv (GetPod ns name);
     case as_pod r of
       Inl e \<Rightarrow> State_Monad.return (Some (if IsNotFound e then None else Some (kerr_text e)))
     | Inr pod \<Rightarrow>
       if ps_SchedulerName (pod_Spec pod) \<noteq> SchedulerName then State_Monad.return (Some None)
       else if pod_Phase pod \<noteq> ''Pending'' \<or> ps_NodeName (pod_Spec pod) \<noteq> ''''
         then State_Monad.return (Some None)
       else if ps_SchedulingGates (pod_Spec pod) \<noteq> [] then State_Monad.return (Some None)
       else SchedulePod fuel P kl srv srt s pod
   }"

text \<open>Which pods reach the reconciler: the field selector of the manager's cache and the predicate of the
  controller.\<close>

definition cached_pod :: "Pod \<Rightarrow> bool" where
  "cached_pod pod \<longleftrightarrow> ps_SchedulerName (pod_Spec pod) = SchedulerName \<and> pod_Phase pod = ''Pending''"

definition watched_pod :: "Pod \<Rightarrow> bool" where
  "watched_pod pod \<longleftrightarrow> ps_SchedulerName (pod_Spec pod) = SchedulerName \<and> pod_Phase pod = ''Pending'' \<and>
     ps_NodeName (pod_Spec pod) = ''''"

end
