(* ===== verification/Scheduler_Safety.thy ===== *)
theory Scheduler_Safety
  imports Scheduler
begin

text \<open>
  What the scheduler guarantees. The first part is about the pure phases: which evidence the scan
  picks and how candidates are scored. The second is about traces: for every server, hence for every
  interleaving with other clients of the cluster, what the sequence of calls that a scheduling attempt
  makes looks like. Each phase has one lemma of the form \<open>ensures\<close>, and the safety of a binding is put
  together from them.
\<close>

section \<open>What the phases promise\<close>

text \<open>Evidence that makes a node acceptable at a time, for a policy.\<close>

definition fresh_for :: "gotime \<Rightarrow> ConfidentialInferencePolicy option \<Rightarrow> AttestationEvidence \<Rightarrow> bool" where
  "fresh_for now policy ev \<longleftrightarrow>
     (\<forall>p seen. policy = Some p \<longrightarrow> evt_LastVerifiedTime (ev_Status ev) = Some seen \<longrightarrow>
        0 < cips_MaxEvidenceAgeSeconds (cip_Spec p) \<longrightarrow>
        now - seen \<le> cips_MaxEvidenceAgeSeconds (cip_Spec p) * Second)"

definition tee_allowed :: "ConfidentialInferencePolicy option \<Rightarrow> AttestationEvidence \<Rightarrow> bool" where
  "tee_allowed policy ev \<longleftrightarrow>
     (\<forall>p. policy = Some p \<longrightarrow> cips_RequiredTEE (cip_Spec p) = [] \<or>
        (\<exists>req\<in>set (cips_RequiredTEE (cip_Spec p)).
           ToUpper (TrimSpace req) = ToUpper (TrimSpace (evs_TEE (ev_Spec ev)))))"

definition acceptable :: "gotime \<Rightarrow> string \<Rightarrow> ConfidentialInferencePolicy option \<Rightarrow>
    AttestationEvidence \<Rightarrow> bool" where
  "acceptable now node policy ev \<longleftrightarrow>
     ref_Name (evs_SubjectRef (ev_Spec ev)) = node \<and> \<not> evt_Revoked (ev_Status ev) \<and>
     evt_Verified (ev_Status ev) \<and> fresh_for now policy ev \<and> tee_allowed policy ev"

text \<open>The policy's age limit is an \<open>int32\<close>.\<close>

definition age_int32 :: "ConfidentialInferencePolicy option \<Rightarrow> bool" where
  "age_int32 policy = (case policy of None \<Rightarrow> True | Some p \<Rightarrow> int32 (cips_MaxEvidenceAgeSeconds (cip_Spec p)))"

lemma teeMatches_iff: "teeMatches t rs \<longleftrightarrow> (\<exists>r\<in>set rs. ToUpper (TrimSpace r) = ToUpper (TrimSpace t))"
  by (induction rs) auto

lemma wrong_tee_iff: "wrong_tee policy ev \<longleftrightarrow> \<not> tee_allowed policy ev"
  by (cases policy) (auto simp: wrong_tee_def tee_allowed_def teeMatches_iff)

lemma age_limit:
  assumes "int32 n"
  shows "seconds n < timeSub a b \<longleftrightarrow> n * Second < a - b"
proof -
  have "int64 (n * Second)" "n * Second \<noteq> 2 ^ 63 - 1"
    using assms by (auto simp: int32_def int64_def Second_def)
  then have "timeSub a b \<le> n * Second \<longleftrightarrow> a - b \<le> n * Second"
    by (simp add: timeSub_def sat64_le_iff)
  moreover have "seconds n = n * Second" using seconds_int32 [OF assms] by (simp add: Second_def)
  ultimately show ?thesis by (metis not_le)
qed

lemma too_old_iff: "age_int32 policy \<Longrightarrow> too_old now policy ev = None \<longleftrightarrow> fresh_for now policy ev"
  by (cases policy; cases "evt_LastVerifiedTime (ev_Status ev)")
    (auto simp: too_old_def fresh_for_def age_int32_def Let_def age_limit not_less)

text \<open>The scan returns the first acceptable evidence, and rejects only when there is none.\<close>

lemma scan_evidence_find:
  assumes "age_int32 policy"
  shows "scan_evidence now node policy lastReason saw evs = Inr ev \<longleftrightarrow>
    find (acceptable now node policy) evs = Some ev"
proof (induction evs arbitrary: lastReason saw)
  case Nil
  then show ?case by simp
next
  case (Cons e evs)
  then show ?case
    using too_old_iff [OF assms, of now e] wrong_tee_iff [of policy e]
    by (auto simp: acceptable_def split: option.split)
qed

lemma scan_evidence_in: "scan_evidence now node policy lastReason saw evs = Inr ev \<Longrightarrow> ev \<in> set evs"
proof (induction evs arbitrary: lastReason saw)
  case (Cons e evs)
  then show ?case by (fastforce split: if_splits option.splits prod.splits)
qed simp

lemma scan_evidence_none:
  "scan_evidence now node policy lastReason saw evs = Inl NoEvidenceForNode \<Longrightarrow>
    lastReason \<noteq> NoEvidenceForNode \<Longrightarrow>
    \<not> saw \<and> (\<forall>e\<in>set evs. ref_Name (evs_SubjectRef (ev_Spec e)) \<noteq> node)"
proof (induction evs arbitrary: lastReason saw)
  case Nil
  then show ?case by (auto split: if_splits)
next
  case (Cons e evs)
  then show ?case by (fastforce split: if_splits option.splits prod.splits)
qed

section \<open>Lemmas on the score\<close>

lemma freshness_nonneg: "0 \<le> freshness_points now seen m"
  by (simp add: freshness_points_def Let_def trunc_def f64_nonneg)

lemma age_fraction:
  assumes "int32 m" and "0 < m" and "seen \<le> now"
  shows "f64 (1 - f64 (f64 (of_int (timeSub now seen)) / f64 (of_int (seconds m)))) \<le> 1"
proof -
  have "0 \<le> timeSub now seen" using assms(3) by (simp add: timeSub_def sat64_def)
  then have "0 \<le> f64 (of_int (timeSub now seen))" by (simp add: f64_nonneg)
  moreover have "0 \<le> seconds m" using assms by (simp add: seconds_int32)
  then have "0 \<le> f64 (of_int (seconds m))" by (simp add: f64_nonneg)
  ultimately have "0 \<le> f64 (f64 (of_int (timeSub now seen)) / f64 (of_int (seconds m)))"
    by (simp add: f64_nonneg)
  then have "f64 (1 - f64 (f64 (of_int (timeSub now seen)) / f64 (of_int (seconds m)))) \<le> f64 1"
    by (intro f64_mono) simp
  then show ?thesis by simp
qed

lemma freshness_le_50:
  assumes "int32 m" and "0 < m" and "seen \<le> now"
  shows "freshness_points now seen m \<le> 50"
proof -
  let ?f = "f64 (1 - f64 (f64 (of_int (timeSub now seen)) / f64 (of_int (seconds m))))"
  let ?g = "if ?f < 0 then 0 else ?f"
  have g: "0 \<le> ?g" "?g \<le> 1" using age_fraction [OF assms] by auto
  have "f64 (?g * 50) \<le> f64 50" by (intro f64_mono) (use g in simp)
  then have "trunc (f64 (?g * 50)) \<le> trunc 50" using g by (intro trunc_mono) (simp_all add: f64_nonneg)
  then show ?thesis by (simp add: freshness_points_def Let_def trunc_def)
qed

text \<open>Evidence verified later never gets fewer points.\<close>

lemma freshness_mono:
  assumes "int32 m" and "0 < m" and "old \<le> new"
  shows "freshness_points now old m \<le> freshness_points now new m"
proof -
  let ?x = "\<lambda>t. f64 (f64 (of_int (timeSub now t)) / f64 (of_int (seconds m)))"
  let ?f = "\<lambda>t. f64 (1 - ?x t)"
  let ?g = "\<lambda>t. if ?f t < 0 then 0 else ?f t"
  have p: "0 \<le> f64 (of_int (seconds m))" using assms by (simp add: f64_nonneg seconds_int32)
  have "timeSub now new \<le> timeSub now old" using assms(3) by (simp add: timeSub_def sat64_def)
  then have "f64 (of_int (timeSub now new)) \<le> f64 (of_int (timeSub now old))" by (intro f64_mono) simp
  then have "f64 (of_int (timeSub now new)) / f64 (of_int (seconds m))
      \<le> f64 (of_int (timeSub now old)) / f64 (of_int (seconds m))" using p by (rule divide_right_mono)
  then have "?x new \<le> ?x old" by (rule f64_mono)
  then have "?f old \<le> ?f new" by (intro f64_mono) simp
  then have "?g old \<le> ?g new" by auto
  then have "f64 (?g old * 50) \<le> f64 (?g new * 50)" by (intro f64_mono) simp
  moreover have "0 \<le> f64 (?g old * 50)" by (intro f64_nonneg) simp
  ultimately show ?thesis unfolding freshness_points_def Let_def by (rule trunc_mono [rotated])
qed

lemma kind_points_range: "0 \<le> kind_points ev \<and> kind_points ev \<le> 30"
  by (simp add: kind_points_def Let_def)


section \<open>Traces\<close>

text \<open>Calls that neither write a placement decision nor bind a pod.\<close>

fun silent :: "call \<Rightarrow> bool" where
  "silent (CreateDecision d) = False"
| "silent (UpdateDecision d) = False"
| "silent (CreateBinding ns n t) = False"
| "silent c = True"

definition quiet :: "log \<Rightarrow> bool" where
  "quiet tr = list_all (\<lambda>(c, r). silent c) tr"

lemma quiet_simps [simp]: "quiet []" "quiet ((c, r) # tr) = (silent c \<and> quiet tr)"
    "quiet (t1 @ t2) = (quiet t1 \<and> quiet t2)"
  by (simp_all add: quiet_def)

text \<open>Evidence that a listing in the trace contains and that was acceptable at a time read in the
  trace.\<close>

definition justified :: "log \<Rightarrow> string \<Rightarrow> ConfidentialInferencePolicy option \<Rightarrow> AttestationEvidence \<Rightarrow> bool" where
  "justified tr node policy ev \<longleftrightarrow>
     (\<exists>evs rt. (ListEvidence, REvidences (Inr evs)) \<in> set tr \<and> ev \<in> set evs \<and> (Now, rt) \<in> set tr \<and>
        (age_int32 policy \<longrightarrow> acceptable (as_time rt) node policy ev))"

text \<open>The scheduling constraints of the pod's runtime class, as read in the trace.\<close>

definition read_sched :: "log \<Rightarrow> Pod \<Rightarrow> Scheduling option \<Rightarrow> bool" where
  "read_sched tr pod sched \<longleftrightarrow>
     (case ps_RuntimeClassName (pod_Spec pod) of
        None \<Rightarrow> sched = None
      | Some rc \<Rightarrow> if TrimSpace rc = '''' then sched = None
                  else (\<exists>c. (GetRuntimeClass (TrimSpace rc), RRuntimeClass (Inr c)) \<in> set tr \<and> rc_Scheduling c = sched))"

definition cand_ok :: "klib \<Rightarrow> Pod \<Rightarrow> ConfidentialInferencePolicy option \<Rightarrow> Node list \<Rightarrow> log \<Rightarrow>
    NodeCandidate \<Rightarrow> bool" where
  "cand_ok kl pod policy nodes tr c \<longleftrightarrow>
     nc_Node c \<in> set nodes \<and> \<not> node_Unschedulable (nc_Node c) \<and>
     (\<exists>sched. read_sched tr pod sched \<and> podMatchesNodeConstraints kl pod (nc_Node c) sched) \<and>
     (\<exists>ev. nc_Evidence c = Some ev \<and> justified tr (node_Name (nc_Node c)) policy ev)"

lemma justified_mono: "justified tr node policy ev \<Longrightarrow> set tr \<subseteq> set tr' \<Longrightarrow> justified tr' node policy ev"
  unfolding justified_def by blast

lemma read_sched_mono: "read_sched tr pod sched \<Longrightarrow> set tr \<subseteq> set tr' \<Longrightarrow> read_sched tr' pod sched"
  unfolding read_sched_def by (auto split: option.splits if_splits)

lemma cand_ok_mono:
  "cand_ok kl pod policy nodes tr c \<Longrightarrow> set tr \<subseteq> set tr' \<Longrightarrow> set nodes \<subseteq> set nodes' \<Longrightarrow>
    cand_ok kl pod policy nodes' tr' c"
  unfolding cand_ok_def using justified_mono read_sched_mono by blast

lemma cands_ok_mono:
  "\<forall>c\<in>set cs. cand_ok kl pod policy nodes tr c \<Longrightarrow> c \<in> set cs \<Longrightarrow> set tr \<subseteq> set tr' \<Longrightarrow>
    cand_ok kl pod policy nodes tr' c"
  using cand_ok_mono by blast

lemma nodeHasValidEvidence_ens:
  "ensures (nodeHasValidEvidence srv node policy)
     (\<lambda>r tr. quiet tr \<and> (\<forall>ev. r = Inr ev \<longrightarrow> justified tr (node_Name node) policy ev))"
  unfolding nodeHasValidEvidence_def
proof (intro ens)
  fix r e
  assume "as_evidences r = Inl e"
  show "quiet [(ListEvidence, r)] \<and>
      (\<forall>ev. Inl CannotListEvidence = Inr ev \<longrightarrow> justified [(ListEvidence, r)] (node_Name node) policy ev)"
    by simp
next
  fix r evs rt
  assume r: "as_evidences r = Inr evs"
  show "quiet [(ListEvidence, r), (Now, rt)] \<and>
      (\<forall>ev. scan_evidence (as_time rt) (node_Name node) policy NoValidEvidence False evs = Inr ev \<longrightarrow>
         justified [(ListEvidence, r), (Now, rt)] (node_Name node) policy ev)"
  proof (intro conjI allI impI)
    fix ev
    assume s: "scan_evidence (as_time rt) (node_Name node) policy NoValidEvidence False evs = Inr ev"
    then have "ev \<in> set evs" by (rule scan_evidence_in)
    then show "justified [(ListEvidence, r), (Now, rt)] (node_Name node) policy ev"
      using r s by (auto simp: justified_def scan_evidence_find find_Some_iff)
  qed simp
qed

lemma filter_nodes_ens:
  assumes "read_sched tr0 pod sched"
  shows "ensures (filter_nodes kl srv pod policy sched nodes)
     (\<lambda>cs tr. quiet tr \<and> (\<forall>c\<in>set cs. cand_ok kl pod policy nodes (tr0 @ tr) c))"
proof (induction nodes)
  case Nil
  then show ?case by (auto intro: ens)
next
  case (Cons node nodes)
  have skip: "ensures (filter_nodes kl srv pod policy sched nodes)
      (\<lambda>cs tr. quiet (tr1 @ tr) \<and> (\<forall>c\<in>set cs. cand_ok kl pod policy (node # nodes) (tr0 @ tr1 @ tr) c))"
    if "quiet tr1" for tr1
    by (rule ensures_conseq [OF Cons.IH]) (use that in \<open>auto elim!: cand_ok_mono\<close>)
  show ?case
  proof (cases "node_Unschedulable node \<or> \<not> podMatchesNodeConstraints kl pod node sched")
    case True
    then show ?thesis using skip [of "[]"] by auto
  next
    case False
    show ?thesis
      unfolding filter_nodes.simps using False
      apply simp
      apply (rule ensures_bind [OF nodeHasValidEvidence_ens])
      apply (intro ens)
      subgoal for a tr1 reason using skip [of tr1] by simp
      subgoal premises p for a tr1 ev
        apply (rule ensures_bind [OF skip [of tr1]])
        subgoal using p by simp
        subgoal premises q for rest tr2
        proof (rule ensures_return)
          have "read_sched (tr0 @ tr1 @ tr2) pod sched" using assms by (rule read_sched_mono) auto
          then have "cand_ok kl pod policy (node # nodes) (tr0 @ tr1 @ tr2)
              \<lparr>nc_Node = node, nc_Evidence = Some ev, nc_Score = 0, nc_Reason = ''''\<rparr>"
            using p(2-) False by (auto simp: cand_ok_def intro: justified_mono)
          then show "quiet (tr1 @ tr2 @ []) \<and> (\<forall>c\<in>set (\<lparr>nc_Node = node, nc_Evidence = Some ev,
              nc_Score = 0, nc_Reason = ''''\<rparr> # rest).
                cand_ok kl pod policy (node # nodes) (tr0 @ tr1 @ tr2 @ []) c)"
            using q by simp
        qed
        done
      done
  qed
qed

lemma runtimeClassScheduling_ens:
  "ensures (runtimeClassScheduling srv pod)
     (\<lambda>r tr. quiet tr \<and> (\<forall>sched. r = Inr sched \<longrightarrow> read_sched tr pod sched))"
  unfolding runtimeClassScheduling_def
  by (intro ens) (auto simp: read_sched_def)

lemma sched_filter_ens:
  "ensures (sched_filter kl srv pod policy nodes)
     (\<lambda>r tr. quiet tr \<and> (\<forall>cs. r = Inr cs \<longrightarrow> (\<forall>c\<in>set cs. cand_ok kl pod policy nodes tr c)))"
  unfolding sched_filter_def
proof (rule ensures_bind [OF runtimeClassScheduling_ens], intro ens)
  fix a tr1 sched
  assume a: "quiet tr1 \<and> (\<forall>sched. a = Inr sched \<longrightarrow> read_sched tr1 pod sched)" "a = Inr sched"
  then have "read_sched tr1 pod sched" by blast
  from filter_nodes_ens [OF this]
  show "ensures (filter_nodes kl srv pod policy sched nodes \<bind> (\<lambda>cs. State_Monad.return (Inr cs)))
      (\<lambda>r tr2. quiet (tr1 @ tr2) \<and>
        (\<forall>cs. r = Inr cs \<longrightarrow> (\<forall>c\<in>set cs. cand_ok kl pod policy nodes (tr1 @ tr2) c)))"
    by (rule ensures_bind) (use a in \<open>auto intro: ens\<close>)
qed auto

lemma permit_loop_ens:
  "ensures (permit_loop fuel kl srv s pod policy nodes deadline)
     (\<lambda>r tr. quiet tr \<and> (\<forall>cs. r = Some (Inr cs) \<longrightarrow> (\<forall>c\<in>set cs. cand_ok kl pod policy nodes tr c)))"
proof (induction fuel)
  case 0
  then show ?case by (auto intro: ens)
next
  case (Suc n)
  show ?case
    unfolding permit_loop.simps
  proof (rule ensures_bind [OF sched_filter_ens], intro ens)
    fix a tr1 cs t d
    assume "quiet tr1 \<and> (\<forall>cs. a = Inr cs \<longrightarrow> (\<forall>c\<in>set cs. cand_ok kl pod policy nodes tr1 c))"
    then show "ensures (permit_loop n kl srv s pod policy nodes deadline)
        (\<lambda>r tr. quiet (tr1 @ (Now, t) # (Sleep (sc_permitPollInterval s), d) # tr) \<and>
          (\<forall>cs. r = Some (Inr cs) \<longrightarrow> (\<forall>c\<in>set cs. cand_ok kl pod policy nodes
             (tr1 @ (Now, t) # (Sleep (sc_permitPollInterval s), d) # tr) c)))"
      by (intro ensures_conseq [OF Suc.IH]) (auto elim!: cands_ok_mono)
  qed auto
qed

lemma permit_ens:
  "ensures (permit fuel kl srv s pod policy nodes)
     (\<lambda>r tr. quiet tr \<and> (\<forall>cs. r = Some (Inr cs) \<longrightarrow> (\<forall>c\<in>set cs. cand_ok kl pod policy nodes tr c)))"
  unfolding permit_def
proof (intro ens)
  fix t
  show "ensures (permit_loop fuel kl srv s pod policy nodes (as_time t + sc_permitTimeout s))
      (\<lambda>r tr. quiet ((Now, t) # tr) \<and> (\<forall>cs. r = Some (Inr cs) \<longrightarrow>
         (\<forall>c\<in>set cs. cand_ok kl pod policy nodes ((Now, t) # tr) c)))"
    by (intro ensures_conseq [OF permit_loop_ens]) (auto elim!: cands_ok_mono)
qed auto

text \<open>The score of a candidate at a time.\<close>

definition cand_score :: "gotime \<Rightarrow> ConfidentialInferencePolicy option \<Rightarrow> NodeCandidate \<Rightarrow> int" where
  "cand_score now policy c =
     (case nc_Evidence c of None \<Rightarrow> 100
      | Some ev \<Rightarrow> 100 +
          (case (evt_LastVerifiedTime (ev_Status ev), policy) of
             (Some seen, Some p) \<Rightarrow>
               if 0 < cips_MaxEvidenceAgeSeconds (cip_Spec p)
               then freshness_points now seen (cips_MaxEvidenceAgeSeconds (cip_Spec p)) else 0
           | _ \<Rightarrow> 0) + kind_points ev)"

definition scored_as :: "ConfidentialInferencePolicy option \<Rightarrow> log \<Rightarrow> NodeCandidate \<Rightarrow> NodeCandidate \<Rightarrow> bool" where
  "scored_as policy tr c' c \<longleftrightarrow>
     (\<exists>t. c' = c\<lparr>nc_Score := cand_score t policy c\<rparr> \<and>
        ((\<exists>rt. (Now, rt) \<in> set tr \<and> t = as_time rt) \<or> (\<forall>t'. cand_score t' policy c = cand_score t policy c)))"

lemma scored_as_mono: "scored_as policy tr c' c \<Longrightarrow> set tr \<subseteq> set tr' \<Longrightarrow> scored_as policy tr' c' c"
  unfolding scored_as_def by blast

lemma score_one_ens:
  "ensures (score_one srv policy c) (\<lambda>c' tr. quiet tr \<and> scored_as policy tr c' c)"
proof (cases "nc_Evidence c")
  case None
  then show ?thesis unfolding score_one_def
    by (auto intro!: ensures_return simp: scored_as_def cand_score_def)
next
  case (Some ev)
  show ?thesis
  proof (cases "\<exists>seen p. evt_LastVerifiedTime (ev_Status ev) = Some seen \<and> policy = Some p \<and>
      0 < cips_MaxEvidenceAgeSeconds (cip_Spec p)")
    case True
    then show ?thesis using Some unfolding score_one_def
      by (auto intro!: ensures_bind_api ensures_return simp: scored_as_def cand_score_def) blast
  next
    case False
    then have z: "cand_score t policy c = 100 + kind_points ev" for t
      using Some by (auto simp: cand_score_def split: option.split)
    have "score_one srv policy c = State_Monad.return (c\<lparr>nc_Score := 100 + kind_points ev\<rparr>)"
      using Some False unfolding score_one_def by (auto split: option.split)
    then show ?thesis using z by (auto intro!: ensures_return simp: scored_as_def)
  qed
qed

lemma score_ens:
  "ensures (score srv policy cs) (\<lambda>cs' tr. quiet tr \<and> list_all2 (scored_as policy tr) cs' cs)"
proof (induction cs)
  case Nil
  then show ?case by (auto intro: ens)
next
  case (Cons c cs)
  show ?case
    unfolding score.simps
  proof (rule ensures_bind [OF score_one_ens], rule ensures_bind [OF Cons.IH], rule ensures_return)
    fix c' tr1 cs' tr2
    assume a: "quiet tr1 \<and> scored_as policy tr1 c' c" "quiet tr2 \<and> list_all2 (scored_as policy tr2) cs' cs"
    have "scored_as policy (tr1 @ tr2 @ []) c' c" using a by (auto elim!: scored_as_mono)
    moreover have "list_all2 (scored_as policy (tr1 @ tr2 @ [])) cs' cs"
      using a(2) by (auto elim!: list_all2_mono scored_as_mono)
    ultimately show "quiet (tr1 @ tr2 @ []) \<and> list_all2 (scored_as policy (tr1 @ tr2 @ [])) (c' # cs') (c # cs)"
      using a by simp
  qed
qed

text \<open>The policy that applies to the pod: the first one of its namespace that selects it, if any.\<close>

definition policy_found :: "klib \<Rightarrow> Pod \<Rightarrow> ConfidentialInferencePolicy option \<Rightarrow> log \<Rightarrow> bool" where
  "policy_found kl pod policy tr \<longleftrightarrow>
     (\<exists>ns ps. (GetNamespace (om_Namespace (pod_Meta pod)), RNamespace (Inr ns)) \<in> set tr \<and>
        (ListPolicies (om_Namespace (pod_Meta pod)), RPolicies (Inr ps)) \<in> set tr \<and>
        policy = find (\<lambda>p. policyMatchesPod kl p (ns_Labels ns) pod) ps)"

lemma preFilter_ens:
  "ensures (preFilter kl srv pod)
     (\<lambda>r tr. quiet tr \<and> (\<forall>policy. r = Inr policy \<longrightarrow> policy_found kl pod policy tr))"
proof -
  have "first_policy kl nsLabels pod ps = find (\<lambda>p. policyMatchesPod kl p nsLabels pod) ps" for nsLabels ps
    by (induction ps) auto
  then show ?thesis unfolding preFilter_def by (intro ens) (auto simp: policy_found_def)
qed

text \<open>What the trace of a successful \<open>preBind\<close> shows about the objects it read again.\<close>

definition policy_rechecked :: "prims \<Rightarrow> Pod \<Rightarrow> AIPlacementDecision \<Rightarrow> log \<Rightarrow> bool" where
  "policy_rechecked P latestPod decision tr \<longleftrightarrow>
     (ref_Name (apds_PolicyRef (apd_Spec decision)) \<noteq> '''' \<longrightarrow>
       (\<exists>pol. (GetPolicy (ref_Namespace (apds_PolicyRef (apd_Spec decision)))
                         (ref_Name (apds_PolicyRef (apd_Spec decision))), RPolicy (Inr pol)) \<in> set tr \<and>
          CanonicalSHA256Hex P (cip_spec_json (cip_Spec pol)) =
            Some (TrimSpace (mget (om_Annotations (pod_Meta latestPod)) ''ai.sovereign.io/policy-hash''))))"

definition evidence_rechecked :: "prims \<Rightarrow> klib \<Rightarrow> Pod \<Rightarrow> NodeCandidate \<Rightarrow> AttestationEvidence \<Rightarrow>
    log \<Rightarrow> bool" where
  "evidence_rechecked P kl latestPod selected ev tr \<longleftrightarrow>
     \<not> evt_Revoked (ev_Status ev) \<and>
     (\<forall>sel. nc_Evidence selected = Some sel \<longrightarrow>
        (\<exists>h. evidenceHashForPlacement P kl ev = Some h \<and> evidenceHashForPlacement P kl sel = Some h)) \<and>
     (\<forall>seen. evt_LastVerifiedTime (ev_Status ev) = Some seen \<longrightarrow> 0 < expected_max_age latestPod \<longrightarrow>
        (\<exists>rt. (Now, rt) \<in> set tr \<and> timeSub (as_time rt) seen \<le> expected_max_age latestPod))"

definition rechecked :: "prims \<Rightarrow> klib \<Rightarrow> Pod \<Rightarrow> AIPlacementDecision \<Rightarrow> NodeCandidate \<Rightarrow> log \<Rightarrow> bool" where
  "rechecked P kl pod decision selected tr \<longleftrightarrow>
     (\<exists>latestPod. (GetPod (om_Namespace (pod_Meta pod)) (om_Name (pod_Meta pod)), RPod (Inr latestPod)) \<in> set tr \<and>
        policy_rechecked P latestPod decision tr \<and>
        (\<forall>ref. apds_EvidenceRef (apd_Spec decision) = Some ref \<longrightarrow>
           (\<exists>ev. (GetEvidence (ref_Namespace ref) (ref_Name ref), REvidence (Inr ev)) \<in> set tr \<and>
              evidence_rechecked P kl latestPod selected ev tr)))"

lemma policy_rechecked_mono:
  "policy_rechecked P lp d tr \<Longrightarrow> set tr \<subseteq> set tr' \<Longrightarrow> policy_rechecked P lp d tr'"
  unfolding policy_rechecked_def by blast

lemma evidence_rechecked_mono:
  "evidence_rechecked P kl lp sel ev tr \<Longrightarrow> set tr \<subseteq> set tr' \<Longrightarrow> evidence_rechecked P kl lp sel ev tr'"
  unfolding evidence_rechecked_def by blast

lemma recheck_policy_ens:
  "ensures (recheck_policy P srv latestPod decision)
     (\<lambda>r tr. quiet tr \<and> (r = None \<longrightarrow> policy_rechecked P latestPod decision tr))"
  unfolding recheck_policy_def by (intro ens) (auto simp: policy_rechecked_def)

lemma recheck_evidence_ens:
  "ensures (recheck_evidence P kl srv latestPod selected ev)
     (\<lambda>r tr. quiet tr \<and> (r = None \<longrightarrow> evidence_rechecked P kl latestPod selected ev tr))"
  unfolding recheck_evidence_def
  by (intro ens) (auto simp: evidence_rechecked_def not_less split: option.splits if_splits)

lemma preBind_ens:
  "ensures (preBind P kl srv pod decision selected)
     (\<lambda>r tr. quiet tr \<and> (r = None \<longrightarrow> rechecked P kl pod decision selected tr))"
  unfolding preBind_def
proof (intro ens)
  fix r :: reply and lp
  let ?g = "(GetPod (om_Namespace (pod_Meta pod)) (om_Name (pod_Meta pod)), r)"
  assume r: "as_pod r = Inr lp"
  show "ensures (recheck_policy P srv lp decision \<bind>
      (\<lambda>pe. case pe of
         None \<Rightarrow> (case apds_EvidenceRef (apd_Spec decision) of
             None \<Rightarrow> State_Monad.return None
           | Some ref \<Rightarrow> api srv (GetEvidence (ref_Namespace ref) (ref_Name ref)) \<bind>
               (\<lambda>r. case as_evidence r of
                  Inl e \<Rightarrow> State_Monad.return (Some (''read evidence before bind: '' @ kerr_text e))
                | Inr evidence \<Rightarrow> recheck_evidence P kl srv lp selected evidence))
       | Some e \<Rightarrow> State_Monad.return (Some e)))
     (\<lambda>b tr. quiet (?g # tr) \<and> (b = None \<longrightarrow> rechecked P kl pod decision selected (?g # tr)))"
  proof (rule ensures_bind [OF recheck_policy_ens], intro ens)
    fix a :: "string option" and tr1
    assume a: "quiet tr1 \<and> (a = None \<longrightarrow> policy_rechecked P lp decision tr1)" "a = None"
      and n: "apds_EvidenceRef (apd_Spec decision) = None"
    then have "policy_rechecked P lp decision (?g # tr1 @ [])" by (auto intro: policy_rechecked_mono)
    then have "rechecked P kl pod decision selected (?g # tr1 @ [])"
      unfolding rechecked_def using r n by (intro exI [of _ lp]) auto
    then show "quiet (?g # tr1 @ []) \<and> (None = None \<longrightarrow> rechecked P kl pod decision selected (?g # tr1 @ []))"
      using a by simp
  next
    fix a :: "string option" and tr1 and ref :: ObjectReference and re :: reply and ev
    let ?e = "(GetEvidence (ref_Namespace ref) (ref_Name ref), re)"
    assume a: "quiet tr1 \<and> (a = None \<longrightarrow> policy_rechecked P lp decision tr1)" "a = None"
      and n: "apds_EvidenceRef (apd_Spec decision) = Some ref" and re: "as_evidence re = Inr ev"
    show "ensures (recheck_evidence P kl srv lp selected ev)
        (\<lambda>b tr. quiet (?g # tr1 @ ?e # tr) \<and>
          (b = None \<longrightarrow> rechecked P kl pod decision selected (?g # tr1 @ ?e # tr)))"
    proof (rule ensures_conseq [OF recheck_evidence_ens])
      fix b tr
      assume e: "quiet tr \<and> (b = None \<longrightarrow> evidence_rechecked P kl lp selected ev tr)"
      have "rechecked P kl pod decision selected (?g # tr1 @ ?e # tr)" if b: "b = None"
      proof -
        have "policy_rechecked P lp decision (?g # tr1 @ ?e # tr)"
          using a by (auto intro: policy_rechecked_mono)
        moreover have "evidence_rechecked P kl lp selected ev (?g # tr1 @ ?e # tr)"
          using e b by (auto intro: evidence_rechecked_mono)
        ultimately show ?thesis
          unfolding rechecked_def using r re n by (intro exI [of _ lp]) auto
      qed
      then show "quiet (?g # tr1 @ ?e # tr) \<and>
          (b = None \<longrightarrow> rechecked P kl pod decision selected (?g # tr1 @ ?e # tr))"
        using a e by simp
    qed
  qed auto
qed auto

subsection \<open>Writes of the placement decision\<close>

definition writes :: "call \<Rightarrow> AIPlacementDecision \<Rightarrow> bool" where
  "writes c d \<longleftrightarrow> c = CreateDecision d \<or> c = UpdateDecision d"

definition binds :: "log \<Rightarrow> bool" where
  "binds tr \<longleftrightarrow> (\<exists>ns n t r. (CreateBinding ns n t, r) \<in> set tr)"

text \<open>Every decision written in the trace is one that \<open>mutate\<close> produced, and nothing is bound.\<close>

definition only_writes :: "(AIPlacementDecision \<Rightarrow> bool) \<Rightarrow> log \<Rightarrow> bool" where
  "only_writes Q tr \<longleftrightarrow> (\<forall>c r. (c, r) \<in> set tr \<longrightarrow> silent c \<or> (\<exists>d. writes c d \<and> Q d))"

lemma silent_simps: "silent c \<Longrightarrow> \<not> writes c d" "\<not> silent (CreateBinding ns n t)" "\<not> writes (CreateBinding ns n t) d"
  by (auto simp: writes_def)

lemma only_writes_no_bind: "only_writes Q tr \<Longrightarrow> \<not> binds tr"
  unfolding only_writes_def binds_def using silent_simps by blast

lemma only_writes_append [simp]: "only_writes Q (a @ b) \<longleftrightarrow> only_writes Q a \<and> only_writes Q b"
  by (auto simp: only_writes_def)

lemma only_writes_Nil [simp]: "only_writes Q []"
  by (simp add: only_writes_def)

lemma only_writes_Cons [simp]:
  "only_writes Q ((c, r) # tr) \<longleftrightarrow> (silent c \<or> (\<exists>d. writes c d \<and> Q d)) \<and> only_writes Q tr"
  by (auto simp: only_writes_def)

lemma quiet_only_writes: "quiet tr \<Longrightarrow> only_writes Q tr"
  by (auto simp: quiet_def only_writes_def list_all_iff)

lemma only_writes_mono: "only_writes Q tr \<Longrightarrow> (\<And>d. Q d \<Longrightarrow> Q' d) \<Longrightarrow> only_writes Q' tr"
  unfolding only_writes_def by blast

lemma createOrUpdate_ens:
  "ensures (createOrUpdatePlacementDecision srv d mutate)
     (\<lambda>r tr. only_writes (\<lambda>x. \<exists>d0. x = mutate d0) tr \<and>
        (\<forall>d'. r = Inr d' \<longrightarrow> (\<exists>g c d0. tr = [g, (c, RDecision (Inr d'))] \<and> writes c (mutate d0))))"
  unfolding createOrUpdatePlacementDecision_def
  by (intro ens) (auto simp: writes_def)

lemma mint_for_ens:
  "ensures (mint_for P srv s pod sh selected eh ph)
     (\<lambda>r tr. quiet tr \<and> (\<forall>t k. r = Inr t \<longrightarrow> sc_signingKey s = Some k \<longrightarrow>
        (\<exists>rt tok. (Now, rt) \<in> set tr \<and> t = Encode tok \<and>
          Mint P (as_time rt) (Some k) (om_UID (pod_Meta pod)) sh
            (case ps_Containers (pod_Spec pod) of [] \<Rightarrow> '''' | c # _ \<Rightarrow> ct_Image c)
            (mget (om_Annotations (pod_Meta pod)) ''ai.sovereign.io/model-digest'')
            (node_Name (nc_Node selected))
            (case ps_RuntimeClassName (pod_Spec pod) of None \<Rightarrow> '''' | Some rc \<Rightarrow> rc)
            eh ph (sc_tokenTTL s) \<lparr>mo_GPUIdentity = '''', mo_KeyIdentifier = ''''\<rparr> = Inr tok)))"
  unfolding mint_for_def by (intro ens) auto

text \<open>The three decisions a reservation writes.\<close>

abbreviation pending :: "Pod \<Rightarrow> ConfidentialInferencePolicy option \<Rightarrow> NodeCandidate \<Rightarrow>
    AIPlacementDecision \<Rightarrow> AIPlacementDecision" where
  "pending pod policy sel d \<equiv> set_verdict ''pending'' '''' (drop_token (applyBaseDecision pod policy sel d))"

abbreviation denied :: "Pod \<Rightarrow> ConfidentialInferencePolicy option \<Rightarrow> NodeCandidate \<Rightarrow>
    AIPlacementDecision \<Rightarrow> AIPlacementDecision" where
  "denied pod policy sel d \<equiv> set_verdict ''deny'' '''' (drop_token (applyBaseDecision pod policy sel d))"

abbreviation allowed :: "prims \<Rightarrow> string \<Rightarrow> Pod \<Rightarrow> ConfidentialInferencePolicy option \<Rightarrow> NodeCandidate \<Rightarrow>
    AIPlacementDecision \<Rightarrow> AIPlacementDecision" where
  "allowed P tok pod policy sel d \<equiv>
     set_verdict ''allow'' (SHA256Hex P tok) (add_token tok (applyBaseDecision pod policy sel d))"

text \<open>A successful reservation: the decision was written as pending, the re-check passed on what the
  server returned for it, and the last call wrote the verdict with the token.\<close>

definition reserved :: "prims \<Rightarrow> klib \<Rightarrow> Pod \<Rightarrow> ConfidentialInferencePolicy option \<Rightarrow> NodeCandidate \<Rightarrow>
    string \<Rightarrow> log \<Rightarrow> bool" where
  "reserved P kl pod policy sel tok tr \<longleftrightarrow>
     (\<exists>c0 d0 dec c1 d1 out tr0. (c0, RDecision (Inr dec)) \<in> set tr \<and> writes c0 (pending pod policy sel d0) \<and>
        rechecked P kl pod dec sel tr \<and> tr = tr0 @ [(c1, RDecision (Inr out))] \<and>
        writes c1 (allowed P tok pod policy sel d1))"

lemma rechecked_mono:
  "rechecked P kl pod dec sel tr \<Longrightarrow> set tr \<subseteq> set tr' \<Longrightarrow> rechecked P kl pod dec sel tr'"
  unfolding rechecked_def by (meson policy_rechecked_mono evidence_rechecked_mono subsetD)

text \<open>Every submitted verdict \<open>allow\<close> satisfies \<open>Q\<close>, given the calls made before it.\<close>

abbreviation not_allow :: "AIPlacementDecision \<Rightarrow> bool" where
  "not_allow x \<equiv> apdt_Decision (apd_Status x) \<noteq> ''allow''"

definition allow_needs :: "(AIPlacementDecision \<Rightarrow> log \<Rightarrow> bool) \<Rightarrow> log \<Rightarrow> bool" where
  "allow_needs Q tr \<longleftrightarrow>
     (\<forall>a c r b x. tr = a @ (c, r) # b \<longrightarrow> writes c x \<longrightarrow> apdt_Decision (apd_Status x) = ''allow'' \<longrightarrow> Q x a)"

text \<open>What precedes the verdict \<open>allow\<close>: the decision was written as pending for the same candidate,
  and the re-check passed on the decision that the server returned for that write.\<close>

definition approved :: "prims \<Rightarrow> klib \<Rightarrow> Pod \<Rightarrow> AIPlacementDecision \<Rightarrow> log \<Rightarrow> bool" where
  "approved P kl pod x a \<longleftrightarrow>
     (\<exists>policy sel tok d1 c0 d0 dec. x = allowed P tok pod policy sel d1 \<and>
        (c0, RDecision (Inr dec)) \<in> set a \<and> writes c0 (pending pod policy sel d0) \<and>
        rechecked P kl pod dec sel a)"

abbreviation allow_safe :: "prims \<Rightarrow> klib \<Rightarrow> Pod \<Rightarrow> log \<Rightarrow> bool" where
  "allow_safe P kl pod \<equiv> allow_needs (approved P kl pod)"

definition reserve_post :: "prims \<Rightarrow> klib \<Rightarrow> Pod \<Rightarrow> ConfidentialInferencePolicy option \<Rightarrow> NodeCandidate \<Rightarrow>
    string + AIPlacementDecision \<times> string \<Rightarrow> log \<Rightarrow> bool" where
  "reserve_post P kl pod policy sel r tr \<longleftrightarrow>
     \<not> binds tr \<and> allow_safe P kl pod tr \<and>
     (\<forall>d tok. r = Inr (d, tok) \<longrightarrow> reserved P kl pod policy sel tok tr)"

lemma binds_simps [simp]: "\<not> binds []" "binds (a @ b) \<longleftrightarrow> binds a \<or> binds b"
    "binds ((c, r) # tr) \<longleftrightarrow> (\<exists>ns n t. c = CreateBinding ns n t) \<or> binds tr"
  by (auto simp: binds_def)

lemma quiet_no_bind: "quiet tr \<Longrightarrow> \<not> binds tr"
  using only_writes_no_bind quiet_only_writes by blast

lemma verdicts [simp]:
  "apdt_Decision (apd_Status (set_verdict v g d)) = v"
  "apd_Spec (set_verdict v g d) = apd_Spec d" "apd_Spec (drop_token d) = apd_Spec d"
  "apd_Spec (add_token t d) = apd_Spec d"
  "apdt_NodeName (apd_Status (set_verdict v g d)) = apdt_NodeName (apd_Status d)"
  "apd_Status (drop_token d) = apd_Status d" "apd_Status (add_token t d) = apd_Status d"
  "apdt_NodeName (apd_Status (applyBaseDecision pod policy sel d)) = node_Name (nc_Node sel)"
  by (simp_all add: set_verdict_def drop_token_def add_token_def applyBaseDecision_def)

lemma writes_unique: "writes c x \<Longrightarrow> writes c y \<Longrightarrow> x = y"
  by (auto simp: writes_def)

lemma no_allow_written:
  assumes "only_writes not_allow tr" and "(c, r) \<in> set tr" and "writes c x"
  shows "not_allow x"
  using assms writes_unique silent_simps(1) unfolding only_writes_def by metis

lemma no_allow_needs: "only_writes not_allow tr \<Longrightarrow> allow_needs Q tr"
  unfolding allow_needs_def using no_allow_written by (metis in_set_conv_decomp)

lemma allow_needs_only:
  assumes "only_writes A tr" and "\<And>x a. A x \<Longrightarrow> Q x a"
  shows "allow_needs Q tr"
proof -
  have "A x" if "(c, r) \<in> set tr" "writes c x" for c r x
    using assms(1) that writes_unique silent_simps(1) unfolding only_writes_def by metis
  then show ?thesis unfolding allow_needs_def using assms(2) by (metis in_set_conv_decomp)
qed

lemma allow_needs_append:
  assumes "only_writes not_allow pre" and "allow_needs (\<lambda>x a. Q x (pre @ a)) tr"
  shows "allow_needs Q (pre @ tr)"
  unfolding allow_needs_def
proof (intro allI impI)
  fix a c r b x
  assume e: "pre @ tr = a @ (c, r) # b" and w: "writes c x" "apdt_Decision (apd_Status x) = ''allow''"
  have "(c, r) \<notin> set pre" using no_allow_written [OF assms(1) _ w(1)] w(2) by blast
  then obtain a' where a': "a = pre @ a'" "tr = a' @ (c, r) # b"
    using e by (auto simp: append_eq_append_conv2 append_eq_Cons_conv)
  then show "Q x a" using assms(2) w unfolding allow_needs_def by blast
qed

lemma allow_needs_conseq: "allow_needs Q tr \<Longrightarrow> (\<And>x a. Q x a \<Longrightarrow> Q' x a) \<Longrightarrow> allow_needs Q' tr"
  unfolding allow_needs_def by blast

lemma approved_mono: "approved P kl pod x a \<Longrightarrow> set a \<subseteq> set a' \<Longrightarrow> approved P kl pod x a'"
  unfolding approved_def using rechecked_mono by blast

lemma allow_safe_prefix:
  "only_writes not_allow pre \<Longrightarrow> allow_safe P kl pod tr \<Longrightarrow> allow_safe P kl pod (pre @ tr)"
  by (rule allow_needs_append) (auto elim!: allow_needs_conseq approved_mono)

text \<open>The candidate of a reservation, with the decision to be re-checked.\<close>

definition checked_for :: "prims \<Rightarrow> klib \<Rightarrow> Pod \<Rightarrow> ConfidentialInferencePolicy option \<Rightarrow> NodeCandidate \<Rightarrow>
    AIPlacementDecision \<Rightarrow> AIPlacementDecision \<Rightarrow> log \<Rightarrow> bool" where
  "checked_for P kl pod policy sel dec x a \<longleftrightarrow>
     (\<exists>tok d1. x = allowed P tok pod policy sel d1) \<and> rechecked P kl pod dec sel a"

lemma reserve_final_ens:
  "ensures (reserve_final P srv s pod policy sel sh ph eh dec)
     (\<lambda>r tr. only_writes (\<lambda>x. \<exists>tok d1. x = allowed P tok pod policy sel d1) tr \<and>
        (\<forall>d tok. r = Inr (d, tok) \<longrightarrow>
          (\<exists>c d1 out tr0. tr = tr0 @ [(c, RDecision (Inr out))] \<and> writes c (allowed P tok pod policy sel d1))))"
  unfolding reserve_final_def
proof (rule ensures_bind [OF mint_for_ens], intro ens)
  fix m :: "string + string" and tr1 and t :: string
  assume m: "quiet tr1 \<and> (\<forall>t k. m = Inr t \<longrightarrow> sc_signingKey s = Some k \<longrightarrow>
        (\<exists>rt tok. (Now, rt) \<in> set tr1 \<and> t = Encode tok \<and>
          Mint P (as_time rt) (Some k) (om_UID (pod_Meta pod)) sh
            (case ps_Containers (pod_Spec pod) of [] \<Rightarrow> '''' | c # _ \<Rightarrow> ct_Image c)
            (mget (om_Annotations (pod_Meta pod)) ''ai.sovereign.io/model-digest'')
            (node_Name (nc_Node sel))
            (case ps_RuntimeClassName (pod_Spec pod) of None \<Rightarrow> '''' | Some rc \<Rightarrow> rc)
            eh ph (sc_tokenTTL s) \<lparr>mo_GPUIdentity = '''', mo_KeyIdentifier = ''''\<rparr> = Inr tok))"
  let ?A = "\<lambda>x. \<exists>tok d1. x = allowed P tok pod policy sel d1"
  from m have q: "only_writes ?A tr1" by (simp add: quiet_only_writes)
  show "ensures (createOrUpdatePlacementDecision srv dec (allowed P t pod policy sel) \<bind>
      (\<lambda>r. case r of Inl e \<Rightarrow> State_Monad.return (Inl (''finalize AIPlacementDecision: '' @ kerr_text e))
         | Inr d \<Rightarrow> State_Monad.return (Inr (d, t))))
    (\<lambda>r tr. only_writes ?A (tr1 @ tr) \<and> (\<forall>d tok. r = Inr (d, tok) \<longrightarrow>
        (\<exists>c d1 out tr0. tr1 @ tr = tr0 @ [(c, RDecision (Inr out))] \<and>
           writes c (allowed P tok pod policy sel d1))))"
  proof (rule ensures_bind [OF createOrUpdate_ens], intro ens, goal_cases)
    case (1 a tr2 e)
    then have "only_writes ?A tr2" by (auto elim!: only_writes_mono)
    then show ?case using q by auto
  next
    case (2 a tr2 y)
    then obtain g c d0 where w: "tr2 = [g, (c, RDecision (Inr y))]" "writes c (allowed P t pod policy sel d0)"
      by auto
    have "only_writes ?A tr2" using 2 by (auto elim!: only_writes_mono)
    then have "only_writes ?A (tr1 @ tr2 @ [])" using q by simp
    moreover have "tr1 @ tr2 @ [] = (tr1 @ [g]) @ [(c, RDecision (Inr y))]" using w(1) by simp
    ultimately show ?case using w(2) by (intro conjI allI impI) auto
  qed
qed (use quiet_only_writes in auto)

lemma reserve_checked_ens:
  "ensures (reserve_checked P kl srv s pod policy sel sh ph eh dec)
     (\<lambda>r tr. \<not> binds tr \<and> allow_needs (checked_for P kl pod policy sel dec) tr \<and> (\<forall>d tok. r = Inr (d, tok) \<longrightarrow>
        rechecked P kl pod dec sel tr \<and>
        (\<exists>c d1 out tr0. tr = tr0 @ [(c, RDecision (Inr out))] \<and> writes c (allowed P tok pod policy sel d1))))"
  unfolding reserve_checked_def
proof (rule ensures_bind [OF preBind_ens], rule ensures_option)
  fix pe :: "string option" and tr1
  assume p: "quiet tr1 \<and> (pe = None \<longrightarrow> rechecked P kl pod dec sel tr1)" "pe = None"
  then have rc: "rechecked P kl pod dec sel tr1" and q: "quiet tr1" by auto
  show "ensures (reserve_final P srv s pod policy sel sh ph eh dec)
      (\<lambda>r tr. \<not> binds (tr1 @ tr) \<and> allow_needs (checked_for P kl pod policy sel dec) (tr1 @ tr) \<and> (\<forall>d tok. r = Inr (d, tok) \<longrightarrow>
         rechecked P kl pod dec sel (tr1 @ tr) \<and>
         (\<exists>c d1 out tr0. tr1 @ tr = tr0 @ [(c, RDecision (Inr out))] \<and>
            writes c (allowed P tok pod policy sel d1))))"
  proof (rule ensures_conseq [OF reserve_final_ens])
    fix r tr
    assume f: "only_writes (\<lambda>x. \<exists>tok d1. x = allowed P tok pod policy sel d1) tr \<and> (\<forall>d tok. r = Inr (d, tok) \<longrightarrow>
        (\<exists>c d1 out tr0. tr = tr0 @ [(c, RDecision (Inr out))] \<and> writes c (allowed P tok pod policy sel d1)))"
    have last: "\<exists>c d1 out tr0. tr1 @ tr = tr0 @ [(c, RDecision (Inr out))] \<and>
        writes c (allowed P tok pod policy sel d1)" if "r = Inr (d, tok)" for d tok
    proof -
      from f that obtain c d1 out tr0
        where w: "tr = tr0 @ [(c, RDecision (Inr out))]" "writes c (allowed P tok pod policy sel d1)" by blast
      then have "tr1 @ tr = (tr1 @ tr0) @ [(c, RDecision (Inr out))]" by simp
      with w(2) show ?thesis by blast
    qed
    have "rechecked P kl pod dec sel (tr1 @ tr)" using rc by (auto elim!: rechecked_mono)
    moreover have "allow_needs (checked_for P kl pod policy sel dec) (tr1 @ tr)"
    proof (rule allow_needs_append [OF quiet_only_writes [OF q]], rule allow_needs_only)
      show "only_writes (\<lambda>x. \<exists>tok d1. x = allowed P tok pod policy sel d1) tr" using f by blast
      show "checked_for P kl pod policy sel dec x (tr1 @ a)"
        if "\<exists>tok d1. x = allowed P tok pod policy sel d1" for x a
        unfolding checked_for_def using that rc by (auto elim!: rechecked_mono)
    qed
    moreover have "\<not> binds (tr1 @ tr)" using f q only_writes_no_bind [of _ tr] by (auto simp: quiet_no_bind)
    ultimately show "\<not> binds (tr1 @ tr) \<and> allow_needs (checked_for P kl pod policy sel dec) (tr1 @ tr) \<and> (\<forall>d tok. r = Inr (d, tok) \<longrightarrow>
         rechecked P kl pod dec sel (tr1 @ tr) \<and>
         (\<exists>c d1 out tr0. tr1 @ tr = tr0 @ [(c, RDecision (Inr out))] \<and>
            writes c (allowed P tok pod policy sel d1)))"
      using last by blast
  qed
next
  fix pe :: "string option" and tr1 and e :: string
  assume p: "quiet tr1 \<and> (pe = None \<longrightarrow> rechecked P kl pod dec sel tr1)" "pe = Some e"
  show "ensures (createOrUpdatePlacementDecision srv dec (denied pod policy sel) \<bind>
      (\<lambda>_. State_Monad.return (Inl (''prebind: '' @ e))))
      (\<lambda>r tr. \<not> binds (tr1 @ tr) \<and> allow_needs (checked_for P kl pod policy sel dec) (tr1 @ tr) \<and> (\<forall>d tok. r = Inr (d, tok) \<longrightarrow>
         rechecked P kl pod dec sel (tr1 @ tr) \<and>
         (\<exists>c d1 out tr0. tr1 @ tr = tr0 @ [(c, RDecision (Inr out))] \<and>
            writes c (allowed P tok pod policy sel d1))))"
  proof (rule ensures_bind [OF createOrUpdate_ens], rule ensures_return)
    fix a tr2
    assume w: "only_writes (\<lambda>x. \<exists>d0. x = denied pod policy sel d0) tr2 \<and>
        (\<forall>d'. a = Inr d' \<longrightarrow> (\<exists>g c d0. tr2 = [g, (c, RDecision (Inr d'))] \<and> writes c (denied pod policy sel d0)))"
    then have "only_writes not_allow tr2" by (auto elim!: only_writes_mono)
    then have "only_writes not_allow (tr1 @ tr2 @ [])" using p quiet_only_writes by simp
    then show "\<not> binds (tr1 @ tr2 @ []) \<and> allow_needs (checked_for P kl pod policy sel dec) (tr1 @ tr2 @ []) \<and>
        (\<forall>d tok. Inl (''prebind: '' @ e) = Inr (d, tok) \<longrightarrow>
         rechecked P kl pod dec sel (tr1 @ tr2 @ []) \<and>
         (\<exists>c d1 out tr0. tr1 @ tr2 @ [] = tr0 @ [(c, RDecision (Inr out))] \<and>
            writes c (allowed P tok pod policy sel d1)))"
      using no_allow_needs only_writes_no_bind by blast
  qed
qed

text \<open>After the decision was written as pending, with or without the delay.\<close>

lemma reserve_checked_after:
  assumes w: "writes c0 (pending pod policy sel d0)"
    and pre: "only_writes not_allow (g # (c0, RDecision (Inr dec)) # tr2)"
  shows "ensures (reserve_checked P kl srv s pod policy sel sh ph eh dec)
    (\<lambda>r tr. reserve_post P kl pod policy sel r (g # (c0, RDecision (Inr dec)) # tr2 @ tr))"
proof (rule ensures_conseq [OF reserve_checked_ens])
  fix r :: "string + AIPlacementDecision \<times> string" and tr
  let ?pre = "g # (c0, RDecision (Inr dec)) # tr2"
  assume c: "\<not> binds tr \<and> allow_needs (checked_for P kl pod policy sel dec) tr \<and> (\<forall>d tok. r = Inr (d, tok) \<longrightarrow>
      rechecked P kl pod dec sel tr \<and>
      (\<exists>c d1 out tr0. tr = tr0 @ [(c, RDecision (Inr out))] \<and> writes c (allowed P tok pod policy sel d1)))"
  have "\<not> binds (?pre @ tr)" using only_writes_no_bind [OF pre] c by (simp only: binds_simps) blast
  moreover have "allow_safe P kl pod (?pre @ tr)" 
  proof (rule allow_needs_append [OF pre], rule allow_needs_conseq)
    show "allow_needs (checked_for P kl pod policy sel dec) tr" using c by blast
    show "approved P kl pod x (?pre @ a)" if ch: "checked_for P kl pod policy sel dec x a" for x a
    proof -
      have "rechecked P kl pod dec sel (?pre @ a)"
        using ch unfolding checked_for_def by (auto elim!: rechecked_mono)
      moreover have "(c0, RDecision (Inr dec)) \<in> set (?pre @ a)" by simp
      ultimately show ?thesis using ch w unfolding checked_for_def approved_def by blast
    qed
  qed
  moreover have "reserved P kl pod policy sel tok (?pre @ tr)" if "r = Inr (d, tok)" for d tok
  proof -
    from c that obtain c1 d1 out tr0 where "rechecked P kl pod dec sel tr"
      "tr = tr0 @ [(c1, RDecision (Inr out))]" "writes c1 (allowed P tok pod policy sel d1)" by blast
    moreover from this(1) have "rechecked P kl pod dec sel (?pre @ tr)" by (auto elim!: rechecked_mono)
    ultimately show ?thesis
      unfolding reserved_def using w
      by (intro exI [of _ c0] exI [of _ d0] exI [of _ dec] exI [of _ c1] exI [of _ d1] exI [of _ out]
          exI [of _ "?pre @ tr0"]) simp
  qed
  ultimately show "reserve_post P kl pod policy sel r (g # (c0, RDecision (Inr dec)) # tr2 @ tr)"
    unfolding reserve_post_def by simp
qed

lemma reserve_post_error:
  "only_writes not_allow tr \<Longrightarrow> reserve_post P kl pod policy sel (Inl e) tr"
  unfolding reserve_post_def using only_writes_no_bind no_allow_needs by simp

lemma reserveTimed_ens:
  "ensures (reserveTimed P kl srv s pod policy sel) (reserve_post P kl pod policy sel)"
  unfolding reserveTimed_def
proof (intro ensures_option ensures_return)
  fix sh ph eh :: string
  show "ensures (createOrUpdatePlacementDecision srv (newDecision pod) (pending pod policy sel) \<bind>
      (\<lambda>r. case r of Inl e \<Rightarrow> State_Monad.return (Inl (''upsert pending AIPlacementDecision: '' @ kerr_text e))
         | Inr decision \<Rightarrow>
           if 0 < sc_preBindDelay s then api srv (Sleep (sc_preBindDelay s)) \<bind>
             (\<lambda>d. case as_done d of
                None \<Rightarrow> reserve_checked P kl srv s pod policy sel sh ph eh decision
              | Some e \<Rightarrow> State_Monad.return (Inl e))
           else reserve_checked P kl srv s pod policy sel sh ph eh decision))
      (reserve_post P kl pod policy sel)"
  proof (rule ensures_bind [OF createOrUpdate_ens], intro ens, goal_cases)
    case (1 a tr e)
    then have "only_writes not_allow tr" by (auto elim!: only_writes_mono)
    then show ?case using reserve_post_error by simp
  next
    case (2 a tr dec d)
    then obtain g c d0 where w: "tr = [g, (c, RDecision (Inr dec))]" "writes c (pending pod policy sel d0)" by auto
    have "only_writes not_allow tr" using 2(1) by (auto elim!: only_writes_mono)
    then have "only_writes not_allow (g # (c, RDecision (Inr dec)) # [(Sleep (sc_preBindDelay s), d)])"
      using w(1) by (cases g) simp
    from reserve_checked_after [OF w(2) this] show ?case using w(1) by simp
  next
    case (3 a tr dec d e)
    then have "only_writes not_allow tr" by (auto elim!: only_writes_mono)
    then show ?case using reserve_post_error by simp
  next
    case (4 a tr dec)
    then obtain g c d0 where w: "tr = [g, (c, RDecision (Inr dec))]" "writes c (pending pod policy sel d0)" by auto
    have "only_writes not_allow tr" using 4(1) by (auto elim!: only_writes_mono)
    then have "only_writes not_allow (g # (c, RDecision (Inr dec)) # [])" using w(1) by simp
    from reserve_checked_after [OF w(2) this] show ?case using w(1) by simp
  qed
qed (simp_all add: reserve_post_error)

text \<open>The API server stores the spec it is given.\<close>

definition echo :: "log \<Rightarrow> bool" where
  "echo tr \<longleftrightarrow> (\<forall>c d d'. (c, RDecision (Inr d')) \<in> set tr \<longrightarrow> writes c d \<longrightarrow> apd_Spec d' = apd_Spec d)"

text \<open>What justifies binding the pod to a node: the latest pod was read again; the policy that was
  applied, read again, hashes to the value recorded on that pod; the evidence that qualified the node,
  read again, is not revoked, hashes to the same value as when it was selected and is within the age the
  pod expects.\<close>

definition bind_ok :: "prims \<Rightarrow> klib \<Rightarrow> Pod \<Rightarrow> ConfidentialInferencePolicy option \<Rightarrow> AttestationEvidence \<Rightarrow>
    log \<Rightarrow> bool" where
  "bind_ok P kl pod policy ev pre \<longleftrightarrow>
     (\<exists>lp. (GetPod (om_Namespace (pod_Meta pod)) (om_Name (pod_Meta pod)), RPod (Inr lp)) \<in> set pre \<and>
        (\<forall>p. policy = Some p \<longrightarrow> om_Name (cip_Meta p) \<noteq> '''' \<longrightarrow>
           (\<exists>pol. (GetPolicy (om_Namespace (cip_Meta p)) (om_Name (cip_Meta p)), RPolicy (Inr pol)) \<in> set pre \<and>
              CanonicalSHA256Hex P (cip_spec_json (cip_Spec pol)) =
                Some (TrimSpace (mget (om_Annotations (pod_Meta lp)) ''ai.sovereign.io/policy-hash'')))) \<and>
        (\<exists>ev'. (GetEvidence (om_Namespace (ev_Meta ev)) (om_Name (ev_Meta ev)), REvidence (Inr ev')) \<in> set pre \<and>
           \<not> evt_Revoked (ev_Status ev') \<and>
           (\<exists>h. evidenceHashForPlacement P kl ev' = Some h \<and> evidenceHashForPlacement P kl ev = Some h) \<and>
           (\<forall>seen. evt_LastVerifiedTime (ev_Status ev') = Some seen \<longrightarrow> 0 < expected_max_age lp \<longrightarrow>
              (\<exists>rt. (Now, rt) \<in> set pre \<and> timeSub (as_time rt) seen \<le> expected_max_age lp))))"

text \<open>The last call recorded the verdict \<open>allow\<close> for the node, successfully.\<close>

definition allow_recorded :: "string \<Rightarrow> log \<Rightarrow> bool" where
  "allow_recorded node pre \<longleftrightarrow>
     (\<exists>pre0 c d out. pre = pre0 @ [(c, RDecision (Inr out))] \<and> writes c d \<and>
        apdt_Decision (apd_Status d) = ''allow'' \<and> apdt_NodeName (apd_Status d) = node)"

lemma base_refs [simp]:
  "policy = Some p \<Longrightarrow> apds_PolicyRef (apd_Spec (applyBaseDecision pod policy sel d)) =
     \<lparr>ref_Name = om_Name (cip_Meta p), ref_Namespace = om_Namespace (cip_Meta p)\<rparr>"
  "nc_Evidence sel = Some ev \<Longrightarrow> apds_EvidenceRef (apd_Spec (applyBaseDecision pod policy sel d)) =
     Some \<lparr>ref_Name = om_Name (ev_Meta ev), ref_Namespace = om_Namespace (ev_Meta ev)\<rparr>"
  by (simp_all add: applyBaseDecision_def)

lemma reserved_bind_ok:
  assumes r: "reserved P kl pod policy sel tok tr" and e: "echo tr" and ev: "nc_Evidence sel = Some ev"
    and sub: "set tr \<subseteq> set pre"
  shows "bind_ok P kl pod policy ev pre"
proof -
  from r obtain c0 d0 dec c1 d1 out tr0 where dec: "(c0, RDecision (Inr dec)) \<in> set tr"
    "writes c0 (pending pod policy sel d0)" and rc: "rechecked P kl pod dec sel tr"
    unfolding reserved_def by blast
  have spec: "apd_Spec dec = apd_Spec (applyBaseDecision pod policy sel d0)"
    using e dec unfolding echo_def by fastforce
  from rc obtain lp where lp:
    "(GetPod (om_Namespace (pod_Meta pod)) (om_Name (pod_Meta pod)), RPod (Inr lp)) \<in> set tr"
    and po: "policy_rechecked P lp dec tr"
    and er: "\<forall>ref. apds_EvidenceRef (apd_Spec dec) = Some ref \<longrightarrow>
      (\<exists>ev. (GetEvidence (ref_Namespace ref) (ref_Name ref), REvidence (Inr ev)) \<in> set tr \<and>
         evidence_rechecked P kl lp sel ev tr)"
    unfolding rechecked_def by blast
  have ref: "apds_EvidenceRef (apd_Spec dec) =
      Some \<lparr>ref_Name = om_Name (ev_Meta ev), ref_Namespace = om_Namespace (ev_Meta ev)\<rparr>"
    using spec ev by simp
  from er [rule_format, OF ref] obtain ev' where ev':
    "(GetEvidence (om_Namespace (ev_Meta ev)) (om_Name (ev_Meta ev)), REvidence (Inr ev')) \<in> set pre"
    "evidence_rechecked P kl lp sel ev' tr" using sub by auto
  have "policy_rechecked P lp dec pre" using po sub by (rule policy_rechecked_mono)
  then have p: "\<forall>p. policy = Some p \<longrightarrow> om_Name (cip_Meta p) \<noteq> '''' \<longrightarrow>
      (\<exists>pol. (GetPolicy (om_Namespace (cip_Meta p)) (om_Name (cip_Meta p)), RPolicy (Inr pol)) \<in> set pre \<and>
         CanonicalSHA256Hex P (cip_spec_json (cip_Spec pol)) =
           Some (TrimSpace (mget (om_Annotations (pod_Meta lp)) ''ai.sovereign.io/policy-hash'')))"
    using spec unfolding policy_rechecked_def by auto
  have x: "evidence_rechecked P kl lp sel ev' pre" using ev'(2) sub by (rule evidence_rechecked_mono)
  show ?thesis
    unfolding bind_ok_def
    using lp sub p ev'(1) x [unfolded evidence_rechecked_def] ev by blast
qed

lemma reserved_allow_recorded:
  assumes "reserved P kl pod policy sel tok tr"
  shows "allow_recorded (node_Name (nc_Node sel)) (pre @ tr)"
proof -
  from assms obtain c1 d1 out tr0
    where l: "tr = tr0 @ [(c1, RDecision (Inr out))]" "writes c1 (allowed P tok pod policy sel d1)"
    unfolding reserved_def by blast
  then have "pre @ tr = (pre @ tr0) @ [(c1, RDecision (Inr out))]" by simp
  moreover have "apdt_Decision (apd_Status (allowed P tok pod policy sel d1)) = ''allow''"
    "apdt_NodeName (apd_Status (allowed P tok pod policy sel d1)) = node_Name (nc_Node sel)" by simp_all
  ultimately show ?thesis unfolding allow_recorded_def using l(2) by blast
qed

subsection \<open>The whole attempt\<close>

text \<open>The candidate that is selected: one of the candidates, with a score no other exceeds.\<close>

definition best_of :: "ConfidentialInferencePolicy option \<Rightarrow> log \<Rightarrow> NodeCandidate list \<Rightarrow> NodeCandidate \<Rightarrow> bool" where
  "best_of policy tr cs sel \<longleftrightarrow>
     (\<exists>scored. list_all2 (scored_as policy tr) scored cs \<and> sel \<in> set scored \<and>
        (\<forall>c\<in>set scored. nc_Score c \<le> nc_Score sel))"

lemma best_of_mono: "best_of policy tr cs sel \<Longrightarrow> set tr \<subseteq> set tr' \<Longrightarrow> best_of policy tr' cs sel"
proof -
  assume b: "best_of policy tr cs sel" and sub: "set tr \<subseteq> set tr'"
  have "list_all2 (scored_as policy tr') xs cs" if "list_all2 (scored_as policy tr) xs cs" for xs
    using that by (rule list_all2_mono) (rule scored_as_mono [OF _ sub])
  then show ?thesis using b unfolding best_of_def by blast
qed

lemma sorted_head:
  assumes "sort_slice_ok srt" and "cs \<noteq> []"
  shows "hd (srt cs) \<in> set cs" and "\<forall>c\<in>set cs. nc_Score c \<le> nc_Score (hd (srt cs))"
proof -
  have m: "mset (srt cs) = mset cs" and s: "sorted_wrt (\<lambda>a b. nc_Score b \<le> nc_Score a) (srt cs)"
    using assms(1) unfolding sort_slice_ok_def by auto
  have set: "set (srt cs) = set cs" using m by (metis set_mset_mset)
  then obtain x xs where x: "srt cs = x # xs" using assms(2) by (cases "srt cs") auto
  show "hd (srt cs) \<in> set cs" using x set by (metis list.set_intros(1) list.sel(1))
  show "\<forall>c\<in>set cs. nc_Score c \<le> nc_Score (hd (srt cs))"
    using s x unfolding set [symmetric] by auto
qed

definition finish_post :: "prims \<Rightarrow> klib \<Rightarrow> Pod \<Rightarrow> ConfidentialInferencePolicy option \<Rightarrow> NodeCandidate list \<Rightarrow>
    string option \<Rightarrow> log \<Rightarrow> bool" where
  "finish_post P kl pod policy cs e tr \<longleftrightarrow>
     allow_safe P kl pod tr \<and>
     (\<not> binds tr \<and> e \<noteq> None \<or>
      (\<exists>tr0 tr1 tok sel r. tr = tr0 @ tr1 @
           [(CreateBinding (om_Namespace (pod_Meta pod)) (om_Name (pod_Meta pod)) (node_Name (nc_Node sel)), r)] \<and>
         quiet tr0 \<and> \<not> binds tr1 \<and> best_of policy tr0 cs sel \<and> reserved P kl pod policy sel tok tr1 \<and>
         (e = None \<longleftrightarrow> r = RUnit None)))"

lemma allow_safe_snoc:
  "allow_needs Q tr \<Longrightarrow> allow_needs Q (tr @ [(CreateBinding ns n t, r)])"
  unfolding allow_needs_def
proof (intro allI impI)
  fix a c r' b x
  assume safe: "\<forall>a c r b x. tr = a @ (c, r) # b \<longrightarrow> writes c x \<longrightarrow>
      apdt_Decision (apd_Status x) = ''allow'' \<longrightarrow> Q x a"
    and e: "tr @ [(CreateBinding ns n t, r)] = a @ (c, r') # b" and w: "writes c x"
    and v: "apdt_Decision (apd_Status x) = ''allow''"
  show "Q x a"
  proof (cases b rule: rev_cases)
    case Nil
    then show ?thesis using e w silent_simps(3) by auto
  next
    case (snoc b' y)
    then have "tr = a @ (c, r') # b'" using e by simp
    then show ?thesis using safe w v by blast
  qed
qed

lemma finish_ens:
  assumes srt: "sort_slice_ok srt" and cs: "cs \<noteq> []"
  shows "ensures (finish P kl srv srt s pod policy cs) (finish_post P kl pod policy cs)"
  unfolding finish_def bind_pod_def Let_def
proof (rule ensures_bind [OF score_ens], rule ensures_bind [OF reserveTimed_ens], goal_cases)
  case (1 scored tr0 a tr1)
  let ?sel = "hd (srt scored)"
  have ne: "scored \<noteq> []" using 1(1) cs by auto
  have best: "best_of policy tr0 cs ?sel"
    unfolding best_of_def using 1(1) sorted_head [OF srt ne] by blast
  have q: "quiet tr0" using 1(1) by simp
  note r = 1(2) [unfolded reserve_post_def]
  have safe: "allow_safe P kl pod (tr0 @ tr1)"
    using r by (intro allow_safe_prefix quiet_only_writes [OF q]) blast
  show ?case
  proof (rule ensures_sum)
    fix e
    assume "a = Inl e"
    show "ensures (State_Monad.return (Some (''reserve: '' @ e)))
        (\<lambda>b tr2. finish_post P kl pod policy cs b (tr0 @ tr1 @ tr2))"
      by (rule ensures_return) (use safe r q in \<open>simp add: finish_post_def quiet_no_bind\<close>)
  next
    fix y
    assume y: "a = Inr y"
    obtain d tok where dt: "y = (d, tok)" by (cases y)
    have res: "reserved P kl pod policy ?sel tok tr1" using r y dt by blast
    have post: "finish_post P kl pod policy cs b (tr0 @ tr1 @
        [(CreateBinding (om_Namespace (pod_Meta pod)) (om_Name (pod_Meta pod)) (node_Name (nc_Node ?sel)), rb)])"
      if "b = None \<longleftrightarrow> rb = RUnit None" for b rb
      unfolding finish_post_def using allow_safe_snoc [OF safe] q r best res that by auto
    show "ensures (case y of (d, tokenStr) \<Rightarrow>
          api srv (CreateBinding (om_Namespace (pod_Meta pod)) (om_Name (pod_Meta pod)) (node_Name (nc_Node ?sel))) \<bind>
            (\<lambda>r. State_Monad.return (as_unit r)) \<bind>
          (\<lambda>b. case b of None \<Rightarrow> State_Monad.return None
             | Some e \<Rightarrow> State_Monad.return (Some (''bind: '' @ kerr_text e))))
        (\<lambda>b tr2. finish_post P kl pod policy cs b (tr0 @ tr1 @ tr2))"
      unfolding dt case_prod_conv
      by (rule ensures_bind [where ?R1.0 = "\<lambda>b tr. \<exists>rb. b = as_unit rb \<and> tr = [(CreateBinding
            (om_Namespace (pod_Meta pod)) (om_Name (pod_Meta pod)) (node_Name (nc_Node ?sel)), rb)]"])
        (auto intro!: ens post)
  qed
qed

text \<open>What a scheduling attempt may do to the cluster.\<close>

definition binding :: "Pod \<Rightarrow> NodeCandidate \<Rightarrow> call" where
  "binding pod sel = CreateBinding (om_Namespace (pod_Meta pod)) (om_Name (pod_Meta pod)) (node_Name (nc_Node sel))"

definition justified_binding :: "prims \<Rightarrow> klib \<Rightarrow> Pod \<Rightarrow> NodeCandidate \<Rightarrow> log \<Rightarrow> bool" where
  "justified_binding P kl pod sel pre \<longleftrightarrow>
     (\<exists>policy nodes cs ev. policy_found kl pod policy pre \<and> (ListNodes, RNodes (Inr nodes)) \<in> set pre \<and>
        (\<forall>c\<in>set cs. cand_ok kl pod policy nodes pre c) \<and> best_of policy pre cs sel \<and>
        cand_ok kl pod policy nodes pre sel \<and> nc_Evidence sel = Some ev \<and>
        allow_recorded (node_Name (nc_Node sel)) pre \<and> (echo pre \<longrightarrow> bind_ok P kl pod policy ev pre))"

definition sched_post :: "prims \<Rightarrow> klib \<Rightarrow> Pod \<Rightarrow> string option option \<Rightarrow> log \<Rightarrow> bool" where
  "sched_post P kl pod r tr \<longleftrightarrow>
     allow_safe P kl pod tr \<and>
     (\<not> binds tr \<and> r \<noteq> Some None \<or>
      (\<exists>pre sel rb. tr = pre @ [(binding pod sel, rb)] \<and> \<not> binds pre \<and>
         justified_binding P kl pod sel pre \<and> (r = Some None \<longleftrightarrow> rb = RUnit None)))"

lemma sched_post_quiet: "quiet tr \<Longrightarrow> r \<noteq> Some None \<Longrightarrow> sched_post P kl pod r tr"
  unfolding sched_post_def using no_allow_needs quiet_only_writes quiet_no_bind by blast

lemma policy_found_mono: "policy_found kl pod policy tr \<Longrightarrow> set tr \<subseteq> set tr' \<Longrightarrow> policy_found kl pod policy tr'"
  unfolding policy_found_def by blast

lemma best_of_cand_ok:
  assumes "best_of policy tr cs sel" and "\<forall>c\<in>set cs. cand_ok kl pod policy nodes tr' c"
  shows "cand_ok kl pod policy nodes tr' sel"
proof -
  from assms(1) obtain scored where "list_all2 (scored_as policy tr) scored cs" "sel \<in> set scored"
    unfolding best_of_def by blast
  then obtain c where c: "c \<in> set cs" "scored_as policy tr sel c"
    by (metis in_set_conv_nth list_all2_conv_all_nth)
  then have "nc_Node sel = nc_Node c" "nc_Evidence sel = nc_Evidence c" by (auto simp: scored_as_def)
  then show ?thesis using assms(2) c(1) unfolding cand_ok_def by auto
qed

lemma finish_after:
  assumes srt: "sort_slice_ok srt" and cs: "cs \<noteq> []" and q: "quiet tr" and pf: "policy_found kl pod policy tr"
    and nodes: "(ListNodes, RNodes (Inr nodes)) \<in> set tr"
    and ok: "\<forall>c\<in>set cs. cand_ok kl pod policy nodes tr c"
  shows "ensures (finish P kl srv srt s pod policy cs \<bind> (\<lambda>e. State_Monad.return (Some e)))
    (\<lambda>r tr2. sched_post P kl pod r (tr @ tr2))"
proof (rule ensures_bind [OF finish_ens [OF srt cs]], rule ensures_return)
  fix e tr2
  assume f: "finish_post P kl pod policy cs e tr2"
  have safe: "allow_safe P kl pod (tr @ tr2)"
    using f unfolding finish_post_def by (intro allow_safe_prefix quiet_only_writes [OF q]) blast
  from f consider "\<not> binds tr2" "e \<noteq> None"
    | tr0 tr1 tok sel rb where "tr2 = tr0 @ tr1 @ [(binding pod sel, rb)]" "quiet tr0" "\<not> binds tr1"
      "best_of policy tr0 cs sel" "reserved P kl pod policy sel tok tr1" "e = None \<longleftrightarrow> rb = RUnit None"
    unfolding finish_post_def binding_def by blast
  then show "sched_post P kl pod (Some e) (tr @ tr2 @ [])"
  proof cases
    case 1
    then show ?thesis using safe q by (simp add: sched_post_def quiet_no_bind)
  next
    case 2
    let ?pre = "tr @ tr0 @ tr1"
    have nb: "\<not> binds ?pre" using q 2(2,3) by (simp add: quiet_no_bind)
    have all: "\<forall>c\<in>set cs. cand_ok kl pod policy nodes ?pre c" using ok by (auto elim!: cands_ok_mono)
    have best: "best_of policy ?pre cs sel" using 2(4) by (auto elim!: best_of_mono)
    have selok: "cand_ok kl pod policy nodes ?pre sel" using best_of_cand_ok [OF best all] .
    then obtain ev where ev: "nc_Evidence sel = Some ev" unfolding cand_ok_def by blast
    have "bind_ok P kl pod policy ev ?pre" if "echo ?pre"
    proof (rule reserved_bind_ok [OF 2(5) _ ev])
      show "echo tr1" using that unfolding echo_def by simp
    qed auto
    moreover have "policy_found kl pod policy ?pre" using pf by (auto elim!: policy_found_mono)
    moreover have "allow_recorded (node_Name (nc_Node sel)) ?pre"
      using reserved_allow_recorded [OF 2(5), of "tr @ tr0"] by simp
    ultimately have "justified_binding P kl pod sel ?pre"
      unfolding justified_binding_def using nodes all best selok ev by auto
    moreover have "tr @ tr2 @ [] = ?pre @ [(binding pod sel, rb)]" using 2(1) by simp
    ultimately show ?thesis using safe nb 2(6) unfolding sched_post_def by auto
  qed
qed

lemma SchedulePod_ens:
  assumes srt: "sort_slice_ok srt"
  shows "ensures (SchedulePod fuel P kl srv srt s pod) (sched_post P kl pod)"
  unfolding SchedulePod_def
proof (rule ensures_bind [OF preFilter_ens], rule ensures_sum, goal_cases)
  case (1 a tr1 e)
  then show ?case by (auto intro!: ensures_return sched_post_quiet)
next
  case (2 a tr1 policy)
  then have q1: "quiet tr1" and pf: "policy_found kl pod policy tr1" by auto
  show ?case
  proof (rule ensures_bind_api, rule ensures_sum, goal_cases)
    case (1 r e)
    then show ?case using q1 by (auto intro!: ensures_return sched_post_quiet)
  next
    case (2 r nodes)
    let ?t = "tr1 @ [(ListNodes, r)]"
    have n: "(ListNodes, RNodes (Inr nodes)) \<in> set ?t" using 2 by simp
    have pf': "policy_found kl pod policy (?t @ tr)" for tr using pf by (auto elim!: policy_found_mono)
    show ?case
    proof (rule ensures_bind [OF sched_filter_ens], rule ensures_sum, goal_cases)
      case (1 a tr2 e)
      then show ?case using q1 by (auto intro!: ensures_return sched_post_quiet)
    next
      case (2 f tr2 cs)
      then have q2: "quiet (?t @ tr2)" and c2: "\<forall>c\<in>set cs. cand_ok kl pod policy nodes (?t @ tr2) c"
        using q1 by (auto elim!: cands_ok_mono)
      show ?case
      proof (rule ensures_if, goal_cases)
        case 1
        have n2: "(ListNodes, RNodes (Inr nodes)) \<in> set (?t @ tr2)" using n by auto
        show ?case using finish_after [OF srt 1 q2 pf' n2 c2, of P srv s] by simp
      next
        case 2
        show ?case
        proof (rule ensures_bind [OF permit_ens], goal_cases)
          case (1 w tr3)
          have q3: "quiet (?t @ tr2 @ tr3)" using q2 1 by simp
          show ?case
          proof (cases w)
            case None
            then show ?thesis using q3 by (auto intro!: ensures_return sched_post_quiet)
          next
            case (Some x)
            show ?thesis
            proof (cases x)
              case (Inl e)
              then show ?thesis using Some q3 by (auto intro!: ensures_return sched_post_quiet)
            next
              case (Inr cs')
              have c3: "\<forall>c\<in>set cs'. cand_ok kl pod policy nodes (?t @ tr2 @ tr3) c"
                using 1 Some Inr by (auto elim!: cands_ok_mono)
              show ?thesis
              proof (cases "cs' = []")
                case True
                then show ?thesis using Some Inr q3 by (auto intro!: ensures_return sched_post_quiet)
              next
                case False
                have n3: "(ListNodes, RNodes (Inr nodes)) \<in> set (?t @ tr2 @ tr3)" using n by auto
                show ?thesis
                  using finish_after [OF srt False q3 pf' n3 c3, of P srv s] Some Inr False by simp
              qed
            qed
          qed
        qed
      qed
    qed
  qed
qed

end
