(* ===== verification/Controllers.thy ===== *)
theory Controllers
  imports Maa Placement Key_Release Scheduler_Safety
begin

text \<open>
  The reconcilers of \<open>internal/controller\<close>, over the same server parameter as the scheduler.

  A reconciliation returns an error text or what the controller asks of its queue. A status update
  returns the object as the server stored it; \<open>ctrl.CreateOrUpdate\<close> is the call \<open>UpsertEvidence\<close> with
  the mutation that it applies. The verifier behind the central reconciler is a parameter, as the
  source's \<open>verifyFn\<close>, and \<open>VerifyMAAToken\<close> its default. Event recorders and logging are left out.
\<close>

datatype ctrlResult = CDone | CRequeue | CRequeueAfter duration

definition IgnoreNotFound :: "kerr \<Rightarrow> string + ctrlResult" where
  "IgnoreNotFound e = (if IsNotFound e then Inr CDone else Inl (kerr_text e))"

definition ConditionReady :: string where "ConditionReady = ''Ready''"
definition ReasonReconciled :: string where "ReasonReconciled = ''Reconciled''"
definition ReasonValidationFailed :: string where "ReasonValidationFailed = ''ValidationFailed''"
definition EvidenceModeReal :: string where "EvidenceModeReal = ''real''"
definition EvidenceModeSimulated :: string where "EvidenceModeSimulated = ''simulated''"
definition EvidenceModeUnverified :: string where "EvidenceModeUnverified = ''unverified''"
definition VerificationStatusVerified :: string where "VerificationStatusVerified = ''Verified''"
definition VerificationStatusFailed :: string where "VerificationStatusFailed = ''Failed''"
definition VerificationStatusUnavailable :: string where "VerificationStatusUnavailable = ''Unavailable''"


section \<open>Conditions\<close>

definition readyCondition :: "int \<Rightarrow> string \<Rightarrow> string \<Rightarrow> string \<Rightarrow> Condition" where
  "readyCondition generation status reason message =
     \<lparr>cond_Type = ConditionReady, cond_Status = status, cond_ObservedGeneration = generation,
      cond_LastTransitionTime = zeroTime, cond_Reason = reason, cond_Message = message\<rparr>"

definition readyTrue :: "int \<Rightarrow> string \<Rightarrow> Condition" where
  "readyTrue generation message = readyCondition generation ''True'' ReasonReconciled message"

definition readyFalse :: "int \<Rightarrow> string \<Rightarrow> string \<Rightarrow> Condition" where
  "readyFalse generation reason message = readyCondition generation ''False'' reason message"

text \<open>\<open>meta.SetStatusCondition\<close> reads the clock for the transition time.\<close>

definition setCondition :: "klib \<Rightarrow> 's server \<Rightarrow> Condition list \<Rightarrow> Condition \<Rightarrow> ('s, Condition list) prog" where
  "setCondition kl srv cs c = do {
     t \<leftarrow> api srv Now;
     State_Monad.return (kl_setCond kl (as_time t) cs c)
   }"


section \<open>The central verifier\<close>

record verifierConf =
  vc_VerifierIdentity :: string
  vc_VerifierPodUID :: string
  vc_ExpectedTEE :: string
  vc_MAAIssuerPrefix :: string
  vc_MaxTokenAge :: duration

definition teeFromAttestationType :: "string \<Rightarrow> string" where
  "teeFromAttestationType t = (if t = ''tdxvm'' then ''TDX'' else ''SEV-SNP'')"

definition maxAgeSecondsOrDefault :: "int \<Rightarrow> int" where
  "maxAgeSecondsOrDefault s = (if s \<le> 0 then 300 else wrap32 s)"

definition simulatedEvidenceRefreshInterval :: duration where
  "simulatedEvidenceRefreshInterval = 60 * Second"

text \<open>\<open>int64(d.Seconds())\<close>: the seconds as a \<open>float64\<close>, truncated.\<close>

definition durationSeconds :: "duration \<Rightarrow> int" where
  "durationSeconds d =
     trunc (f64 (f64 (of_int (quot d Second)) + f64 (f64 (of_int (d - quot d Second * Second)) / 1000000000)))"

text \<open>What the verification of a report yields: the local variables of \<open>Reconcile\<close>.\<close>

record outcome =
  oc_mode :: string
  oc_vstatus :: string
  oc_failure :: string
  oc_verified :: bool
  oc_claimsHash :: string
  oc_tokenHash :: string
  oc_issuedAt :: "gotime option"
  oc_expiresAt :: "gotime option"
  oc_freshnessS :: int
  oc_attestType :: string

definition simulated_outcome :: outcome where
  "simulated_outcome =
     \<lparr>oc_mode = EvidenceModeSimulated, oc_vstatus = VerificationStatusVerified, oc_failure = '''',
      oc_verified = True, oc_claimsHash = '''', oc_tokenHash = '''', oc_issuedAt = None, oc_expiresAt = None,
      oc_freshnessS = 0, oc_attestType = ''simulated''\<rparr>"

definition outcome_of :: "verifierConf \<Rightarrow> MaaResult \<Rightarrow> outcome" where
  "outcome_of cfg res =
     (let (mode, vstatus, failure, verified) =
        (if mr_Status res = StatusVerified then (EvidenceModeReal, VerificationStatusVerified, '''', True)
         else if mr_Status res = StatusUnavailable
           then (EvidenceModeUnverified, VerificationStatusUnavailable, mr_Reason res, False)
         else (EvidenceModeUnverified, VerificationStatusFailed, mr_Reason res, False)) in
      \<lparr>oc_mode = mode, oc_vstatus = vstatus, oc_failure = failure, oc_verified = verified,
       oc_claimsHash = mr_ClaimsDigest res, oc_tokenHash = mr_TokenHash res,
       oc_issuedAt = (if mr_IssuedAt res \<noteq> zeroTime then Some (mr_IssuedAt res) else None),
       oc_expiresAt = (if mr_ExpiresAt res \<noteq> zeroTime then Some (mr_ExpiresAt res) else None),
       oc_freshnessS = (if mr_ExpiresAt res \<noteq> zeroTime \<and> 0 < vc_MaxTokenAge cfg
                        then durationSeconds (vc_MaxTokenAge cfg) else 0),
       oc_attestType = ''guest-attestation''\<rparr>)"

definition report_opts :: "verifierConf \<Rightarrow> RawAttestationReport \<Rightarrow> MaaOptions" where
  "report_opts cfg report =
     \<lparr>mao_ExpectedNonce = rars_Nonce (rar_Spec report), mao_ExpectedTEE = vc_ExpectedTEE cfg,
      mao_MaxAge = vc_MaxTokenAge cfg, mao_AllowedIssuerPrefix = vc_MAAIssuerPrefix cfg\<rparr>"

definition verify_report :: "verifierConf \<Rightarrow> (string \<Rightarrow> MaaOptions \<Rightarrow> ('s, MaaResult) prog) \<Rightarrow>
    RawAttestationReport \<Rightarrow> ('s, outcome) prog" where
  "verify_report cfg verify report =
     (if rars_Simulated (rar_Spec report) then State_Monad.return simulated_outcome
      else do {
        res \<leftarrow> verify (rars_RawToken (rar_Spec report)) (report_opts cfg report);
        State_Monad.return (outcome_of cfg res)
      })"

text \<open>The mutation that \<open>CreateOrUpdate\<close> applies to the evidence.\<close>

definition evidence_mutation :: "verifierConf \<Rightarrow> RawAttestationReport \<Rightarrow> int \<Rightarrow>
    AttestationEvidence \<Rightarrow> AttestationEvidence" where
  "evidence_mutation cfg report freshnessS ev =
     ev\<lparr>ev_Spec := (ev_Spec ev)
          \<lparr>evs_SubjectRef := \<lparr>ref_Name = rars_NodeName (rar_Spec report), ref_Namespace = ''''\<rparr>,
           evs_EvidenceType := ''cpu'',
           evs_TEE := (if rars_Simulated (rar_Spec report) then teeFromAttestationType (vc_ExpectedTEE cfg)
                       else ''SEV-SNP''),
           evs_Simulated := rars_Simulated (rar_Spec report),
           evs_Freshness := \<lparr>fr_MaxAgeSeconds = maxAgeSecondsOrDefault freshnessS,
                             fr_Simulated = rars_Simulated (rar_Spec report)\<rparr>\<rparr>,
        ev_Meta := (ev_Meta ev)
          \<lparr>om_Labels := mset_key (om_Labels (ev_Meta ev)) ''ai.sovereign.io/verified-by''
             (vc_VerifierIdentity cfg)\<rparr>\<rparr>"

text \<open>The status fields, before the conditions and the verification time.\<close>

definition evidence_status :: "verifierConf \<Rightarrow> RawAttestationReport \<Rightarrow> outcome \<Rightarrow>
    AttestationEvidence \<Rightarrow> AttestationEvidenceStatus" where
  "evidence_status cfg report oc ev =
     (ev_Status ev)
       \<lparr>evt_ObservedGeneration := om_Generation (ev_Meta ev), evt_Verified := oc_verified oc,
        evt_EvidenceMode := oc_mode oc, evt_VerificationStatus := oc_vstatus oc,
        evt_FailureReason := oc_failure oc, evt_VerifiedBy := vc_VerifierIdentity cfg,
        evt_VerifierPodUID := vc_VerifierPodUID cfg, evt_NodeUID := rars_NodeUID (rar_Spec report),
        evt_Provider := rars_Provider (rar_Spec report), evt_AttestationType := oc_attestType oc,
        evt_MAATokenHash := oc_tokenHash oc, evt_ClaimsDigest := oc_claimsHash oc,
        evt_Nonce := rars_Nonce (rar_Spec report), evt_IssuedAt := oc_issuedAt oc,
        evt_ExpiresAt := oc_expiresAt oc, evt_FreshnessSeconds := oc_freshnessS oc\<rparr>"

definition stamp_status :: "klib \<Rightarrow> 's server \<Rightarrow> verifierConf \<Rightarrow> RawAttestationReport \<Rightarrow> outcome \<Rightarrow>
    AttestationEvidence \<Rightarrow> ('s, AttestationEvidence) prog" where
  "stamp_status kl srv cfg report oc ev =
     (let st = evidence_status cfg report oc ev; gen = om_Generation (ev_Meta ev) in
      if oc_verified oc then do {
        t \<leftarrow> api srv Now;
        cs \<leftarrow> setCondition kl srv (evt_Conditions st) (readyTrue gen ''attestation verified'');
        State_Monad.return (ev\<lparr>ev_Status := st\<lparr>evt_LastVerifiedTime := Some (as_time t), evt_Conditions := cs\<rparr>\<rparr>)
      }
      else do {
        cs \<leftarrow> setCondition kl srv (evt_Conditions st) (readyFalse gen ReasonValidationFailed (oc_failure oc));
        State_Monad.return (ev\<lparr>ev_Status := st\<lparr>evt_Conditions := cs\<rparr>\<rparr>)
      })"

definition evidenceName :: "RawAttestationReport \<Rightarrow> string" where
  "evidenceName report = ''evidence-'' @ rars_NodeName (rar_Spec report)"

definition mark_processed :: "outcome \<Rightarrow> RawAttestationReport \<Rightarrow> RawAttestationReport" where
  "mark_processed oc report = report\<lparr>rar_Status := (rar_Status report)
     \<lparr>rart_ObservedGeneration := om_Generation (rar_Meta report), rart_Processed := True,
      rart_EvidenceRef := evidenceName report, rart_VerificationStatus := oc_vstatus oc\<rparr>\<rparr>"

definition Reconcile_report :: "klib \<Rightarrow> 's server \<Rightarrow> verifierConf \<Rightarrow>
    (string \<Rightarrow> MaaOptions \<Rightarrow> ('s, MaaResult) prog) \<Rightarrow> string \<Rightarrow> string \<Rightarrow> ('s, string + ctrlResult) prog" where
  "Reconcile_report kl srv cfg verify ns name = do {
     r \<leftarrow> api srv (GetReport ns name);
     case as_report r of
       Inl e \<Rightarrow> State_Monad.return (IgnoreNotFound e)
     | Inr report \<Rightarrow> do {
         oc \<leftarrow> verify_report cfg verify report;
         r \<leftarrow> api srv (UpsertEvidence (om_Namespace (rar_Meta report)) (evidenceName report)
                (evidence_mutation cfg report (oc_freshnessS oc)));
         case as_evidence r of
           Inl e \<Rightarrow> State_Monad.return (Inl (''upsert evidence: '' @ kerr_text e))
         | Inr ev \<Rightarrow> do {
             ev' \<leftarrow> stamp_status kl srv cfg report oc ev;
             r \<leftarrow> api srv (StatusEvidence ev');
             case as_evidence r of
               Inl e \<Rightarrow> State_Monad.return (Inl (''update evidence status: '' @ kerr_text e))
             | Inr _ \<Rightarrow> do {
                 r \<leftarrow> api srv (StatusReport (mark_processed oc report));
                 case as_report r of
                   Inl e \<Rightarrow> State_Monad.return (if IsConflict e then Inr CRequeue
                     else Inl (''update report status: '' @ kerr_text e))
                 | Inr report' \<Rightarrow> State_Monad.return
                     (Inr (if rars_Simulated (rar_Spec report')
                           then CRequeueAfter simulatedEvidenceRefreshInterval else CDone))
               }
           }
       }
   }"

text \<open>The defaults that \<open>SetupWithManager\<close> fills in.\<close>

definition setup_conf :: "string \<Rightarrow> verifierConf \<Rightarrow> verifierConf" where
  "setup_conf podUIDEnv cfg =
     cfg\<lparr>vc_VerifierIdentity := (if vc_VerifierIdentity cfg = '''' then ''central-verifier'' else vc_VerifierIdentity cfg),
         vc_VerifierPodUID := (if vc_VerifierPodUID cfg = '''' then podUIDEnv else vc_VerifierPodUID cfg),
         vc_ExpectedTEE := (if vc_ExpectedTEE cfg = '''' then ''sevsnpvm'' else vc_ExpectedTEE cfg),
         vc_MaxTokenAge := (if vc_MaxTokenAge cfg = 0 then 5 * 60 * Second else vc_MaxTokenAge cfg)\<rparr>"


section \<open>Evidence and revocations\<close>

text \<open>The scan over the revocation policies of the namespace.\<close>

definition revokes :: "gotime \<Rightarrow> AttestationEvidence \<Rightarrow> AIRevocationPolicy \<Rightarrow> bool" where
  "revokes now ev p =
     ((case rvs_EvidenceRef (rv_Spec p) of None \<Rightarrow> False | Some ref \<Rightarrow> ref_Name ref = om_Name (ev_Meta ev)) \<and>
      \<not> (case rvt_ExpiresAt (rv_Status p) of None \<Rightarrow> False | Some e \<Rightarrow> e < now))"

fun any_revokes :: "gotime \<Rightarrow> AttestationEvidence \<Rightarrow> AIRevocationPolicy list \<Rightarrow> bool" where
  "any_revokes now ev [] = False"
| "any_revokes now ev (p # ps) = (if revokes now ev p then True else any_revokes now ev ps)"

definition isEvidenceRevoked :: "'s server \<Rightarrow> AttestationEvidence \<Rightarrow> ('s, kerr + bool) prog" where
  "isEvidenceRevoked srv ev = do {
     r \<leftarrow> api srv (ListRevocations (om_Namespace (ev_Meta ev)));
     case as_revocations r of
       Inl e \<Rightarrow> State_Monad.return (Inl e)
     | Inr ps \<Rightarrow> do {
         t \<leftarrow> api srv Now;
         State_Monad.return (Inr (any_revokes (as_time t) ev ps))
       }
   }"

definition self_verified :: "bool \<Rightarrow> AttestationEvidence \<Rightarrow> bool" where
  "self_verified revoked ev \<longleftrightarrow> \<not> revoked \<and>
     (evs_Simulated (ev_Spec ev) \<or> evs_Digest (ev_Spec ev) \<noteq> '''' \<or> evs_Signatures (ev_Spec ev) \<noteq> [])"

definition Reconcile_evidence :: "klib \<Rightarrow> 's server \<Rightarrow> string \<Rightarrow> string \<Rightarrow> ('s, string + ctrlResult) prog" where
  "Reconcile_evidence kl srv ns name = do {
     r \<leftarrow> api srv (GetEvidence ns name);
     case as_evidence r of
       Inl e \<Rightarrow> State_Monad.return (IgnoreNotFound e)
     | Inr ev \<Rightarrow> do {
         rv \<leftarrow> isEvidenceRevoked srv ev;
         case rv of
           Inl e \<Rightarrow> State_Monad.return (Inl (kerr_text e))
         | Inr revoked \<Rightarrow>
           let gen = om_Generation (ev_Meta ev);
               verified = self_verified revoked ev;
               st = (ev_Status ev)\<lparr>evt_ObservedGeneration := gen, evt_Revoked := revoked, evt_Verified := verified\<rparr> in
           do {
             st1 \<leftarrow> (if verified then do {
                       t \<leftarrow> api srv Now;
                       State_Monad.return (st\<lparr>evt_LastVerifiedTime := Some (as_time t)\<rparr>)
                     } else State_Monad.return st);
             cs \<leftarrow> setCondition kl srv (evt_Conditions st1)
                    (if verified then readyTrue gen ''Attestation evidence verified''
                     else readyFalse gen ReasonValidationFailed
                       (if revoked then ''attestation evidence has been revoked''
                        else ''attestation evidence is not yet verified''));
             r \<leftarrow> api srv (StatusEvidence (ev\<lparr>ev_Status := st1\<lparr>evt_Conditions := cs\<rparr>\<rparr>));
             case as_evidence r of
               Inl e \<Rightarrow> State_Monad.return (Inl (kerr_text e))
             | Inr ev' \<Rightarrow> State_Monad.return
                 (Inr (if evt_Verified (ev_Status ev') \<and> evs_Simulated (ev_Spec ev')
                       then CRequeueAfter simulatedEvidenceRefreshInterval else CDone))
           }
       }
   }"

definition Reconcile_revocation :: "klib \<Rightarrow> 's server \<Rightarrow> string \<Rightarrow> string \<Rightarrow> ('s, string + ctrlResult) prog" where
  "Reconcile_revocation kl srv ns name = do {
     r \<leftarrow> api srv (GetRevocation ns name);
     case as_revocation r of
       Inl e \<Rightarrow> State_Monad.return (IgnoreNotFound e)
     | Inr policy \<Rightarrow> do {
         let expiresAt = om_CreationTimestamp (rv_Meta policy) + seconds (rvs_TTLSeconds (rv_Spec policy));
         let gen = om_Generation (rv_Meta policy);
         t \<leftarrow> api srv Now;
         let active = (as_time t < expiresAt);
         cs \<leftarrow> setCondition kl srv (rvt_Conditions (rv_Status policy))
                (if active then readyTrue gen ''Revocation policy is active''
                 else readyFalse gen ReasonReconciled ''Revocation policy expired'');
         r \<leftarrow> api srv (StatusRevocation (policy\<lparr>rv_Status := (rv_Status policy)
                \<lparr>rvt_ObservedGeneration := gen, rvt_ExpiresAt := Some expiresAt, rvt_Active := active,
                 rvt_Conditions := cs\<rparr>\<rparr>));
         case as_revocation r of
           Inl e \<Rightarrow> State_Monad.return (Inl (kerr_text e))
         | Inr stored \<Rightarrow> do {
             t \<leftarrow> api srv Now;
             State_Monad.return (Inr (CRequeueAfter (timeSub
               (case rvt_ExpiresAt (rv_Status stored) of None \<Rightarrow> expiresAt | Some e \<Rightarrow> e) (as_time t))))
           }
       }
   }"


section \<open>Placement decisions\<close>

definition fetchConfidentialPolicy :: "'s server \<Rightarrow> string \<Rightarrow> ObjectReference \<Rightarrow>
    ('s, string + ConfidentialInferencePolicy) prog" where
  "fetchConfidentialPolicy srv defaultNamespace ref = do {
     let ns = (if ref_Namespace ref = '''' then defaultNamespace else ref_Namespace ref);
     r \<leftarrow> api srv (GetPolicy ns (ref_Name ref));
     case as_policy r of
       Inl e \<Rightarrow> State_Monad.return (Inl (''read ConfidentialInferencePolicy '' @ ns @ ''/'' @ ref_Name ref @ '': '' @ kerr_text e))
     | Inr p \<Rightarrow> State_Monad.return (Inr p)
   }"

definition fetchAttestationEvidence :: "'s server \<Rightarrow> string \<Rightarrow> ObjectReference option \<Rightarrow>
    ('s, string + AttestationEvidence) prog" where
  "fetchAttestationEvidence srv defaultNamespace ref =
     (case ref of
        None \<Rightarrow> State_Monad.return (Inl ''AIPlacementDecision requires spec.evidenceRef'')
      | Some ref \<Rightarrow> do {
          let ns = (if ref_Namespace ref = '''' then defaultNamespace else ref_Namespace ref);
          r \<leftarrow> api srv (GetEvidence ns (ref_Name ref));
          case as_evidence r of
            Inl e \<Rightarrow> State_Monad.return (Inl (''read AttestationEvidence '' @ ns @ ''/'' @ ref_Name ref @ '': '' @ kerr_text e))
          | Inr ev \<Rightarrow> State_Monad.return (Inr ev)
        })"

definition placement_of :: "ConfidentialInferencePolicy \<Rightarrow> AttestationEvidence \<Rightarrow> Decision" where
  "placement_of policy ev =
     Evaluate
       \<lparr>pp_AllowedTEEs = cips_RequiredTEE (cip_Spec policy),
        pp_MaxEvidenceAgeSeconds = cips_MaxEvidenceAgeSeconds (cip_Spec policy),
        pp_RequiredRuntimeClass = rt_RuntimeClassName (evs_Runtime (ev_Spec ev))\<rparr>
       \<lparr>pe_TEE = evs_TEE (ev_Spec ev), pe_AgeSeconds = fr_MaxAgeSeconds (evs_Freshness (ev_Spec ev)),
        pe_Revoked = evt_Revoked (ev_Status ev),
        pe_RuntimeClassName = rt_RuntimeClassName (evs_Runtime (ev_Spec ev))\<rparr>"

text \<open>The text that is hashed for the token digest, the keys of the map in order.\<close>

definition digest_json :: "AIPlacementDecision \<Rightarrow> AttestationEvidence \<Rightarrow> Decision \<Rightarrow> json" where
  "digest_json decision ev pd =
     JObj [(''evidence'', JStr (om_Name (ev_Meta ev))), (''policy'', ref_json (apds_PolicyRef (apd_Spec decision))),
           (''runtime'', JStr (pd_Runtime pd)), (''score'', JNum (pd_Score pd)),
           (''target'', ref_json (apds_TargetRef (apd_Spec decision)))]"

definition Reconcile_decision :: "prims \<Rightarrow> klib \<Rightarrow> 's server \<Rightarrow> string \<Rightarrow> string \<Rightarrow> ('s, string + ctrlResult) prog" where
  "Reconcile_decision P kl srv ns name = do {
     r \<leftarrow> api srv (GetDecision ns name);
     case as_decision r of
       Inl e \<Rightarrow> State_Monad.return (IgnoreNotFound e)
     | Inr decision \<Rightarrow> do {
         p \<leftarrow> fetchConfidentialPolicy srv (om_Namespace (apd_Meta decision)) (apds_PolicyRef (apd_Spec decision));
         case p of
           Inl e \<Rightarrow> State_Monad.return (Inl e)
         | Inr policy \<Rightarrow> do {
             v \<leftarrow> fetchAttestationEvidence srv (om_Namespace (apd_Meta decision)) (apds_EvidenceRef (apd_Spec decision));
             case v of
               Inl e \<Rightarrow> State_Monad.return (Inl e)
             | Inr ev \<Rightarrow> do {
                 let pd = placement_of policy ev;
                 let gen = om_Generation (apd_Meta decision);
                 let st = (apd_Status decision);
                 cs \<leftarrow> setCondition kl srv (apdt_Conditions st)
                        (if pd_Allow pd then readyTrue gen (pd_Reason pd)
                         else readyFalse gen ReasonValidationFailed (pd_Reason pd));
                 let st' = st\<lparr>apdt_ObservedGeneration := gen,
                              apdt_Decision := (if pd_Allow pd then ''allow'' else ''deny''),
                              apdt_Conditions := cs,
                              apdt_Simulated := (evs_Simulated (ev_Spec ev) \<or> fr_Simulated (evs_Freshness (ev_Spec ev))),
                              apdt_PlacementTokenDigest :=
                                (if pt_Required (apds_PlacementToken (apd_Spec decision)) \<and> pd_Allow pd
                                 then SHA256Hex P (marshal (digest_json decision ev pd))
                                 else apdt_PlacementTokenDigest st)\<rparr>;
                 r \<leftarrow> api srv (StatusDecision (decision\<lparr>apd_Status := st'\<rparr>));
                 case as_decision r of
                   Inl e \<Rightarrow> State_Monad.return (Inl (kerr_text e))
                 | Inr _ \<Rightarrow> State_Monad.return (Inr CDone)
               }
           }
       }
   }"


section \<open>Key release policies and evidence records\<close>

definition resolveEvidenceState :: "'s server \<Rightarrow> AIKeyReleasePolicy \<Rightarrow> ('s, kerr + bool \<times> bool) prog" where
  "resolveEvidenceState srv policy =
     (case krps_EvidenceRef (krp_Spec policy) of
        None \<Rightarrow> State_Monad.return (Inr (False, False))
      | Some ref \<Rightarrow> do {
          let ns = (if ref_Namespace ref = '''' then om_Namespace (krp_Meta policy) else ref_Namespace ref);
          r \<leftarrow> api srv (GetEvidence ns (ref_Name ref));
          case as_evidence r of
            Inl e \<Rightarrow> State_Monad.return (Inl e)
          | Inr ev \<Rightarrow> State_Monad.return (Inr (evt_Verified (ev_Status ev), evt_Revoked (ev_Status ev)))
        })"

definition policy_request :: "AIKeyReleasePolicy \<Rightarrow> bool \<Rightarrow> bool \<Rightarrow> Request" where
  "policy_request policy verified revoked =
     \<lparr>rq_Namespace = '''', rq_PodName = '''', rq_PodUID = '''', rq_PodSpecHash = '''', rq_KeyID = '''',
      rq_ModelDigest = '''', rq_ImageDigest = '''', rq_PolicyHash = '''', rq_EvidenceHash = '''', rq_PlacementToken = '''',
      rq_EvidenceVerified = verified, rq_EvidenceRevoked = revoked, rq_EvidenceLastSeen = zeroTime,
      rq_MaxEvidenceAgeSecs = 0, rq_PolicyRequired = kr_Required (krps_KeyRelease (krp_Spec policy)),
      rq_PolicyTTLSeconds = kr_TTLSeconds (krps_KeyRelease (krp_Spec policy)), rq_PolicyAuditRequired = False,
      rq_RevocationActive = False, rq_TokenPublicKey = None\<rparr>"

definition Reconcile_key_policy :: "prims \<Rightarrow> (string \<Rightarrow> string) \<Rightarrow> klib \<Rightarrow> 's server \<Rightarrow> string \<Rightarrow> string \<Rightarrow>
    ('s, string + ctrlResult) prog" where
  "Reconcile_key_policy P syn kl srv ns name = do {
     r \<leftarrow> api srv (GetKeyPolicy ns name);
     case as_key_policy r of
       Inl e \<Rightarrow> State_Monad.return (IgnoreNotFound e)
     | Inr policy \<Rightarrow> do {
         s \<leftarrow> resolveEvidenceState srv policy;
         case s of
           Inl e \<Rightarrow> State_Monad.return (Inl (kerr_text e))
         | Inr (verified, revoked) \<Rightarrow> do {
             let decision = kr_Evaluate P syn 0 0 (policy_request policy verified revoked);
             let gen = om_Generation (krp_Meta policy);
             t \<leftarrow> api srv Now;
             cs \<leftarrow> setCondition kl srv (krpt_Conditions (krp_Status policy))
                    (if rs_Allowed decision then readyTrue gen (reason_text (rs_Reason decision))
                     else readyFalse gen ReasonValidationFailed (reason_text (rs_Reason decision)));
             r \<leftarrow> api srv (StatusKeyPolicy (policy\<lparr>krp_Status := (krp_Status policy)
                    \<lparr>krpt_ObservedGeneration := gen,
                     krpt_LastDecision := (if rs_Allowed decision then ''allow'' else ''deny''),
                     krpt_LastDecisionTime := Some (as_time t), krpt_Conditions := cs\<rparr>\<rparr>));
             case as_key_policy r of
               Inl e \<Rightarrow> State_Monad.return (Inl (kerr_text e))
             | Inr _ \<Rightarrow> State_Monad.return (Inr CDone)
           }
       }
   }"

definition Reconcile_record :: "prims \<Rightarrow> klib \<Rightarrow> 's server \<Rightarrow> string \<Rightarrow> string \<Rightarrow> ('s, string + ctrlResult) prog" where
  "Reconcile_record P kl srv ns name = do {
     r \<leftarrow> api srv (GetRecord ns name);
     case as_record r of
       Inl e \<Rightarrow> State_Monad.return (IgnoreNotFound e)
     | Inr rec \<Rightarrow> do {
         let gen = om_Generation (er_Meta rec);
         let anchored = (ers_ExternalCheckpointRef (er_Spec rec) \<noteq> '''');
         cs \<leftarrow> setCondition kl srv (ert_Conditions (er_Status rec))
                (readyTrue gen (if anchored then ''Evidence record chained and externally anchored''
                                else ''Evidence record chained''));
         r \<leftarrow> api srv (StatusRecord (rec\<lparr>er_Status := (er_Status rec)
                \<lparr>ert_ObservedGeneration := gen, ert_ChainDigest := SHA256Hex P (marshal (record_spec_json (er_Spec rec))),
                 ert_Anchored := anchored, ert_Conditions := cs\<rparr>\<rparr>));
         case as_record r of
           Inl e \<Rightarrow> State_Monad.return (Inl (kerr_text e))
         | Inr _ \<Rightarrow> State_Monad.return (Inr CDone)
       }
   }"

end
