(* ===== verification/Scheduler_Properties.thy ===== *)
theory Scheduler_Properties
  imports Scheduler_Safety
begin

text \<open>
  What the scheduler promises: which evidence qualifies a node, how candidates are ranked, what must
  have happened before a verdict \<open>allow\<close> or a binding reaches the API server, and that an attempt ends
  when the clock advances. Safety holds for every server, so under every interleaving with other
  clients.
\<close>

section \<open>The reconciler\<close>

text \<open>Pods that the reconciler hands to \<open>SchedulePod\<close>.\<close>

definition eligible :: "Pod \<Rightarrow> bool" where
  "eligible pod \<longleftrightarrow> ps_SchedulerName (pod_Spec pod) = SchedulerName \<and> pod_Phase pod = ''Pending'' \<and>
     ps_NodeName (pod_Spec pod) = '''' \<and> ps_SchedulingGates (pod_Spec pod) = []"

text \<open>Every pod that the reconciler would schedule is delivered to it, and the ones that are delivered in vain are
  those with a scheduling gate.\<close>

lemma eligible_delivered: "eligible pod \<longleftrightarrow> cached_pod pod \<and> watched_pod pod \<and> ps_SchedulingGates (pod_Spec pod) = []"
  by (auto simp: eligible_def cached_pod_def watched_pod_def)

lemma Reconcile_pod_ens:
  assumes "sort_slice_ok srt"
  shows "ensures (Reconcile_pod fuel P kl srv srt s ns name)
    (\<lambda>r tr. \<exists>rp tail. tr = (GetPod ns name, rp) # tail \<and>
       (tail \<noteq> [] \<longrightarrow> (\<exists>pod. rp = RPod (Inr pod) \<and> eligible pod)) \<and>
       (\<forall>pod. rp = RPod (Inr pod) \<longrightarrow> eligible pod \<longrightarrow> sched_post P kl pod r tail))"
  unfolding Reconcile_pod_def
proof (rule ensures_bind_api, intro ensures_sum ensures_if, goal_cases)
  case (5 r pod)
  show ?case
    by (rule ensures_conseq [OF SchedulePod_ens [OF assms, of fuel P kl srv s pod]])
      (use 5 in \<open>auto simp: eligible_def\<close>)
qed (auto intro!: ensures_return simp: eligible_def)


section \<open>Clocks\<close>

text \<open>A server whose clock does not run backwards and advances by at least the time slept.\<close>

definition clock_ok :: "'s server \<Rightarrow> ('s \<Rightarrow> gotime) \<Rightarrow> bool" where
  "clock_ok srv clk \<longleftrightarrow>
     (\<forall>c st. clk st \<le> clk (snd (srv c st)) \<and> (c = Now \<longrightarrow> fst (srv c st) = RTime (clk st)) \<and>
        (\<forall>d. c = Sleep d \<longrightarrow> clk st + d \<le> clk (snd (srv c st))))"

definition advances :: "('s \<Rightarrow> gotime) \<Rightarrow> ('s, 'a) prog \<Rightarrow> bool" where
  "advances clk m \<longleftrightarrow> (\<forall>w. clk (w_state w) \<le> clk (w_state (snd (run_state m w))))"

lemma advances_return: "advances clk (State_Monad.return a)"
  by (simp add: advances_def)

lemma advances_api: "clock_ok srv clk \<Longrightarrow> advances clk (api srv c)"
  by (simp add: advances_def clock_ok_def split: prod.splits) (metis snd_conv)

lemma advances_bind:
  assumes "advances clk m" and "\<And>a. advances clk (f a)"
  shows "advances clk (State_Monad.bind m f)"
  unfolding advances_def
proof
  fix w
  obtain a w1 where m: "run_state m w = (a, w1)" by (cases "run_state m w")
  have "clk (w_state w) \<le> clk (w_state w1)" using assms(1) m unfolding advances_def by (metis snd_conv)
  also have "\<dots> \<le> clk (w_state (snd (run_state (f a) w1)))" using assms(2) unfolding advances_def by blast
  finally show "clk (w_state w) \<le> clk (w_state (snd (run_state (State_Monad.bind m f) w)))"
    using m by simp
qed

lemma advances_if: "advances clk m \<Longrightarrow> advances clk n \<Longrightarrow> advances clk (if b then m else n)"
  by simp

lemma advances_sum:
  "(\<And>e. advances clk (f e)) \<Longrightarrow> (\<And>y. advances clk (g y)) \<Longrightarrow>
    advances clk (case x of Inl e \<Rightarrow> f e | Inr y \<Rightarrow> g y)"
  by (cases x) simp_all

lemma advances_option:
  "advances clk m \<Longrightarrow> (\<And>y. advances clk (f y)) \<Longrightarrow> advances clk (case x of None \<Rightarrow> m | Some y \<Rightarrow> f y)"
  by (cases x) simp_all

lemmas advances_rules = advances_return advances_api advances_bind advances_if advances_sum advances_option

lemma filter_nodes_advances:
  "clock_ok srv clk \<Longrightarrow> advances clk (filter_nodes kl srv pod policy sched nodes)"
proof (induction nodes)
  case Nil
  then show ?case by (simp add: advances_return)
next
  case (Cons n nodes)
  then show ?case
    unfolding filter_nodes.simps nodeHasValidEvidence_def by (intro advances_rules) simp_all
qed

lemma sched_filter_advances:
  "clock_ok srv clk \<Longrightarrow> advances clk (sched_filter kl srv pod policy nodes)"
  unfolding sched_filter_def runtimeClassScheduling_def
  by (intro advances_rules) (simp_all add: filter_nodes_advances)

text \<open>Each round of the waiting loop that does not end it takes at least the polling interval.\<close>

lemma permit_loop_ends:
  assumes ck: "clock_ok srv clk" and pos: "0 < sc_permitPollInterval s"
  shows "deadline < clk (w_state w) + (int n - 1) * sc_permitPollInterval s \<Longrightarrow> n \<noteq> 0 \<Longrightarrow>
    fst (run_state (permit_loop n kl srv s pod policy nodes deadline) w) \<noteq> None"
proof (induction n arbitrary: w)
  case 0
  then show ?case by simp
next
  case (Suc n)
  obtain r w1 where f: "run_state (sched_filter kl srv pod policy nodes) w = (r, w1)"
    by (cases "run_state (sched_filter kl srv pod policy nodes) w")
  have c1: "clk (w_state w) \<le> clk (w_state w1)"
    using sched_filter_advances [OF ck, of kl pod policy nodes] f unfolding advances_def by (metis snd_conv)
  show ?case
  proof (cases r)
    case (Inl e)
    then show ?thesis using f by simp
  next
    case (Inr cs)
    obtain t s2 where t: "srv Now (w_state w1) = (t, s2)" by (cases "srv Now (w_state w1)")
    have now: "as_time t = clk (w_state w1)" "clk (w_state w1) \<le> clk s2"
      using ck [unfolded clock_ok_def, rule_format, of "w_state w1" Now] t by simp_all
    obtain d s3 where d: "srv (Sleep (sc_permitPollInterval s)) s2 = (d, s3)"
      by (cases "srv (Sleep (sc_permitPollInterval s)) s2")
    have sl: "clk s2 + sc_permitPollInterval s \<le> clk s3"
      using ck [unfolded clock_ok_def, rule_format, of s2 "Sleep (sc_permitPollInterval s)"] d by simp
    show ?thesis
    proof (cases "cs \<noteq> [] \<or> deadline < as_time t")
      case True
      then show ?thesis using f Inr t by auto
    next
      case False
      then have "n \<noteq> 0" using Suc.prems(1) c1 now by (cases n) auto
      moreover have "deadline < clk s3 + (int n - 1) * sc_permitPollInterval s"
        using Suc.prems(1) c1 now sl by (simp add: algebra_simps)
      ultimately have "fst (run_state (permit_loop n kl srv s pod policy nodes deadline)
          \<lparr>w_state = s3, w_log = l\<rparr>) \<noteq> None" for l
        using Suc.IH [of "\<lparr>w_state = s3, w_log = l\<rparr>"] by simp
      then show ?thesis using f Inr t d False by (auto split: option.splits)
    qed
  qed
qed

lemma permit_ends:
  assumes "clock_ok srv clk" and "0 < sc_permitPollInterval s"
    and "sc_permitTimeout s < (int fuel - 1) * sc_permitPollInterval s"
  shows "fst (run_state (permit fuel kl srv s pod policy nodes) w) \<noteq> None"
proof (cases "sc_permitTimeout s \<le> 0")
  case True
  then show ?thesis by (simp add: permit_def)
next
  case False
  obtain t s1 where t: "srv Now (w_state w) = (t, s1)" by (cases "srv Now (w_state w)")
  have "as_time t = clk (w_state w)" "clk (w_state w) \<le> clk s1"
    using assms(1) [unfolded clock_ok_def, rule_format, of "w_state w" Now] t by simp_all
  then have "as_time t + sc_permitTimeout s < clk s1 + (int fuel - 1) * sc_permitPollInterval s"
    using assms(3) by simp
  moreover have "fuel \<noteq> 0" using assms(2,3) False by (cases fuel) auto
  ultimately show ?thesis
    using False t permit_loop_ends [OF assms(1,2), of "as_time t + sc_permitTimeout s"
        "\<lparr>w_state = s1, w_log = w_log w @ [(Now, t)]\<rparr>" fuel kl pod policy nodes]
    by (simp add: permit_def)
qed

text \<open>Programs that do not run out of fuel, with results in general and with a result that satisfies a
  condition.\<close>

definition yields :: "('s, 'a) prog \<Rightarrow> ('a \<Rightarrow> bool) \<Rightarrow> bool" where
  "yields m Q \<longleftrightarrow> (\<forall>w. Q (fst (run_state m w)))"

lemma yields_return: "Q a \<Longrightarrow> yields (State_Monad.return a) Q"
  by (simp add: yields_def)

lemma yields_bind: "yields m Q \<Longrightarrow> (\<And>a. Q a \<Longrightarrow> yields (f a) R) \<Longrightarrow> yields (State_Monad.bind m f) R"
  unfolding yields_def by (simp split: prod.splits) (metis fst_conv)

lemma yields_if: "(b \<Longrightarrow> yields m Q) \<Longrightarrow> (\<not> b \<Longrightarrow> yields n Q) \<Longrightarrow> yields (if b then m else n) Q"
  by simp

lemma yields_any: "yields m (\<lambda>_. True)"
  by (simp add: yields_def)

lemma SchedulePod_yields:
  assumes "\<And>policy nodes. yields (permit fuel kl srv s pod policy nodes) (\<lambda>r. r \<noteq> None)"
  shows "yields (SchedulePod fuel P kl srv srt s pod) (\<lambda>r. r \<noteq> None)"
proof -
  have fin: "yields (finish P kl srv srt s pod policy cs \<bind> (\<lambda>e. State_Monad.return (Some e))) (\<lambda>r. r \<noteq> None)"
    for policy cs by (rule yields_bind [OF yields_any]) (simp add: yields_return)
  show ?thesis
    unfolding SchedulePod_def
    by (intro yields_bind [OF yields_any] yields_bind [OF assms])
      (auto intro!: yields_return yields_bind [OF yields_any] yields_bind [OF assms] fin split: sum.split)
qed

section \<open>A steady cluster\<close>

text \<open>A cluster in which, while a pod is scheduled, only the clock, the placement decision and the
  binding change: reads of everything else give the same answers, the clock stays below \<open>t1\<close>, the
  decision can be read, created and updated, the server keeping the spec it is given, and the
  binding succeeds.\<close>

record cluster =
  cl_Namespace :: Namespace
  cl_Policies :: "ConfidentialInferencePolicy list"
  cl_Nodes :: "Node list"
  cl_Evidence :: "AttestationEvidence list"
  cl_Runtime :: "string \<Rightarrow> RuntimeClass"

fun steady_reply :: "cluster \<Rightarrow> Pod \<Rightarrow> gotime \<Rightarrow> call \<Rightarrow> reply \<Rightarrow> bool" where
  "steady_reply cl pod t1 Now r = (\<exists>t\<le>t1. r = RTime t)"
| "steady_reply cl pod t1 (Sleep d) r = (r = RDone None)"
| "steady_reply cl pod t1 (GetNamespace ns) r = (r = RNamespace (Inr (cl_Namespace cl)))"
| "steady_reply cl pod t1 (GetPod ns n) r = (r = RPod (Inr pod))"
| "steady_reply cl pod t1 ListNodes r = (r = RNodes (Inr (cl_Nodes cl)))"
| "steady_reply cl pod t1 (GetRuntimeClass rc) r = (r = RRuntimeClass (Inr (cl_Runtime cl rc)))"
| "steady_reply cl pod t1 (ListPolicies ns) r = (r = RPolicies (Inr (cl_Policies cl)))"
| "steady_reply cl pod t1 (GetPolicy ns n) r =
     (\<forall>p\<in>set (cl_Policies cl). om_Namespace (cip_Meta p) = ns \<and> om_Name (cip_Meta p) = n \<longrightarrow> r = RPolicy (Inr p))"
| "steady_reply cl pod t1 ListEvidence r = (r = REvidences (Inr (cl_Evidence cl)))"
| "steady_reply cl pod t1 (GetEvidence ns n) r =
     (\<forall>ev\<in>set (cl_Evidence cl). om_Namespace (ev_Meta ev) = ns \<and> om_Name (ev_Meta ev) = n \<longrightarrow> r = REvidence (Inr ev))"
| "steady_reply cl pod t1 (GetDecision ns n) r =
     ((\<exists>d. r = RDecision (Inr d)) \<or> (\<exists>t. r = RDecision (Inl (KNotFound t))))"
| "steady_reply cl pod t1 (CreateDecision d) r = (\<exists>d'. r = RDecision (Inr d') \<and> apd_Spec d' = apd_Spec d)"
| "steady_reply cl pod t1 (UpdateDecision d) r = (\<exists>d'. r = RDecision (Inr d') \<and> apd_Spec d' = apd_Spec d)"
| "steady_reply cl pod t1 (CreateBinding ns n t) r = (r = RUnit None)"
| "steady_reply cl pod t1 c r = True"

definition steady :: "'s server \<Rightarrow> cluster \<Rightarrow> Pod \<Rightarrow> gotime \<Rightarrow> bool" where
  "steady srv cl pod t1 \<longleftrightarrow> (\<forall>c st. steady_reply cl pod t1 c (fst (srv c st)))"

lemma yields_api: "steady srv cl pod t1 \<Longrightarrow> yields (api srv c) (steady_reply cl pod t1 c)"
  by (simp add: yields_def steady_def split: prod.splits) (metis fst_conv)

lemma yields_bind_api:
  "steady srv cl pod t1 \<Longrightarrow> (\<And>r. steady_reply cl pod t1 c r \<Longrightarrow> yields (f r) R) \<Longrightarrow>
    yields (State_Monad.bind (api srv c) f) R"
  by (rule yields_bind [OF yields_api])

lemma acceptable_earlier:
  assumes "acceptable t1 node policy ev" and "t \<le> t1"
  shows "acceptable t node policy ev"
proof -
  have "fresh_for t policy ev" if "fresh_for t1 policy ev"
    unfolding fresh_for_def
  proof (intro allI impI)
    fix p seen
    assume "policy = Some p" "evt_LastVerifiedTime (ev_Status ev) = Some seen"
      "0 < cips_MaxEvidenceAgeSeconds (cip_Spec p)"
    then have "t1 - seen \<le> cips_MaxEvidenceAgeSeconds (cip_Spec p) * Second"
      using that unfolding fresh_for_def by blast
    then show "t - seen \<le> cips_MaxEvidenceAgeSeconds (cip_Spec p) * Second" using assms(2) by linarith
  qed
  then show ?thesis using assms(1) unfolding acceptable_def by blast
qed

definition cand_of :: "cluster \<Rightarrow> NodeCandidate \<Rightarrow> bool" where
  "cand_of cl c \<longleftrightarrow> nc_Node c \<in> set (cl_Nodes cl) \<and>
     (\<exists>ev\<in>set (cl_Evidence cl). nc_Evidence c = Some ev \<and> \<not> evt_Revoked (ev_Status ev))"

lemma nodeHasValidEvidence_steady:
  assumes st: "steady srv cl pod t1" and age: "age_int32 policy"
  shows "yields (nodeHasValidEvidence srv node policy)
    (\<lambda>r. (\<forall>ev. r = Inr ev \<longrightarrow> ev \<in> set (cl_Evidence cl) \<and> \<not> evt_Revoked (ev_Status ev)) \<and>
       ((\<exists>ev\<in>set (cl_Evidence cl). acceptable t1 (node_Name node) policy ev) \<longrightarrow> (\<exists>ev. r = Inr ev)))"
  unfolding nodeHasValidEvidence_def
proof (rule yields_bind_api [OF st], simp, rule yields_bind_api [OF st], rule yields_return)
  fix r
  let ?scan = "scan_evidence (as_time r) (node_Name node) policy NoValidEvidence False (cl_Evidence cl)"
  let ?acc = "\<lambda>t. acceptable t (node_Name node) policy"
  assume "steady_reply cl pod t1 Now r"
  then have t: "as_time r \<le> t1" by auto
  have 1: "ev \<in> set (cl_Evidence cl) \<and> \<not> evt_Revoked (ev_Status ev)" if "?scan = Inr ev" for ev
    using that by (auto simp: scan_evidence_find [OF age] find_Some_iff acceptable_def)
  have 2: "\<exists>ev. ?scan = Inr ev" if "\<exists>ev\<in>set (cl_Evidence cl). ?acc t1 ev"
  proof -
    have "find (?acc (as_time r)) (cl_Evidence cl) \<noteq> None"
      using that acceptable_earlier [OF _ t] by (auto simp: find_None_iff)
    then show ?thesis using scan_evidence_find [OF age] by fastforce
  qed
  show "(\<forall>ev. ?scan = Inr ev \<longrightarrow> ev \<in> set (cl_Evidence cl) \<and> \<not> evt_Revoked (ev_Status ev)) \<and>
      ((\<exists>ev\<in>set (cl_Evidence cl). ?acc t1 ev) \<longrightarrow> (\<exists>ev. ?scan = Inr ev))"
    using 1 2 by blast
qed

text \<open>A node that qualifies at \<open>t1\<close>.\<close>

definition qualifies :: "klib \<Rightarrow> cluster \<Rightarrow> Pod \<Rightarrow> ConfidentialInferencePolicy option \<Rightarrow> Scheduling option \<Rightarrow>
    gotime \<Rightarrow> Node \<Rightarrow> bool" where
  "qualifies kl cl pod policy sched t1 n \<longleftrightarrow> \<not> node_Unschedulable n \<and>
     podMatchesNodeConstraints kl pod n sched \<and>
     (\<exists>ev\<in>set (cl_Evidence cl). acceptable t1 (node_Name n) policy ev)"

lemma filter_nodes_steady:
  assumes st: "steady srv cl pod t1" and age: "age_int32 policy"
  shows "set nodes \<subseteq> set (cl_Nodes cl) \<Longrightarrow> yields (filter_nodes kl srv pod policy sched nodes)
    (\<lambda>cs. (\<forall>c\<in>set cs. cand_of cl c) \<and>
       ((\<exists>n\<in>set nodes. qualifies kl cl pod policy sched t1 n) \<longrightarrow> cs \<noteq> []))"
proof (induction nodes)
  case Nil
  then show ?case by (simp add: yields_return)
next
  case (Cons n nodes)
  let ?R = "\<lambda>cs. (\<forall>c\<in>set cs. cand_of cl c) \<and>
       ((\<exists>n\<in>set (n # nodes). qualifies kl cl pod policy sched t1 n) \<longrightarrow> cs \<noteq> [])"
  have IH: "yields (filter_nodes kl srv pod policy sched nodes) (\<lambda>cs. (\<forall>c\<in>set cs. cand_of cl c) \<and>
       ((\<exists>n\<in>set nodes. qualifies kl cl pod policy sched t1 n) \<longrightarrow> cs \<noteq> []))" using Cons by simp
  have skip: "yields (filter_nodes kl srv pod policy sched nodes) ?R"
    if "\<not> qualifies kl cl pod policy sched t1 n" using IH that unfolding yields_def by simp
  show ?case
  proof (cases "node_Unschedulable n \<or> \<not> podMatchesNodeConstraints kl pod n sched")
    case True
    then show ?thesis using skip by (auto simp: qualifies_def)
  next
    case False
    have "yields (nodeHasValidEvidence srv n policy \<bind> (\<lambda>r. case r of
          Inl reason \<Rightarrow> filter_nodes kl srv pod policy sched nodes
        | Inr ev \<Rightarrow> filter_nodes kl srv pod policy sched nodes \<bind> (\<lambda>rest. State_Monad.return
            (\<lparr>nc_Node = n, nc_Evidence = Some ev, nc_Score = 0, nc_Reason = ''''\<rparr> # rest)))) ?R"
    proof (rule yields_bind [OF nodeHasValidEvidence_steady [OF st age]], goal_cases)
      case (1 r)
      show ?case
      proof (cases r)
        case (Inl e)
        then show ?thesis using 1 skip by (simp add: qualifies_def)
      next
        case (Inr ev)
        then show ?thesis
          using 1 Cons.prems by (auto intro!: yields_bind [OF IH] yields_return simp: cand_of_def)
      qed
    qed
    then show ?thesis using False by simp
  qed
qed

text \<open>The scheduling constraints of the pod's runtime class in the cluster.\<close>

definition cl_sched :: "cluster \<Rightarrow> Pod \<Rightarrow> Scheduling option" where
  "cl_sched cl pod = (case ps_RuntimeClassName (pod_Spec pod) of None \<Rightarrow> None
     | Some rc \<Rightarrow> if TrimSpace rc = '''' then None else rc_Scheduling (cl_Runtime cl (TrimSpace rc)))"

lemma sched_filter_steady:
  assumes st: "steady srv cl pod t1" and age: "age_int32 policy"
    and q: "\<exists>n\<in>set (cl_Nodes cl). qualifies kl cl pod policy (cl_sched cl pod) t1 n"
  shows "yields (sched_filter kl srv pod policy (cl_Nodes cl))
    (\<lambda>r. \<exists>cs. r = Inr cs \<and> cs \<noteq> [] \<and> (\<forall>c\<in>set cs. cand_of cl c))"
  unfolding sched_filter_def
proof (rule yields_bind)
  show "yields (runtimeClassScheduling srv pod) (\<lambda>r. r = Inr (cl_sched cl pod))"
    unfolding runtimeClassScheduling_def cl_sched_def
    by (auto intro!: yields_return yields_bind_api [OF st] split: option.split)
next
  fix r :: "string + Scheduling option"
  assume "r = Inr (cl_sched cl pod)"
  then show "yields (case r of Inl e \<Rightarrow> State_Monad.return (Inl e)
      | Inr sched \<Rightarrow> filter_nodes kl srv pod policy sched (cl_Nodes cl) \<bind> (\<lambda>cs. State_Monad.return (Inr cs)))
     (\<lambda>r. \<exists>cs. r = Inr cs \<and> cs \<noteq> [] \<and> (\<forall>c\<in>set cs. cand_of cl c))"
    using q by (auto intro!: yields_bind [OF filter_nodes_steady [OF st age]] yields_return)
qed

text \<open>What lets the pod be placed: a policy selects it and its hash is recorded on the pod, a node
  qualifies, every piece of evidence can be hashed and is within the age the pod expects, and there is
  a pod UID to mint a token for.\<close>

definition ready :: "prims \<Rightarrow> klib \<Rightarrow> Scheduler \<Rightarrow> cluster \<Rightarrow> Pod \<Rightarrow> ConfidentialInferencePolicy \<Rightarrow> gotime \<Rightarrow> bool" where
  "ready P kl s cl pod p t1 \<longleftrightarrow>
     find (\<lambda>p. policyMatchesPod kl p (ns_Labels (cl_Namespace cl)) pod) (cl_Policies cl) = Some p \<and>
     int32 (cips_MaxEvidenceAgeSeconds (cip_Spec p)) \<and>
     TrimSpace (mget (om_Annotations (pod_Meta pod)) ''ai.sovereign.io/policy-hash'') \<noteq> '''' \<and>
     CanonicalSHA256Hex P (cip_spec_json (cip_Spec p)) =
       Some (TrimSpace (mget (om_Annotations (pod_Meta pod)) ''ai.sovereign.io/policy-hash'')) \<and>
     (\<exists>n\<in>set (cl_Nodes cl). qualifies kl cl pod (Some p) (cl_sched cl pod) t1 n) \<and>
     CanonicalSHA256Hex P (kl_podSpecJSON kl (pod_Spec pod)) \<noteq> None \<and>
     (\<forall>ev\<in>set (cl_Evidence cl). evidenceHashForPlacement P kl ev \<noteq> None \<and>
        (\<forall>seen. evt_LastVerifiedTime (ev_Status ev) = Some seen \<longrightarrow> 0 < expected_max_age pod \<longrightarrow>
           timeSub t1 seen \<le> expected_max_age pod)) \<and>
     (sc_signingKey s \<noteq> None \<longrightarrow> TrimSpace (om_UID (pod_Meta pod)) \<noteq> '''')"

lemma list_all2_member: "list_all2 R xs ys \<Longrightarrow> x \<in> set xs \<Longrightarrow> \<exists>y\<in>set ys. R x y"
  by (induction rule: list_all2_induct) auto

lemma score_yields:
  "yields (score srv policy cs)
    (\<lambda>cs'. list_all2 (\<lambda>c' c. nc_Node c' = nc_Node c \<and> nc_Evidence c' = nc_Evidence c) cs' cs)"
proof (induction cs)
  case Nil
  then show ?case by (simp add: yields_return)
next
  case (Cons c cs)
  have "yields (score_one srv policy c) (\<lambda>c'. nc_Node c' = nc_Node c \<and> nc_Evidence c' = nc_Evidence c)"
    unfolding score_one_def
    by (auto intro!: yields_return yields_bind [OF yields_any] split: option.split)
  then show ?case
    by (auto intro!: yields_bind [OF Cons] yields_return elim!: yields_bind)
qed

lemma createOrUpdate_steady:
  assumes st: "steady srv cl pod t1"
  shows "yields (createOrUpdatePlacementDecision srv d mutate) (\<lambda>r. \<exists>d0 d'. r = Inr d' \<and> apd_Spec d' = apd_Spec (mutate d0))"
  unfolding createOrUpdatePlacementDecision_def
  by (rule yields_bind_api [OF st]) (auto intro!: yields_bind_api [OF st] yields_return; blast)

lemma timeSub_mono: "t \<le> t' \<Longrightarrow> timeSub t s \<le> timeSub t' s"
  by (simp add: timeSub_def sat64_def)

lemma recheck_evidence_steady:
  assumes st: "steady srv cl pod t1" and rd: "ready P kl s cl pod p t1"
    and ev: "ev \<in> set (cl_Evidence cl)" "\<not> evt_Revoked (ev_Status ev)" and sel: "nc_Evidence sel = Some ev"
  shows "yields (recheck_evidence P kl srv pod sel ev) (\<lambda>r. r = None)"
proof -
  obtain h where h: "evidenceHashForPlacement P kl ev = Some h" using rd ev(1) unfolding ready_def by blast
  have age: "\<not> expected_max_age pod < timeSub t seen"
    if "evt_LastVerifiedTime (ev_Status ev) = Some seen" "0 < expected_max_age pod" "t \<le> t1" for seen t
    using rd ev(1) that timeSub_mono [OF that(3), of seen] unfolding ready_def by fastforce
  show ?thesis
    unfolding recheck_evidence_def using ev(2) h sel age
    by (auto intro!: yields_return yields_bind_api [OF st] split: option.split)
qed

lemma preBind_steady:
  assumes st: "steady srv cl pod t1" and rd: "ready P kl s cl pod p t1"
    and ev: "ev \<in> set (cl_Evidence cl)" "\<not> evt_Revoked (ev_Status ev)" and sel: "nc_Evidence sel = Some ev"
    and dec: "apd_Spec dec = apd_Spec (applyBaseDecision pod (Some p) sel d0)"
  shows "yields (preBind P kl srv pod dec sel) (\<lambda>r. r = None)"
  unfolding preBind_def
proof (rule yields_bind_api [OF st], simp, rule yields_bind [where Q = "\<lambda>r. r = None"])
  have p: "p \<in> set (cl_Policies cl)" using rd unfolding ready_def by (auto simp: find_Some_iff)
  have ref: "apds_PolicyRef (apd_Spec dec) = \<lparr>ref_Name = om_Name (cip_Meta p), ref_Namespace = om_Namespace (cip_Meta p)\<rparr>"
    using dec by (simp add: applyBaseDecision_def)
  show "yields (recheck_policy P srv pod dec) (\<lambda>r. r = None)"
    unfolding recheck_policy_def
  proof (rule yields_if, goal_cases)
    case 1
    show ?case
      by (rule yields_bind_api [OF st]) (use p ref rd in \<open>auto simp: ready_def intro!: yields_return\<close>)
  next
    case 2
    then show ?case by (simp add: yields_return)
  qed
next
  fix pe :: "string option"
  assume "pe = None"
  moreover have "apds_EvidenceRef (apd_Spec dec) = Some \<lparr>ref_Name = om_Name (ev_Meta ev), ref_Namespace = om_Namespace (ev_Meta ev)\<rparr>"
    using dec sel by (simp add: applyBaseDecision_def)
  ultimately show "yields (case pe of None \<Rightarrow> (case apds_EvidenceRef (apd_Spec dec) of
          None \<Rightarrow> State_Monad.return None
        | Some ref \<Rightarrow> api srv (GetEvidence (ref_Namespace ref) (ref_Name ref)) \<bind>
            (\<lambda>r. case as_evidence r of
               Inl e \<Rightarrow> State_Monad.return (Some (''read evidence before bind: '' @ kerr_text e))
             | Inr evidence \<Rightarrow> recheck_evidence P kl srv pod sel evidence))
      | Some e \<Rightarrow> State_Monad.return (Some e)) (\<lambda>r. r = None)"
    using ev(1) recheck_evidence_steady [OF st rd ev sel] by (auto intro!: yields_bind_api [OF st])
qed

lemma mint_for_yields:
  assumes "sc_signingKey s \<noteq> None \<longrightarrow> TrimSpace (om_UID (pod_Meta pod)) \<noteq> ''''"
  shows "yields (mint_for P srv s pod sh sel eh ph) (\<lambda>r. \<exists>t. r = Inr t)"
proof (cases "sc_signingKey s")
  case None
  then show ?thesis by (simp add: mint_for_def yields_return)
next
  case (Some k)
  with assms have "TrimSpace (om_UID (pod_Meta pod)) \<noteq> ''''" by simp
  then show ?thesis
    unfolding mint_for_def using Some
    by (auto simp: Mint_def Let_def intro!: yields_bind [OF yields_any] yields_return)
qed

lemma reserve_checked_steady:
  assumes st: "steady srv cl pod t1" and rd: "ready P kl s cl pod p t1"
    and ev: "ev \<in> set (cl_Evidence cl)" "\<not> evt_Revoked (ev_Status ev)" and sel: "nc_Evidence sel = Some ev"
    and dec: "apd_Spec dec = apd_Spec (applyBaseDecision pod (Some p) sel d0)"
  shows "yields (reserve_checked P kl srv s pod (Some p) sel sh ph eh dec) (\<lambda>r. \<exists>d tok. r = Inr (d, tok))"
  unfolding reserve_checked_def
proof (rule yields_bind [OF preBind_steady [OF st rd ev sel dec]], simp)
  show "yields (reserve_final P srv s pod (Some p) sel sh ph eh dec) (\<lambda>r. \<exists>d tok. r = Inr (d, tok))"
    unfolding reserve_final_def using rd
    by (auto simp: ready_def intro!: yields_bind [OF mint_for_yields] yields_bind [OF createOrUpdate_steady [OF st]]
        yields_return)
qed

lemma reserveTimed_steady:
  assumes st: "steady srv cl pod t1" and rd: "ready P kl s cl pod p t1"
    and ev: "ev \<in> set (cl_Evidence cl)" "\<not> evt_Revoked (ev_Status ev)" and sel: "nc_Evidence sel = Some ev"
  shows "yields (reserveTimed P kl srv s pod (Some p) sel) (\<lambda>r. \<exists>d tok. r = Inr (d, tok))"
proof -
  obtain sh where sh: "CanonicalSHA256Hex P (kl_podSpecJSON kl (pod_Spec pod)) = Some sh"
    using rd unfolding ready_def by blast
  obtain eh where eh: "CanonicalSHA256Hex P (evidence_json kl ev) = Some eh"
    using rd ev(1) unfolding ready_def evidenceHashForPlacement_def by blast
  obtain ph where ph: "CanonicalSHA256Hex P (cip_spec_json (cip_Spec p)) = Some ph"
    using rd unfolding ready_def by blast
  have "yields (createOrUpdatePlacementDecision srv (newDecision pod) (pending pod (Some p) sel) \<bind>
      (\<lambda>r. case r of
         Inl e \<Rightarrow> State_Monad.return (Inl (''upsert pending AIPlacementDecision: '' @ kerr_text e))
       | Inr decision \<Rightarrow>
         if 0 < sc_preBindDelay s then api srv (Sleep (sc_preBindDelay s)) \<bind>
           (\<lambda>d. case as_done d of
              None \<Rightarrow> reserve_checked P kl srv s pod (Some p) sel sh ph eh decision
            | Some e \<Rightarrow> State_Monad.return (Inl e))
         else reserve_checked P kl srv s pod (Some p) sel sh ph eh decision))
      (\<lambda>r. \<exists>d tok. r = Inr (d, tok))"
  proof (rule yields_bind [OF createOrUpdate_steady [OF st]], goal_cases)
    case (1 a)
    then obtain d0 d' where d: "a = Inr d'" "apd_Spec d' = apd_Spec (applyBaseDecision pod (Some p) sel d0)" by auto
    show ?case
      using d(1) reserve_checked_steady [OF st rd ev sel d(2)] by (auto intro!: yields_bind_api [OF st])
  qed
  then show ?thesis unfolding reserveTimed_def hash_opt_def sel by (simp only: sh eh ph option.case option.map)
qed

lemma finish_steady:
  assumes st: "steady srv cl pod t1" and rd: "ready P kl s cl pod p t1" and srt: "sort_slice_ok srt"
    and cs: "cs \<noteq> []" "\<forall>c\<in>set cs. cand_of cl c"
  shows "yields (finish P kl srv srt s pod (Some p) cs) (\<lambda>r. r = None)"
  unfolding finish_def bind_pod_def
proof (rule yields_bind [OF score_yields], goal_cases)
  case (1 scored)
  then have "scored \<noteq> []" using cs(1) by auto
  then have "hd (srt scored) \<in> set scored" using sorted_head [OF srt] by blast
  with list_all2_member [OF 1] obtain c where "c \<in> set cs" "nc_Evidence (hd (srt scored)) = nc_Evidence c"
    by blast
  then obtain ev where ev: "ev \<in> set (cl_Evidence cl)" "\<not> evt_Revoked (ev_Status ev)"
    "nc_Evidence (hd (srt scored)) = Some ev" using cs(2) unfolding cand_of_def by fastforce
  show ?case
    unfolding Let_def
    by (rule yields_bind [OF reserveTimed_steady [OF st rd ev]])
      (auto intro!: yields_bind_api [OF st] yields_return)
qed

lemma SchedulePod_steady:
  assumes st: "steady srv cl pod t1" and rd: "ready P kl s cl pod p t1" and srt: "sort_slice_ok srt"
  shows "yields (SchedulePod fuel P kl srv srt s pod) (\<lambda>r. r = Some None)"
  unfolding SchedulePod_def
proof (rule yields_bind [where Q = "\<lambda>r. r = Inr (Some p)"])
  have "first_policy kl (ns_Labels (cl_Namespace cl)) pod ps = find (\<lambda>p. policyMatchesPod kl p (ns_Labels (cl_Namespace cl)) pod) ps" for ps
    by (induction ps) auto
  then show "yields (preFilter kl srv pod) (\<lambda>r. r = Inr (Some p))"
    unfolding preFilter_def using rd
    by (auto simp: ready_def intro!: yields_bind_api [OF st] yields_return)
next
  have age: "age_int32 (Some p)" using rd by (simp add: age_int32_def ready_def)
  have q: "\<exists>n\<in>set (cl_Nodes cl). qualifies kl cl pod (Some p) (cl_sched cl pod) t1 n"
    using rd unfolding ready_def by blast
  fix r :: "string + ConfidentialInferencePolicy option"
  assume "r = Inr (Some p)"
  then show "yields (case r of Inl e \<Rightarrow> State_Monad.return (Some (Some (''prefilter: '' @ e)))
     | Inr policy \<Rightarrow> do {
         r \<leftarrow> api srv ListNodes;
         case as_nodes r of
           Inl e \<Rightarrow> State_Monad.return (Some (Some (''list nodes: '' @ kerr_text e)))
         | Inr nodes \<Rightarrow> do {
             f \<leftarrow> sched_filter kl srv pod policy nodes;
             case f of
               Inl e \<Rightarrow> State_Monad.return (Some (Some (''filter: '' @ e)))
             | Inr cs \<Rightarrow>
               if cs \<noteq> [] then do {
                 e \<leftarrow> finish P kl srv srt s pod policy cs;
                 State_Monad.return (Some e)
               }
               else do {
                 w \<leftarrow> permit fuel kl srv s pod policy nodes;
                 case w of
                   None \<Rightarrow> State_Monad.return None
                 | Some (Inl e) \<Rightarrow> State_Monad.return (Some (Some (''permit: '' @ e)))
                 | Some (Inr cs) \<Rightarrow>
                   if cs = [] then State_Monad.return (Some (Some
                     (''no suitable node with valid AttestationEvidence for pod '' @
                      om_Namespace (pod_Meta pod) @ ''/'' @ om_Name (pod_Meta pod))))
                   else do {
                     e \<leftarrow> finish P kl srv srt s pod policy cs;
                     State_Monad.return (Some e)
                   }
               }
           }
       }) (\<lambda>r. r = Some None)"
    by (auto intro!: yields_bind_api [OF st] yields_bind [OF sched_filter_steady [OF st age q]]
        yields_bind [OF finish_steady [OF st rd srt]] yields_return)
qed

lemma cand_score_range:
  assumes "age_int32 policy"
    and "(\<exists>rt. (Now, rt) \<in> set calls \<and> t = as_time rt) \<or> (\<forall>t'. cand_score t' policy c = cand_score t policy c)"
    and "\<forall>ev seen rt. nc_Evidence c = Some ev \<longrightarrow> evt_LastVerifiedTime (ev_Status ev) = Some seen \<longrightarrow>
           (Now, rt) \<in> set calls \<longrightarrow> seen \<le> as_time rt"
  shows "100 \<le> cand_score t policy c \<and> cand_score t policy c \<le> 180"
proof -
  have range: "100 \<le> cand_score t' policy c \<and> cand_score t' policy c \<le> 180"
    if "\<forall>ev seen. nc_Evidence c = Some ev \<longrightarrow> evt_LastVerifiedTime (ev_Status ev) = Some seen \<longrightarrow> seen \<le> t'" for t'
  proof (cases "nc_Evidence c")
    case None
    then show ?thesis by (simp add: cand_score_def)
  next
    case (Some ev)
    have "0 \<le> freshness_points t' seen m + kind_points ev \<and> freshness_points t' seen m + kind_points ev \<le> 80"
      if "int32 m" "0 < m" "evt_LastVerifiedTime (ev_Status ev) = Some seen" for m seen
    proof -
      have "seen \<le> t'" using \<open>\<forall>ev seen. nc_Evidence c = Some ev \<longrightarrow> _\<close> Some that(3) by blast
      then show ?thesis
        using freshness_nonneg [of t' seen m] freshness_le_50 [OF that(1,2)] kind_points_range [of ev] by fastforce
    qed
    then show ?thesis
      using Some kind_points_range [of ev] assms(1)
      by (auto simp: cand_score_def age_int32_def split: option.split)
  qed
  show ?thesis using assms(2)
  proof
    assume "\<exists>rt. (Now, rt) \<in> set calls \<and> t = as_time rt"
    then show ?thesis using range [of t] assms(3) by blast
  next
    assume "\<forall>t'. cand_score t' policy c = cand_score t policy c"
    moreover define t0 where "t0 = (case nc_Evidence c of None \<Rightarrow> 0
      | Some ev \<Rightarrow> (case evt_LastVerifiedTime (ev_Status ev) of None \<Rightarrow> 0 | Some seen \<Rightarrow> seen))"
    ultimately show ?thesis using range [of t0] by (metis option.simps(5) order_refl)
  qed
qed


lemma steady_binds:
  assumes "steady srv cl pod t1" and "ready P kl s cl pod p t1" and "sort_slice_ok srt"
  shows "\<exists>calls node. run (SchedulePod fuel P kl srv srt s pod) st =
    (Some None, calls @ [(CreateBinding (om_Namespace (pod_Meta pod)) (om_Name (pod_Meta pod)) node, RUnit None)])"
proof -
  obtain r calls where run: "run (SchedulePod fuel P kl srv srt s pod) st = (r, calls)"
    by (cases "run (SchedulePod fuel P kl srv srt s pod) st")
  have r: "r = Some None"
    using SchedulePod_steady [OF assms, of fuel] run unfolding yields_def run_def
    by (auto split: prod.splits) (metis fst_conv)
  then obtain pre sel where "calls = pre @ [(binding pod sel, RUnit None)]"
    using ensures_run [OF SchedulePod_ens [OF assms(3)] run] unfolding sched_post_def by blast
  then show ?thesis using r run by (auto simp: binding_def)
qed

section \<open>A concrete cluster\<close>

text \<open>One policy, one node with verified evidence, one pending pod; SHA-256 is a constant here.\<close>

definition flat_prims :: prims where
  "flat_prims = demo_prims\<lparr>p_sha256 := (\<lambda>m. ''h'')\<rparr>"

definition demo_kl :: klib where
  "demo_kl = \<lparr>kl_selMatches = (\<lambda>s l. Some True), kl_setMatches = (\<lambda>a b. True), kl_tolerates = (\<lambda>a b. False),
     kl_timeJSON = (\<lambda>t. JNull), kl_condJSON = (\<lambda>c. JNull), kl_podSpecJSON = (\<lambda>p. JNull),
     kl_durText = (\<lambda>d. ''15s''), kl_setCond = (\<lambda>t cs c. c # cs)\<rparr>"

definition demo_pod :: Pod where
  "demo_pod = \<lparr>pod_Meta = (newMeta ''llm'' ''ai'')\<lparr>om_UID := ''uid-1'',
       om_Annotations := [(''ai.sovereign.io/policy-hash'', ''68'')]\<rparr>,
     pod_Spec = \<lparr>ps_NodeName = '''', ps_SchedulerName = SchedulerName, ps_NodeSelector = [], ps_Tolerations = [],
       ps_RuntimeClassName = None, ps_Containers = [], ps_Volumes = [], ps_SchedulingGates = [], ps_Rest = JNull\<rparr>,
     pod_Phase = ''Pending''\<rparr>"

definition demo_cip :: ConfidentialInferencePolicy where
  "demo_cip = \<lparr>cip_Meta = newMeta ''pol'' ''ai'',
     cip_Spec = demo_cip_spec, cip_Status = \<lparr>cipt_ObservedGeneration = 0, cipt_PolicyHash = '''',
       cipt_EffectiveRuntime = None, cipt_Simulated = False, cipt_Conditions = []\<rparr>\<rparr>"

definition demo_ev :: AttestationEvidence where
  "demo_ev = \<lparr>ev_Meta = newMeta ''ev'' ''ai'',
     ev_Spec = zero_ev_spec\<lparr>evs_SubjectRef := \<lparr>ref_Name = ''node-1'', ref_Namespace = ''''\<rparr>, evs_TEE := ''SEV-SNP''\<rparr>,
     ev_Status = zero_ev_status\<lparr>evt_Verified := True, evt_LastVerifiedTime := Some 0\<rparr>\<rparr>"

definition demo_cluster :: cluster where
  "demo_cluster = \<lparr>cl_Namespace = \<lparr>ns_Labels = [], ns_Annotations = []\<rparr>, cl_Policies = [demo_cip],
     cl_Nodes = [\<lparr>node_Name = ''node-1'', node_Labels = [], node_Unschedulable = False, node_Taints = []\<rparr>],
     cl_Evidence = [demo_ev], cl_Runtime = (\<lambda>rc. \<lparr>rc_Labels = [], rc_Handler = '''', rc_Scheduling = None\<rparr>)\<rparr>"

fun demo_reply :: "call \<Rightarrow> reply" where
  "demo_reply Now = RTime (60 * Second)"
| "demo_reply (Sleep d) = RDone None"
| "demo_reply (GetNamespace ns) = RNamespace (Inr \<lparr>ns_Labels = [], ns_Annotations = []\<rparr>)"
| "demo_reply (GetPod ns n) = RPod (Inr demo_pod)"
| "demo_reply ListNodes = RNodes (Inr (cl_Nodes demo_cluster))"
| "demo_reply (GetRuntimeClass rc) = RRuntimeClass (Inr \<lparr>rc_Labels = [], rc_Handler = '''', rc_Scheduling = None\<rparr>)"
| "demo_reply (ListPolicies ns) = RPolicies (Inr [demo_cip])"
| "demo_reply (GetPolicy ns n) = RPolicy (Inr demo_cip)"
| "demo_reply ListEvidence = REvidences (Inr [demo_ev])"
| "demo_reply (GetEvidence ns n) = REvidence (Inr demo_ev)"
| "demo_reply (GetDecision ns n) = RDecision (Inl (KNotFound ''not found''))"
| "demo_reply (CreateDecision d) = RDecision (Inr d)"
| "demo_reply (UpdateDecision d) = RDecision (Inr d)"
| "demo_reply c = RUnit None"

definition demo_srv :: "unit server" where
  "demo_srv c st = (demo_reply c, st)"

definition demo_sort :: "NodeCandidate list \<Rightarrow> NodeCandidate list" where
  "demo_sort = sort_key (\<lambda>c. - nc_Score c)"

lemma demo_sort_ok: "sort_slice_ok demo_sort"
proof -
  have "sorted_wrt (\<lambda>a b. nc_Score b \<le> nc_Score a) (demo_sort cs)" for cs
    using sorted_sort_key [of "\<lambda>c. - nc_Score c" cs] by (simp add: demo_sort_def sorted_wrt_map)
  then show ?thesis by (simp add: sort_slice_ok_def demo_sort_def)
qed

lemma demo_steady: "steady demo_srv demo_cluster demo_pod (60 * Second)"
proof -
  have "steady_reply demo_cluster demo_pod (60 * Second) c (demo_reply c)" for c
    by (cases c) (simp_all add: demo_cluster_def)
  then show ?thesis by (simp add: steady_def demo_srv_def)
qed

lemma flat_hash: "json_ok j \<Longrightarrow> CanonicalSHA256Hex flat_prims j = Some ''68''"
  by (simp add: CanonicalSHA256Hex_def CanonicalJSON_canon SHA256Hex_def flat_prims_def EncodeToString_def
      hex_byte_def hex_digit_def char_of_def bit_0)

lemma small_json_ok:
  "json_ok (ref_json r) \<longleftrightarrow> valid_utf8 (ref_Name r) \<and> valid_utf8 (ref_Namespace r)"
  "json_ok (runtime_json x) \<longleftrightarrow> valid_utf8 (rt_RuntimeClassName x)"
  "json_ok (freshness_json f) \<longleftrightarrow> \<bar>fr_MaxAgeSeconds f\<bar> \<le> 9007199254740992"
proof -
  show "json_ok (ref_json r) \<longleftrightarrow> valid_utf8 (ref_Name r) \<and> valid_utf8 (ref_Namespace r)"
    unfolding ref_json_def json_ok_fld key_in_fld by auto
  show "json_ok (runtime_json x) \<longleftrightarrow> valid_utf8 (rt_RuntimeClassName x)"
    unfolding runtime_json_def json_ok_fld key_in_fld by auto
  show "json_ok (freshness_json f) \<longleftrightarrow> \<bar>fr_MaxAgeSeconds f\<bar> \<le> 9007199254740992"
    unfolding freshness_json_def json_ok_fld key_in_fld by simp
qed

lemma demo_evidence_ok: "json_ok (evidence_json demo_kl demo_ev)"
proof -
  have "json_ok (ev_spec_json (ev_Spec demo_ev))"
    unfolding ev_spec_json_def json_ok_fld key_in_fld
    by (simp add: demo_ev_def zero_ev_spec_def small_json_ok)
  moreover have "json_ok (ev_status_json (kl_timeJSON demo_kl) (kl_condJSON demo_kl) (ev_Status demo_ev))"
    unfolding ev_status_json_def json_ok_fld key_in_fld
    by (simp add: demo_ev_def zero_ev_status_def demo_kl_def)
  ultimately show ?thesis by (simp add: evidence_json_def)
qed

definition demo_sched :: Scheduler where
  "demo_sched = NewScheduler (Some demo_key) None 0"

lemma demo_hashes:
  "evidenceHashForPlacement flat_prims demo_kl demo_ev = Some ''68''"
  "CanonicalSHA256Hex flat_prims (evidence_json demo_kl demo_ev) = Some ''68''"
  "CanonicalSHA256Hex flat_prims (cip_spec_json (cip_Spec demo_cip)) = Some ''68''"
  "CanonicalSHA256Hex flat_prims (kl_podSpecJSON demo_kl x) = Some ''68''"
proof -
  show "CanonicalSHA256Hex flat_prims (evidence_json demo_kl demo_ev) = Some ''68''"
    by (rule flat_hash [OF demo_evidence_ok])
  then show "evidenceHashForPlacement flat_prims demo_kl demo_ev = Some ''68''"
    by (simp add: evidenceHashForPlacement_def)
  show "CanonicalSHA256Hex flat_prims (cip_spec_json (cip_Spec demo_cip)) = Some ''68''"
    using flat_hash [OF cip_spec_json_ok [OF demo_cip_spec_ok]] by (simp add: demo_cip_def)
  show "CanonicalSHA256Hex flat_prims (kl_podSpecJSON demo_kl x) = Some ''68''"
    by (rule flat_hash) (simp add: demo_kl_def)
qed

lemma trim_graphic_lits: "TrimSpace ''68'' = ''68''" "TrimSpace ''uid-1'' = ''uid-1''" "TrimSpace ''SEV-SNP'' = ''SEV-SNP''"
  by (simp_all add: TrimSpace_graphic graphic_def)

lemma demo_acceptable: "acceptable (60 * Second) ''node-1'' (Some demo_cip) demo_ev"
  by (auto simp: acceptable_def demo_ev_def fresh_for_def tee_allowed_def demo_cip_def demo_cip_spec_def
      zero_ev_spec_def zero_ev_status_def Second_def)

lemma demo_matches: "policyMatchesPod demo_kl demo_cip [] demo_pod"
  by (simp add: policyMatchesPod_def demo_kl_def selected_by_def demo_cip_def demo_cip_spec_def)

lemma demo_expected: "expected_max_age demo_pod = 0"
  by (simp add: expected_max_age_def demo_pod_def mget_def newMeta_def TrimSpace_graphic)

lemma demo_ready: "ready flat_prims demo_kl demo_sched demo_cluster demo_pod demo_cip (60 * Second)"
proof -
  let ?n = "\<lparr>node_Name = ''node-1'', node_Labels = [], node_Unschedulable = False, node_Taints = []\<rparr>"
  have "qualifies demo_kl demo_cluster demo_pod (Some demo_cip) (cl_sched demo_cluster demo_pod) (60 * Second) ?n"
    using demo_acceptable
    by (simp add: qualifies_def demo_cluster_def podMatchesNodeConstraints_def demo_pod_def cl_sched_def)
  moreover have "?n \<in> set (cl_Nodes demo_cluster)" by (simp add: demo_cluster_def)
  moreover have "int32 (cips_MaxEvidenceAgeSeconds (cip_Spec demo_cip))"
    by (simp add: demo_cip_def demo_cip_spec_def int32_def)
  moreover have "TrimSpace (mget (om_Annotations (pod_Meta demo_pod)) ''ai.sovereign.io/policy-hash'') = ''68''"
    by (simp add: demo_pod_def mget_def trim_graphic_lits)
  moreover have "TrimSpace (om_UID (pod_Meta demo_pod)) \<noteq> ''''" by (simp add: demo_pod_def trim_graphic_lits)
  moreover have "cl_Policies demo_cluster = [demo_cip]" "ns_Labels (cl_Namespace demo_cluster) = []"
    "cl_Evidence demo_cluster = [demo_ev]" by (simp_all add: demo_cluster_def)
  ultimately show ?thesis
    unfolding ready_def using demo_matches by (auto simp: demo_hashes demo_expected)
qed

lemma demo_binds:
  "\<exists>calls node. run (SchedulePod fuel flat_prims demo_kl demo_srv demo_sort demo_sched demo_pod) () =
    (Some None, calls @ [(CreateBinding ''ai'' ''llm'' node, RUnit None)])"
  using steady_binds [OF demo_steady demo_ready demo_sort_ok, of fuel "()"]
  by (simp add: demo_pod_def newMeta_def)

lemma steady_reconcile:
  assumes st: "steady srv cl demo_pod t1" and rd: "ready flat_prims demo_kl demo_sched cl demo_pod p t1"
  shows "\<exists>tail node. run (Reconcile_pod fuel flat_prims demo_kl srv demo_sort demo_sched ''ai'' ''llm'') s0 =
    (Some None, (GetPod ''ai'' ''llm'', RPod (Inr demo_pod)) # tail @ [(CreateBinding ''ai'' ''llm'' node, RUnit None)])"
proof -
  obtain s1 where g: "srv (GetPod ''ai'' ''llm'') s0 = (RPod (Inr demo_pod), s1)"
    using st [unfolded steady_def, rule_format, of "GetPod ''ai'' ''llm''" s0]
    by (cases "srv (GetPod ''ai'' ''llm'') s0") simp
  let ?w = "\<lparr>w_state = s1, w_log = [(GetPod ''ai'' ''llm'', RPod (Inr demo_pod))]\<rparr>"
  let ?m = "SchedulePod fuel flat_prims demo_kl srv demo_sort demo_sched demo_pod"
  obtain r w' where m: "run_state ?m ?w = (r, w')" by (cases "run_state ?m ?w")
  have "run (Reconcile_pod fuel flat_prims demo_kl srv demo_sort demo_sched ''ai'' ''llm'') s0 = (r, w_log w')"
    using m g by (simp add: run_def Reconcile_pod_def) (simp add: demo_pod_def)
  moreover have r: "r = Some None"
    using SchedulePod_steady [OF st rd demo_sort_ok, of fuel] m unfolding yields_def by (metis fst_conv)
  moreover obtain tr where "w_log w' = w_log ?w @ tr" "sched_post flat_prims demo_kl demo_pod r tr"
    using ensuresD [OF SchedulePod_ens [OF demo_sort_ok] m] by blast
  ultimately show ?thesis
    unfolding sched_post_def binding_def by (auto simp: demo_pod_def newMeta_def)
qed

lemmas demo_reconcile = steady_reconcile [OF demo_steady demo_ready]

lemma demo_allows:
  "\<exists>before after c rep d. snd (run (SchedulePod fuel flat_prims demo_kl demo_srv demo_sort demo_sched demo_pod) ()) =
     before @ (c, rep) # after \<and> writes c d \<and> apdt_Decision (apd_Status d) = ''allow''"
proof -
  obtain calls node where run: "run (SchedulePod fuel flat_prims demo_kl demo_srv demo_sort demo_sched demo_pod) () =
    (Some None, calls @ [(CreateBinding ''ai'' ''llm'' node, RUnit None)])" using demo_binds by blast
  have "sched_post flat_prims demo_kl demo_pod (Some None) (calls @ [(CreateBinding ''ai'' ''llm'' node, RUnit None)])"
    using ensures_run [OF SchedulePod_ens [OF demo_sort_ok] run] .
  then obtain sel :: NodeCandidate where "allow_recorded (node_Name (nc_Node sel)) calls"
    unfolding sched_post_def justified_binding_def by auto
  then obtain pre0 c d out where "calls = pre0 @ [(c, RDecision (Inr out))]" "writes c d"
    "apdt_Decision (apd_Status d) = ''allow''" unfolding allow_recorded_def by blast
  then show ?thesis using run by auto
qed


section \<open>Properties\<close>

text \<open>C15. The scan over a node's evidence accepts the first piece that is about the node, verified, not
  revoked, within the policy's age and of a required TEE, so that neither stale, foreign nor revoked
  evidence shadows a valid one; it rejects exactly when there is none, and reports that there is no
  evidence exactly when none is about the node.\<close>

theorem evidence_scan_exact:
  assumes "age_int32 policy"
  shows "(scan_evidence now node policy NoValidEvidence False evs = Inr ev \<longleftrightarrow>
       find (acceptable now node policy) evs = Some ev) \<and>
     ((\<exists>e. scan_evidence now node policy NoValidEvidence False evs = Inl e) \<longleftrightarrow>
       (\<forall>x\<in>set evs. \<not> acceptable now node policy x)) \<and>
     (scan_evidence now node policy NoValidEvidence False evs = Inl NoEvidenceForNode \<longleftrightarrow>
       (\<forall>x\<in>set evs. ref_Name (evs_SubjectRef (ev_Spec x)) \<noteq> node))"
proof (intro conjI)
  let ?s = "scan_evidence now node policy NoValidEvidence False evs"
  note f = scan_evidence_find [OF assms]
  show "?s = Inr ev \<longleftrightarrow> find (acceptable now node policy) evs = Some ev" by (rule f)
  have "(\<exists>e. ?s = Inl e) \<longleftrightarrow> (\<forall>x. ?s \<noteq> Inr x)" by (cases ?s) auto
  also have "\<dots> \<longleftrightarrow> find (acceptable now node policy) evs = None" using f by fastforce
  finally show "(\<exists>e. ?s = Inl e) \<longleftrightarrow> (\<forall>x\<in>set evs. \<not> acceptable now node policy x)"
    by (auto simp: find_None_iff)
  have "scan_evidence now node policy l False evs = Inl NoEvidenceForNode"
    if "\<forall>x\<in>set evs. ref_Name (evs_SubjectRef (ev_Spec x)) \<noteq> node" for l
    using that by (induction evs) auto
  then show "?s = Inl NoEvidenceForNode \<longleftrightarrow> (\<forall>x\<in>set evs. ref_Name (evs_SubjectRef (ev_Spec x)) \<noteq> node)"
    using scan_evidence_none [of now node policy NoValidEvidence False evs] by blast
qed

theorem evidence_scan_exact_witness:
  "scan_evidence (60 * Second) ''node-1'' (Some demo_cip) NoValidEvidence False
     [demo_ev\<lparr>ev_Status := (ev_Status demo_ev)\<lparr>evt_Revoked := True\<rparr>\<rparr>, demo_ev] = Inr demo_ev"
proof -
  let ?r = "demo_ev\<lparr>ev_Status := (ev_Status demo_ev)\<lparr>evt_Revoked := True\<rparr>\<rparr>"
  have age: "age_int32 (Some demo_cip)" by (simp add: age_int32_def demo_cip_def demo_cip_spec_def int32_def)
  have "\<not> acceptable (60 * Second) ''node-1'' (Some demo_cip) ?r" by (simp add: acceptable_def)
  then have "find (acceptable (60 * Second) ''node-1'' (Some demo_cip)) [?r, demo_ev] = Some demo_ev"
    using demo_acceptable by simp
  with evidence_scan_exact [OF age, of "60 * Second" "''node-1''" "[?r, demo_ev]" demo_ev] show ?thesis by blast
qed

text \<open>C32. Scores: as long as no evidence is dated in the future, every candidate scores between 100 and
  180 and keeps its node and evidence; and of two pieces of evidence for the same limit, the one
  verified later never gets fewer freshness points.\<close>

theorem score_range_and_order:
  assumes "age_int32 policy" and "run (score srv policy cs) st = (cs', calls)"
    and "\<forall>c\<in>set cs. \<forall>ev seen rt. nc_Evidence c = Some ev \<longrightarrow> evt_LastVerifiedTime (ev_Status ev) = Some seen \<longrightarrow>
           (Now, rt) \<in> set calls \<longrightarrow> seen \<le> as_time rt"
  shows "list_all2 (\<lambda>c' c. nc_Node c' = nc_Node c \<and> nc_Evidence c' = nc_Evidence c \<and>
       100 \<le> nc_Score c' \<and> nc_Score c' \<le> 180) cs' cs \<and>
     (0 < m \<longrightarrow> int32 m \<longrightarrow> old \<le> new \<longrightarrow> freshness_points now old m \<le> freshness_points now new m)"
proof (intro conjI impI)
  show "freshness_points now old m \<le> freshness_points now new m" if "0 < m" "int32 m" "old \<le> new"
    using freshness_mono that by blast
  have l: "list_all2 (scored_as policy calls) cs' cs" using ensures_run [OF score_ens assms(2)] by blast
  show "list_all2 (\<lambda>c' c. nc_Node c' = nc_Node c \<and> nc_Evidence c' = nc_Evidence c \<and>
       100 \<le> nc_Score c' \<and> nc_Score c' \<le> 180) cs' cs"
  proof (rule list.rel_mono_strong [OF l])
    fix c' c
    assume c: "c \<in> set cs" and s: "scored_as policy calls c' c"
    then obtain t where t: "c' = c\<lparr>nc_Score := cand_score t policy c\<rparr>"
      and now: "(\<exists>rt. (Now, rt) \<in> set calls \<and> t = as_time rt) \<or> (\<forall>t'. cand_score t' policy c = cand_score t policy c)"
      unfolding scored_as_def by blast
    have "100 \<le> cand_score t policy c \<and> cand_score t policy c \<le> 180"
      using cand_score_range [OF assms(1)] now assms(3) c by blast
    then show "nc_Node c' = nc_Node c \<and> nc_Evidence c' = nc_Evidence c \<and> 100 \<le> nc_Score c' \<and> nc_Score c' \<le> 180"
      using t by simp
  qed
qed

theorem score_range_and_order_witness:
  "\<exists>c calls. run (score demo_srv (Some demo_cip) [\<lparr>nc_Node = hd (cl_Nodes demo_cluster), nc_Evidence = Some demo_ev,
       nc_Score = 0, nc_Reason = ''''\<rparr>]) () = ([c], calls) \<and> 100 \<le> nc_Score c \<and> nc_Score c \<le> 180"
proof -
  let ?c = "\<lparr>nc_Node = hd (cl_Nodes demo_cluster), nc_Evidence = Some demo_ev, nc_Score = 0, nc_Reason = ''''\<rparr>"
  obtain cs' calls where r: "run (score demo_srv (Some demo_cip) [?c]) () = (cs', calls)"
    by (cases "run (score demo_srv (Some demo_cip) [?c]) ()")
  have age: "age_int32 (Some demo_cip)" by (simp add: age_int32_def demo_cip_def demo_cip_spec_def int32_def)
  have "\<forall>rt. (Now, rt) \<in> set calls \<longrightarrow> rt = RTime (60 * Second)"
    using r by (auto simp: run_def score_one_def demo_srv_def demo_ev_def demo_cip_def demo_cip_spec_def)
  then have "\<forall>c\<in>set [?c]. \<forall>ev seen rt. nc_Evidence c = Some ev \<longrightarrow>
      evt_LastVerifiedTime (ev_Status ev) = Some seen \<longrightarrow> (Now, rt) \<in> set calls \<longrightarrow> seen \<le> as_time rt"
    by (auto simp: demo_ev_def Second_def)
  note range = score_range_and_order [OF age r this, of 1 0 0 0]
  then obtain c where c: "cs' = [c]" "100 \<le> nc_Score c" "nc_Score c \<le> 180" by (auto simp: list_all2_Cons2)
  show ?thesis by (intro exI [of _ c] exI [of _ calls]) (use r c in simp)
qed

text \<open>What a run of the pod reconciler that submits a binding looks like.\<close>

lemma Reconcile_pod_binding:
  assumes "sort_slice_ok srt" and "run (Reconcile_pod fuel P kl srv srt s ns name) st = (r, calls)"
    and "calls = pre @ (CreateBinding bns bn node, rb) # post"
  shows "post = [] \<and> \<not> binds pre \<and> (r = Some None \<longleftrightarrow> rb = RUnit None) \<and>
    (\<exists>pod tail sel. pre = (GetPod ns name, RPod (Inr pod)) # tail \<and> eligible pod \<and>
       bns = om_Namespace (pod_Meta pod) \<and> bn = om_Name (pod_Meta pod) \<and> node = node_Name (nc_Node sel) \<and>
       justified_binding P kl pod sel tail)"
proof -
  obtain rp tail where l: "calls = (GetPod ns name, rp) # tail" and
    t: "tail \<noteq> [] \<longrightarrow> (\<exists>pod. rp = RPod (Inr pod) \<and> eligible pod \<and> sched_post P kl pod r tail)"
    using ensures_run [OF Reconcile_pod_ens [OF assms(1)] assms(2)] by blast
  from assms(3) l obtain pre' where pre: "pre = (GetPod ns name, rp) # pre'"
    and tl: "tail = pre' @ (CreateBinding bns bn node, rb) # post" by (cases pre) auto
  then obtain pod where pod: "rp = RPod (Inr pod)" "eligible pod" "sched_post P kl pod r tail" using t by blast
  have "binds tail" using tl by simp
  with pod(3) obtain pre2 sel rb2 where b: "tail = pre2 @ [(binding pod sel, rb2)]" "\<not> binds pre2"
    "justified_binding P kl pod sel pre2" "r = Some None \<longleftrightarrow> rb2 = RUnit None" unfolding sched_post_def by blast
  have "post = []"
  proof (cases post rule: rev_cases)
    case (snoc x y)
    then have "pre2 = pre' @ (CreateBinding bns bn node, rb) # x" using tl b(1) by simp
    then show ?thesis using b(2) by simp
  qed
  then show ?thesis using tl b pod pre by (auto simp: binding_def)
qed

text \<open>C1. A binding is always justified. Whatever the server does between the calls, an attempt submits
  at most one binding and makes no call after it; the pod was read first, was pending, unbound, without
  scheduling gates and meant for this scheduler; the node was listed, is schedulable, satisfies the
  pod's and the runtime class's constraints, and scored best among candidates that all had acceptable
  evidence at a time read during the attempt; and, where the server stores the decision it is given, the
  policy and the evidence were read again before the binding and still matched the hash on the pod and
  the hash of the selected evidence, unrevoked and within the expected age, and the verdict \<open>allow\<close> for
  that node was recorded by the last call before it. The attempt reports success exactly when the
  binding succeeded.\<close>

theorem reconcile_binds_safely:
  assumes "sort_slice_ok srt" and "run (Reconcile_pod fuel P kl srv srt s ns name) st = (r, calls)"
    and "calls = pre @ (CreateBinding bns bn node, rb) # post"
  shows "post = [] \<and> \<not> binds pre \<and> (r = Some None \<longleftrightarrow> rb = RUnit None) \<and>
    (\<exists>pod tail sel. pre = (GetPod ns name, RPod (Inr pod)) # tail \<and> eligible pod \<and>
       bns = om_Namespace (pod_Meta pod) \<and> bn = om_Name (pod_Meta pod) \<and> node = node_Name (nc_Node sel) \<and>
       justified_binding P kl pod sel tail)"
  by (rule Reconcile_pod_binding [OF assms])

theorem reconcile_binds_safely_witness:
  "\<exists>tail sel. run (Reconcile_pod 1 flat_prims demo_kl demo_srv demo_sort demo_sched ''ai'' ''llm'') () =
     (Some None, (GetPod ''ai'' ''llm'', RPod (Inr demo_pod)) # tail @
        [(CreateBinding ''ai'' ''llm'' (node_Name (nc_Node sel)), RUnit None)]) \<and>
     justified_binding flat_prims demo_kl demo_pod sel tail"
proof -
  let ?m = "Reconcile_pod 1 flat_prims demo_kl demo_srv demo_sort demo_sched ''ai'' ''llm''"
  obtain tail node where r: "run ?m () = (Some None, ((GetPod ''ai'' ''llm'', RPod (Inr demo_pod)) # tail) @
      (CreateBinding ''ai'' ''llm'' node, RUnit None) # [])"
    using demo_reconcile [of 1] by auto
  from reconcile_binds_safely [OF demo_sort_ok r refl] show ?thesis using r by auto
qed

text \<open>C2. Fail-closed re-check: every verdict \<open>allow\<close> that is ever submitted, also by an attempt that
  fails afterwards, follows a pending record for the same candidate and a re-check of the decision the
  server returned for it: the pod was read again, the policy the decision names hashes to the value on
  the pod, and the evidence it names is unrevoked, unchanged and within the expected age.\<close>

theorem allow_only_after_recheck:
  assumes "sort_slice_ok srt" and "run (SchedulePod fuel P kl srv srt s pod) st = (r, calls)"
    and "calls = before @ (c, rep) # after" and "c = CreateDecision d \<or> c = UpdateDecision d"
    and "apdt_Decision (apd_Status d) = ''allow''"
  shows "approved P kl pod d before"
  using ensures_run [OF SchedulePod_ens [OF assms(1)] assms(2)] assms(3,4,5)
  unfolding sched_post_def allow_needs_def writes_def by blast

theorem allow_only_after_recheck_witness:
  "\<exists>before rep after c d r. run (SchedulePod 1 flat_prims demo_kl demo_srv demo_sort demo_sched demo_pod) () =
     (r, before @ (c, rep) # after) \<and> (c = CreateDecision d \<or> c = UpdateDecision d) \<and>
     apdt_Decision (apd_Status d) = ''allow'' \<and> approved flat_prims demo_kl demo_pod d before"
proof -
  let ?m = "SchedulePod 1 flat_prims demo_kl demo_srv demo_sort demo_sched demo_pod"
  obtain before after c rep d where l: "snd (run ?m ()) = before @ (c, rep) # after" and w: "writes c d"
    and a: "apdt_Decision (apd_Status d) = ''allow''" using demo_allows [of 1] by blast
  have run: "run ?m () = (fst (run ?m ()), before @ (c, rep) # after)" using l by (metis prod.collapse)
  have c: "c = CreateDecision d \<or> c = UpdateDecision d" using w by (simp add: writes_def)
  from allow_only_after_recheck [OF demo_sort_ok run refl c a] run c a show ?thesis by blast
qed

text \<open>C14. Waiting ends: with a clock that advances by at least the time slept, an attempt returns, the
  wait for evidence included, after at most \<open>timeout / interval + 2\<close> rounds; for the scheduler that
  \<open>New\<close> configures, 62 rounds are enough.\<close>

theorem scheduling_terminates:
  assumes "clock_ok srv clk" and "0 < sc_permitPollInterval s"
    and "sc_permitTimeout s < (int fuel - 1) * sc_permitPollInterval s"
  shows "\<exists>e calls. run (SchedulePod fuel P kl srv srt s pod) st = (Some e, calls)"
proof -
  have "yields (permit fuel kl srv s pod policy nodes) (\<lambda>r. r \<noteq> None)" for policy nodes
    unfolding yields_def using permit_ends [OF assms] by blast
  from SchedulePod_yields [OF this, of P srt] show ?thesis
    unfolding yields_def run_def by (auto split: prod.splits) (metis fst_conv)
qed

theorem scheduling_terminates_witness:
  "\<exists>e calls. run (SchedulePod 62 flat_prims demo_kl
     (\<lambda>c t. case c of Now \<Rightarrow> (RTime t, t) | Sleep d \<Rightarrow> (RDone None, t + max 0 d) | ListEvidence \<Rightarrow> (REvidences (Inr []), t)
        | _ \<Rightarrow> (demo_reply c, t)) demo_sort demo_sched demo_pod) (0 :: int) = (Some e, calls)"
proof (rule scheduling_terminates [where clk = "\<lambda>t. t"])
  show "clock_ok (\<lambda>c t. case c of Now \<Rightarrow> (RTime t, t) | Sleep d \<Rightarrow> (RDone None, t + max 0 d)
      | ListEvidence \<Rightarrow> (REvidences (Inr []), t) | _ \<Rightarrow> (demo_reply c, t)) (\<lambda>t. t)"
    by (auto simp: clock_ok_def split: call.split)
qed (simp_all add: demo_sched_def NewScheduler_def Second_def Millisecond_def)

text \<open>C13. A placeable pod is placed: in a cluster that holds still but for the clock, where a policy
  selects the pod and its hash is on it, some node qualifies, and evidence is fresh enough for the
  pod, the attempt succeeds and its last call binds the pod.\<close>

theorem steady_cluster_binds:
  assumes "steady srv cl pod t1" and "ready P kl s cl pod p t1" and "sort_slice_ok srt"
  shows "\<exists>calls node. run (SchedulePod fuel P kl srv srt s pod) st =
    (Some None, calls @ [(CreateBinding (om_Namespace (pod_Meta pod)) (om_Name (pod_Meta pod)) node, RUnit None)])"
  using assms by (rule steady_binds)

theorem steady_cluster_binds_witness:
  "\<exists>calls node. run (SchedulePod 1 flat_prims demo_kl demo_srv demo_sort demo_sched demo_pod) () =
    (Some None, calls @ [(CreateBinding ''ai'' ''llm'' node, RUnit None)])"
  using steady_cluster_binds [OF demo_steady demo_ready demo_sort_ok, of 1 "()"]
  by (simp add: demo_pod_def newMeta_def)

text \<open>The expected age is an \<open>int\<close> number of seconds scaled to nanoseconds: from 9223372037 on, the
  product wraps, and such an annotation switches the age check of the re-check off.\<close>

theorem expected_age_overflow:
  "expected_max_age (pod\<lparr>pod_Meta := (pod_Meta pod)\<lparr>om_Annotations :=
     [(''ai.sovereign.io/expected-evidence-age-seconds'', ''9223372037'')]\<rparr>\<rparr>) < 0 \<and>
   expected_max_age (pod\<lparr>pod_Meta := (pod_Meta pod)\<lparr>om_Annotations :=
     [(''ai.sovereign.io/expected-evidence-age-seconds'', ''9223372036'')]\<rparr>\<rparr>) = 9223372036 * Second"
  by (simp add: expected_max_age_def mget_def TrimSpace_graphic graphic_def sscan_int_def scan_nat_def
      base_of_def starts.simps scan_digits_def digit_in_def hex_val_def digits_val_def seconds_def wrap64_def
      Second_def int64_def Let_def)

text \<open>In a namespace, decisions of pods with short names are kept apart: names that leave room for
  the namespace within 63 characters determine the pod; longer names are cut and can share a decision.\<close>

theorem decision_names:
  "(length (om_Name (pod_Meta p)) + length (om_Namespace (pod_Meta p)) < 63 \<longrightarrow>
    length (om_Name (pod_Meta q)) + length (om_Namespace (pod_Meta q)) < 63 \<longrightarrow>
    om_Namespace (pod_Meta p) = om_Namespace (pod_Meta q) \<longrightarrow>
    (decisionName p = decisionName q \<longleftrightarrow> om_Name (pod_Meta p) = om_Name (pod_Meta q))) \<and>
   (\<exists>a b. a \<noteq> b \<and> decisionName (p\<lparr>pod_Meta := newMeta a ns\<rparr>) = decisionName (p\<lparr>pod_Meta := newMeta b ns\<rparr>))"
proof (intro conjI impI)
  let ?a = "replicate 63 CHR ''x'' @ ''a''" and ?b = "replicate 63 CHR ''x'' @ ''b''"
  have "decisionName (p\<lparr>pod_Meta := newMeta ?a ns\<rparr>) = decisionName (p\<lparr>pod_Meta := newMeta ?b ns\<rparr>)"
    by (simp add: decisionName_def newMeta_def Let_def)
  then show "\<exists>a b. a \<noteq> b \<and> decisionName (p\<lparr>pod_Meta := newMeta a ns\<rparr>) = decisionName (p\<lparr>pod_Meta := newMeta b ns\<rparr>)"
    by (intro exI [of _ ?a] exI [of _ ?b]) simp
qed (auto simp: decisionName_def Let_def)

theorem decision_names_witness:
  "decisionName demo_pod = decisionName (demo_pod\<lparr>pod_Phase := ''Running''\<rparr>)"
  using decision_names [of demo_pod "demo_pod\<lparr>pod_Phase := ''Running''\<rparr>"]
  by (simp add: demo_pod_def newMeta_def)

end
