(* ===== verification/Controller_Properties.thy ===== *)
theory Controller_Properties
  imports Controllers Scheduler_Properties
begin

text \<open>
  What the reconcilers write: evidence counts as real only when its token was verified, revocation is
  read off the revocation policies, and the verdicts of placement and key release are those of the
  evaluators. As for the scheduler, the statements hold for every server.
\<close>

section \<open>The central verifier\<close>

text \<open>Logs in which no evidence is written.\<close>

definition no_writes :: "log \<Rightarrow> bool" where
  "no_writes tr \<longleftrightarrow> (\<forall>ev r. (StatusEvidence ev, r) \<notin> set tr) \<and> (\<forall>a b mu r. (UpsertEvidence a b mu, r) \<notin> set tr)"

lemma no_writes_simps [simp]:
  "no_writes []" "no_writes (s @ t) \<longleftrightarrow> no_writes s \<and> no_writes t" "no_writes ((Now, r) # t) \<longleftrightarrow> no_writes t"
  "no_writes ((HttpGet u, r) # t) \<longleftrightarrow> no_writes t"
  by (auto simp: no_writes_def)

lemma maa_calls: "ensures (VerifyMAAToken P J srv token opts) (\<lambda>res tr. no_writes tr)"
  unfolding VerifyMAAToken_def fetchJWKS_def Let_def
proof (rule ensures_bind_api, rule ensures_sum, goal_cases)
  case (2 rt peek)
  show ?case
    by (rule ensures_if)
      (auto intro!: ens ensures_bind [where ?R1.0 = "\<lambda>r tr. no_writes tr"])
qed (auto intro!: ensures_return)

lemma ensures_conj: "ensures m Q \<Longrightarrow> ensures m R \<Longrightarrow> ensures m (\<lambda>a tr. Q a tr \<and> R a tr)"
  unfolding ensures_def by (fastforce split: prod.splits)

lemma verify_report_ens:
  "ensures (verify_report cfg (VerifyMAAToken P J srv) report)
     (\<lambda>oc tr. no_writes tr \<and>
        (if rars_Simulated (rar_Spec report) then oc = simulated_outcome
         else \<exists>res. oc = outcome_of cfg res \<and> maa_post P J (rars_RawToken (rar_Spec report)) (report_opts cfg report) res tr))"
  unfolding verify_report_def
proof (rule ensures_if, goal_cases)
  case 1
  then show ?case by (auto intro!: ensures_return)
next
  case 2
  show ?case
    by (rule ensures_bind [OF ensures_conj [OF maa_calls VerifyMAAToken_ens]]) (use 2 in \<open>auto intro!: ensures_return\<close>)
qed

text \<open>The evidence that is written: the one the server returned, with the status of the outcome.\<close>

definition stamped :: "verifierConf \<Rightarrow> RawAttestationReport \<Rightarrow> outcome \<Rightarrow> AttestationEvidence \<Rightarrow>
    AttestationEvidence \<Rightarrow> bool" where
  "stamped cfg report oc ev ev' \<longleftrightarrow> ev_Spec ev' = ev_Spec ev \<and> ev_Meta ev' = ev_Meta ev \<and>
     (if oc_verified oc
      then \<exists>t cs. ev_Status ev' = (evidence_status cfg report oc ev)\<lparr>evt_LastVerifiedTime := Some t, evt_Conditions := cs\<rparr>
      else \<exists>cs. ev_Status ev' = (evidence_status cfg report oc ev)\<lparr>evt_Conditions := cs\<rparr>)"

text \<open>Verified evidence carries the time of its verification.\<close>

definition stamped_at :: "outcome \<Rightarrow> AttestationEvidence \<Rightarrow> log \<Rightarrow> bool" where
  "stamped_at oc ev tr \<longleftrightarrow>
     (oc_verified oc \<longrightarrow> (\<exists>rt. (Now, rt) \<in> set tr \<and> evt_LastVerifiedTime (ev_Status ev) = Some (as_time rt)))"

lemma stamp_status_ens:
  "ensures (stamp_status kl srv cfg report oc ev)
     (\<lambda>ev' tr. stamped cfg report oc ev ev' \<and> no_writes tr \<and> stamped_at oc ev' tr)"
  unfolding stamp_status_def setCondition_def Let_def
  by (rule ensures_if; intro ens ensures_bind [where ?R1.0 = "\<lambda>a tr. no_writes tr"])
    (auto simp: stamped_def stamped_at_def intro!: ens ensures_return)

definition report_post :: "prims \<Rightarrow> jwtlib \<Rightarrow> verifierConf \<Rightarrow> string \<Rightarrow> string \<Rightarrow> log \<Rightarrow> bool" where
  "report_post P J cfg ns name tr \<longleftrightarrow>
     (\<forall>ev x. (StatusEvidence ev, x) \<in> set tr \<longrightarrow>
        (\<exists>report vtr oc ev0 rest.
           tr = (GetReport ns name, RReport (Inr report)) # vtr @
             (UpsertEvidence (om_Namespace (rar_Meta report)) (evidenceName report)
                (evidence_mutation cfg report (oc_freshnessS oc)), REvidence (Inr ev0)) # rest \<and>
           no_writes vtr \<and> stamped cfg report oc ev0 ev \<and> stamped_at oc ev rest \<and>
           (if rars_Simulated (rar_Spec report) then oc = simulated_outcome
            else \<exists>res. oc = outcome_of cfg res \<and>
              maa_post P J (rars_RawToken (rar_Spec report)) (report_opts cfg report) res vtr)))"

lemma Reconcile_report_ens:
  "ensures (Reconcile_report kl srv cfg (VerifyMAAToken P J srv) ns name) (\<lambda>r tr. report_post P J cfg ns name tr)"
  unfolding Reconcile_report_def
proof (rule ensures_bind_api, rule ensures_sum, goal_cases)
  case (1 r e)
  then show ?case by (auto intro!: ensures_return simp: report_post_def)
next
  case (2 r report)
  show ?case
  proof (rule ensures_bind [OF verify_report_ens], rule ensures_bind_api, rule ensures_sum, goal_cases)
    case (1 oc vtr ru e)
    then show ?case by (auto intro!: ensures_return simp: report_post_def no_writes_def)
  next
    case (2 oc vtr ru ev0)
    note v = 2(1)
    let ?u = "(UpsertEvidence (om_Namespace (rar_Meta report)) (evidenceName report)
                (evidence_mutation cfg report (oc_freshnessS oc)), ru)"
    show ?case
    proof (rule ensures_bind [OF stamp_status_ens], goal_cases)
      case (1 ev' str)
      have post: "report_post P J cfg ns name ((GetReport ns name, r) # vtr @ ?u # str @ (StatusEvidence ev', x) # rest)"
        if "\<forall>e y. (StatusEvidence e, y) \<notin> set rest" for x rest
        unfolding report_post_def
      proof (intro allI impI)
        fix ev y
        assume "(StatusEvidence ev, y) \<in> set ((GetReport ns name, r) # vtr @ ?u # str @ (StatusEvidence ev', x) # rest)"
        then have "ev = ev'" using 1 v that by (auto simp: no_writes_def)
        then show "\<exists>report vtr' oc ev0 rest'. (GetReport ns name, r) # vtr @ ?u # str @ (StatusEvidence ev', x) # rest =
            (GetReport ns name, RReport (Inr report)) # vtr' @
             (UpsertEvidence (om_Namespace (rar_Meta report)) (evidenceName report)
                (evidence_mutation cfg report (oc_freshnessS oc)), REvidence (Inr ev0)) # rest' \<and>
           no_writes vtr' \<and> stamped cfg report oc ev0 ev \<and> stamped_at oc ev rest' \<and>
           (if rars_Simulated (rar_Spec report) then oc = simulated_outcome
            else \<exists>res. oc = outcome_of cfg res \<and>
              maa_post P J (rars_RawToken (rar_Spec report)) (report_opts cfg report) res vtr')"
          using 1 v 2(2) \<open>as_report r = Inr report\<close>
          by (intro exI [of _ report] exI [of _ vtr] exI [of _ oc] exI [of _ ev0]
              exI [of _ "str @ (StatusEvidence ev', x) # rest"]) (auto simp: stamped_at_def)
      qed
      show ?case
        by (rule ensures_bind_api, rule ensures_sum)
          (auto intro!: ens ensures_return post [where rest = "[]"] post [where rest = "[z]" for z])
    qed
  qed
qed

lemma outcome_modes:
  "oc_mode (outcome_of cfg res) = EvidenceModeReal \<longleftrightarrow> mr_Status res = StatusVerified"
  "oc_verified (outcome_of cfg res) \<longleftrightarrow> mr_Status res = StatusVerified"
  "mr_Status res \<noteq> StatusVerified \<Longrightarrow> oc_mode (outcome_of cfg res) = EvidenceModeUnverified"
  "oc_tokenHash (outcome_of cfg res) = mr_TokenHash res"
  "oc_mode simulated_outcome = EvidenceModeSimulated" "oc_verified simulated_outcome"
  by (simp_all add: outcome_of_def simulated_outcome_def EvidenceModeReal_def EvidenceModeUnverified_def)

lemma modes_distinct [simp]:
  "EvidenceModeSimulated \<noteq> EvidenceModeReal" "EvidenceModeUnverified \<noteq> EvidenceModeReal"
  by (simp_all add: EvidenceModeReal_def EvidenceModeSimulated_def EvidenceModeUnverified_def)

lemma stamped_fields:
  assumes "stamped cfg report oc ev0 ev"
  shows "evt_EvidenceMode (ev_Status ev) = oc_mode oc" "evt_Verified (ev_Status ev) = oc_verified oc"
    "evt_MAATokenHash (ev_Status ev) = oc_tokenHash oc" "evt_Nonce (ev_Status ev) = rars_Nonce (rar_Spec report)"
    "evt_Revoked (ev_Status ev) = evt_Revoked (ev_Status ev0)"
  using assms by (auto simp: stamped_def evidence_status_def split: if_splits)


lemma simulated_evidence_written:
  assumes "run (Reconcile_report kl srv cfg (VerifyMAAToken P J srv) ns name) st = (r, calls)"
    and "(GetReport ns name, RReport (Inr report)) = hd calls" and "rars_Simulated (rar_Spec report)"
    and "(StatusEvidence ev, x) \<in> set calls"
  shows "\<exists>ev0. evt_EvidenceMode (ev_Status ev) = EvidenceModeSimulated \<and> evt_Verified (ev_Status ev) \<and>
    evt_Revoked (ev_Status ev) = evt_Revoked (ev_Status ev0) \<and> ev_Spec ev = ev_Spec ev0 \<and>
    (\<exists>a b s. (UpsertEvidence a b (evidence_mutation cfg report s), REvidence (Inr ev0)) \<in> set calls) \<and>
    (\<exists>rt. (Now, rt) \<in> set calls \<and> evt_LastVerifiedTime (ev_Status ev) = Some (as_time rt))"
proof -
  have "report_post P J cfg ns name calls" using ensures_run [OF Reconcile_report_ens assms(1)] .
  then obtain rep vtr oc ev0 rest where c: "calls = (GetReport ns name, RReport (Inr rep)) # vtr @
             (UpsertEvidence (om_Namespace (rar_Meta rep)) (evidenceName rep)
                (evidence_mutation cfg rep (oc_freshnessS oc)), REvidence (Inr ev0)) # rest"
    and s: "stamped cfg rep oc ev0 ev" "stamped_at oc ev rest"
    and o: "if rars_Simulated (rar_Spec rep) then oc = simulated_outcome
            else \<exists>res. oc = outcome_of cfg res \<and>
              maa_post P J (rars_RawToken (rar_Spec rep)) (report_opts cfg rep) res vtr"
    using assms(4) unfolding report_post_def by blast
  have rep: "rep = report" using c assms(2) by simp
  then have oc: "oc = simulated_outcome" using o assms(3) by simp
  show ?thesis
  proof (intro exI [of _ ev0] conjI)
    show "\<exists>a b s. (UpsertEvidence a b (evidence_mutation cfg report s), REvidence (Inr ev0)) \<in> set calls"
      using c rep by (auto intro: exI)
  qed (use s oc c stamped_fields [OF s(1)] in \<open>auto simp: outcome_modes stamped_def stamped_at_def\<close>)
qed

text \<open>What the scheduler makes of the evidence it lists.\<close>

lemma nodeHasValidEvidence_scans:
  "ensures (nodeHasValidEvidence srv node policy)
     (\<lambda>res tr. \<forall>evs. (ListEvidence, REvidences (Inr evs)) \<in> set tr \<longrightarrow>
        (\<exists>rt. (Now, rt) \<in> set tr \<and>
           res = scan_evidence (as_time rt) (node_Name node) policy NoValidEvidence False evs))"
  unfolding nodeHasValidEvidence_def by (intro ens) auto


section \<open>Revocation\<close>

lemma any_revokes_iff: "any_revokes now ev ps \<longleftrightarrow> (\<exists>p\<in>set ps. revokes now ev p)"
  by (induction ps) auto

definition evidence_post :: "string \<Rightarrow> string \<Rightarrow> log \<Rightarrow> bool" where
  "evidence_post ns name tr \<longleftrightarrow>
     (\<forall>ev' x. (StatusEvidence ev', x) \<in> set tr \<longrightarrow>
        (\<exists>ev ps rt. (GetEvidence ns name, REvidence (Inr ev)) \<in> set tr \<and>
           (ListRevocations (om_Namespace (ev_Meta ev)), RRevocations (Inr ps)) \<in> set tr \<and> (Now, rt) \<in> set tr \<and>
           ev_Spec ev' = ev_Spec ev \<and>
           evt_Revoked (ev_Status ev') = (\<exists>p\<in>set ps. revokes (as_time rt) ev p) \<and>
           evt_Verified (ev_Status ev') = self_verified (\<exists>p\<in>set ps. revokes (as_time rt) ev p) ev))"

lemma Reconcile_evidence_ens:
  "ensures (Reconcile_evidence kl srv ns name) (\<lambda>r tr. evidence_post ns name tr)"
  unfolding Reconcile_evidence_def isEvidenceRevoked_def setCondition_def Let_def
  by (intro ens_flat) (auto simp: evidence_post_def any_revokes_iff)


section \<open>Placement and key release\<close>

definition decision_post :: "string \<Rightarrow> string \<Rightarrow> log \<Rightarrow> bool" where
  "decision_post ns name tr \<longleftrightarrow>
     (\<forall>d x. (StatusDecision d, x) \<in> set tr \<longrightarrow>
        (\<exists>d0 pns ens ref policy ev. (GetDecision ns name, RDecision (Inr d0)) \<in> set tr \<and>
           (GetPolicy pns (ref_Name (apds_PolicyRef (apd_Spec d0))), RPolicy (Inr policy)) \<in> set tr \<and>
           apds_EvidenceRef (apd_Spec d0) = Some ref \<and> (GetEvidence ens (ref_Name ref), REvidence (Inr ev)) \<in> set tr \<and>
           apd_Spec d = apd_Spec d0 \<and>
           apdt_Decision (apd_Status d) = (if pd_Allow (placement_of policy ev) then ''allow'' else ''deny'')))"

lemma Reconcile_decision_ens:
  "ensures (Reconcile_decision P kl srv ns name) (\<lambda>r tr. decision_post ns name tr)"
  unfolding Reconcile_decision_def fetchConfidentialPolicy_def fetchAttestationEvidence_def setCondition_def Let_def
  by (intro ens_flat) (auto simp: decision_post_def)

definition key_policy_post :: "prims \<Rightarrow> (string \<Rightarrow> string) \<Rightarrow> string \<Rightarrow> string \<Rightarrow> log \<Rightarrow> bool" where
  "key_policy_post P syn ns name tr \<longleftrightarrow>
     (\<forall>p' x. (StatusKeyPolicy p', x) \<in> set tr \<longrightarrow>
        (\<exists>p verified revoked. (GetKeyPolicy ns name, RKeyPolicy (Inr p)) \<in> set tr \<and>
           (case krps_EvidenceRef (krp_Spec p) of
              None \<Rightarrow> \<not> verified \<and> \<not> revoked
            | Some ref \<Rightarrow> \<exists>ens ev. (GetEvidence ens (ref_Name ref), REvidence (Inr ev)) \<in> set tr \<and>
                verified = evt_Verified (ev_Status ev) \<and> revoked = evt_Revoked (ev_Status ev) \<and>
                (\<forall>ns' n' ev'. (GetEvidence ns' n', REvidence (Inr ev')) \<in> set tr \<longrightarrow> ev' = ev)) \<and>
           krp_Spec p' = krp_Spec p \<and>
           krpt_LastDecision (krp_Status p') =
             (if rs_Allowed (kr_Evaluate P syn 0 0 (policy_request p verified revoked)) then ''allow'' else ''deny'')))"

lemma Reconcile_key_policy_ens:
  "ensures (Reconcile_key_policy P syn kl srv ns name) (\<lambda>r tr. key_policy_post P syn ns name tr)"
  unfolding Reconcile_key_policy_def resolveEvidenceState_def setCondition_def Let_def
  by (intro ens_flat) (auto simp: key_policy_post_def)

section \<open>Properties\<close>

text \<open>C8. Evidence is real exactly when it was attested. Whatever the server does, the verifier reads the report, verifies
  its token (the calls \<open>vtr\<close>, all those before it first writes the evidence) and then writes. Evidence whose status it
  writes has mode \<open>real\<close> exactly when the report is not simulated and its token was accepted in those calls, for the nonce
  of the report, the configured TEE and the configured issuer; it counts as verified exactly when it is real or the
  report is simulated, in which case its mode is \<open>simulated\<close>. Everything else is \<open>unverified\<close>.\<close>

theorem real_evidence_was_attested:
  assumes "run (Reconcile_report kl srv cfg (VerifyMAAToken P J srv) ns name) st = (r, calls)"
    and "(StatusEvidence ev, x) \<in> set calls"
  shows "\<exists>report vtr mu ev0 rest. calls = (GetReport ns name, RReport (Inr report)) # vtr @
      (UpsertEvidence (om_Namespace (rar_Meta report)) (evidenceName report) mu, REvidence (Inr ev0)) # rest \<and>
    (\<forall>a b mu y. (UpsertEvidence a b mu, y) \<notin> set vtr) \<and>
    (evt_EvidenceMode (ev_Status ev) = EvidenceModeReal \<longleftrightarrow> \<not> rars_Simulated (rar_Spec report) \<and>
       maa_accepts J (rars_RawToken (rar_Spec report)) (report_opts cfg report) vtr) \<and>
    (evt_Verified (ev_Status ev) \<longleftrightarrow>
       evt_EvidenceMode (ev_Status ev) = EvidenceModeReal \<or> rars_Simulated (rar_Spec report)) \<and>
    (rars_Simulated (rar_Spec report) \<longrightarrow> evt_EvidenceMode (ev_Status ev) = EvidenceModeSimulated) \<and>
    (\<not> evt_Verified (ev_Status ev) \<longrightarrow> evt_EvidenceMode (ev_Status ev) = EvidenceModeUnverified) \<and>
    evt_Nonce (ev_Status ev) = rars_Nonce (rar_Spec report)"
proof -
  have "report_post P J cfg ns name calls" using ensures_run [OF Reconcile_report_ens assms(1)] .
  then obtain report vtr oc ev0 rest where c: "calls = (GetReport ns name, RReport (Inr report)) # vtr @
             (UpsertEvidence (om_Namespace (rar_Meta report)) (evidenceName report)
                (evidence_mutation cfg report (oc_freshnessS oc)), REvidence (Inr ev0)) # rest"
    and n: "no_writes vtr" and s: "stamped cfg report oc ev0 ev"
    and o: "if rars_Simulated (rar_Spec report) then oc = simulated_outcome
            else \<exists>res. oc = outcome_of cfg res \<and>
              maa_post P J (rars_RawToken (rar_Spec report)) (report_opts cfg report) res vtr"
    using assms(2) unfolding report_post_def by blast
  have "\<forall>a b mu y. (UpsertEvidence a b mu, y) \<notin> set vtr" using n by (simp add: no_writes_def)
  then show ?thesis
    by (intro exI [of _ report] exI [of _ vtr] exI [of _ "evidence_mutation cfg report (oc_freshnessS oc)"] exI [of _ ev0]
        exI [of _ rest])
      (use c o stamped_fields [OF s] in \<open>auto simp: outcome_modes maa_post_def split: if_splits\<close>)
qed

definition demo_report :: RawAttestationReport where
  "demo_report = \<lparr>rar_Meta = newMeta ''rep'' ''ai'',
     rar_Spec = \<lparr>rars_NodeName = ''node-1'', rars_NodeUID = ''u1'', rars_Provider = ''simulator'', rars_RawToken = '''',
       rars_RawTokenHash = '''', rars_Nonce = ''n1'', rars_CollectedAt = 0, rars_AgentPodUID = '''',
       rars_AgentServiceAccount = '''', rars_Simulated = True\<rparr>,
     rar_Status = \<lparr>rart_ObservedGeneration = 0, rart_Processed = False, rart_EvidenceRef = '''',
       rart_VerificationStatus = '''', rart_Conditions = []\<rparr>\<rparr>"

definition demo_conf :: verifierConf where
  "demo_conf = setup_conf ''uid'' \<lparr>vc_VerifierIdentity = '''', vc_VerifierPodUID = '''', vc_ExpectedTEE = '''',
     vc_MAAIssuerPrefix = '''', vc_MaxTokenAge = 0\<rparr>"

definition blank_evidence :: AttestationEvidence where
  "blank_evidence = \<lparr>ev_Meta = newMeta ''evidence-node-1'' ''ai'', ev_Spec = zero_ev_spec, ev_Status = zero_ev_status\<rparr>"

definition verifier_srv :: "unit server" where
  "verifier_srv c st = (case c of
       Now \<Rightarrow> RTime (60 * Second)
     | GetReport ns name \<Rightarrow> RReport (Inr demo_report)
     | UpsertEvidence ns name mutate \<Rightarrow> REvidence (Inr (mutate blank_evidence))
     | StatusEvidence ev \<Rightarrow> REvidence (Inr ev)
     | StatusReport report \<Rightarrow> RReport (Inr report)
     | _ \<Rightarrow> RUnit None, st)"

definition list_srv :: "AttestationEvidence list \<Rightarrow> unit server" where
  "list_srv evs c st = (case c of
       ListEvidence \<Rightarrow> REvidences (Inr evs)
     | Now \<Rightarrow> RTime (90 * Second)
     | _ \<Rightarrow> RUnit None, st)"

lemma verifier_run:
  "run (Reconcile_report demo_kl verifier_srv demo_conf (VerifyMAAToken P J verifier_srv) ''ai'' ''rep'') () =
     (Inr (CRequeueAfter (60 * Second)),
      let ev = evidence_mutation demo_conf demo_report 0 blank_evidence;
          ev' = ev\<lparr>ev_Status := (evidence_status demo_conf demo_report simulated_outcome ev)
                    \<lparr>evt_LastVerifiedTime := Some (60 * Second), evt_Conditions := [readyTrue 0 ''attestation verified'']\<rparr>\<rparr> in
      [(GetReport ''ai'' ''rep'', RReport (Inr demo_report)),
       (UpsertEvidence ''ai'' ''evidence-node-1'' (evidence_mutation demo_conf demo_report 0), REvidence (Inr ev)),
       (Now, RTime (60 * Second)), (Now, RTime (60 * Second)),
       (StatusEvidence ev', REvidence (Inr ev')),
       (StatusReport (mark_processed simulated_outcome demo_report), RReport (Inr (mark_processed simulated_outcome demo_report)))])"
  by (simp add: run_def Reconcile_report_def verify_report_def verifier_srv_def stamp_status_def setCondition_def Let_def
      simulated_outcome_def evidence_status_def)
    (simp add: demo_report_def demo_kl_def evidenceName_def newMeta_def mark_processed_def evidence_mutation_def
      blank_evidence_def zero_ev_status_def simulatedEvidenceRefreshInterval_def)

theorem real_evidence_was_attested_witness:
  "\<exists>ev x r calls. run (Reconcile_report demo_kl verifier_srv demo_conf (VerifyMAAToken demo_prims demo_jwt verifier_srv) ''ai'' ''rep'') () = (r, calls) \<and>
     (StatusEvidence ev, x) \<in> set calls \<and> evt_Verified (ev_Status ev) \<and> evt_EvidenceMode (ev_Status ev) = EvidenceModeSimulated"
proof -
  obtain ev x r calls where m: "run (Reconcile_report demo_kl verifier_srv demo_conf
      (VerifyMAAToken demo_prims demo_jwt verifier_srv) ''ai'' ''rep'') () = (r, calls)"
    "(StatusEvidence ev, x) \<in> set calls" and g: "hd calls = (GetReport ''ai'' ''rep'', RReport (Inr demo_report))"
    using verifier_run [of demo_prims demo_jwt] by (auto simp: Let_def)
  from real_evidence_was_attested [OF m] g m show ?thesis by (auto simp: demo_report_def)
qed

text \<open>C23. What revokes evidence, exactly: the status that the evidence reconciler writes is revoked precisely when some
  policy in the namespace of the evidence has an \<open>evidenceRef\<close> of its name and has not expired at the time read, also
  when that reference gives another namespace; a policy without an \<open>evidenceRef\<close> revokes nothing, whatever its
  \<open>target\<close>. Revoked evidence is never verified, and evidence that is not revoked counts as verified precisely when it
  is simulated or carries a digest or a signature.\<close>

theorem evidence_revocation_exact:
  assumes "run (Reconcile_evidence kl srv ns name) st = (r, calls)" and "(StatusEvidence ev', x) \<in> set calls"
  shows "\<exists>ev ps rt. (GetEvidence ns name, REvidence (Inr ev)) \<in> set calls \<and>
    (ListRevocations (om_Namespace (ev_Meta ev)), RRevocations (Inr ps)) \<in> set calls \<and> (Now, rt) \<in> set calls \<and>
    (evt_Revoked (ev_Status ev') \<longleftrightarrow> (\<exists>p\<in>set ps. \<exists>ref. rvs_EvidenceRef (rv_Spec p) = Some ref \<and>
       ref_Name ref = om_Name (ev_Meta ev) \<and> (\<forall>e. rvt_ExpiresAt (rv_Status p) = Some e \<longrightarrow> as_time rt \<le> e))) \<and>
    (evt_Verified (ev_Status ev') \<longleftrightarrow> \<not> evt_Revoked (ev_Status ev') \<and>
       (evs_Simulated (ev_Spec ev) \<or> evs_Digest (ev_Spec ev) \<noteq> '''' \<or> evs_Signatures (ev_Spec ev) \<noteq> []))"
proof -
  have rv: "revokes now ev p \<longleftrightarrow> (\<exists>ref. rvs_EvidenceRef (rv_Spec p) = Some ref \<and> ref_Name ref = om_Name (ev_Meta ev) \<and>
      (\<forall>e. rvt_ExpiresAt (rv_Status p) = Some e \<longrightarrow> now \<le> e))" for now ev p
    by (auto simp: revokes_def not_less split: option.splits)
  show ?thesis
    using ensures_run [OF Reconcile_evidence_ens assms(1)] assms(2)
    unfolding evidence_post_def rv self_verified_def by blast
qed

definition demo_revocation :: AIRevocationPolicy where
  "demo_revocation = \<lparr>rv_Meta = newMeta ''rv'' ''ai'',
     rv_Spec = \<lparr>rvs_Target = \<lparr>wt_NamespaceSelector = None, wt_WorkloadSelector = None\<rparr>,
       rvs_EvidenceRef = Some \<lparr>ref_Name = ''ev'', ref_Namespace = ''''\<rparr>, rvs_PlacementRef = None,
       rvs_Reasons = [''compromised''], rvs_TTLSeconds = 3600, rvs_Audit = \<lparr>aud_Required = False, aud_Level = ''''\<rparr>\<rparr>,
     rv_Status = \<lparr>rvt_ObservedGeneration = 0, rvt_Active = False, rvt_ExpiresAt = None, rvt_Conditions = []\<rparr>\<rparr>"

text \<open>The namespace of the reference and the target of the policy are not looked at, and a policy that names its subjects by
  its target alone revokes no evidence.\<close>

theorem revocation_by_name_only:
  "revokes now ev (p\<lparr>rv_Spec := (rv_Spec p)\<lparr>rvs_Target := t,
       rvs_EvidenceRef := map_option (ref_Namespace_update (\<lambda>_. n)) (rvs_EvidenceRef (rv_Spec p))\<rparr>\<rparr>) = revokes now ev p \<and>
   \<not> revokes now ev (p\<lparr>rv_Spec := (rv_Spec p)\<lparr>rvs_Target := t, rvs_EvidenceRef := None\<rparr>\<rparr>)"
  by (auto simp: revokes_def split: option.splits)

definition demo_key_policy :: AIKeyReleasePolicy where
  "demo_key_policy = \<lparr>krp_Meta = newMeta ''kp'' ''ai'',
     krp_Spec = \<lparr>krps_Target = \<lparr>wt_NamespaceSelector = None, wt_WorkloadSelector = None\<rparr>,
       krps_EvidenceRef = Some \<lparr>ref_Name = ''ev'', ref_Namespace = ''''\<rparr>, krps_RequireAttestedEvidence = True,
       krps_KeyRelease = \<lparr>kr_Required = True, kr_TTLSeconds = 60\<rparr>, krps_AllowedSecrets = [],
       krps_Audit = \<lparr>aud_Required = False, aud_Level = ''''\<rparr>, krps_EnforcementMode = ''enforce''\<rparr>,
     krp_Status = \<lparr>krpt_ObservedGeneration = 0, krpt_LastDecision = '''', krpt_LastDecisionTime = None,
       krpt_Conditions = []\<rparr>\<rparr>"

definition ctrl_srv :: "unit server" where
  "ctrl_srv c st = (case c of
       ListRevocations ns \<Rightarrow> RRevocations (Inr [demo_revocation])
     | StatusEvidence ev \<Rightarrow> REvidence (Inr ev)
     | GetDecision ns name \<Rightarrow> RDecision (Inr ((newDecision demo_pod)\<lparr>apd_Spec := zero_apd_spec
         \<lparr>apds_EvidenceRef := Some \<lparr>ref_Name = ''ev'', ref_Namespace = ''''\<rparr>\<rparr>\<rparr>))
     | StatusDecision d \<Rightarrow> RDecision (Inr d)
     | GetKeyPolicy ns name \<Rightarrow> RKeyPolicy (Inr demo_key_policy)
     | StatusKeyPolicy p \<Rightarrow> RKeyPolicy (Inr p)
     | _ \<Rightarrow> demo_reply c, st)"

theorem evidence_revocation_exact_witness:
  "\<exists>ev' x r calls. run (Reconcile_evidence demo_kl ctrl_srv ''ai'' ''ev'') () = (r, calls) \<and>
     (StatusEvidence ev', x) \<in> set calls \<and> evt_Revoked (ev_Status ev') \<and> \<not> evt_Verified (ev_Status ev')"
proof -
  let ?m = "Reconcile_evidence demo_kl ctrl_srv ''ai'' ''ev''"
  obtain ev' x where e: "(StatusEvidence ev', x) \<in> set (snd (run ?m ()))" "evt_Revoked (ev_Status ev')"
    by (simp add: run_def Reconcile_evidence_def isEvidenceRevoked_def ctrl_srv_def setCondition_def Let_def revokes_def)
      (simp add: demo_revocation_def demo_ev_def newMeta_def self_verified_def)
  have r: "run ?m () = (fst (run ?m ()), snd (run ?m ()))" by simp
  from evidence_revocation_exact [OF r e(1)] have "\<not> evt_Verified (ev_Status ev')" using e(2) by blast
  with e r show ?thesis by blast
qed

text \<open>C25. The placement reconciler's verdict depends on revocation, the declared maximal age and the TEE
  alone: it writes \<open>allow\<close> for evidence that was never verified and for evidence of any actual age, so
  a stored \<open>deny\<close> of the scheduler can turn into \<open>allow\<close>.\<close>

theorem placement_reconciler_verdict:
  assumes "run (Reconcile_decision P kl srv ns name) st = (r, calls)" and "(StatusDecision d, x) \<in> set calls"
  shows "\<exists>pns pn ens en policy ev. (GetPolicy pns pn, RPolicy (Inr policy)) \<in> set calls \<and>
    (GetEvidence ens en, REvidence (Inr ev)) \<in> set calls \<and>
    (apdt_Decision (apd_Status d) = ''allow'' \<longleftrightarrow> \<not> evt_Revoked (ev_Status ev) \<and>
       (cips_MaxEvidenceAgeSeconds (cip_Spec policy) \<le> 0 \<or>
        fr_MaxAgeSeconds (evs_Freshness (ev_Spec ev)) \<le> cips_MaxEvidenceAgeSeconds (cip_Spec policy)) \<and>
       (cips_RequiredTEE (cip_Spec policy) = [] \<or>
        (\<exists>t\<in>set (cips_RequiredTEE (cip_Spec policy)). EqualFold (TrimSpace t) (TrimSpace (evs_TEE (ev_Spec ev))))))"
proof -
  obtain d0 pns ens policy ev and ref :: ObjectReference where "(GetDecision ns name, RDecision (Inr d0)) \<in> set calls"
    and r: "(GetPolicy pns (ref_Name (apds_PolicyRef (apd_Spec d0))), RPolicy (Inr policy)) \<in> set calls"
    "(GetEvidence ens (ref_Name ref), REvidence (Inr ev)) \<in> set calls"
    "apdt_Decision (apd_Status d) = (if pd_Allow (placement_of policy ev) then ''allow'' else ''deny'')"
    using ensures_run [OF Reconcile_decision_ens assms(1)] assms(2) unfolding decision_post_def by blast
  show ?thesis
    by (intro exI [of _ pns] exI [of _ "ref_Name (apds_PolicyRef (apd_Spec d0))"] exI [of _ ens] exI [of _ "ref_Name ref"]
        exI [of _ policy] exI [of _ ev])
      (use r in \<open>auto simp: placement_of_def Evaluate_def refuse_def tee_matched_iff not_less not_le\<close>)
qed

theorem placement_reconciler_verdict_witness:
  "\<exists>d x r calls. run (Reconcile_decision demo_prims demo_kl ctrl_srv ''ai'' ''d'') () = (r, calls) \<and>
     (StatusDecision d, x) \<in> set calls \<and>
     (\<exists>ens en ev. (GetEvidence ens en, REvidence (Inr ev)) \<in> set calls \<and>
        (apdt_Decision (apd_Status d) = ''allow'' \<longrightarrow> \<not> evt_Revoked (ev_Status ev)))"
proof -
  let ?m = "Reconcile_decision demo_prims demo_kl ctrl_srv ''ai'' ''d''"
  obtain d x where e: "(StatusDecision d, x) \<in> set (snd (run ?m ()))"
    by (simp add: run_def Reconcile_decision_def fetchConfidentialPolicy_def fetchAttestationEvidence_def ctrl_srv_def
        setCondition_def Let_def)
  have r: "run ?m () = (fst (run ?m ()), snd (run ?m ()))" by simp
  from placement_reconciler_verdict [OF r e] e r show ?thesis by blast
qed

text \<open>C26. The verdict of the key release reconciler, exactly. A policy whose \<open>keyRelease\<close> is not required is allowed, with or
  without evidence, even when it sets \<open>requireAttestedEvidence\<close>; one that requires release is allowed exactly when its
  lifetime is positive and the evidence it refers to was read, is verified and not revoked, so that without
  an \<open>evidenceRef\<close> it is denied. The enforcement mode makes no difference.\<close>

theorem key_policy_verdict:
  assumes "run (Reconcile_key_policy P syn kl srv ns name) st = (r, calls)" and "(StatusKeyPolicy p', x) \<in> set calls"
  shows "\<exists>p. (GetKeyPolicy ns name, RKeyPolicy (Inr p)) \<in> set calls \<and> krp_Spec p' = krp_Spec p \<and>
    krpt_LastDecision (krp_Status p') \<in> {''allow'', ''deny''} \<and>
    (krpt_LastDecision (krp_Status p') = ''allow'' \<longleftrightarrow> \<not> kr_Required (krps_KeyRelease (krp_Spec p)) \<or>
       0 < kr_TTLSeconds (krps_KeyRelease (krp_Spec p)) \<and>
       (\<exists>ref ens ev. krps_EvidenceRef (krp_Spec p) = Some ref \<and>
          (GetEvidence ens (ref_Name ref), REvidence (Inr ev)) \<in> set calls \<and>
          evt_Verified (ev_Status ev) \<and> \<not> evt_Revoked (ev_Status ev)))"
proof -
  have ev: "rs_Allowed (kr_Evaluate P syn 0 0 (policy_request p verified revoked)) \<longleftrightarrow>
      \<not> kr_Required (krps_KeyRelease (krp_Spec p)) \<or>
      0 < kr_TTLSeconds (krps_KeyRelease (krp_Spec p)) \<and> \<not> revoked \<and> verified" for p verified revoked
    by (auto simp: kr_Evaluate_def policy_request_def deny_def)
  obtain p verified revoked where p: "(GetKeyPolicy ns name, RKeyPolicy (Inr p)) \<in> set calls" "krp_Spec p' = krp_Spec p"
    and e: "case krps_EvidenceRef (krp_Spec p) of
        None \<Rightarrow> \<not> verified \<and> \<not> revoked
      | Some ref \<Rightarrow> \<exists>ens ev. (GetEvidence ens (ref_Name ref), REvidence (Inr ev)) \<in> set calls \<and>
          verified = evt_Verified (ev_Status ev) \<and> revoked = evt_Revoked (ev_Status ev) \<and>
          (\<forall>ns' n' ev'. (GetEvidence ns' n', REvidence (Inr ev')) \<in> set calls \<longrightarrow> ev' = ev)"
    and d: "krpt_LastDecision (krp_Status p') =
      (if rs_Allowed (kr_Evaluate P syn 0 0 (policy_request p verified revoked)) then ''allow'' else ''deny'')"
    using ensures_run [OF Reconcile_key_policy_ens assms(1)] assms(2) unfolding key_policy_post_def by blast
  have "(\<exists>ref ens ev. krps_EvidenceRef (krp_Spec p) = Some ref \<and>
      (GetEvidence ens (ref_Name ref), REvidence (Inr ev)) \<in> set calls \<and>
      evt_Verified (ev_Status ev) \<and> \<not> evt_Revoked (ev_Status ev)) \<longleftrightarrow> \<not> revoked \<and> verified"
    using e by (auto split: option.splits)
  then show ?thesis using p d unfolding ev by auto
qed

theorem key_policy_verdict_witness:
  "\<exists>p' x r calls. run (Reconcile_key_policy demo_prims (\<lambda>_. '''') demo_kl ctrl_srv ''ai'' ''kp'') () = (r, calls) \<and>
     (StatusKeyPolicy p', x) \<in> set calls \<and> krpt_LastDecision (krp_Status p') = ''allow''"
proof -
  let ?m = "Reconcile_key_policy demo_prims (\<lambda>_. '''') demo_kl ctrl_srv ''ai'' ''kp''"
  have k: "krps_EvidenceRef (krp_Spec demo_key_policy) = Some \<lparr>ref_Name = ''ev'', ref_Namespace = ''''\<rparr>"
    "0 < kr_TTLSeconds (krps_KeyRelease (krp_Spec demo_key_policy))" "om_Namespace (krp_Meta demo_key_policy) = ''ai''"
    by (simp_all add: demo_key_policy_def newMeta_def)
  then obtain p' x where e: "(StatusKeyPolicy p', x) \<in> set (snd (run ?m ()))"
    and g: "(GetEvidence ''ai'' ''ev'', REvidence (Inr demo_ev)) \<in> set (snd (run ?m ()))"
    and p: "\<And>p. (GetKeyPolicy ''ai'' ''kp'', RKeyPolicy (Inr p)) \<in> set (snd (run ?m ())) \<Longrightarrow> p = demo_key_policy"
    by (simp add: run_def Reconcile_key_policy_def resolveEvidenceState_def ctrl_srv_def setCondition_def Let_def)
  have r: "run ?m () = (fst (run ?m ()), snd (run ?m ()))" by simp
  have d: "evt_Verified (ev_Status demo_ev)" "\<not> evt_Revoked (ev_Status demo_ev)"
    by (simp_all add: demo_ev_def zero_ev_status_def)
  obtain p where v: "(GetKeyPolicy ''ai'' ''kp'', RKeyPolicy (Inr p)) \<in> set (snd (run ?m ()))"
    and q: "krpt_LastDecision (krp_Status p') = ''allow'' \<longleftrightarrow> \<not> kr_Required (krps_KeyRelease (krp_Spec p)) \<or>
       0 < kr_TTLSeconds (krps_KeyRelease (krp_Spec p)) \<and>
       (\<exists>ref ens ev. krps_EvidenceRef (krp_Spec p) = Some ref \<and>
          (GetEvidence ens (ref_Name ref), REvidence (Inr ev)) \<in> set (snd (run ?m ())) \<and>
          evt_Verified (ev_Status ev) \<and> \<not> evt_Revoked (ev_Status ev))"
    using key_policy_verdict [OF r e] by blast
  have "krpt_LastDecision (krp_Status p') = ''allow''"
    unfolding q p [OF v] using k g d by (intro disjI2 conjI exI [of _ "\<lparr>ref_Name = ''ev'', ref_Namespace = ''''\<rparr>"]) auto
  with e r show ?thesis by blast
qed

text \<open>C24. A simulated report suffices for the scheduler. The report is the node agent's own statement; when it says that
  it is simulated, the verifier writes evidence without looking at any token, and when the scheduler afterwards reads
  evidence among which this is, it finds the node to have valid evidence, and returns this one where no other is about
  the node: neither the mode nor the simulation mark is looked at. The server is taken to keep the spec that the verifier
  gives it and to return evidence that is not revoked at that time; of the policy, that it allows the TEE the verifier
  is configured for, and that the scheduler reads its clock within the policy's age of the times the verifier read.\<close>

theorem simulated_report_qualifies_node:
  assumes "run (Reconcile_report kl srv cfg (VerifyMAAToken P J srv) ns name) st = (r, calls)"
    and "(GetReport ns name, RReport (Inr report)) = hd calls" and "rars_Simulated (rar_Spec report)"
    and "(StatusEvidence ev, x) \<in> set calls"
    and "\<forall>a b mu ev0. (UpsertEvidence a b mu, REvidence (Inr ev0)) \<in> set calls \<longrightarrow>
           (\<exists>e. ev_Spec ev0 = ev_Spec (mu e)) \<and> \<not> evt_Revoked (ev_Status ev0)"
    and "run (nodeHasValidEvidence srv' node policy) st' = (res, calls')"
    and "node_Name node = rars_NodeName (rar_Spec report)"
    and "(ListEvidence, REvidences (Inr evs)) \<in> set calls'" and "ev \<in> set evs" and "age_int32 policy"
    and "\<forall>p. policy = Some p \<longrightarrow> cips_RequiredTEE (cip_Spec p) = [] \<or>
           teeMatches (teeFromAttestationType (vc_ExpectedTEE cfg)) (cips_RequiredTEE (cip_Spec p))"
    and "\<forall>p rt rt'. policy = Some p \<longrightarrow> (Now, rt) \<in> set calls \<longrightarrow> (Now, rt') \<in> set calls' \<longrightarrow>
           0 < cips_MaxEvidenceAgeSeconds (cip_Spec p) \<longrightarrow>
           as_time rt' - as_time rt \<le> cips_MaxEvidenceAgeSeconds (cip_Spec p) * Second"
  shows "evt_EvidenceMode (ev_Status ev) = EvidenceModeSimulated \<and> (\<exists>ev'. res = Inr ev') \<and>
    ((\<forall>e\<in>set evs. ref_Name (evs_SubjectRef (ev_Spec e)) = node_Name node \<longrightarrow> e = ev) \<longrightarrow> res = Inr ev)"
proof -
  obtain ev0 where m: "evt_EvidenceMode (ev_Status ev) = EvidenceModeSimulated" "evt_Verified (ev_Status ev)"
      "evt_Revoked (ev_Status ev) = evt_Revoked (ev_Status ev0)" "ev_Spec ev = ev_Spec ev0"
    and u: "\<exists>a b s. (UpsertEvidence a b (evidence_mutation cfg report s), REvidence (Inr ev0)) \<in> set calls"
    and t: "\<exists>rt. (Now, rt) \<in> set calls \<and> evt_LastVerifiedTime (ev_Status ev) = Some (as_time rt)"
    using simulated_evidence_written [OF assms(1-4)] by blast
  obtain e s where e: "ev_Spec ev0 = ev_Spec (evidence_mutation cfg report s e)" and nr: "\<not> evt_Revoked (ev_Status ev0)"
    using u assms(5) by blast
  obtain rt' where now: "(Now, rt') \<in> set calls'"
    and res: "res = scan_evidence (as_time rt') (node_Name node) policy NoValidEvidence False evs"
    using ensures_run [OF nodeHasValidEvidence_scans assms(6)] assms(8) by blast
  have "tee_allowed policy ev"
    using assms(3,11) m(4) e by (auto simp: tee_allowed_def teeMatches_iff evidence_mutation_def)
  moreover have "fresh_for (as_time rt') policy ev" using t now assms(12) by (auto simp: fresh_for_def)
  ultimately have acc: "acceptable (as_time rt') (node_Name node) policy ev"
    using m nr e assms(7) by (simp add: acceptable_def evidence_mutation_def)
  then obtain ev' where f: "find (acceptable (as_time rt') (node_Name node) policy) evs = Some ev'"
    using assms(9) by (metis find_None_iff option.exhaust)
  moreover have "ev' \<in> set evs" "acceptable (as_time rt') (node_Name node) policy ev'"
    using f by (auto simp: find_Some_iff)
  moreover have "res = Inr ev'" unfolding res scan_evidence_find [OF assms(10)] by (rule f)
  ultimately show ?thesis using m(1) by (auto simp: acceptable_def)
qed

theorem simulated_report_qualifies_node_witness:
  "\<exists>ev r calls calls'.
     run (Reconcile_report demo_kl verifier_srv demo_conf (VerifyMAAToken demo_prims demo_jwt verifier_srv) ''ai'' ''rep'') () = (r, calls) \<and>
     (StatusEvidence ev, REvidence (Inr ev)) \<in> set calls \<and>
     run (nodeHasValidEvidence (list_srv [ev]) (hd (cl_Nodes demo_cluster)) (Some demo_cip)) () = (Inr ev, calls')"
proof -
  let ?m = "Reconcile_report demo_kl verifier_srv demo_conf (VerifyMAAToken demo_prims demo_jwt verifier_srv) ''ai'' ''rep''"
  let ?base = "evidence_mutation demo_conf demo_report 0 blank_evidence"
  let ?e = "?base\<lparr>ev_Status := (evidence_status demo_conf demo_report simulated_outcome ?base)
                    \<lparr>evt_LastVerifiedTime := Some (60 * Second), evt_Conditions := [readyTrue 0 ''attestation verified'']\<rparr>\<rparr>"
  let ?n = "hd (cl_Nodes demo_cluster)"
  obtain r calls where run: "run ?m () = (r, calls)" by (cases "run ?m ()")
  obtain res calls' where sched: "run (nodeHasValidEvidence (list_srv [?e]) ?n (Some demo_cip)) () = (res, calls')"
    by (cases "run (nodeHasValidEvidence (list_srv [?e]) ?n (Some demo_cip)) ()")
  note v = verifier_run [of demo_prims demo_jwt, unfolded run Let_def]
  have g: "(GetReport ''ai'' ''rep'', RReport (Inr demo_report)) = hd calls" using v by simp
  have e: "(StatusEvidence ?e, REvidence (Inr ?e)) \<in> set calls" using v by simp
  have u: "\<forall>a b mu ev0. (UpsertEvidence a b mu, REvidence (Inr ev0)) \<in> set calls \<longrightarrow>
      (\<exists>e. ev_Spec ev0 = ev_Spec (mu e)) \<and> \<not> evt_Revoked (ev_Status ev0)"
  proof (intro allI impI)
    fix a b mu ev0
    assume "(UpsertEvidence a b mu, REvidence (Inr ev0)) \<in> set calls"
    then have "mu = evidence_mutation demo_conf demo_report 0" "ev0 = ?base" using v by auto
    then show "(\<exists>e. ev_Spec ev0 = ev_Spec (mu e)) \<and> \<not> evt_Revoked (ev_Status ev0)"
      by (intro conjI exI [of _ blank_evidence]) (simp_all add: evidence_mutation_def blank_evidence_def zero_ev_status_def)
  qed
  have sim: "rars_Simulated (rar_Spec demo_report)" by (simp add: demo_report_def)
  have n: "node_Name ?n = rars_NodeName (rar_Spec demo_report)" by (simp add: demo_cluster_def demo_report_def)
  have c: "calls' = [(ListEvidence, REvidences (Inr [?e])), (Now, RTime (90 * Second))]"
    using sched by (auto simp: run_def nodeHasValidEvidence_def list_srv_def)
  have l: "(ListEvidence, REvidences (Inr [?e])) \<in> set calls'" and i: "?e \<in> set [?e]" unfolding c by simp_all
  have a: "age_int32 (Some demo_cip)" by (simp add: age_int32_def demo_cip_def demo_cip_spec_def int32_def)
  have t: "\<forall>p. Some demo_cip = Some p \<longrightarrow> cips_RequiredTEE (cip_Spec p) = [] \<or>
      teeMatches (teeFromAttestationType (vc_ExpectedTEE demo_conf)) (cips_RequiredTEE (cip_Spec p))"
    by (simp add: demo_cip_def demo_cip_spec_def teeFromAttestationType_def demo_conf_def setup_conf_def)
  have f: "\<forall>p rt rt'. Some demo_cip = Some p \<longrightarrow> (Now, rt) \<in> set calls \<longrightarrow> (Now, rt') \<in> set calls' \<longrightarrow>
      0 < cips_MaxEvidenceAgeSeconds (cip_Spec p) \<longrightarrow>
      as_time rt' - as_time rt \<le> cips_MaxEvidenceAgeSeconds (cip_Spec p) * Second"
    using v unfolding c by (auto simp: demo_cip_def demo_cip_spec_def Second_def)
  have "res = Inr ?e" using simulated_report_qualifies_node [OF run g sim e u sched n l i a t f] by simp
  with run e sched show ?thesis by blast
qed

end
