(* ===== verification/End_To_End.thy ===== *)
theory End_To_End
  imports Controller_Properties
begin

text \<open>
  From the attestation of a node to the binding of a pod: the central verifier and the scheduler together.
  They share the \<open>AttestationEvidence\<close> objects only; that the verifier is the one who writes them is a
  matter of the cluster's access rules, and is stated as \<open>verifier_wrote\<close>.
\<close>

text \<open>Evidence whose spec and status are those a run of the verifier submitted, on a server that keeps the
  spec it is given.\<close>

definition verifier_wrote :: "klib \<Rightarrow> 's server \<Rightarrow> verifierConf \<Rightarrow> prims \<Rightarrow> jwtlib \<Rightarrow> AttestationEvidence \<Rightarrow> bool" where
  "verifier_wrote kl srv cfg P J ev \<longleftrightarrow>
     (\<exists>ns name st r calls written x.
        run (Reconcile_report kl srv cfg (VerifyMAAToken P J srv) ns name) st = (r, calls) \<and>
        (StatusEvidence written, x) \<in> set calls \<and>
        (\<forall>a b mu ev0. (UpsertEvidence a b mu, REvidence (Inr ev0)) \<in> set calls \<longrightarrow> (\<exists>e. ev_Spec ev0 = ev_Spec (mu e))) \<and>
        ev_Spec ev = ev_Spec written \<and> ev_Status ev = ev_Status written)"

text \<open>A report about a node that was attested, or that says it is simulated.\<close>

definition attested :: "verifierConf \<Rightarrow> jwtlib \<Rightarrow> AttestationEvidence \<Rightarrow> RawAttestationReport \<Rightarrow> bool" where
  "attested cfg J ev report \<longleftrightarrow>
     rars_NodeName (rar_Spec report) = ref_Name (evs_SubjectRef (ev_Spec ev)) \<and>
     rars_Nonce (rar_Spec report) = evt_Nonce (ev_Status ev) \<and>
     (if rars_Simulated (rar_Spec report)
      then evs_Simulated (ev_Spec ev) \<and> evt_EvidenceMode (ev_Status ev) = EvidenceModeSimulated
      else \<not> evs_Simulated (ev_Spec ev) \<and> evt_EvidenceMode (ev_Status ev) = EvidenceModeReal \<and>
        (\<exists>vtr. maa_accepts J (rars_RawToken (rar_Spec report)) (report_opts cfg report) vtr))"

lemma verifier_wrote_attested:
  assumes "verifier_wrote kl srv cfg P J ev" and "evt_Verified (ev_Status ev)"
  shows "\<exists>report. attested cfg J ev report"
proof -
  from assms(1) obtain ns name st r calls written x where
    run: "run (Reconcile_report kl srv cfg (VerifyMAAToken P J srv) ns name) st = (r, calls)"
    and w: "(StatusEvidence written, x) \<in> set calls"
    and u: "\<forall>a b mu ev0. (UpsertEvidence a b mu, REvidence (Inr ev0)) \<in> set calls \<longrightarrow> (\<exists>e. ev_Spec ev0 = ev_Spec (mu e))"
    and same: "ev_Spec ev = ev_Spec written" "ev_Status ev = ev_Status written"
    unfolding verifier_wrote_def by blast
  have "report_post P J cfg ns name calls" using ensures_run [OF Reconcile_report_ens run] .
  then obtain report vtr oc ev0 rest where
    c: "calls = (GetReport ns name, RReport (Inr report)) # vtr @
             (UpsertEvidence (om_Namespace (rar_Meta report)) (evidenceName report)
                (evidence_mutation cfg report (oc_freshnessS oc)), REvidence (Inr ev0)) # rest"
    and s: "stamped cfg report oc ev0 written"
    and o: "if rars_Simulated (rar_Spec report) then oc = simulated_outcome
            else \<exists>res. oc = outcome_of cfg res \<and>
              maa_post P J (rars_RawToken (rar_Spec report)) (report_opts cfg report) res vtr"
    using w unfolding report_post_def by blast
  obtain e where "ev_Spec ev0 = ev_Spec (evidence_mutation cfg report (oc_freshnessS oc) e)"
    using u c by fastforce
  then have f: "ref_Name (evs_SubjectRef (ev_Spec ev)) = rars_NodeName (rar_Spec report)"
    "evs_Simulated (ev_Spec ev) = rars_Simulated (rar_Spec report)"
    using s same by (simp_all add: stamped_def evidence_mutation_def)
  have "attested cfg J ev report"
    using f o same assms(2) stamped_fields [OF s]
    by (auto simp: attested_def outcome_modes maa_post_def split: if_splits)
  then show ?thesis by blast
qed

text \<open>The evidence behind a justified binding was listed and acceptable for its node.\<close>

lemma justified_evidence:
  assumes "justified_binding P kl pod sel pre"
    and "\<forall>ns ps p. (ListPolicies ns, RPolicies (Inr ps)) \<in> set pre \<longrightarrow> p \<in> set ps \<longrightarrow>
           int32 (cips_MaxEvidenceAgeSeconds (cip_Spec p))"
  shows "\<exists>policy ev evs rt. policy_found kl pod policy pre \<and> (ListEvidence, REvidences (Inr evs)) \<in> set pre \<and>
    ev \<in> set evs \<and> (Now, rt) \<in> set pre \<and> acceptable (as_time rt) (node_Name (nc_Node sel)) policy ev"
proof -
  from assms(1) obtain policy nodes ev where pf: "policy_found kl pod policy pre"
    and ok: "cand_ok kl pod policy nodes pre sel" "nc_Evidence sel = Some ev" unfolding justified_binding_def by blast
  from pf obtain ns :: Namespace and ps where l: "(ListPolicies (om_Namespace (pod_Meta pod)), RPolicies (Inr ps)) \<in> set pre"
    and ps: "policy = find (\<lambda>p. policyMatchesPod kl p (ns_Labels ns) pod) ps" unfolding policy_found_def by blast
  have "int32 (cips_MaxEvidenceAgeSeconds (cip_Spec p))" if "policy = Some p" for p
    using assms(2) [rule_format, OF l, of p] that ps by (auto simp: find_Some_iff)
  then have "age_int32 policy" by (simp add: age_int32_def split: option.split)
  with ok pf show ?thesis unfolding cand_ok_def justified_def by auto
qed

text \<open>End to end: when the verifier is the writer of the evidence that a scheduling attempt finds verified,
  a pod is only ever bound to a node about which there is a report whose token the attestation service's
  keys verified, for the report's nonce, the configured TEE and issuer, unless the evidence says that it
  is simulated; and that evidence was unrevoked, within the policy's age and of a TEE the policy allows at a
  time read during the attempt.\<close>

theorem bound_node_was_attested:
  assumes "sort_slice_ok srt" and "run (SchedulePod fuel P kl srv srt s pod) st = (Some None, calls)"
    and "\<forall>ns ps p. (ListPolicies ns, RPolicies (Inr ps)) \<in> set calls \<longrightarrow> p \<in> set ps \<longrightarrow>
           int32 (cips_MaxEvidenceAgeSeconds (cip_Spec p))"
    and "\<forall>evs ev. (ListEvidence, REvidences (Inr evs)) \<in> set calls \<longrightarrow> ev \<in> set evs \<longrightarrow> evt_Verified (ev_Status ev) \<longrightarrow>
           verifier_wrote vkl vsrv cfg VP J ev"
  shows "\<exists>pre node ev evs rt policy report.
    calls = pre @ [(CreateBinding (om_Namespace (pod_Meta pod)) (om_Name (pod_Meta pod)) node, RUnit None)] \<and>
    (ListEvidence, REvidences (Inr evs)) \<in> set pre \<and> ev \<in> set evs \<and> (Now, rt) \<in> set pre \<and>
    policy_found kl pod policy pre \<and> acceptable (as_time rt) node policy ev \<and>
    attested cfg J ev report \<and> rars_NodeName (rar_Spec report) = node"
proof -
  from ensures_run [OF SchedulePod_ens [OF assms(1)] assms(2)] obtain pre sel rb where
    c: "calls = pre @ [(binding pod sel, rb)]" "rb = RUnit None" and j: "justified_binding P kl pod sel pre"
    unfolding sched_post_def by blast
  let ?n = "node_Name (nc_Node sel)"
  from justified_evidence [OF j] assms(3) c(1) obtain policy ev evs rt where pf: "policy_found kl pod policy pre"
    and l: "(ListEvidence, REvidences (Inr evs)) \<in> set pre" "ev \<in> set evs" "(Now, rt) \<in> set pre"
    and a: "acceptable (as_time rt) ?n policy ev" by auto
  have "verifier_wrote vkl vsrv cfg VP J ev"
    using assms(4) [rule_format, of evs ev] l c(1) a by (auto simp: acceptable_def)
  then obtain report where "attested cfg J ev report" using verifier_wrote_attested a unfolding acceptable_def by blast
  moreover from this a have "rars_NodeName (rar_Spec report) = ?n" by (simp add: attested_def acceptable_def)
  ultimately show ?thesis
    using c pf l a by (intro exI [of _ pre] exI [of _ ?n] exI [of _ ev]) (auto simp: binding_def)
qed

section \<open>Logs hold the server's answers\<close>

definition answers :: "'s server \<Rightarrow> ('s, 'a) prog \<Rightarrow> bool" where
  "answers srv m \<longleftrightarrow> (\<forall>w c r. (c, r) \<in> set (w_log (snd (run_state m w))) \<longrightarrow>
     (c, r) \<in> set (w_log w) \<or> (\<exists>st. r = fst (srv c st)))"

lemma answers_return: "answers srv (State_Monad.return a)"
  by (simp add: answers_def)

lemma answers_api: "answers srv (api srv c)"
  by (auto simp: answers_def api_def split: prod.splits) (metis fst_conv)

lemma answers_bind: "answers srv m \<Longrightarrow> (\<And>a. answers srv (f a)) \<Longrightarrow> answers srv (State_Monad.bind m f)"
  unfolding answers_def by (simp add: split_beta) blast

lemma answers_if: "answers srv m \<Longrightarrow> answers srv n \<Longrightarrow> answers srv (if b then m else n)"
  by simp

lemma answers_sum: "(\<And>e. answers srv (f e)) \<Longrightarrow> (\<And>y. answers srv (g y)) \<Longrightarrow> answers srv (case x of Inl e \<Rightarrow> f e | Inr y \<Rightarrow> g y)"
  by (cases x) simp_all

lemma answers_option: "answers srv m \<Longrightarrow> (\<And>y. answers srv (f y)) \<Longrightarrow> answers srv (case x of None \<Rightarrow> m | Some y \<Rightarrow> f y)"
  by (cases x) simp_all

lemma answers_prod: "(\<And>a b. answers srv (f a b)) \<Longrightarrow> answers srv (case x of (a, b) \<Rightarrow> f a b)"
  by (cases x) simp

lemmas answers_rules = answers_return answers_api answers_bind answers_if answers_sum answers_option answers_prod

lemma filter_answers: "answers srv (sched_filter kl srv pod policy nodes)"
proof -
  have "answers srv (filter_nodes kl srv pod policy sched nodes)" for sched
    by (induction nodes) (auto simp: nodeHasValidEvidence_def intro!: answers_rules)
  then show ?thesis unfolding sched_filter_def runtimeClassScheduling_def by (intro answers_rules)
qed

lemma permit_answers: "answers srv (permit fuel kl srv s pod policy nodes)"
proof -
  have "answers srv (permit_loop fuel kl srv s pod policy nodes deadline)" for deadline
    by (induction fuel) (auto intro!: answers_rules filter_answers)
  then show ?thesis unfolding permit_def by (intro answers_rules)
qed

lemma finish_answers: "answers srv (finish P kl srv srt s pod policy cs)"
proof -
  have "answers srv (score srv policy cs)"
    by (induction cs) (auto simp: score_one_def Let_def split: option.split intro!: answers_rules)
  then show ?thesis
    unfolding finish_def reserveTimed_def reserve_checked_def reserve_final_def preBind_def recheck_policy_def
      recheck_evidence_def mint_for_def createOrUpdatePlacementDecision_def bind_pod_def Let_def
    by (intro answers_rules)
qed

lemma SchedulePod_answers: "answers srv (SchedulePod fuel P kl srv srt s pod)"
  unfolding SchedulePod_def preFilter_def
  by (intro answers_rules filter_answers permit_answers finish_answers)

lemma logged_answers: "answers srv m \<Longrightarrow> run m st = (r, calls) \<Longrightarrow> (c, rep) \<in> set calls \<Longrightarrow> \<exists>st. rep = fst (srv c st)"
proof -
  assume a: "answers srv m" and r: "run m st = (r, calls)" and c: "(c, rep) \<in> set calls"
  have "calls = w_log (snd (run_state m \<lparr>w_state = st, w_log = []\<rparr>))" using r by (simp add: run_def split_beta)
  then show ?thesis using a c unfolding answers_def by fastforce
qed

section \<open>A verified cluster\<close>

text \<open>The evidence that the verifier of the concrete run writes, and a cluster that holds it.\<close>

definition att_ev :: AttestationEvidence where
  "att_ev = (let ev = evidence_mutation demo_conf demo_report 0 blank_evidence in
     ev\<lparr>ev_Status := (evidence_status demo_conf demo_report simulated_outcome ev)
          \<lparr>evt_LastVerifiedTime := Some (60 * Second), evt_Conditions := [readyTrue 0 ''attestation verified'']\<rparr>\<rparr>)"

definition att_cluster :: cluster where
  "att_cluster = demo_cluster\<lparr>cl_Evidence := [att_ev]\<rparr>"

definition att_srv :: "unit server" where
  "att_srv c st = (case c of
       ListEvidence \<Rightarrow> REvidences (Inr [att_ev])
     | GetEvidence ns name \<Rightarrow> REvidence (if ns = ''ai'' \<and> name = ''evidence-node-1'' then Inr att_ev
         else Inl (KNotFound ''not found''))
     | _ \<Rightarrow> demo_reply c, st)"

lemma att_wrote: "verifier_wrote demo_kl verifier_srv demo_conf demo_prims demo_jwt att_ev"
proof -
  obtain r calls where run: "run (Reconcile_report demo_kl verifier_srv demo_conf
      (VerifyMAAToken demo_prims demo_jwt verifier_srv) ''ai'' ''rep'') () = (r, calls)" by (cases "run (Reconcile_report demo_kl
      verifier_srv demo_conf (VerifyMAAToken demo_prims demo_jwt verifier_srv) ''ai'' ''rep'') ()")
  have "(StatusEvidence att_ev, REvidence (Inr att_ev)) \<in> set calls"
    "\<forall>a b mu ev0. (UpsertEvidence a b mu, REvidence (Inr ev0)) \<in> set calls \<longrightarrow> (\<exists>e. ev_Spec ev0 = ev_Spec (mu e))"
    using verifier_run [of demo_prims demo_jwt, unfolded run Let_def] by (auto simp: att_ev_def Let_def)
  with run show ?thesis unfolding verifier_wrote_def by blast
qed

lemma att_key [simp]: "om_Namespace (ev_Meta att_ev) = ''ai''" "om_Name (ev_Meta att_ev) = ''evidence-node-1''"
  by (simp_all add: att_ev_def evidence_mutation_def blank_evidence_def newMeta_def Let_def)

lemma att_steady: "steady att_srv att_cluster demo_pod (60 * Second)"
proof -
  have "steady_reply att_cluster demo_pod (60 * Second) c (fst (att_srv c st))" for c st
    by (cases c) (simp_all add: att_cluster_def demo_cluster_def att_srv_def)
  then show ?thesis by (simp add: steady_def)
qed

lemma att_json_ok: "json_ok (evidence_json demo_kl att_ev)"
proof -
  have "json_ok (ev_spec_json (ev_Spec att_ev))"
    unfolding ev_spec_json_def json_ok_fld key_in_fld
    by (simp add: att_ev_def evidence_mutation_def blank_evidence_def maxAgeSecondsOrDefault_def zero_ev_spec_def
        demo_report_def small_json_ok teeFromAttestationType_def)
  moreover have "json_ok (ev_status_json (kl_timeJSON demo_kl) (kl_condJSON demo_kl) (ev_Status att_ev))"
    unfolding ev_status_json_def json_ok_fld key_in_fld
    by (simp add: att_ev_def evidence_status_def evidence_mutation_def blank_evidence_def zero_ev_status_def demo_kl_def
        simulated_outcome_def demo_report_def newMeta_def EvidenceModeSimulated_def VerificationStatusVerified_def
        demo_conf_def setup_conf_def)
  ultimately show ?thesis by (simp add: evidence_json_def)
qed

lemma att_fields:
  "evt_Verified (ev_Status att_ev)" "\<not> evt_Revoked (ev_Status att_ev)" "acceptable (60 * Second) ''node-1'' (Some demo_cip) att_ev"
  by (auto simp: att_ev_def Let_def acceptable_def fresh_for_def tee_allowed_def evidence_status_def evidence_mutation_def
      blank_evidence_def zero_ev_status_def simulated_outcome_def demo_report_def demo_cip_def demo_cip_spec_def Second_def
      teeFromAttestationType_def demo_conf_def setup_conf_def)

lemma att_ready: "ready flat_prims demo_kl demo_sched att_cluster demo_pod demo_cip (60 * Second)"
proof -
  let ?n = "\<lparr>node_Name = ''node-1'', node_Labels = [], node_Unschedulable = False, node_Taints = []\<rparr>"
  have "qualifies demo_kl att_cluster demo_pod (Some demo_cip) (cl_sched att_cluster demo_pod) (60 * Second) ?n"
    using att_fields(3) by (simp add: qualifies_def att_cluster_def podMatchesNodeConstraints_def demo_pod_def cl_sched_def)
  moreover have "?n \<in> set (cl_Nodes att_cluster)" by (simp add: att_cluster_def demo_cluster_def)
  moreover have "evidenceHashForPlacement flat_prims demo_kl att_ev \<noteq> None"
    using flat_hash [OF att_json_ok] by (simp add: evidenceHashForPlacement_def)
  ultimately show ?thesis
    using demo_ready unfolding ready_def by (auto simp: att_cluster_def demo_expected)
qed

theorem bound_node_was_attested_witness:
  "\<exists>calls pre node report. run (SchedulePod 1 flat_prims demo_kl att_srv demo_sort demo_sched demo_pod) () = (Some None, calls) \<and>
     calls = pre @ [(CreateBinding ''ai'' ''llm'' node, RUnit None)] \<and>
     attested demo_conf demo_jwt att_ev report \<and> rars_NodeName (rar_Spec report) = node"
proof -
  let ?m = "SchedulePod 1 flat_prims demo_kl att_srv demo_sort demo_sched demo_pod"
  obtain calls where r: "run ?m () = (Some None, calls)"
    using steady_binds [OF att_steady att_ready demo_sort_ok, of 1 "()"] by auto
  have p: "\<forall>ns ps p. (ListPolicies ns, RPolicies (Inr ps)) \<in> set calls \<longrightarrow> p \<in> set ps \<longrightarrow>
      int32 (cips_MaxEvidenceAgeSeconds (cip_Spec p))"
    using logged_answers [OF SchedulePod_answers r] demo_ready by (fastforce simp: att_srv_def ready_def)
  have e: "evs = [att_ev]" if "(ListEvidence, REvidences (Inr evs)) \<in> set calls" for evs
    using logged_answers [OF SchedulePod_answers r that] by (auto simp: att_srv_def)
  have w: "\<forall>evs ev. (ListEvidence, REvidences (Inr evs)) \<in> set calls \<longrightarrow> ev \<in> set evs \<longrightarrow> evt_Verified (ev_Status ev) \<longrightarrow>
      verifier_wrote demo_kl verifier_srv demo_conf demo_prims demo_jwt ev" using e att_wrote by force
  from bound_node_was_attested [OF demo_sort_ok r p w] obtain pre node ev evs report where
    b: "calls = pre @ [(CreateBinding (om_Namespace (pod_Meta demo_pod)) (om_Name (pod_Meta demo_pod)) node, RUnit None)]"
      "(ListEvidence, REvidences (Inr evs)) \<in> set pre" "ev \<in> set evs" "attested demo_conf demo_jwt ev report"
      "rars_NodeName (rar_Spec report) = node" by blast
  then have "ev = att_ev" using e [of evs] by simp
  with b r show ?thesis by (auto simp: demo_pod_def newMeta_def)
qed

end
