(* ===== verification/Protocol.thy ===== *)
theory Protocol
  imports Scheduler_Properties
begin

text \<open>
  The placement protocol as a transition system, and that a scheduling attempt follows it. The protocol is
  what the comments of \<open>internal/scheduler/scheduler.go\<close> promise: a decision is recorded as pending, then
  either refused or allowed with a token, and only an allowed placement is bound, to the node that was
  reserved. Its events are the calls of an attempt that change the cluster: writes of the placement
  decision and the binding.

  \<open>events\<close> maps the calls of the detailed model to events; everything else an attempt does, such as
  reading, waiting and re-checking, is a stutter. The refinement is that the events of every attempt, on
  every server, are a path of the protocol, and that the attempt succeeds exactly when the path ends in
  the bound phase.
\<close>

section \<open>The protocol\<close>

datatype event =
    Wrote bool string string string
  | BindTo bool string

datatype phase =
    Idle
  | Reserved string
  | Approved string
  | Bound string
  | Stopped

text \<open>Every write says whether it succeeded, the verdict, the node and the token it carries. A failed call
  ends the attempt, and so does a refusal, recorded or not.\<close>

inductive step :: "phase \<Rightarrow> event \<Rightarrow> phase \<Rightarrow> bool" where
  reserve: "step Idle (Wrote True ''pending'' n '''') (Reserved n)"
| reserve_fails: "step Idle (Wrote False ''pending'' n '''') Stopped"
| refuse: "step (Reserved n) (Wrote ok ''deny'' n '''') Stopped"
| approve: "step (Reserved n) (Wrote True ''allow'' n t) (Approved n)"
| approve_fails: "step (Reserved n) (Wrote False ''allow'' n t) Stopped"
| bind: "step (Approved n) (BindTo True n) (Bound n)"
| bind_fails: "step (Approved n) (BindTo False n) Stopped"

inductive path :: "('p \<Rightarrow> 'e \<Rightarrow> 'p \<Rightarrow> bool) \<Rightarrow> 'p \<Rightarrow> 'e list \<Rightarrow> 'p \<Rightarrow> bool" for stp p where
  stay: "path stp p [] p"
| snoc: "path stp p es q \<Longrightarrow> stp q e r \<Longrightarrow> path stp p (es @ [e]) r"

inductive_cases step_Idle: "step Idle e q"
inductive_cases step_Reserved: "step (Reserved n) e q"
inductive_cases step_Approved: "step (Approved n) e q"
inductive_simps step_final [simp]: "step (Bound n) e q" "step Stopped e q"

lemma path_append: "path stp q fs r \<Longrightarrow> path stp p es q \<Longrightarrow> path stp p (es @ fs) r"
proof (induction rule: path.induct)
  case (snoc fs q' e r)
  then show ?case using path.snoc [of stp p "es @ fs" q' e r] by simp
qed simp

lemma path_one: "stp p e q \<Longrightarrow> path stp p [e] q"
  using path.snoc [OF path.stay, of stp p e q] by simp

text \<open>What a transition system keeps of its history: laws of one step, consequences for every path.\<close>

locale history_invariant =
  fixes stp :: "'p \<Rightarrow> 'e \<Rightarrow> 'p \<Rightarrow> bool" and start :: 'p and I :: "'e list \<Rightarrow> 'p \<Rightarrow> bool"
  assumes initially: "I [] start"
    and preserved: "I es p \<Longrightarrow> stp p e q \<Longrightarrow> I (es @ [e]) q"
begin

lemma always: "path stp start es p \<Longrightarrow> I es p"
  by (induction rule: path.induct) (auto intro: initially preserved)

end

fun history :: "event list \<Rightarrow> phase \<Rightarrow> bool" where
  "history es Idle = (es = [])"
| "history es (Reserved n) = (es = [Wrote True ''pending'' n ''''])"
| "history es (Approved n) = (\<exists>t. es = [Wrote True ''pending'' n '''', Wrote True ''allow'' n t])"
| "history es (Bound n) = (\<exists>t. es = [Wrote True ''pending'' n '''', Wrote True ''allow'' n t, BindTo True n])"
| "history es Stopped = (es \<noteq> [] \<and> length es \<le> 3 \<and> (\<forall>n. BindTo True n \<notin> set es))"

interpretation protocol: history_invariant step Idle history
  by unfold_locales (auto elim!: step_Idle step_Reserved step_Approved elim: history.elims step.cases)

section \<open>The events of an attempt\<close>

definition wrote :: "AIPlacementDecision \<Rightarrow> reply \<Rightarrow> event" where
  "wrote d r = Wrote (\<not> isl (as_decision r)) (apdt_Decision (apd_Status d)) (apdt_NodeName (apd_Status d))
     (mget (om_Annotations (apd_Meta d)) PlacementTokenAnnotation)"

fun event_of :: "call \<times> reply \<Rightarrow> event option" where
  "event_of (CreateDecision d, r) = Some (wrote d r)"
| "event_of (UpdateDecision d, r) = Some (wrote d r)"
| "event_of (CreateBinding ns n t, r) = Some (BindTo (as_unit r = None) t)"
| "event_of _ = None"

definition events :: "log \<Rightarrow> event list" where
  "events tr = List.map_filter event_of tr"

lemma events_simps [simp]: "events [] = []" "events (t1 @ t2) = events t1 @ events t2"
  "events (x # tr) = (case event_of x of None \<Rightarrow> events tr | Some e \<Rightarrow> e # events tr)"
  by (simp_all add: events_def map_filter_simps List.map_filter_def split: option.split)

lemma events_quiet: "quiet tr \<Longrightarrow> events tr = []"
proof (induction tr)
  case (Cons x tr)
  obtain c r where "x = (c, r)" by (cases x)
  with Cons show ?case by (cases c) simp_all
qed simp

lemma createOrUpdate_events:
  "ensures (createOrUpdatePlacementDecision srv d mutate) (\<lambda>r tr.
     events tr = [] \<and> isl r \<or>
     (\<exists>d0. events tr = [Wrote (\<not> isl r) (apdt_Decision (apd_Status (mutate d0))) (apdt_NodeName (apd_Status (mutate d0)))
                (mget (om_Annotations (apd_Meta (mutate d0))) PlacementTokenAnnotation)]))"
  unfolding createOrUpdatePlacementDecision_def
  by (intro ens) (auto simp: wrote_def)

abbreviation sel_node :: "NodeCandidate \<Rightarrow> string" where
  "sel_node sel \<equiv> node_Name (nc_Node sel)"

lemma written_fields [simp]:
  "apdt_NodeName (apd_Status (set_verdict v g d)) = apdt_NodeName (apd_Status d)"
  "apdt_NodeName (apd_Status (drop_token d)) = apdt_NodeName (apd_Status d)"
  "apdt_NodeName (apd_Status (add_token t d)) = apdt_NodeName (apd_Status d)"
  "apdt_NodeName (apd_Status (applyBaseDecision pod policy sel d)) = sel_node sel"
  "apd_Meta (set_verdict v g d) = apd_Meta d"
  "mget (om_Annotations (apd_Meta (drop_token d))) PlacementTokenAnnotation = ''''"
  by (simp_all add: set_verdict_def drop_token_def add_token_def applyBaseDecision_def)

text \<open>A program whose events, from one phase on, are a path of the protocol to a phase that fits its result.\<close>

definition follows :: "('s, 'a) prog \<Rightarrow> phase \<Rightarrow> ('a \<Rightarrow> phase \<Rightarrow> bool) \<Rightarrow> bool" where
  "follows m p R \<longleftrightarrow> ensures m (\<lambda>r tr. \<exists>q. path step p (events tr) q \<and> R r q)"

lemma follows_return: "R a p \<Longrightarrow> follows (State_Monad.return a) p R"
  unfolding follows_def by (rule ensures_return) (auto intro: path.stay)

lemma follows_bind:
  assumes "follows m p R" and "\<And>a q. R a q \<Longrightarrow> follows (f a) q S"
  shows "follows (State_Monad.bind m f) p S"
  unfolding follows_def
proof (rule ensures_bind [OF assms(1) [unfolded follows_def]], goal_cases)
  case (1 a tr1)
  then obtain q where q: "path step p (events tr1) q" "R a q" by blast
  show ?case
    by (rule ensures_conseq [OF assms(2) [OF q(2), unfolded follows_def]]) (auto intro: path_append [OF _ q(1)])
qed

lemma follows_conseq: "follows m p R \<Longrightarrow> (\<And>a q. R a q \<Longrightarrow> S a q) \<Longrightarrow> follows m p S"
  unfolding follows_def by (erule ensures_conseq) blast

lemma follows_if: "(b \<Longrightarrow> follows m p R) \<Longrightarrow> (\<not> b \<Longrightarrow> follows n p R) \<Longrightarrow> follows (if b then m else n) p R"
  by simp

lemma follows_sum:
  "(\<And>e. x = Inl e \<Longrightarrow> follows (f e) p R) \<Longrightarrow> (\<And>y. x = Inr y \<Longrightarrow> follows (g y) p R) \<Longrightarrow>
    follows (case x of Inl e \<Rightarrow> f e | Inr y \<Rightarrow> g y) p R"
  by (cases x) simp_all

lemma follows_option:
  "(x = None \<Longrightarrow> follows m p R) \<Longrightarrow> (\<And>y. x = Some y \<Longrightarrow> follows (f y) p R) \<Longrightarrow>
    follows (case x of None \<Rightarrow> m | Some y \<Rightarrow> f y) p R"
  by (cases x) simp_all

lemma follows_quiet: "ensures m (\<lambda>r tr. quiet tr \<and> Q r tr) \<Longrightarrow> follows m p (\<lambda>r q. q = p)"
  unfolding follows_def by (erule ensures_conseq) (auto simp: events_quiet intro: path.stay)

lemma follows_api: "(\<And>r. event_of (c, r) = None) \<Longrightarrow> follows (api srv c) p (\<lambda>r q. q = p)"
  unfolding follows_def by (rule ensures_api) (auto intro: path.stay)

text \<open>A write of the decision: a step with its verdict, or no step when it could not be read first.\<close>

lemma follows_write:
  fixes mutate :: "AIPlacementDecision \<Rightarrow> AIPlacementDecision" and p good bad :: phase
  assumes "\<And>d0 ok. step p (Wrote ok (apdt_Decision (apd_Status (mutate d0))) (apdt_NodeName (apd_Status (mutate d0)))
      (mget (om_Annotations (apd_Meta (mutate d0))) PlacementTokenAnnotation)) (if ok then good else bad)"
  shows "follows (createOrUpdatePlacementDecision srv d mutate) p (\<lambda>r q. if isl r then q \<in> {p, bad} else q = good)"
  unfolding follows_def
proof (rule ensures_conseq [OF createOrUpdate_events], elim disjE exE conjE, goal_cases)
  case (1 r tr)
  then show ?case by (intro exI [of _ p]) (simp add: path.stay)
next
  case (2 r tr d0)
  then show ?case using path_one [of step, OF assms [of "\<not> isl r" d0]] by (auto split: if_splits)
qed

definition reserve_fits :: "NodeCandidate \<Rightarrow> string + AIPlacementDecision \<times> string \<Rightarrow> phase \<Rightarrow> bool" where
  "reserve_fits sel r q \<longleftrightarrow> (if isl r then \<forall>n. q \<noteq> Bound n else q = Approved (sel_node sel))"

lemma reserve_final_follows:
  "follows (reserve_final P srv s pod policy sel sh ph eh dec) (Reserved (sel_node sel)) (reserve_fits sel)"
  unfolding reserve_final_def
proof (rule follows_bind [OF follows_quiet [OF mint_for_ens]], intro follows_sum, goal_cases)
  case (2 m q str)
  have "follows (createOrUpdatePlacementDecision srv dec (allowed P str pod policy sel)) (Reserved (sel_node sel))
    (\<lambda>r q. if isl r then q \<in> {Reserved (sel_node sel), Stopped} else q = Approved (sel_node sel))"
    by (rule follows_write) (auto intro: step.intros)
  then show ?case unfolding 2(1)
    by (rule follows_bind) (auto intro!: follows_sum follows_return simp: reserve_fits_def)
qed (auto intro!: follows_return simp: reserve_fits_def)

lemma reserve_checked_follows:
  "follows (reserve_checked P kl srv s pod policy sel sh ph eh dec) (Reserved (sel_node sel)) (reserve_fits sel)"
  unfolding reserve_checked_def
proof (rule follows_bind [OF follows_quiet [OF preBind_ens]], intro follows_option, goal_cases)
  case (1 pe q)
  then show ?case by (simp add: reserve_final_follows)
next
  case (2 pe q e)
  have "follows (createOrUpdatePlacementDecision srv dec (denied pod policy sel)) (Reserved (sel_node sel))
    (\<lambda>r q. if isl r then q \<in> {Reserved (sel_node sel), Stopped} else q = Stopped)"
    by (rule follows_write) (auto intro: step.intros)
  then show ?case unfolding 2(1)
    by (rule follows_bind) (auto intro!: follows_return simp: reserve_fits_def split: if_splits)
qed

lemma reserveTimed_follows: "follows (reserveTimed P kl srv s pod policy sel) Idle (reserve_fits sel)"
  unfolding reserveTimed_def
proof (intro follows_option follows_return, goal_cases)
  case (4 sh ph eh)
  have "follows (createOrUpdatePlacementDecision srv (newDecision pod) (pending pod policy sel)) Idle
    (\<lambda>r q. if isl r then q \<in> {Idle, Stopped} else q = Reserved (sel_node sel))"
    by (rule follows_write) (auto intro: step.intros)
  then show ?case
    by (rule follows_bind)
      (auto intro!: follows_sum follows_return follows_bind [OF follows_api] follows_option reserve_checked_follows
        simp: reserve_fits_def)
qed (simp_all add: reserve_fits_def)

definition bind_fits :: "string option \<Rightarrow> phase \<Rightarrow> bool" where
  "bind_fits r q \<longleftrightarrow> (r = None \<longleftrightarrow> (\<exists>n. q = Bound n))"

lemma finish_follows: "follows (finish P kl srv srt s pod policy cs) Idle bind_fits"
  unfolding finish_def Let_def
proof (rule follows_bind [OF follows_quiet [OF score_ens]], goal_cases)
  case (1 scored q)
  let ?n = "sel_node (hd (srt scored))"
  have bound: "follows (bind_pod srv pod ?n) (Approved ?n) (\<lambda>b q. q = (if b = None then Bound ?n else Stopped))"
    unfolding follows_def bind_pod_def by (intro ens) (auto intro!: path_one step.intros)
  show ?case unfolding 1
    by (rule follows_bind [OF reserveTimed_follows])
      (auto simp: reserve_fits_def bind_fits_def intro!: follows_return follows_bind [OF bound] split: sum.splits option.splits if_splits)
qed

definition attempt_fits :: "string option option \<Rightarrow> phase \<Rightarrow> bool" where
  "attempt_fits r q \<longleftrightarrow> (r = Some None \<longleftrightarrow> (\<exists>n. q = Bound n))"

lemma finish_attempt:
  "follows (finish P kl srv srt s pod policy cs \<bind> (\<lambda>e. State_Monad.return (Some e))) Idle attempt_fits"
  by (rule follows_bind [OF finish_follows]) (auto intro!: follows_return simp: bind_fits_def attempt_fits_def)

lemma SchedulePod_follows: "follows (SchedulePod fuel P kl srv srt s pod) Idle attempt_fits"
  unfolding SchedulePod_def
proof (rule follows_bind [OF follows_quiet [OF preFilter_ens]], intro follows_sum follows_return, goal_cases)
  case (2 pr q policy)
  show ?case unfolding 2(1)
  proof (rule follows_bind [OF follows_api], simp, intro follows_sum follows_return, goal_cases)
    case (2 r q nodes)
    show ?case unfolding 2(1)
    proof (rule follows_bind [OF follows_quiet [OF sched_filter_ens]], intro follows_sum follows_return follows_if, goal_cases)
      case (3 f q cs)
      show ?case unfolding 3(1)
        by (rule follows_bind [OF follows_quiet [OF permit_ens]])
          (auto intro!: follows_option follows_return follows_sum follows_if finish_attempt simp: attempt_fits_def)
    qed (simp_all add: finish_attempt attempt_fits_def)
  qed (simp add: attempt_fits_def)
qed (simp add: attempt_fits_def)

text \<open>C5. Refinement: on every server, the writes and bindings of a scheduling attempt are a path of the
  placement protocol, and the attempt succeeds exactly when that path ends bound. So a successful attempt
  makes exactly three changes, all for one node: the decision is recorded as pending without a token, then
  as allowed, then the pod is bound; and an attempt that does not succeed has bound nothing.\<close>

theorem scheduling_refines_protocol:
  "\<exists>q. path step Idle (events (snd (run (SchedulePod fuel P kl srv srt s pod) st))) q \<and>
     history (events (snd (run (SchedulePod fuel P kl srv srt s pod) st))) q \<and>
     (fst (run (SchedulePod fuel P kl srv srt s pod) st) = Some None \<longleftrightarrow> (\<exists>n. q = Bound n))"
proof -
  have "run (SchedulePod fuel P kl srv srt s pod) st =
      (fst (run (SchedulePod fuel P kl srv srt s pod) st), snd (run (SchedulePod fuel P kl srv srt s pod) st))" by simp
  from ensures_run [OF SchedulePod_follows [unfolded follows_def] this]
  show ?thesis unfolding attempt_fits_def using protocol.always by blast
qed

end
