(* ===== verification/Cluster.thy ===== *)
theory Cluster
  imports End_To_End Protocol
begin

text \<open>
  The cluster as a whole: any number of reconcilers and scheduling attempts that run at the same time on
  the API server's \<open>AttestationEvidence\<close> objects.

  A history is the list of all calls in the order in which the server answered them, each with the process
  that made it. The calls of one process, in their order, are the beginning of a run of its program, so
  processes may also stop half-way. The state is the set of all versions of evidence objects that were ever
  stored; reads may return any of them, as a client's cache does. What the API server promises of writes is
  the relation \<open>served\<close>: a status update with a stale version is refused, so that a status is stored together
  with the spec it was computed from; a status update does not change the spec, and other updates do not
  change the status; a call that failed may have taken effect nevertheless. Other clients create
  objects without status and edit everything of a spec but its subject (\<open>foreign\<close>).
\<close>

section \<open>Which calls a program makes\<close>

definition makes :: "(call \<Rightarrow> bool) \<Rightarrow> ('s, 'a) prog \<Rightarrow> bool" where
  "makes Q m \<longleftrightarrow> ensures m (\<lambda>a tr. \<forall>c r. (c, r) \<in> set tr \<longrightarrow> Q c)"

lemma makes_return: "makes Q (State_Monad.return a)"
  by (simp add: makes_def ensures_return)

lemma makes_api: "Q c \<Longrightarrow> makes Q (api srv c)"
  by (simp add: makes_def ensures_api)

lemma makes_bind: "makes Q m \<Longrightarrow> (\<And>a. makes Q (f a)) \<Longrightarrow> makes Q (State_Monad.bind m f)"
  unfolding makes_def by (erule ensures_bind) (rule ensures_conseq, blast, auto)

lemma makes_cases:
  "makes Q m \<Longrightarrow> makes Q n \<Longrightarrow> makes Q (if b then m else n)"
  "(\<And>e. makes Q (f e)) \<Longrightarrow> (\<And>y. makes Q (g y)) \<Longrightarrow> makes Q (case x of Inl e \<Rightarrow> f e | Inr y \<Rightarrow> g y)"
  "makes Q m \<Longrightarrow> (\<And>y. makes Q (h y)) \<Longrightarrow> makes Q (case o1 of None \<Rightarrow> m | Some y \<Rightarrow> h y)"
  "(\<And>a b. makes Q (k a b)) \<Longrightarrow> makes Q (case p of (a, b) \<Rightarrow> k a b)"
  by (auto split: sum.splits option.splits prod.splits)

lemmas makes_rules = makes_return makes_api makes_bind makes_cases

lemma ensures_log: "ensures m (\<lambda>a. R) \<Longrightarrow> R (snd (run m st))"
  using ensures_run [of m "\<lambda>a. R" st "fst (run m st)" "snd (run m st)"] by simp

lemma makes_log: "makes Q m \<Longrightarrow> (c, r) \<in> set (snd (run m st)) \<Longrightarrow> Q c"
  unfolding makes_def by (drule ensures_log [of _ _ st]) auto

text \<open>Only the verifier and the evidence reconciler write evidence, and only the verifier changes specs.\<close>

fun reads_evidence :: "call \<Rightarrow> bool" where
  "reads_evidence (UpsertEvidence ns n mu) = False"
| "reads_evidence (StatusEvidence ev) = False"
| "reads_evidence c = True"

lemma filter_reads: "makes reads_evidence (sched_filter kl srv pod policy nodes)"
proof -
  have "makes reads_evidence (filter_nodes kl srv pod policy sched nodes)" for sched
    by (induction nodes) (auto simp: nodeHasValidEvidence_def intro!: makes_rules)
  then show ?thesis
    unfolding sched_filter_def runtimeClassScheduling_def by (intro makes_rules) simp_all
qed

lemma permit_reads: "makes reads_evidence (permit fuel kl srv s pod policy nodes)"
proof -
  have "makes reads_evidence (permit_loop fuel kl srv s pod policy nodes deadline)" for deadline
    by (induction fuel) (auto intro!: makes_rules filter_reads)
  then show ?thesis unfolding permit_def by (intro makes_rules) simp_all
qed

lemma finish_reads: "makes reads_evidence (finish P kl srv srt s pod policy cs)"
proof -
  have "makes reads_evidence (score srv policy cs)"
    by (induction cs) (auto simp: score_one_def Let_def split: option.split intro!: makes_rules)
  then show ?thesis
    unfolding finish_def reserveTimed_def reserve_checked_def reserve_final_def preBind_def recheck_policy_def
      recheck_evidence_def mint_for_def createOrUpdatePlacementDecision_def bind_pod_def Let_def
    by (intro makes_rules) simp_all
qed

lemma Reconcile_pod_reads: "makes reads_evidence (Reconcile_pod fuel P kl srv srt s ns name)"
  unfolding Reconcile_pod_def SchedulePod_def preFilter_def
  by (intro makes_rules filter_reads permit_reads finish_reads) simp_all

lemma controllers_read:
  "makes reads_evidence (Reconcile_revocation kl srv ns name)"
  "makes reads_evidence (Reconcile_decision P kl srv ns name)"
  "makes reads_evidence (Reconcile_key_policy P syn kl srv ns name)"
  "makes reads_evidence (Reconcile_record P kl srv ns name)"
  unfolding Reconcile_revocation_def Reconcile_decision_def Reconcile_key_policy_def Reconcile_record_def
    fetchConfidentialPolicy_def fetchAttestationEvidence_def resolveEvidenceState_def setCondition_def Let_def
  by (intro makes_rules;simp)+

text \<open>An upsert is the verifier's, under the name of the node.\<close>

definition verifier_upsert :: "call \<Rightarrow> bool" where
  "verifier_upsert c \<longleftrightarrow> (\<forall>ns n mu. c = UpsertEvidence ns n mu \<longrightarrow>
     (\<exists>cfg report f. n = evidenceName report \<and> mu = evidence_mutation cfg report f))"

lemma Reconcile_report_upserts:
  "makes verifier_upsert (Reconcile_report kl srv cfg (VerifyMAAToken P J srv) ns name)"
  unfolding Reconcile_report_def verify_report_def VerifyMAAToken_def fetchJWKS_def stamp_status_def setCondition_def Let_def
  by (intro makes_rules) (auto simp: verifier_upsert_def)

lemma Reconcile_evidence_upserts: "makes verifier_upsert (Reconcile_evidence kl srv ns name)"
  unfolding Reconcile_evidence_def isEvidenceRevoked_def setCondition_def Let_def
  by (intro makes_rules) (auto simp: verifier_upsert_def)

section \<open>Histories\<close>

record libs =
  lb_prims :: prims
  lb_jwt :: jwtlib
  lb_kl :: klib
  lb_syntax :: "string \<Rightarrow> string"
  lb_sort :: "NodeCandidate list \<Rightarrow> NodeCandidate list"

text \<open>What a process does: one reconciliation of one object.\<close>

datatype job =
    ReportJob verifierConf string string
  | EvidenceJob string string
  | RevocationJob string string
  | DecisionJob string string
  | KeyPolicyJob string string
  | RecordJob string string
  | PodJob nat Scheduler string string

fun job_log :: "libs \<Rightarrow> 's server \<Rightarrow> job \<Rightarrow> 's \<Rightarrow> log" where
  "job_log L srv (ReportJob cfg ns n) st =
     snd (run (Reconcile_report (lb_kl L) srv cfg (VerifyMAAToken (lb_prims L) (lb_jwt L) srv) ns n) st)"
| "job_log L srv (EvidenceJob ns n) st = snd (run (Reconcile_evidence (lb_kl L) srv ns n) st)"
| "job_log L srv (RevocationJob ns n) st = snd (run (Reconcile_revocation (lb_kl L) srv ns n) st)"
| "job_log L srv (DecisionJob ns n) st = snd (run (Reconcile_decision (lb_prims L) (lb_kl L) srv ns n) st)"
| "job_log L srv (KeyPolicyJob ns n) st =
     snd (run (Reconcile_key_policy (lb_prims L) (lb_syntax L) (lb_kl L) srv ns n) st)"
| "job_log L srv (RecordJob ns n) st = snd (run (Reconcile_record (lb_prims L) (lb_kl L) srv ns n) st)"
| "job_log L srv (PodJob fuel s ns n) st =
     snd (run (Reconcile_pod fuel (lb_prims L) (lb_kl L) srv (lb_sort L) s ns n) st)"

type_synonym entry = "nat \<times> call \<times> reply"

definition calls_of :: "nat \<Rightarrow> entry list \<Rightarrow> log" where
  "calls_of p H = map snd (filter (\<lambda>e. fst e = p) H)"

definition object_key :: "AttestationEvidence \<Rightarrow> string \<times> string" where
  "object_key ev = (om_Namespace (ev_Meta ev), om_Name (ev_Meta ev))"

definition subject :: "AttestationEvidence \<Rightarrow> string" where
  "subject ev = ref_Name (evs_SubjectRef (ev_Spec ev))"

text \<open>The parts of a spec that decide about verification.\<close>

definition marks :: "AttestationEvidence \<Rightarrow> string \<times> bool \<times> string \<times> string list" where
  "marks ev = (subject ev, evs_Simulated (ev_Spec ev), evs_Digest (ev_Spec ev), evs_Signatures (ev_Spec ev))"

text \<open>The documented behaviour of the API server on evidence: \<open>V\<close> are the versions stored so far.\<close>

definition upserted :: "AttestationEvidence set \<Rightarrow> string \<Rightarrow> string \<Rightarrow> (AttestationEvidence \<Rightarrow> AttestationEvidence) \<Rightarrow>
    AttestationEvidence \<Rightarrow> bool" where
  "upserted V ns n mu v \<longleftrightarrow> object_key v = (ns, n) \<and>
     (\<exists>e. object_key e = (ns, n) \<and> (e \<in> V \<or> ev_Status e = zero_ev_status) \<and> marks v = marks (mu e) \<and> ev_Status v = ev_Status e)"

definition restatused :: "AttestationEvidence set \<Rightarrow> AttestationEvidence \<Rightarrow> AttestationEvidence \<Rightarrow> bool" where
  "restatused V ev v \<longleftrightarrow> (\<exists>e\<in>V. object_key e = object_key ev \<and> marks e = marks ev \<and>
     object_key v = object_key e \<and> marks v = marks e \<and> ev_Status v = ev_Status ev)"

definition no_evidence :: "reply \<Rightarrow> bool" where
  "no_evidence r \<longleftrightarrow> (\<forall>ev. r \<noteq> REvidence (Inr ev)) \<and> (\<forall>evs. r \<noteq> REvidences (Inr evs))"

inductive served :: "call \<Rightarrow> reply \<Rightarrow> AttestationEvidence set \<Rightarrow> AttestationEvidence set \<Rightarrow> bool" where
  lists: "set evs \<subseteq> V \<Longrightarrow> served ListEvidence (REvidences (Inr evs)) V V"
| gets: "ev \<in> V \<Longrightarrow> object_key ev = (ns, n) \<Longrightarrow> served (GetEvidence ns n) (REvidence (Inr ev)) V V"
| upserts: "upserted V ns n mu v \<Longrightarrow> served (UpsertEvidence ns n mu) (REvidence (Inr v)) V (insert v V)"
| upsert_unanswered: "upserted V ns n mu v \<Longrightarrow> no_evidence r \<Longrightarrow> served (UpsertEvidence ns n mu) r V (insert v V)"
| restatuses: "restatused V ev v \<Longrightarrow> served (StatusEvidence ev) (REvidence (Inr v)) V (insert v V)"
| restatus_unanswered: "restatused V ev v \<Longrightarrow> no_evidence r \<Longrightarrow> served (StatusEvidence ev) r V (insert v V)"
| without_evidence: "no_evidence r \<Longrightarrow> served c r V V"

definition foreign :: "AttestationEvidence set \<Rightarrow> AttestationEvidence \<Rightarrow> bool" where
  "foreign V v \<longleftrightarrow> ev_Status v = zero_ev_status \<or>
     (\<exists>e\<in>V. object_key v = object_key e \<and> subject v = subject e \<and> ev_Status v = ev_Status e)"

datatype action = Call nat call reply | Edit AttestationEvidence

inductive cluster_step :: "libs \<Rightarrow> (nat \<Rightarrow> 's server) \<Rightarrow> (nat \<Rightarrow> job) \<Rightarrow>
    entry list \<times> AttestationEvidence set \<Rightarrow> action \<Rightarrow> entry list \<times> AttestationEvidence set \<Rightarrow> bool"
  for L srvs jobs where
  call: "job_log L (srvs p) (jobs p) st = calls_of p H @ (c, r) # rest \<Longrightarrow> served c r V V' \<Longrightarrow>
    cluster_step L srvs jobs (H, V) (Call p c r) (H @ [(p, c, r)], V')"
| edit: "foreign V v \<Longrightarrow> cluster_step L srvs jobs (H, V) (Edit v) (H, insert v V)"

text \<open>A version whose node was attested in a history: a process of the verifier read a report about that node,
  named as the object is, and accepted its token.\<close>

definition attested_in :: "libs \<Rightarrow> (nat \<Rightarrow> job) \<Rightarrow> entry list \<Rightarrow> AttestationEvidence \<Rightarrow> bool" where
  "attested_in L jobs H v \<longleftrightarrow> (\<exists>p cfg ns name report vtr rest.
     jobs p = ReportJob cfg ns name \<and> calls_of p H = (GetReport ns name, RReport (Inr report)) # vtr @ rest \<and>
     \<not> rars_Simulated (rar_Spec report) \<and>
     maa_accepts (lb_jwt L) (rars_RawToken (rar_Spec report)) (report_opts cfg report) vtr \<and>
     om_Name (ev_Meta v) = evidenceName report \<and> subject v = rars_NodeName (rar_Spec report) \<and>
     evt_Nonce (ev_Status v) = rars_Nonce (rar_Spec report))"

definition self_evident :: "AttestationEvidence \<Rightarrow> bool" where
  "self_evident w \<longleftrightarrow> evs_Simulated (ev_Spec w) \<or> evs_Digest (ev_Spec w) \<noteq> '''' \<or> evs_Signatures (ev_Spec w) \<noteq> []"

definition vouched :: "libs \<Rightarrow> (nat \<Rightarrow> job) \<Rightarrow> entry list \<Rightarrow> AttestationEvidence set \<Rightarrow> AttestationEvidence \<Rightarrow> bool" where
  "vouched L jobs H V v \<longleftrightarrow> attested_in L jobs H v \<or> (\<exists>w\<in>V. object_key w = object_key v \<and> self_evident w)"

definition evidence_sound :: "libs \<Rightarrow> (nat \<Rightarrow> job) \<Rightarrow> entry list \<times> AttestationEvidence set \<Rightarrow> bool" where
  "evidence_sound L jobs s \<longleftrightarrow> (case s of (H, V) \<Rightarrow>
     (\<forall>v\<in>V. evt_Verified (ev_Status v) \<longrightarrow> vouched L jobs H V v) \<and>
     (\<forall>p ns n mu v. (p, UpsertEvidence ns n mu, REvidence (Inr v)) \<in> set H \<longrightarrow>
        object_key v = (ns, n) \<and> (\<exists>e. marks v = marks (mu e))) \<and>
     (\<forall>p evs. (p, ListEvidence, REvidences (Inr evs)) \<in> set H \<longrightarrow> set evs \<subseteq> V))"

lemma calls_of_snoc: "calls_of q (H @ [(p, c, r)]) = calls_of q H @ (if q = p then [(c, r)] else [])"
  by (simp add: calls_of_def)

lemma calls_of_mem: "(c, r) \<in> set (calls_of p H) \<longleftrightarrow> (p, c, r) \<in> set H"
  by (auto simp: calls_of_def) force

lemma attested_in_snoc: "attested_in L jobs H v \<Longrightarrow> attested_in L jobs (H @ [e]) v"
proof -
  have "\<exists>us. calls_of p (H @ [e]) = calls_of p H @ us" for p by (simp add: calls_of_def)
  then show "attested_in L jobs H v \<Longrightarrow> ?thesis" unfolding attested_in_def by (metis append.assoc append_Cons)
qed

lemma attested_in_same:
  "attested_in L jobs H v \<Longrightarrow> object_key w = object_key v \<Longrightarrow> subject w = subject v \<Longrightarrow> ev_Status w = ev_Status v \<Longrightarrow>
    attested_in L jobs H w"
  by (simp add: attested_in_def object_key_def)

lemma attested_in_name: "attested_in L jobs H v \<Longrightarrow> om_Name (ev_Meta v) = ''evidence-'' @ subject v"
  by (auto simp: attested_in_def evidenceName_def)

lemma vouched_mono: "vouched L jobs H V v \<Longrightarrow> vouched L jobs (H @ [e]) (insert w V) v" "vouched L jobs H V v \<Longrightarrow> vouched L jobs (H @ [e]) V v"
  "vouched L jobs H V v \<Longrightarrow> vouched L jobs H (insert w V) v"
  unfolding vouched_def using attested_in_snoc by blast+

lemma marks_eqD: "marks v = marks w \<Longrightarrow> subject v = subject w \<and> self_evident v = self_evident w"
  by (simp add: marks_def self_evident_def)

lemma split_front: "front @ tl1 = pre @ x # tl2 \<Longrightarrow> x \<notin> set front \<Longrightarrow> \<exists>us. pre = front @ us"
proof (induction front arbitrary: pre)
  case (Cons y front)
  then show ?case by (cases pre) auto
qed simp

text \<open>The calls of a job that write evidence.\<close>

lemma job_upsert:
  assumes "job_log L srv j st = pre @ (UpsertEvidence ns n mu, r) # rest"
  shows "\<exists>cfg report f. n = evidenceName report \<and> mu = evidence_mutation cfg report f"
proof -
  have i: "(UpsertEvidence ns n mu, r) \<in> set (job_log L srv j st)" using assms by simp
  have "verifier_upsert (UpsertEvidence ns n mu)"
    using i by (cases j) (auto dest: makes_log [OF Reconcile_report_upserts] makes_log [OF Reconcile_evidence_upserts]
      makes_log [OF Reconcile_pod_reads] makes_log [OF controllers_read(1)] makes_log [OF controllers_read(2)]
      makes_log [OF controllers_read(3)] makes_log [OF controllers_read(4)])
  then show ?thesis by (simp add: verifier_upsert_def)
qed

text \<open>A verified status is either computed from an accepted token, or from marks on the object itself.\<close>

lemma job_status:
  assumes "job_log L srv j st = pre @ (StatusEvidence ev, r) # rest" and "evt_Verified (ev_Status ev)"
  shows "self_evident ev \<or> (\<exists>cfg ns name report vtr ev0 f rest'. j = ReportJob cfg ns name \<and>
     pre = (GetReport ns name, RReport (Inr report)) # vtr @
       (UpsertEvidence (om_Namespace (rar_Meta report)) (evidenceName report) (evidence_mutation cfg report f),
        REvidence (Inr ev0)) # rest' \<and>
     ev_Meta ev = ev_Meta ev0 \<and> ev_Spec ev = ev_Spec ev0 \<and> evt_Nonce (ev_Status ev) = rars_Nonce (rar_Spec report) \<and>
     (rars_Simulated (rar_Spec report) \<or>
      maa_accepts (lb_jwt L) (rars_RawToken (rar_Spec report)) (report_opts cfg report) vtr))"
proof -
  have i: "(StatusEvidence ev, r) \<in> set (job_log L srv j st)" using assms(1) by simp
  show ?thesis
  proof (cases j)
    case (ReportJob cfg ns name)
    let ?m = "Reconcile_report (lb_kl L) srv cfg (VerifyMAAToken (lb_prims L) (lb_jwt L) srv) ns name"
    have "report_post (lb_prims L) (lb_jwt L) cfg ns name (snd (run ?m st))"
      by (rule ensures_log [OF Reconcile_report_ens])
    then obtain report vtr oc ev0 rest' where
      c: "job_log L srv j st = ((GetReport ns name, RReport (Inr report)) # vtr @
             [(UpsertEvidence (om_Namespace (rar_Meta report)) (evidenceName report)
                (evidence_mutation cfg report (oc_freshnessS oc)), REvidence (Inr ev0))]) @ rest'" (is "_ = ?front @ _")
      and nv: "no_writes vtr"
      and s: "stamped cfg report oc ev0 ev"
      and o: "if rars_Simulated (rar_Spec report) then oc = simulated_outcome
            else \<exists>res. oc = outcome_of cfg res \<and>
              maa_post (lb_prims L) (lb_jwt L) (rars_RawToken (rar_Spec report)) (report_opts cfg report) res vtr"
      using i unfolding ReportJob job_log.simps report_post_def append.assoc append_Cons append_Nil by blast
    have "(StatusEvidence ev, r) \<notin> set ?front" using nv by (auto simp: no_writes_def)
    then obtain us where "pre = ?front @ us" using split_front c assms(1) by metis
    moreover have "ev_Meta ev = ev_Meta ev0" "ev_Spec ev = ev_Spec ev0" using s by (simp_all add: stamped_def)
    moreover have "rars_Simulated (rar_Spec report) \<or>
        maa_accepts (lb_jwt L) (rars_RawToken (rar_Spec report)) (report_opts cfg report) vtr"
      using o assms(2) stamped_fields(2) [OF s] by (auto simp: maa_post_def outcome_modes split: if_splits)
    ultimately show ?thesis using ReportJob stamped_fields(4) [OF s] by - (rule disjI2, intro exI conjI, auto)
  next
    case (EvidenceJob ns name)
    have "evidence_post ns name (job_log L srv j st)"
      unfolding EvidenceJob job_log.simps by (rule ensures_log [OF Reconcile_evidence_ens])
    then show ?thesis using i assms(2) unfolding evidence_post_def self_verified_def self_evident_def by fastforce
  qed (use i in \<open>auto dest: makes_log [OF Reconcile_pod_reads] makes_log [OF controllers_read(1)] makes_log [OF controllers_read(2)]
      makes_log [OF controllers_read(3)] makes_log [OF controllers_read(4)]\<close>)
qed

lemma upserted_vouched:
  assumes i: "evidence_sound L jobs (H, V)" and "upserted V ns n mu v" and "evt_Verified (ev_Status v)"
    and m: "n = evidenceName report" "mu = evidence_mutation cfg report f"
  shows "vouched L jobs H V v"
proof -
  obtain e where e: "object_key e = (ns, n)" "e \<in> V \<or> ev_Status e = zero_ev_status" "marks v = marks (mu e)"
    "ev_Status v = ev_Status e" "object_key v = (ns, n)" using assms(2) unfolding upserted_def by blast
  then have "e \<in> V" "evt_Verified (ev_Status e)" using assms(3) by (auto simp: zero_ev_status_def)
  then have "vouched L jobs H V e" using i by (simp add: evidence_sound_def)
  moreover have "subject v = rars_NodeName (rar_Spec report)"
    using marks_eqD [OF e(3)] by (simp add: m subject_def evidence_mutation_def)
  then have "attested_in L jobs H v" if "attested_in L jobs H e"
    using attested_in_name [OF that] attested_in_same [OF that] e m by (simp add: object_key_def evidenceName_def)
  ultimately show ?thesis using e(1,5) unfolding vouched_def by metis
qed

lemma restatused_vouched:
  assumes i: "evidence_sound L jobs (H, V)" and "restatused V ev v" and "evt_Verified (ev_Status v)"
    and log: "job_log L srv (jobs p) st = calls_of p H @ (StatusEvidence ev, r) # rest"
  shows "vouched L jobs H (insert v V) v"
proof -
  have v: "object_key v = object_key ev" "marks v = marks ev" "ev_Status v = ev_Status ev"
    using assms(2) unfolding restatused_def by auto
  consider "self_evident ev" | cfg ns name report vtr ev0 f rest' where "jobs p = ReportJob cfg ns name"
    "calls_of p H = (GetReport ns name, RReport (Inr report)) # vtr @
       (UpsertEvidence (om_Namespace (rar_Meta report)) (evidenceName report) (evidence_mutation cfg report f),
        REvidence (Inr ev0)) # rest'"
    "ev_Meta ev = ev_Meta ev0" "ev_Spec ev = ev_Spec ev0" "evt_Nonce (ev_Status ev) = rars_Nonce (rar_Spec report)"
    "rars_Simulated (rar_Spec report) \<or>
      maa_accepts (lb_jwt L) (rars_RawToken (rar_Spec report)) (report_opts cfg report) vtr"
    using job_status [OF log] assms(3) v(3) by auto
  then show ?thesis
  proof cases
    case 1
    then show ?thesis using marks_eqD [OF v(2)] unfolding vouched_def by blast
  next
    case 2
    have "(p, UpsertEvidence (om_Namespace (rar_Meta report)) (evidenceName report) (evidence_mutation cfg report f),
        REvidence (Inr ev0)) \<in> set H" using 2(2) calls_of_mem [symmetric] by fastforce
    with i obtain e where k: "object_key ev0 = (om_Namespace (rar_Meta report), evidenceName report)"
      and "marks ev0 = marks (evidence_mutation cfg report f e)" unfolding evidence_sound_def by blast
    then have s: "subject v = rars_NodeName (rar_Spec report)" "evs_Simulated (ev_Spec v) = rars_Simulated (rar_Spec report)"
      using v(2) 2(4) by (auto simp: marks_def subject_def evidence_mutation_def)
    show ?thesis
    proof (cases "rars_Simulated (rar_Spec report)")
      case True
      then have "self_evident v" using s(2) by (simp add: self_evident_def)
      then show ?thesis unfolding vouched_def by blast
    next
      case False
      then have "attested_in L jobs H v"
        using 2 s(1) v k unfolding attested_in_def object_key_def by (intro exI conjI) auto
      then show ?thesis by (simp add: vouched_def)
    qed
  qed
qed

lemma evidence_sound_step:
  assumes i: "evidence_sound L jobs s" and "cluster_step L srvs jobs s e s'"
  shows "evidence_sound L jobs s'"
  using assms(2)
proof cases
  case (call p st H c r rest V V')
  note i = i [unfolded \<open>s = (H, V)\<close>]
  have "vouched L jobs (H @ [(p, c, r)]) V' v" if "v \<in> V'" "evt_Verified (ev_Status v)" for v
  proof (cases "v \<in> V")
    case True
    have "V' = V \<or> (\<exists>w. V' = insert w V)" using call(5) by (cases rule: served.cases) auto
    then show ?thesis using True that i vouched_mono unfolding evidence_sound_def by fastforce
  next
    case False
    with call(5) that(1) consider (up) ns n mu where "c = UpsertEvidence ns n mu" "V' = insert v V" "upserted V ns n mu v"
      | (st) ev where "c = StatusEvidence ev" "V' = insert v V" "restatused V ev v" by (cases rule: served.cases) auto
    then show ?thesis
    proof cases
      case up
      then show ?thesis
        using upserted_vouched [OF i up(3) that(2)] job_upsert [OF call(4) [unfolded up(1)]] vouched_mono(1) by blast
    next
      case st
      then show ?thesis
        using restatused_vouched [OF i st(3) that(2) call(4) [unfolded st(1)]] vouched_mono(2) by simp
    qed
  qed
  moreover have "V \<subseteq> V'" using call(5) by (cases rule: served.cases) auto
  moreover have "object_key v = (ns, n) \<and> (\<exists>e. marks v = marks (mu e))"
    if "(q, UpsertEvidence ns n mu, REvidence (Inr v)) \<in> set (H @ [(p, c, r)])" for q ns n mu v
  proof -
    have ?thesis if "c = UpsertEvidence ns n mu" "r = REvidence (Inr v)"
      using call(5) that by (cases rule: served.cases) (auto simp: upserted_def no_evidence_def)
    then show ?thesis using i that unfolding evidence_sound_def by auto
  qed
  moreover have "set evs \<subseteq> V'" if "(q, ListEvidence, REvidences (Inr evs)) \<in> set (H @ [(p, c, r)])" for q evs
  proof -
    have ?thesis if "c = ListEvidence" "r = REvidences (Inr evs)"
      using call(5) that by (cases rule: served.cases) (auto simp: no_evidence_def)
    moreover have "set evs \<subseteq> V" if "(q, ListEvidence, REvidences (Inr evs)) \<in> set H"
      using i that unfolding evidence_sound_def by blast
    ultimately show ?thesis using that \<open>V \<subseteq> V'\<close> by auto
  qed
  ultimately show ?thesis unfolding \<open>s' = _\<close> evidence_sound_def prod.case by blast
next
  case (edit V v H)
  note i = i [unfolded \<open>s = (H, V)\<close>]
  have "vouched L jobs H (insert v V) v" if verified: "evt_Verified (ev_Status v)"
  proof -
    obtain e where e: "e \<in> V" "object_key v = object_key e" "subject v = subject e" "ev_Status v = ev_Status e"
      using edit(4) verified by (auto simp: foreign_def zero_ev_status_def)
    then have "vouched L jobs H V e" using i verified by (simp add: evidence_sound_def)
    then show ?thesis using e attested_in_same unfolding vouched_def by (metis insert_iff)
  qed
  then show ?thesis using i vouched_mono(3) unfolding \<open>s' = _\<close> evidence_sound_def prod.case by blast
qed

interpretation evidence: history_invariant "cluster_step L srvs jobs" "([], {})" "\<lambda>es. evidence_sound L jobs" for L srvs jobs
  by unfold_locales (simp add: evidence_sound_def, rule evidence_sound_step)

text \<open>The calls of a process are the beginning of a run of its job.\<close>

definition keeps_jobs :: "libs \<Rightarrow> (nat \<Rightarrow> 's server) \<Rightarrow> (nat \<Rightarrow> job) \<Rightarrow> entry list \<Rightarrow> bool" where
  "keeps_jobs L srvs jobs H \<longleftrightarrow>
     (\<forall>p. calls_of p H \<noteq> [] \<longrightarrow> (\<exists>st rest. job_log L (srvs p) (jobs p) st = calls_of p H @ rest))"

interpretation runs: history_invariant "cluster_step L srvs jobs" "([], {})" "\<lambda>es s. keeps_jobs L srvs jobs (fst s)"
  for L srvs jobs
proof
  show "keeps_jobs L srvs jobs (fst ([], {}))" by (simp add: keeps_jobs_def calls_of_def)
next
  fix es s e s'
  assume f: "keeps_jobs L srvs jobs (fst s)" and "cluster_step L srvs jobs s e s'"
  from this(2) show "keeps_jobs L srvs jobs (fst s')"
  proof cases
    case (call p st H c r rest V V')
    then show ?thesis using f unfolding keeps_jobs_def by (auto simp: calls_of_snoc)
  qed (use f in simp)
qed

section \<open>Properties\<close>

text \<open>C4. Under every interleaving of any number of reconcilers and scheduling attempts, crashes in the
  middle of a run, stale reads, unanswered writes and edits by other clients included, every version of an
  evidence object that ever says verified is about a node for which a verifier process read a report with
  the object's nonce and accepted its token, or some version of the object is marked simulated or carries a
  digest or a signature.\<close>

theorem verified_evidence_vouched:
  assumes "path (cluster_step L srvs jobs) ([], {}) acts (H, V)" and "v \<in> V" and "evt_Verified (ev_Status v)"
  shows "attested_in L jobs H v \<or> (\<exists>w\<in>V. object_key w = object_key v \<and> self_evident w)"
  using evidence.always [OF assms(1)] assms(2,3) by (simp add: evidence_sound_def vouched_def)

text \<open>C3. In such a cluster a pod is only bound to a node that was attested, or whose evidence was at some time
  marked simulated or given a digest or a signature by another client: the evidence behind the binding was
  stored, is about the node, and was verified, unrevoked, fresh and of an allowed TEE at a time read during
  the attempt.\<close>

theorem cluster_binds_attested:
  assumes "sort_slice_ok (lb_sort L)" and "path (cluster_step L srvs jobs) ([], {}) acts (H, V)"
    and "jobs p = PodJob fuel s ns name" and "(p, CreateBinding bns bn node, rb) \<in> set H"
    and "\<forall>q ns ps pol. (q, ListPolicies ns, RPolicies (Inr ps)) \<in> set H \<longrightarrow> pol \<in> set ps \<longrightarrow>
           int32 (cips_MaxEvidenceAgeSeconds (cip_Spec pol))"
  shows "\<exists>pod policy ev rt. (p, GetPod ns name, RPod (Inr pod)) \<in> set H \<and> eligible pod \<and>
    policy_found (lb_kl L) pod policy (calls_of p H) \<and> ev \<in> V \<and> (p, Now, rt) \<in> set H \<and>
    acceptable (as_time rt) node policy ev \<and>
    (attested_in L jobs H ev \<or> (\<exists>w\<in>V. object_key w = object_key ev \<and> self_evident w))"
proof -
  let ?m = "Reconcile_pod fuel (lb_prims L) (lb_kl L) (srvs p) (lb_sort L) s ns name"
  obtain pre post where c: "calls_of p H = pre @ (CreateBinding bns bn node, rb) # post"
    using assms(4) by (metis calls_of_mem split_list)
  moreover from this have "calls_of p H \<noteq> []" by simp
  then obtain st rest where "job_log L (srvs p) (jobs p) st = calls_of p H @ rest"
    using runs.always [OF assms(2)] unfolding keeps_jobs_def fst_conv by blast
  ultimately have r: "run ?m st = (fst (run ?m st), pre @ (CreateBinding bns bn node, rb) # post @ rest)"
    using assms(3) by (simp add: prod_eq_iff)
  from Reconcile_pod_binding [OF assms(1) r refl] obtain pod tail sel where
    b: "pre = (GetPod ns name, RPod (Inr pod)) # tail" "eligible pod" "node = node_Name (nc_Node sel)"
      "justified_binding (lb_prims L) (lb_kl L) pod sel tail" by blast
  have sub: "set tail \<subseteq> set (calls_of p H)" using b(1) c by auto
  then have "\<forall>ns ps pol. (ListPolicies ns, RPolicies (Inr ps)) \<in> set tail \<longrightarrow> pol \<in> set ps \<longrightarrow>
      int32 (cips_MaxEvidenceAgeSeconds (cip_Spec pol))" using assms(5) calls_of_mem by blast
  from justified_evidence [OF b(4) this] obtain policy ev evs rt where
    e: "policy_found (lb_kl L) pod policy tail" "(ListEvidence, REvidences (Inr evs)) \<in> set tail" "ev \<in> set evs"
      "(Now, rt) \<in> set tail" "acceptable (as_time rt) node policy ev" using b(3) by blast
  note sound = evidence.always [OF assms(2), unfolded evidence_sound_def prod.case]
  have "ev \<in> V" using sound e(2,3) sub calls_of_mem by blast
  moreover have "evt_Verified (ev_Status ev)" using e(5) by (simp add: acceptable_def)
  ultimately have "ev \<in> V" "vouched L jobs H V ev" using sound by blast+
  moreover have "(GetPod ns name, RPod (Inr pod)) \<in> set (calls_of p H)" "(Now, rt) \<in> set (calls_of p H)"
    using b(1) c e(4) sub by auto
  ultimately show ?thesis
    using e(5) b(2) policy_found_mono [OF e(1) sub] unfolding vouched_def calls_of_mem by blast
qed

section \<open>A concrete history\<close>

lemma path_call:
  assumes "path (cluster_step L srvs jobs) s0 acts (H, V)"
    and "job_log L (srvs p) (jobs p) st = calls_of p H @ (c, r) # rest" and "served c r V V'"
  shows "\<exists>acts'. path (cluster_step L srvs jobs) s0 acts' (H @ [(p, c, r)], V')"
  using path.snoc [OF assms(1)] cluster_step.call [of L srvs p jobs st H c r rest V V'] assms(2,3) by blast

lemma path_reads:
  assumes "path (cluster_step L srvs jobs) s0 acts (H, V)"
    and "job_log L (srvs p) (jobs p) st = calls_of p H @ l @ rest" and "\<forall>c r. (c, r) \<in> set l \<longrightarrow> served c r V V"
  shows "\<exists>acts'. path (cluster_step L srvs jobs) s0 acts' (H @ map (Pair p) l, V)"
  using assms
proof (induction l arbitrary: acts H)
  case (Cons x l)
  obtain c r where x: "x = (c, r)" by (cases x)
  then obtain acts' where "path (cluster_step L srvs jobs) s0 acts' (H @ [(p, c, r)], V)"
    using path_call [OF Cons.prems(1), of p st c r "l @ rest" V] Cons.prems(2,3) by auto
  from Cons.IH [OF this] show ?case using Cons.prems(2,3) x by (auto simp: calls_of_snoc)
qed auto

definition demo_libs :: libs where
  "demo_libs = \<lparr>lb_prims = flat_prims, lb_jwt = demo_jwt, lb_kl = demo_kl, lb_syntax = (\<lambda>s. ''''), lb_sort = demo_sort\<rparr>"

definition demo_srvs :: "nat \<Rightarrow> unit server" where
  "demo_srvs p = (if p = 0 then verifier_srv else att_srv)"

definition demo_jobs :: "nat \<Rightarrow> job" where
  "demo_jobs p = (if p = 0 then ReportJob demo_conf ''ai'' ''rep'' else PodJob 1 demo_sched ''ai'' ''llm'')"

abbreviation demo_path :: "action list \<Rightarrow> entry list \<times> AttestationEvidence set \<Rightarrow> bool" where
  "demo_path \<equiv> path (cluster_step demo_libs demo_srvs demo_jobs) ([], {})"

text \<open>The verifier writes evidence about a node, then a pod is scheduled there.\<close>

lemma verifier_part:
  "\<exists>acts H V. demo_path acts (H, V) \<and> att_ev \<in> V \<and> calls_of 1 H = [] \<and>
     (\<forall>q ns ps. (q, ListPolicies ns, RPolicies (Inr ps)) \<notin> set H)"
proof -
  let ?e = "evidence_mutation demo_conf demo_report 0 blank_evidence"
  let ?u = "UpsertEvidence ''ai'' ''evidence-node-1'' (evidence_mutation demo_conf demo_report 0)"
  let ?rest = "[(StatusReport (mark_processed simulated_outcome demo_report), RReport (Inr (mark_processed simulated_outcome demo_report)))]"
  have log: "job_log demo_libs (demo_srvs 0) (demo_jobs 0) () = [(GetReport ''ai'' ''rep'', RReport (Inr demo_report)),
      (?u, REvidence (Inr ?e)), (Now, RTime (60 * Second)), (Now, RTime (60 * Second)),
      (StatusEvidence att_ev, REvidence (Inr att_ev))] @ ?rest"
    using verifier_run [of flat_prims demo_jwt] by (simp add: demo_libs_def demo_srvs_def demo_jobs_def att_ev_def Let_def)
  have keys: "object_key ?e = (''ai'', ''evidence-node-1'')" "object_key blank_evidence = (''ai'', ''evidence-node-1'')"
    "object_key att_ev = object_key ?e" "marks att_ev = marks ?e"
    by (simp_all add: object_key_def evidence_mutation_def blank_evidence_def newMeta_def att_ev_def Let_def marks_def subject_def)
  have st: "ev_Status ?e = ev_Status blank_evidence" "ev_Status blank_evidence = zero_ev_status"
    by (simp_all add: evidence_mutation_def blank_evidence_def)
  have plain: "served (GetReport ns n) (RReport x) V V" "served Now (RTime t) V V" for ns n x t V
    by (rule served.without_evidence, simp add: no_evidence_def)+
  have 0: "demo_path [] ([], {})" by (rule path.stay)
  obtain a1 where 1: "demo_path a1 ([(0, GetReport ''ai'' ''rep'', RReport (Inr demo_report))], {})"
    using path_reads [OF 0, of 0 "()" "[(GetReport ''ai'' ''rep'', RReport (Inr demo_report))]"] log
    by (auto simp: calls_of_def plain)
  have "served ?u (REvidence (Inr ?e)) {} {?e}"
    using keys(1,2) st by (intro served.upserts) (auto simp: upserted_def intro!: exI [of _ blank_evidence])
  then obtain a2 where 2: "demo_path a2 ([(0, GetReport ''ai'' ''rep'', RReport (Inr demo_report)), (0, ?u, REvidence (Inr ?e))], {?e})"
    using path_call [OF 1, of 0 "()" ?u "REvidence (Inr ?e)"] log by (auto simp: calls_of_def)
  obtain a3 where 3: "demo_path a3 ([(0, GetReport ''ai'' ''rep'', RReport (Inr demo_report)), (0, ?u, REvidence (Inr ?e)),
      (0, Now, RTime (60 * Second)), (0, Now, RTime (60 * Second))], {?e})"
    using path_reads [OF 2, of 0 "()" "[(Now, RTime (60 * Second)), (Now, RTime (60 * Second))]"] log
    by (auto simp: calls_of_def plain)
  have "served (StatusEvidence att_ev) (REvidence (Inr att_ev)) {?e} {att_ev, ?e}"
    using keys by (intro served.restatuses) (simp add: restatused_def)
  then obtain a4 where "demo_path a4 ([(0, GetReport ''ai'' ''rep'', RReport (Inr demo_report)), (0, ?u, REvidence (Inr ?e)),
      (0, Now, RTime (60 * Second)), (0, Now, RTime (60 * Second)), (0, StatusEvidence att_ev, REvidence (Inr att_ev))], {att_ev, ?e})"
    using path_call [OF 3, of 0 "()" "StatusEvidence att_ev" "REvidence (Inr att_ev)"] log by (auto simp: calls_of_def)
  then show ?thesis by (intro exI conjI) (auto simp: calls_of_def)
qed

theorem verified_evidence_vouched_witness:
  "\<exists>acts H V. demo_path acts (H, V) \<and> att_ev \<in> V \<and> evt_Verified (ev_Status att_ev) \<and>
     (attested_in demo_libs demo_jobs H att_ev \<or> (\<exists>w\<in>V. object_key w = object_key att_ev \<and> self_evident w))"
proof -
  obtain acts H V where h: "demo_path acts (H, V)" "att_ev \<in> V" using verifier_part by blast
  from verified_evidence_vouched [OF this att_fields(1)] h att_fields(1) show ?thesis by blast
qed

lemma Reconcile_pod_answers: "answers srv (Reconcile_pod fuel P kl srv srt s ns name)"
  unfolding Reconcile_pod_def by (intro answers_rules SchedulePod_answers)

lemma att_served: "att_ev \<in> V \<Longrightarrow> served c (fst (att_srv c st)) V V"
  by (cases c) (auto simp: att_srv_def object_key_def no_evidence_def intro: served.intros)

theorem cluster_binds_attested_witness:
  "\<exists>acts H V node policy t ev. demo_path acts (H, V) \<and> (1, CreateBinding ''ai'' ''llm'' node, RUnit None) \<in> set H \<and> ev \<in> V \<and>
     acceptable t node policy ev \<and>
     (attested_in demo_libs demo_jobs H ev \<or> (\<exists>w\<in>V. object_key w = object_key ev \<and> self_evident w))"
proof -
  obtain acts H V where h: "demo_path acts (H, V)" "att_ev \<in> V" "calls_of 1 H = []"
    "\<forall>q ns ps. (q, ListPolicies ns, RPolicies (Inr ps)) \<notin> set H" using verifier_part by blast
  let ?m = "Reconcile_pod 1 flat_prims demo_kl att_srv demo_sort demo_sched ''ai'' ''llm''"
  obtain tail node where "run ?m () = (Some None, (GetPod ''ai'' ''llm'', RPod (Inr demo_pod)) # tail @
      [(CreateBinding ''ai'' ''llm'' node, RUnit None)])"
    using steady_reconcile [OF att_steady att_ready, of 1 "()"] by blast
  then obtain calls where r: "run ?m () = (Some None, calls)" and n: "(CreateBinding ''ai'' ''llm'' node, RUnit None) \<in> set calls"
    by (simp del: append_Cons)
  have a: "\<exists>st. x = fst (att_srv c st)" if "(c, x) \<in> set calls" for c x
    using logged_answers [OF Reconcile_pod_answers r that] .
  have "\<forall>c x. (c, x) \<in> set calls \<longrightarrow> served c x V V" using a att_served [OF h(2)] by blast
  then obtain acts' where p: "demo_path acts' (H @ map (Pair 1) calls, V)"
    using path_reads [OF h(1), of 1 "()" calls "[]"] r h(3) by (auto simp: demo_libs_def demo_srvs_def demo_jobs_def)
  have j: "demo_jobs 1 = PodJob 1 demo_sched ''ai'' ''llm''" by (simp add: demo_jobs_def)
  have b: "(1, CreateBinding ''ai'' ''llm'' node, RUnit None) \<in> set (H @ map (Pair 1) calls)" using n by auto
  have i: "\<forall>q ns ps pol. (q, ListPolicies ns, RPolicies (Inr ps)) \<in> set (H @ map (Pair 1) calls) \<longrightarrow> pol \<in> set ps \<longrightarrow>
      int32 (cips_MaxEvidenceAgeSeconds (cip_Spec pol))"
    using h(4) a demo_ready by (fastforce simp: att_srv_def ready_def)
  have srt: "sort_slice_ok (lb_sort demo_libs)" using demo_sort_ok by (simp add: demo_libs_def)
  from cluster_binds_attested [OF srt p j b i] obtain policy ev rt where
    "ev \<in> V" "acceptable (as_time rt) node policy ev"
    "attested_in demo_libs demo_jobs (H @ map (Pair 1) calls) ev \<or> (\<exists>w\<in>V. object_key w = object_key ev \<and> self_evident w)"
    by blast
  with p b show ?thesis by blast
qed

end
