(* ===== verification/Webhook.thy ===== *)
theory Webhook
  imports Scheduler
begin

text \<open>
  The pod admission webhooks, \<open>internal/webhook/podinjector\<close>: the mutating handler that prepares
  confidential pods and injects the header proxy, and the validating handler that checks pods against
  the confidential inference policies.

  The environment is the function \<open>getenv\<close> (an unset variable reads as the empty text). Decoding of a
  request gives a pod or an error text; a patch response is the mutated pod. \<open>url.Parse\<close> and the text of
  a \<open>field.Error\<close> are the parameters \<open>parseURL\<close> and \<open>ferr\<close>. A nil client is \<open>h_client = False\<close>. The
  image resolver keeps a cache and the handler sets the gauge of simulated runtime classes, so the
  mutating handler returns both with its answer.
\<close>

definition InjectKey :: string where "InjectKey = ''aiops.imperium.io/sidecar-injection''"
definition ApplicationKey :: string where "ApplicationKey = ''aiops.imperium.io/application''"
definition TargetHostsKey :: string where "TargetHostsKey = ''aiops.imperium.io/target-hosts''"
definition InjectedProxyKey :: string where "InjectedProxyKey = ''aiops.imperium.io/sidecar-injected''"
definition GOVAREnabledKey :: string where "GOVAREnabledKey = ''aiops.imperium.io/govar-enabled''"
definition GOVAREndpointKey :: string where "GOVAREndpointKey = ''aiops.imperium.io/govar-endpoint''"
definition GOVARTenantKey :: string where "GOVARTenantKey = ''aiops.imperium.io/govar-tenant''"
definition GOVARBudgetPolicyKey :: string where "GOVARBudgetPolicyKey = ''aiops.imperium.io/govar-budget-policy''"
definition GOVARRoutingKey :: string where "GOVARRoutingKey = ''aiops.imperium.io/govar-routing-policy''"
definition GOVARZonesKey :: string where "GOVARZonesKey = ''aiops.imperium.io/govar-allowed-zones''"
definition GOVARSensitiveKey :: string where "GOVARSensitiveKey = ''aiops.imperium.io/govar-sensitive-data''"
definition GOVAREgressRestrictedLabel :: string where
  "GOVAREgressRestrictedLabel = ''aiops.imperium.io/govar-egress-restricted''"
definition GOVARNativeGatewayRequiredKey :: string where
  "GOVARNativeGatewayRequiredKey = ''aiops.imperium.io/govar-native-gateway-required''"
definition SidecarContainerName :: string where "SidecarContainerName = ''greenops-header-proxy''"
definition ProxyURL :: string where "ProxyURL = ''http://127.0.0.1:15088''"
definition GOVARTokenVolumeName :: string where "GOVARTokenVolumeName = ''govar-bound-token''"
definition GOVARTokenMountPath :: string where "GOVARTokenMountPath = ''/var/run/secrets/govar''"
definition GOVARTokenAudience :: string where "GOVARTokenAudience = ''gov-ar-admission''"

lemmas injector_keys = InjectKey_def ApplicationKey_def TargetHostsKey_def InjectedProxyKey_def
  GOVAREnabledKey_def GOVAREndpointKey_def GOVARTenantKey_def GOVARBudgetPolicyKey_def GOVARRoutingKey_def
  GOVARZonesKey_def GOVARSensitiveKey_def GOVAREgressRestrictedLabel_def GOVARNativeGatewayRequiredKey_def

definition PolicyHashAnnotation :: string where "PolicyHashAnnotation = ''ai.sovereign.io/policy-hash''"
definition ModelDigestAnnotation :: string where "ModelDigestAnnotation = ''ai.sovereign.io/model-digest''"
definition ExpectedRuntimeAnnotation :: string where
  "ExpectedRuntimeAnnotation = ''ai.sovereign.io/expected-runtime-class''"
definition AppliedRuntimeAnnotation :: string where
  "AppliedRuntimeAnnotation = ''ai.sovereign.io/applied-runtime-class''"
definition ExpectedEvidenceAgeAnnotation :: string where
  "ExpectedEvidenceAgeAnnotation = ''ai.sovereign.io/expected-evidence-age-seconds''"
definition SimulatedExecutionAnnotation :: string where
  "SimulatedExecutionAnnotation = ''ai.sovereign.io/simulated-execution''"
definition AttestationEvidenceAnnotation :: string where
  "AttestationEvidenceAnnotation = ''ai.sovereign.io/attestation-evidence''"
definition AttestationEvidenceGate :: string where
  "AttestationEvidenceGate = ''aiops.imperium.io/attestation-evidence''"
definition DefaultSchedulerName :: string where "DefaultSchedulerName = ''ai-attestation-scheduler''"
definition SimulatedRuntimeClassLabel :: string where "SimulatedRuntimeClassLabel = ''ai.sovereign.io/simulated''"
definition PlatformModeEnv :: string where "PlatformModeEnv = ''AIOPS_PLATFORM_MODE''"
definition PlatformModeSimulatedKind :: string where "PlatformModeSimulatedKind = ''simulated-kind''"
definition PlatformModeProduction :: string where "PlatformModeProduction = ''production''"

lemmas confidential_keys = PolicyHashAnnotation_def ModelDigestAnnotation_def ExpectedRuntimeAnnotation_def
  AppliedRuntimeAnnotation_def ExpectedEvidenceAgeAnnotation_def SimulatedExecutionAnnotation_def
  AttestationEvidenceAnnotation_def


section \<open>Requests and responses\<close>

record AdmissionRequest =
  ar_Object :: "string + Pod" \<comment> \<open>the result of the decoder\<close>
  ar_Operation :: string
  ar_Namespace :: string

datatype AdmissionResponse =
    Allowed string
  | Denied string
  | Errored int string
  | Patched Pod

definition request_namespace :: "AdmissionRequest \<Rightarrow> Pod \<Rightarrow> string" where
  "request_namespace req pod = (if ar_Namespace req = '''' then om_Namespace (pod_Meta pod) else ar_Namespace req)"

definition annotation :: "Pod \<Rightarrow> string \<Rightarrow> string" where
  "annotation pod k = mget (om_Annotations (pod_Meta pod)) k"

definition pod_label :: "Pod \<Rightarrow> string \<Rightarrow> string" where
  "pod_label pod k = mget (om_Labels (pod_Meta pod)) k"

definition set_annotation :: "string \<Rightarrow> string \<Rightarrow> Pod \<Rightarrow> Pod" where
  "set_annotation k v pod =
     pod\<lparr>pod_Meta := (pod_Meta pod)\<lparr>om_Annotations := mset_key (om_Annotations (pod_Meta pod)) k v\<rparr>\<rparr>"

definition set_label :: "string \<Rightarrow> string \<Rightarrow> Pod \<Rightarrow> Pod" where
  "set_label k v pod = pod\<lparr>pod_Meta := (pod_Meta pod)\<lparr>om_Labels := mset_key (om_Labels (pod_Meta pod)) k v\<rparr>\<rparr>"

definition isEnabled :: "string \<Rightarrow> bool" where
  "isEnabled v \<longleftrightarrow> ToLower (TrimSpace v) \<in> set [''true'', ''yes'', ''enabled'', ''on'']"

text \<open>\<open>maps.Equal\<close>.\<close>

definition maps_equal :: "gomap \<Rightarrow> gomap \<Rightarrow> bool" where
  "maps_equal a b \<longleftrightarrow> list_all (\<lambda>k. map_of a k = map_of b k) (map fst a @ map fst b)"


section \<open>Policies\<close>

record confidentialMutation =
  cm_policy :: ConfidentialInferencePolicy
  cm_expectedRuntime :: string
  cm_appliedRuntime :: string
  cm_simulated :: bool

definition policyMatches :: "klib \<Rightarrow> ConfidentialInferencePolicy \<Rightarrow> Namespace \<Rightarrow> Pod \<Rightarrow> bool" where
  "policyMatches kl policy ns pod =
     (if \<not> selected_by kl (wt_NamespaceSelector (cips_Target (cip_Spec policy))) (ns_Labels ns) then False
      else if \<not> selected_by kl (wt_WorkloadSelector (cips_Target (cip_Spec policy))) (om_Labels (pod_Meta pod))
        then False
      else True)"

definition matchingPolicies :: "klib \<Rightarrow> 's server \<Rightarrow> bool \<Rightarrow> string \<Rightarrow> Pod \<Rightarrow>
    ('s, string + ConfidentialInferencePolicy list) prog" where
  "matchingPolicies kl srv client namespace pod =
     (if \<not> client \<or> namespace = '''' then State_Monad.return (Inr [])
      else do {
        r \<leftarrow> api srv (GetNamespace namespace);
        case as_namespace r of
          Inl e \<Rightarrow> State_Monad.return
            (if IsNotFound e then Inr [] else Inl (''read namespace '' @ fmt_q namespace @ '': '' @ kerr_text e))
        | Inr ns \<Rightarrow> do {
            r \<leftarrow> api srv (ListPolicies namespace);
            case as_policies r of
              Inl e \<Rightarrow> State_Monad.return
                (Inl (''list ConfidentialInferencePolicy in '' @ fmt_q namespace @ '': '' @ kerr_text e))
            | Inr ps \<Rightarrow> State_Monad.return (Inr (filter (\<lambda>p. policyMatches kl p ns pod) ps))
          }
      })"

fun firstAllowedRuntime :: "string list \<Rightarrow> string" where
  "firstAllowedRuntime [] = ''''"
| "firstAllowedRuntime (c # cs) = (if TrimSpace c \<noteq> '''' then TrimSpace c else firstAllowedRuntime cs)"

definition mapRuntimeClass :: "string \<Rightarrow> string \<Rightarrow> string \<times> bool" where
  "mapRuntimeClass runtimeClass mode =
     (if runtimeClass = ''kata-qemu-tdx'' then
        (if mode = PlatformModeSimulatedKind then (''simulated-kata-qemu-tdx'', True) else (runtimeClass, False))
      else if runtimeClass = ''kata-qemu-snp'' then
        (if mode = PlatformModeSimulatedKind then (''simulated-kata-qemu-snp'', True) else (runtimeClass, False))
      else (runtimeClass, False))"

definition platformMode :: "(string \<Rightarrow> string) \<Rightarrow> string" where
  "platformMode getenv =
     (let mode = TrimSpace (ToLower (ReplaceByte (getenv PlatformModeEnv) (CHR ''_'') (CHR ''-''))) in
      if mode \<in> set [PlatformModeProduction, ''prod'', ''aks'', ''aks-private'', ''aks-real-sevsnp'']
        then PlatformModeProduction
      else if mode \<in> set ['''', ''kind'', PlatformModeSimulatedKind, ''simulated'', ''dev'', ''development'', ''local'']
        then PlatformModeSimulatedKind
      else if Contains mode ''aks'' \<or> Contains mode ''prod'' then PlatformModeProduction
      else mode)"

definition mutateForConfidentialPolicy :: "klib \<Rightarrow> 's server \<Rightarrow> (string \<Rightarrow> string) \<Rightarrow> bool \<Rightarrow> string \<Rightarrow> Pod \<Rightarrow>
    ('s, string + confidentialMutation option) prog" where
  "mutateForConfidentialPolicy kl srv getenv client namespace pod = do {
     r \<leftarrow> matchingPolicies kl srv client namespace pod;
     case r of
       Inl e \<Rightarrow> State_Monad.return (Inl e)
     | Inr [] \<Rightarrow> State_Monad.return (Inr None)
     | Inr (policy # _) \<Rightarrow>
         (let expectedRuntime = firstAllowedRuntime (cips_AllowedRuntimeClasses (cip_Spec policy));
              (appliedRuntime, simulated) =
                (if cips_RequireConfidentialContainers (cip_Spec policy)
                 then mapRuntimeClass expectedRuntime (platformMode getenv) else (expectedRuntime, False)) in
          State_Monad.return (Inr (Some \<lparr>cm_policy = policy, cm_expectedRuntime = expectedRuntime,
            cm_appliedRuntime = appliedRuntime, cm_simulated = simulated\<rparr>)))
   }"

definition runtimeAllowed :: "ConfidentialInferencePolicy \<Rightarrow> string \<Rightarrow> bool" where
  "runtimeAllowed policy runtimeClass =
     (if \<not> cips_RequireConfidentialContainers (cip_Spec policy) then True
      else runtimeClass \<in> set (cips_AllowedRuntimeClasses (cip_Spec policy)) \<or>
           TrimPrefix runtimeClass ''simulated-'' \<in> set (cips_AllowedRuntimeClasses (cip_Spec policy)))"


section \<open>Validation\<close>

definition image_errors :: "ConfidentialInferencePolicy \<Rightarrow> Pod \<Rightarrow> string list" where
  "image_errors policy pod =
     (if cips_RequireImageDigest (cip_Spec policy)
      then map (\<lambda>c. ''container '' @ fmt_q (ct_Name c) @ '' image must be digest-pinned'')
             (filter (\<lambda>c. \<not> Contains (ct_Image c) ''@sha256:'') (ps_Containers (pod_Spec pod)))
      else [])"

definition model_errors :: "ConfidentialInferencePolicy \<Rightarrow> Pod \<Rightarrow> string list" where
  "model_errors policy pod =
     (if cips_RequireModelDigest (cip_Spec policy) \<and> TrimSpace (annotation pod ModelDigestAnnotation) = ''''
      then [''annotation '' @ fmt_q ModelDigestAnnotation @ '' is required''] else [])"

definition gpu_errors :: "ConfidentialInferencePolicy \<Rightarrow> string list" where
  "gpu_errors policy =
     (if cips_RequireConfidentialGPU (cip_Spec policy)
      then [''confidential GPU attestation is not implemented in Article 1; GPU-required workloads fail closed'']
      else [])"

definition pod_runtime :: "ConfidentialInferencePolicy \<Rightarrow> Pod \<Rightarrow> string" where
  "pod_runtime policy pod =
     (case ps_RuntimeClassName (pod_Spec pod) of
        Some rc \<Rightarrow> if TrimSpace rc \<noteq> '''' then rc
                  else firstAllowedRuntime (cips_AllowedRuntimeClasses (cip_Spec policy))
      | None \<Rightarrow> firstAllowedRuntime (cips_AllowedRuntimeClasses (cip_Spec policy)))"

definition runtime_errors :: "'s server \<Rightarrow> bool \<Rightarrow> string \<Rightarrow> ConfidentialInferencePolicy \<Rightarrow> Pod \<Rightarrow>
    ('s, string list) prog" where
  "runtime_errors srv client mode policy pod =
     (if \<not> cips_RequireConfidentialContainers (cip_Spec policy) then State_Monad.return []
      else
        (let runtimeClass = pod_runtime policy pod;
             errs =
               (if runtimeClass = '''' then [''no runtimeClassName could be resolved for confidential containers''] else []) @
               (if \<not> runtimeAllowed policy runtimeClass
                then [''runtimeClass '' @ fmt_q runtimeClass @ '' is not allowed by policy '' @
                       fmt_q (om_Name (cip_Meta policy))] else []) in
         if mode = PlatformModeProduction then
           (let errs1 = errs @
              (if HasPrefix runtimeClass ''simulated-''
               then [''simulated runtimeClass '' @ fmt_q runtimeClass @ '' is forbidden in production''] else []) in
            if client \<and> runtimeClass \<noteq> '''' then do {
              r \<leftarrow> api srv (GetRuntimeClass runtimeClass);
              State_Monad.return (errs1 @
                (case as_runtimeClass r of
                   Inl e \<Rightarrow> []
                 | Inr rc \<Rightarrow> if mget (rc_Labels rc) SimulatedRuntimeClassLabel = ''true''
                     then [''runtimeClass '' @ fmt_q runtimeClass @ '' is labelled simulated and forbidden in production'']
                     else []))
            }
            else State_Monad.return errs1)
         else State_Monad.return errs))"

definition validatePodAgainstPolicy :: "(field_error \<Rightarrow> string) \<Rightarrow> 's server \<Rightarrow> bool \<Rightarrow> string \<Rightarrow>
    ConfidentialInferencePolicy \<Rightarrow> Pod \<Rightarrow> ('s, string list) prog" where
  "validatePodAgainstPolicy ferr srv client mode policy pod = do {
     rt \<leftarrow> runtime_errors srv client mode policy pod;
     State_Monad.return (map ferr (Validate_cip [Child ''spec''] (cip_Spec policy)) @ image_errors policy pod @
       model_errors policy pod @ gpu_errors policy @ rt)
   }"

fun validate_policies :: "(field_error \<Rightarrow> string) \<Rightarrow> 's server \<Rightarrow> (string \<Rightarrow> string) \<Rightarrow> bool \<Rightarrow> Pod \<Rightarrow>
    ConfidentialInferencePolicy list \<Rightarrow> ('s, AdmissionResponse) prog" where
  "validate_policies ferr srv getenv client pod [] =
     State_Monad.return (Allowed ''pod satisfies confidential policies'')"
| "validate_policies ferr srv getenv client pod (policy # ps) = do {
     errs \<leftarrow> validatePodAgainstPolicy ferr srv client (platformMode getenv) policy pod;
     if errs \<noteq> [] then State_Monad.return (Denied (Join errs ''; ''))
     else validate_policies ferr srv getenv client pod ps
   }"

definition Handle_validation :: "(field_error \<Rightarrow> string) \<Rightarrow> klib \<Rightarrow> 's server \<Rightarrow> (string \<Rightarrow> string) \<Rightarrow> bool \<Rightarrow>
    AdmissionRequest \<Rightarrow> ('s, AdmissionResponse) prog" where
  "Handle_validation ferr kl srv getenv client req =
     (case ar_Object req of
        Inl e \<Rightarrow> State_Monad.return (Errored 400 e)
      | Inr pod \<Rightarrow>
        if ar_Operation req \<noteq> '''' \<and> ar_Operation req \<noteq> ''CREATE'' \<and> ar_Operation req \<noteq> ''UPDATE''
          then State_Monad.return (Allowed ''no validation needed for this operation'')
        else do {
          r \<leftarrow> matchingPolicies kl srv client (request_namespace req pod) pod;
          case r of
            Inl e \<Rightarrow> State_Monad.return (Errored 500 e)
          | Inr ps \<Rightarrow> validate_policies ferr srv getenv client pod ps
        })"

section \<open>Mutation of confidential pods\<close>

definition annotateConfidentialPod :: "prims \<Rightarrow> Pod \<Rightarrow> confidentialMutation \<Rightarrow> Pod" where
  "annotateConfidentialPod P pod mutation =
     (let pod1 = (case CanonicalSHA256Hex P (cip_spec_json (cip_Spec (cm_policy mutation))) of
            None \<Rightarrow> pod | Some policyHash \<Rightarrow> set_annotation PolicyHashAnnotation policyHash pod);
          pod2 = set_annotation ExpectedRuntimeAnnotation (cm_expectedRuntime mutation) pod1;
          pod3 = set_annotation AppliedRuntimeAnnotation (cm_appliedRuntime mutation) pod2;
          pod4 = set_annotation ExpectedEvidenceAgeAnnotation
                   (itoa (cips_MaxEvidenceAgeSeconds (cip_Spec (cm_policy mutation)))) pod3 in
      set_annotation SimulatedExecutionAnnotation (if cm_simulated mutation then ''true'' else ''false'') pod4)"

definition ensureSchedulingGate :: "Pod \<Rightarrow> Pod" where
  "ensureSchedulingGate pod =
     (if list_ex (\<lambda>g. g = AttestationEvidenceGate) (ps_SchedulingGates (pod_Spec pod)) then pod
      else pod\<lparr>pod_Spec := (pod_Spec pod)
             \<lparr>ps_SchedulingGates := ps_SchedulingGates (pod_Spec pod) @ [AttestationEvidenceGate]\<rparr>\<rparr>)"

definition evidencePresent :: "Pod \<Rightarrow> bool" where
  "evidencePresent pod \<longleftrightarrow> TrimSpace (annotation pod AttestationEvidenceAnnotation) \<noteq> ''''"

text \<open>The steps of \<open>Handle\<close> on a copy of the pod return it with the flag \<open>changed\<close>.\<close>

definition apply_runtime :: "confidentialMutation \<Rightarrow> Pod \<times> bool \<Rightarrow> Pod \<times> bool" where
  "apply_runtime mutation = (\<lambda>(pod, changed).
     if cm_appliedRuntime mutation \<noteq> '''' \<and>
        (case ps_RuntimeClassName (pod_Spec pod) of None \<Rightarrow> True | Some rc \<Rightarrow> TrimSpace rc = '''')
     then (pod\<lparr>pod_Spec := (pod_Spec pod)\<lparr>ps_RuntimeClassName := Some (cm_appliedRuntime mutation)\<rparr>\<rparr>, True)
     else (pod, changed))"

definition apply_scheduler :: "Pod \<times> bool \<Rightarrow> Pod \<times> bool" where
  "apply_scheduler = (\<lambda>(pod, changed).
     if ps_SchedulerName (pod_Spec pod) = ''''
     then (pod\<lparr>pod_Spec := (pod_Spec pod)\<lparr>ps_SchedulerName := DefaultSchedulerName\<rparr>\<rparr>, True)
     else (pod, changed))"

definition apply_gate :: "Pod \<times> bool \<Rightarrow> Pod \<times> bool" where
  "apply_gate = (\<lambda>(pod, changed).
     if \<not> evidencePresent pod then
       (let pod' = ensureSchedulingGate pod in
        (pod', changed \<or>
           length (ps_SchedulingGates (pod_Spec pod')) \<noteq> length (ps_SchedulingGates (pod_Spec pod))))
     else (pod, changed))"

definition apply_confidential :: "prims \<Rightarrow> confidentialMutation option \<Rightarrow> Pod \<Rightarrow> Pod \<times> bool" where
  "apply_confidential P mutation pod =
     (case mutation of
        None \<Rightarrow> (pod, False)
      | Some m \<Rightarrow>
        (let pod1 = annotateConfidentialPod P pod m in
         apply_gate (apply_scheduler (apply_runtime m
           (pod1, \<not> maps_equal (om_Annotations (pod_Meta pod)) (om_Annotations (pod_Meta pod1)))))))"

definition apply_govar_required :: "bool \<Rightarrow> Pod \<times> bool \<Rightarrow> Pod \<times> bool" where
  "apply_govar_required govarRequired = (\<lambda>(pod, changed).
     if govarRequired
     then (set_annotation GOVARNativeGatewayRequiredKey ''true'' (set_label GOVAREgressRestrictedLabel ''true'' pod), True)
     else (pod, changed))"


section \<open>The header proxy\<close>

record govarConfig =
  gc_Enabled :: bool
  gc_Endpoint :: string
  gc_TenantID :: string
  gc_BudgetPolicyName :: string
  gc_RoutingPolicy :: string
  gc_AllowedZones :: "string list"
  gc_SensitiveData :: bool

definition no_govar :: govarConfig where
  "no_govar = \<lparr>gc_Enabled = False, gc_Endpoint = '''', gc_TenantID = '''', gc_BudgetPolicyName = '''',
     gc_RoutingPolicy = '''', gc_AllowedZones = [], gc_SensitiveData = False\<rparr>"

definition parseCSV :: "string \<Rightarrow> string list" where
  "parseCSV v =
     (if TrimSpace v = '''' then []
      else filter (\<lambda>p. p \<noteq> '''') (map TrimSpace (Split v (CHR '',''))))"

fun first_label :: "Pod \<Rightarrow> string list \<Rightarrow> string option" where
  "first_label pod [] = None"
| "first_label pod (k # ks) =
     (if TrimSpace (pod_label pod k) \<noteq> '''' then Some (TrimSpace (pod_label pod k)) else first_label pod ks)"

definition resolveApplication :: "Pod \<Rightarrow> string" where
  "resolveApplication pod =
     (if TrimSpace (annotation pod ApplicationKey) \<noteq> '''' then TrimSpace (annotation pod ApplicationKey)
      else
        (case first_label pod [ApplicationKey, ''app.kubernetes.io/name'', ''app'', ''k8s-app''] of
           Some app \<Rightarrow> app
         | None \<Rightarrow>
           if TrimSuffix (TrimSpace (om_GenerateName (pod_Meta pod))) ''-'' \<noteq> ''''
             then TrimSuffix (TrimSpace (om_GenerateName (pod_Meta pod))) ''-''
           else if TrimSpace (om_Name (pod_Meta pod)) \<noteq> '''' then TrimSpace (om_Name (pod_Meta pod))
           else ''unknown''))"

definition resolveGOVARConfig :: "Pod \<Rightarrow> govarConfig" where
  "resolveGOVARConfig pod =
     (if om_Annotations (pod_Meta pod) = [] then no_govar
      else
        (let cfg = \<lparr>gc_Enabled = isEnabled (annotation pod GOVAREnabledKey),
               gc_Endpoint = TrimSpace (annotation pod GOVAREndpointKey),
               gc_TenantID = TrimSpace (annotation pod GOVARTenantKey),
               gc_BudgetPolicyName = TrimSpace (annotation pod GOVARBudgetPolicyKey),
               gc_RoutingPolicy = TrimSpace (annotation pod GOVARRoutingKey),
               gc_AllowedZones = parseCSV (annotation pod GOVARZonesKey),
               gc_SensitiveData = isEnabled (annotation pod GOVARSensitiveKey)\<rparr> in
         if \<not> gc_Enabled cfg then no_govar
         else if gc_TenantID cfg = '''' then
           (if TrimSpace (pod_label pod ''aiops.imperium.io/team'') \<noteq> ''''
              then cfg\<lparr>gc_TenantID := TrimSpace (pod_label pod ''aiops.imperium.io/team'')\<rparr>
            else if TrimSpace (resolveApplication pod) \<noteq> ''''
              then cfg\<lparr>gc_TenantID := TrimSpace (resolveApplication pod)\<rparr>
            else cfg)
         else cfg))"

record URL =
  u_Scheme :: string
  u_User :: bool \<comment> \<open>\<open>User != nil\<close>\<close>
  u_RawQuery :: string
  u_Fragment :: string
  u_Hostname :: string

definition missing_keys :: "govarConfig \<Rightarrow> string list" where
  "missing_keys cfg =
     (if gc_Endpoint cfg = '''' then [GOVAREndpointKey] else []) @
     (if gc_TenantID cfg = '''' then [GOVARTenantKey] else []) @
     (if gc_BudgetPolicyName cfg = '''' then [GOVARBudgetPolicyKey] else []) @
     (if gc_RoutingPolicy cfg = '''' then [GOVARRoutingKey] else [])"

text \<open>The error of \<open>validateGOVARConfig\<close>, \<open>None\<close> standing for nil.\<close>

definition validateGOVARConfig :: "(string \<Rightarrow> URL option) \<Rightarrow> govarConfig \<Rightarrow> string option" where
  "validateGOVARConfig parseURL cfg =
     (if \<not> gc_Enabled cfg then None
      else if missing_keys cfg \<noteq> []
        then Some (''GOV-AR enabled but required trusted configuration is incomplete: '' @ Join (missing_keys cfg) '','')
      else
        (case parseURL (gc_Endpoint cfg) of
           None \<Rightarrow> Some (GOVAREndpointKey @ '' must be a trusted in-cluster HTTP(S) service URL'')
         | Some u \<Rightarrow>
           if u_User u \<or> u_RawQuery u \<noteq> '''' \<or> u_Fragment u \<noteq> '''' \<or>
              (u_Scheme u \<noteq> ''http'' \<and> u_Scheme u \<noteq> ''https'')
             then Some (GOVAREndpointKey @ '' must be a trusted in-cluster HTTP(S) service URL'')
           else if \<not> HasSuffix (ToLower (u_Hostname u)) ''.svc'' \<and>
                   \<not> HasSuffix (ToLower (u_Hostname u)) ''.svc.cluster.local''
             then Some (GOVAREndpointKey @ '' must target an in-cluster Kubernetes Service'')
           else None))"

definition env_value :: "string \<Rightarrow> string \<Rightarrow> EnvVar" where
  "env_value n v = \<lparr>env_Name = n, env_Value = v, env_FieldPath = None, env_Rest = JNull\<rparr>"

definition env_field :: "string \<Rightarrow> string \<Rightarrow> EnvVar" where
  "env_field n p = \<lparr>env_Name = n, env_Value = '''', env_FieldPath = Some p, env_Rest = JNull\<rparr>"

definition sidecar_env :: "string \<Rightarrow> string list \<Rightarrow> govarConfig \<Rightarrow> EnvVar list" where
  "sidecar_env app targetHosts cfg =
     [env_field ''GREENOPS_NAMESPACE'' ''metadata.namespace'', env_value ''GREENOPS_APPLICATION'' app] @
     (if targetHosts \<noteq> [] then [env_value ''GREENOPS_TARGET_HOSTS'' (Join targetHosts '','')] else []) @
     (if gc_Enabled cfg then
        [env_value ''GOVAR_ENABLED'' ''true'', env_field ''GOVAR_WORKLOAD_UID'' ''metadata.uid'',
         env_value ''GOVAR_TOKEN_FILE'' (GOVARTokenMountPath @ ''/token'')] @
        (if gc_Endpoint cfg \<noteq> '''' then [env_value ''GOVAR_ENDPOINT'' (gc_Endpoint cfg)] else []) @
        (if gc_TenantID cfg \<noteq> '''' then [env_value ''GOVAR_TENANT_ID'' (gc_TenantID cfg)] else []) @
        (if gc_BudgetPolicyName cfg \<noteq> '''' then [env_value ''GOVAR_BUDGET_POLICY'' (gc_BudgetPolicyName cfg)] else []) @
        (if gc_RoutingPolicy cfg \<noteq> '''' then [env_value ''GOVAR_ROUTING_POLICY'' (gc_RoutingPolicy cfg)] else []) @
        (if gc_AllowedZones cfg \<noteq> [] then [env_value ''GOVAR_ALLOWED_ZONES'' (Join (gc_AllowedZones cfg) '','')] else []) @
        (if gc_SensitiveData cfg then [env_value ''GOVAR_SENSITIVE_DATA'' ''true''] else [])
      else [])"

definition sidecarContainer :: "string \<Rightarrow> string \<Rightarrow> string list \<Rightarrow> govarConfig \<Rightarrow> Container" where
  "sidecarContainer img app targetHosts cfg =
     \<lparr>ct_Name = SidecarContainerName, ct_Image = img, ct_ImagePullPolicy = ''IfNotPresent'',
      ct_Command = [''/header-proxy''], ct_Args = [''--listen=:15088''], ct_Env = sidecar_env app targetHosts cfg,
      ct_VolumeMounts = (if gc_Enabled cfg
        then [\<lparr>vm_Name = GOVARTokenVolumeName, vm_MountPath = GOVARTokenMountPath, vm_ReadOnly = True, vm_Rest = JNull\<rparr>]
        else []),
      ct_SecurityContext = Some \<lparr>sx_AllowPrivilegeEscalation = Some False, sx_RunAsNonRoot = Some True,
        sx_ReadOnlyRootFilesystem = Some True, sx_Drop = [''ALL''], sx_Rest = JNull\<rparr>,
      ct_Rest = JNull\<rparr>"

definition ensureGOVARTokenVolume :: "Pod \<Rightarrow> Pod" where
  "ensureGOVARTokenVolume pod =
     (if list_ex (\<lambda>v. vol_Name v = GOVARTokenVolumeName) (ps_Volumes (pod_Spec pod)) then pod
      else pod\<lparr>pod_Spec := (pod_Spec pod)\<lparr>ps_Volumes := ps_Volumes (pod_Spec pod) @
             [\<lparr>vol_Name = GOVARTokenVolumeName,
               vol_Projected = [\<lparr>tp_Audience = GOVARTokenAudience, tp_ExpirationSeconds = 3600, tp_Path = ''token''\<rparr>],
               vol_Rest = JNull\<rparr>]\<rparr>\<rparr>)"

fun upsertEnv :: "EnvVar list \<Rightarrow> EnvVar \<Rightarrow> EnvVar list" where
  "upsertEnv [] env = [env]"
| "upsertEnv (e # es) env = (if env_Name e = env_Name env then env # es else e # upsertEnv es env)"

definition injectProxyEnv :: "EnvVar list \<Rightarrow> EnvVar list" where
  "injectProxyEnv envs =
     upsertEnv (upsertEnv (upsertEnv (upsertEnv envs
       (env_value ''HTTP_PROXY'' ProxyURL)) (env_value ''http_proxy'' ProxyURL))
       (env_value ''HTTPS_PROXY'' ProxyURL)) (env_value ''https_proxy'' ProxyURL)"

definition hasContainer :: "Pod \<Rightarrow> string \<Rightarrow> bool" where
  "hasContainer pod name \<longleftrightarrow> list_ex (\<lambda>c. ct_Name c = name) (ps_Containers (pod_Spec pod))"

definition add_sidecar :: "Container \<Rightarrow> Pod \<Rightarrow> Pod" where
  "add_sidecar sidecar pod =
     pod\<lparr>pod_Spec := (pod_Spec pod)\<lparr>ps_Containers :=
       map (\<lambda>c. if ct_Name c = SidecarContainerName then c else c\<lparr>ct_Env := injectProxyEnv (ct_Env c)\<rparr>)
         (ps_Containers (pod_Spec pod) @ [sidecar])\<rparr>\<rparr>"


section \<open>Image resolvers\<close>

record ManagerPodImageResolver =
  ir_Client :: bool
  ir_PodName :: string
  ir_PodNamespace :: string
  ir_ContainerName :: string
  ir_cached :: string

datatype ImageResolver = StaticImageResolver string | ManagerPod ManagerPodImageResolver

fun find_image :: "string \<Rightarrow> Container list \<Rightarrow> string option" where
  "find_image n [] = None"
| "find_image n (c # cs) = (if ct_Name c = n then Some (ct_Image c) else find_image n cs)"

definition Resolve_manager :: "'s server \<Rightarrow> ManagerPodImageResolver \<Rightarrow>
    ('s, (string + string) \<times> ManagerPodImageResolver) prog" where
  "Resolve_manager srv r =
     (if ir_cached r \<noteq> '''' then State_Monad.return (Inr (ir_cached r), r)
      else if \<not> ir_Client r then State_Monad.return (Inl ''manager pod image resolver requires a client'', r)
      else if ir_PodName r = '''' \<or> ir_PodNamespace r = ''''
        then State_Monad.return (Inl ''manager pod name/namespace not configured'', r)
      else do {
        p \<leftarrow> api srv (GetPod (ir_PodNamespace r) (ir_PodName r));
        case as_pod p of
          Inl e \<Rightarrow> State_Monad.return (Inl (''read manager pod image: '' @ kerr_text e), r)
        | Inr pod \<Rightarrow>
          (let containerName = (if ir_ContainerName r = '''' then ''manager'' else ir_ContainerName r) in
           case find_image containerName (ps_Containers (pod_Spec pod)) of
             Some img \<Rightarrow> State_Monad.return (Inr img, r\<lparr>ir_cached := img\<rparr>)
           | None \<Rightarrow> State_Monad.return
               (Inl (''manager container '' @ fmt_q containerName @ '' not found in pod '' @
                     ir_PodNamespace r @ ''/'' @ ir_PodName r), r))
      })"

fun Resolve :: "'s server \<Rightarrow> ImageResolver \<Rightarrow> ('s, (string + string) \<times> ImageResolver) prog" where
  "Resolve srv (StaticImageResolver img) = State_Monad.return
     (if TrimSpace img = '''' then Inl ''sidecar image is empty'' else Inr img, StaticImageResolver img)"
| "Resolve srv (ManagerPod r) = do {
     (res, r') \<leftarrow> Resolve_manager srv r;
     State_Monad.return (res, ManagerPod r')
   }"


section \<open>The mutating handler\<close>

text \<open>The gauge of \<open>internal/metrics\<close> is the only state next to the image resolver: a value for each namespace,
  policy and runtime class.\<close>

type_synonym gauge = "string \<times> string \<times> string \<rightharpoonup> nat"

record Handler =
  h_client :: bool
  h_imageResolver :: "ImageResolver option"
  h_SimulatedRuntimeClassInUse :: gauge

definition applySimulatedRuntimeMetric :: "string \<Rightarrow> string \<Rightarrow> string \<Rightarrow> bool \<Rightarrow> gauge \<Rightarrow> gauge" where
  "applySimulatedRuntimeMetric namespace policyName runtimeClass simulated g =
     g((namespace, policyName, runtimeClass) \<mapsto> (if simulated then 1 else 0))"

definition count_mutation :: "string \<Rightarrow> confidentialMutation option \<Rightarrow> Handler \<Rightarrow> Handler" where
  "count_mutation namespace mutation h =
     (case mutation of
        None \<Rightarrow> h
      | Some m \<Rightarrow> h\<lparr>h_SimulatedRuntimeClassInUse := applySimulatedRuntimeMetric namespace
          (om_Name (cip_Meta (cm_policy m))) (cm_appliedRuntime m) (cm_simulated m) (h_SimulatedRuntimeClassInUse h)\<rparr>)"

definition shouldInject :: "'s server \<Rightarrow> bool \<Rightarrow> string \<Rightarrow> Pod \<Rightarrow> ('s, string + bool) prog" where
  "shouldInject srv client namespace pod =
     (if (case map_of (om_Annotations (pod_Meta pod)) InjectKey of Some v \<Rightarrow> isEnabled v | None \<Rightarrow> False)
        then State_Monad.return (Inr True)
      else if \<not> client \<or> namespace = '''' then State_Monad.return (Inr False)
      else do {
        r \<leftarrow> api srv (GetNamespace namespace);
        State_Monad.return
          (case as_namespace r of
             Inl e \<Rightarrow> Inl (''read namespace '' @ fmt_q namespace @ '' for sidecar injection: '' @ kerr_text e)
           | Inr ns \<Rightarrow> Inr (isEnabled (mget (ns_Labels ns) InjectKey) \<or>
               isEnabled (mget (ns_Labels ns) GOVAREnabledKey) \<or> isEnabled (mget (ns_Annotations ns) GOVAREnabledKey)))
      })"

definition namespaceRequiresGOVAR :: "'s server \<Rightarrow> bool \<Rightarrow> string \<Rightarrow> ('s, string + bool) prog" where
  "namespaceRequiresGOVAR srv client namespace =
     (if \<not> client \<or> namespace = '''' then State_Monad.return (Inr False)
      else do {
        r \<leftarrow> api srv (GetNamespace namespace);
        State_Monad.return
          (case as_namespace r of
             Inl e \<Rightarrow> if IsNotFound e then Inr False
               else Inl (''read namespace '' @ fmt_q namespace @ '' for GOV-AR enforcement: '' @ kerr_text e)
           | Inr ns \<Rightarrow> Inr (isEnabled (mget (ns_Labels ns) GOVAREnabledKey) \<or>
               isEnabled (mget (ns_Annotations ns) GOVAREnabledKey)))
      })"

text \<open>The injection of the proxy: a response that ends the request, or the pod and \<open>changed\<close>, and the
  resolver.\<close>

definition inject_sidecar :: "'s server \<Rightarrow> (string \<Rightarrow> URL option) \<Rightarrow> Handler \<Rightarrow> Pod \<times> bool \<Rightarrow>
    ('s, (AdmissionResponse + Pod \<times> bool) \<times> Handler) prog" where
  "inject_sidecar srv parseURL h pc =
     (let (pod, changed) = pc in
      if hasContainer pod SidecarContainerName
        then State_Monad.return (Inr (set_annotation InjectedProxyKey ''true'' pod, changed), h)
      else
        (case h_imageResolver h of
           None \<Rightarrow> State_Monad.return (Inl (Errored 500 ''no sidecar image resolver configured''), h)
         | Some resolver \<Rightarrow> do {
             rr \<leftarrow> Resolve srv resolver;
             let h' = h\<lparr>h_imageResolver := Some (snd rr)\<rparr>;
             case fst rr of
               Inl e \<Rightarrow> State_Monad.return (Inl (Errored 500 e), h')
             | Inr img \<Rightarrow>
               (let app = resolveApplication pod;
                    targetHosts = parseCSV (annotation pod TargetHostsKey);
                    govarCfg = resolveGOVARConfig pod in
                case validateGOVARConfig parseURL govarCfg of
                  Some e \<Rightarrow> State_Monad.return (Inl (Denied e), h')
                | None \<Rightarrow>
                  (let pod1 = (if gc_Enabled govarCfg
                         then set_label GOVAREgressRestrictedLabel ''true'' (ensureGOVARTokenVolume pod) else pod);
                       pod2 = add_sidecar (sidecarContainer img app targetHosts govarCfg) pod1 in
                   State_Monad.return (Inr (set_annotation InjectedProxyKey ''true'' pod2, True), h')))
           }))"

definition respond :: "prims \<Rightarrow> 's server \<Rightarrow> (string \<Rightarrow> URL option) \<Rightarrow> Handler \<Rightarrow> confidentialMutation option \<Rightarrow>
    Pod \<Rightarrow> bool \<Rightarrow> bool \<Rightarrow> ('s, AdmissionResponse \<times> Handler) prog" where
  "respond P srv parseURL h mutation pod enabled govarRequired = do {
     let pc = apply_govar_required govarRequired (apply_confidential P mutation pod);
     (res, h') \<leftarrow> (if enabled \<and> \<not> govarRequired then inject_sidecar srv parseURL h pc
                 else State_Monad.return (Inr pc, h));
     case res of
       Inl resp \<Rightarrow> State_Monad.return (resp, h')
     | Inr (mutated, changed) \<Rightarrow> State_Monad.return
         (if \<not> changed then Allowed ''no pod mutation required'' else Patched mutated, h')
   }"

definition Handle :: "prims \<Rightarrow> klib \<Rightarrow> 's server \<Rightarrow> (string \<Rightarrow> string) \<Rightarrow> (string \<Rightarrow> URL option) \<Rightarrow> Handler \<Rightarrow>
    AdmissionRequest \<Rightarrow> ('s, AdmissionResponse \<times> Handler) prog" where
  "Handle P kl srv getenv parseURL h req =
     (case ar_Object req of
        Inl e \<Rightarrow> State_Monad.return (Errored 400 e, h)
      | Inr pod \<Rightarrow>
        if ar_Operation req \<noteq> '''' \<and> ar_Operation req \<noteq> ''CREATE''
          then State_Monad.return (Allowed ''pod sidecar injection only runs on create'', h)
        else do {
          m \<leftarrow> mutateForConfidentialPolicy kl srv getenv (h_client h) (request_namespace req pod) pod;
          case m of
            Inl e \<Rightarrow> State_Monad.return (Errored 500 e, h)
          | Inr mutation \<Rightarrow> do {
              en \<leftarrow> shouldInject srv (h_client h) (request_namespace req pod) pod;
              case en of
                Inl e \<Rightarrow> State_Monad.return (Errored 500 e, h)
              | Inr enabled \<Rightarrow> do {
                  gr \<leftarrow> namespaceRequiresGOVAR srv (h_client h) (request_namespace req pod);
                  case gr of
                    Inl e \<Rightarrow> State_Monad.return (Errored 500 e, h)
                  | Inr govarRequired \<Rightarrow> respond P srv parseURL (count_mutation (request_namespace req pod) mutation h)
                      mutation pod enabled govarRequired
                }
            }
        })"


section \<open>Metric names\<close>

text \<open>\<open>FindStringSubmatch\<close> with the pattern of \<open>fqNameRe\<close>: the shortest text without quotes after the first
  place where it is not empty and a quote ends it.\<close>

abbreviation dquote :: char where "dquote \<equiv> CHR 0x22"

fun fqName :: "string \<Rightarrow> string option" where
  "fqName [] = None"
| "fqName (c # s) =
     (let tail = drop (length ''fqName: '' + 1) (c # s); n = takeWhile (\<lambda>x. x \<noteq> dquote) tail in
      if HasPrefix (c # s) (''fqName: '' @ [dquote]) \<and> n \<noteq> '''' \<and> length n < length tail then Some n else fqName s)"

text \<open>The collectors are given by the texts of their descriptions, at most four each, as the channel between them
  and \<open>Names\<close> holds four; the gauge has one.\<close>

definition metric_Names :: "string list list \<Rightarrow> string list" where
  "metric_Names collectors = List.map_filter fqName (concat collectors)"

end
