(* ===== verification/Webhook_Properties.thy ===== *)
theory Webhook_Properties
  imports Webhook Scheduler_Properties
begin

text \<open>
  What the admission webhooks promise: the validating handler admits exactly the pods that comply with
  every policy that selects them, a pod that passes the mutating handler carries what the scheduler
  checks later, and the injected proxy reaches every container. The statements hold for every server.
\<close>

section \<open>Validation\<close>

text \<open>What a policy asks of a pod, without the label of its runtime class.\<close>

definition complies :: "string \<Rightarrow> Pod \<Rightarrow> ConfidentialInferencePolicy \<Rightarrow> bool" where
  "complies mode pod p \<longleftrightarrow>
     (let s = cip_Spec p; rc = pod_runtime p pod in
      (cips_RequireConfidentialContainers s \<longrightarrow> cips_AllowedRuntimeClasses s \<noteq> []) \<and>
      (kr_Required (cips_KeyRelease s) \<longrightarrow> 0 < kr_TTLSeconds (cips_KeyRelease s)) \<and>
      (cips_RequireImageDigest s \<longrightarrow> (\<forall>c\<in>set (ps_Containers (pod_Spec pod)). Contains (ct_Image c) ''@sha256:'')) \<and>
      (cips_RequireModelDigest s \<longrightarrow> TrimSpace (annotation pod ModelDigestAnnotation) \<noteq> '''') \<and>
      \<not> cips_RequireConfidentialGPU s \<and>
      (cips_RequireConfidentialContainers s \<longrightarrow> rc \<noteq> '''' \<and> runtimeAllowed p rc \<and>
         (mode = PlatformModeProduction \<longrightarrow> \<not> HasPrefix rc ''simulated-'')))"

text \<open>Replies that show the runtime class to be labelled as simulated.\<close>

definition labelled_simulated :: "reply \<Rightarrow> bool" where
  "labelled_simulated r \<longleftrightarrow>
     (\<exists>rc. r = RRuntimeClass (Inr rc) \<and> mget (rc_Labels rc) SimulatedRuntimeClassLabel = ''true'')"

definition simulated_seen :: "log \<Rightarrow> bool" where
  "simulated_seen calls \<longleftrightarrow> (\<exists>n r. (GetRuntimeClass n, r) \<in> set calls \<and> labelled_simulated r)"

lemma simulated_seen_simps [simp]:
  "\<not> simulated_seen []"
  "simulated_seen ((c, r) # tr) \<longleftrightarrow> (\<exists>n. c = GetRuntimeClass n) \<and> labelled_simulated r \<or> simulated_seen tr"
  "simulated_seen (tr @ tr') \<longleftrightarrow> simulated_seen tr \<or> simulated_seen tr'"
  by (auto simp: simulated_seen_def)

lemma runtime_errors_ens:
  "ensures (runtime_errors srv client mode p pod) (\<lambda>errs tr.
     errs = [] \<longleftrightarrow>
       (cips_RequireConfidentialContainers (cip_Spec p) \<longrightarrow> pod_runtime p pod \<noteq> '''' \<and>
          runtimeAllowed p (pod_runtime p pod) \<and>
          (mode = PlatformModeProduction \<longrightarrow> \<not> HasPrefix (pod_runtime p pod) ''simulated-'')) \<and>
       \<not> simulated_seen tr)"
  unfolding runtime_errors_def Let_def
  by (intro ens_flat) (auto simp: labelled_simulated_def split: sum.splits)

lemma validate_policy_ens:
  "ensures (validatePodAgainstPolicy ferr srv client mode p pod) (\<lambda>errs tr.
     errs = [] \<longleftrightarrow> complies mode pod p \<and> \<not> simulated_seen tr)"
  unfolding validatePodAgainstPolicy_def
  by (rule ensures_bind [OF runtime_errors_ens], rule ensures_return)
    (auto simp: complies_def Let_def Validate_cip_def image_errors_def model_errors_def gpu_errors_def
      filter_empty_conv)

lemma validate_policies_ens:
  "ensures (validate_policies ferr srv getenv client pod ps) (\<lambda>resp tr.
     (resp = Allowed ''pod satisfies confidential policies'' \<or> (\<exists>e. resp = Denied e)) \<and>
     (resp = Allowed ''pod satisfies confidential policies'' \<longleftrightarrow>
        (\<forall>p\<in>set ps. complies (platformMode getenv) pod p) \<and> \<not> simulated_seen tr))"
proof (induction ps)
  case Nil
  show ?case by (auto intro!: ensures_return)
next
  case (Cons p ps)
  show ?case unfolding validate_policies.simps
  proof (rule ensures_bind [OF validate_policy_ens], rule ensures_if, goal_cases)
    case (1 errs tr)
    then show ?case by (auto intro!: ensures_return)
  next
    case (2 errs tr)
    then show ?case by (auto intro!: ensures_conseq [OF Cons.IH])
  qed
qed

text \<open>The policies that the log of a request shows to select a pod, \<open>None\<close> when they could not be
  read.\<close>

definition selecting :: "klib \<Rightarrow> string \<Rightarrow> Pod \<Rightarrow> log \<Rightarrow> ConfidentialInferencePolicy list option" where
  "selecting kl namespace pod calls =
     (case map_of (take 2 calls) (GetNamespace namespace) of
        None \<Rightarrow> None
      | Some rn \<Rightarrow>
        (case as_namespace rn of
           Inl e \<Rightarrow> if IsNotFound e then Some [] else None
         | Inr ns \<Rightarrow>
           (case map_of (take 2 calls) (ListPolicies namespace) of
              None \<Rightarrow> None
            | Some rp \<Rightarrow>
              (case as_policies rp of
                 Inl e \<Rightarrow> None
               | Inr ps \<Rightarrow> Some (filter (\<lambda>p. policyMatches kl p ns pod) ps)))))"

lemma matchingPolicies_ens:
  assumes "namespace \<noteq> ''''"
  shows "ensures (matchingPolicies kl srv True namespace pod) (\<lambda>res tr.
    selecting kl namespace pod tr = (case res of Inl e \<Rightarrow> None | Inr ps \<Rightarrow> Some ps) \<and>
    (\<forall>tail. selecting kl namespace pod (tr @ tail) = (case res of Inl e \<Rightarrow> None | Inr ps \<Rightarrow> Some ps)) \<and>
    \<not> simulated_seen tr)"
  unfolding matchingPolicies_def by (intro ens_flat) (auto simp: assms selecting_def)

text \<open>C11. Admission of confidential pods is exact and fails closed: when the namespace and its policies can
  be read, a created or updated pod is admitted precisely when it complies with every policy that
  selects it (a valid policy, pinned images, a model digest, no confidential GPU, an allowed runtime
  class, none called simulated in production) and no runtime class looked up in production is labelled
  as simulated; otherwise it is denied, and an error of the server is an error of the request. The \<open>enforcementMode\<close> of
  the policies plays no part: a pod that breaks a policy in \<open>warn\<close> or \<open>audit\<close> mode is denied like one that breaks a policy
  in \<open>enforce\<close> mode.\<close>

theorem validation_exact:
  assumes "run (Handle_validation ferr kl srv getenv True req) st = (resp, calls)"
    and "ar_Object req = Inr pod" and "ar_Operation req \<in> {'''', ''CREATE'', ''UPDATE''}"
    and "request_namespace req pod \<noteq> ''''"
  shows "case selecting kl (request_namespace req pod) pod calls of
      None \<Rightarrow> \<exists>e. resp = Errored 500 e
    | Some ps \<Rightarrow>
        (resp = Allowed ''pod satisfies confidential policies'' \<longleftrightarrow>
           (\<forall>p\<in>set ps. complies (platformMode getenv) pod p) \<and> \<not> simulated_seen calls) \<and>
        (resp \<noteq> Allowed ''pod satisfies confidential policies'' \<longrightarrow> (\<exists>e. resp = Denied e))"
    (is "?Q resp calls")
proof -
  have "ensures (Handle_validation ferr kl srv getenv True req) ?Q"
    unfolding Handle_validation_def
    using assms(2, 3)
    by (auto intro!: ensures_bind [OF matchingPolicies_ens [OF assms(4)]] ensures_sum ensures_return
        ensures_conseq [OF validate_policies_ens])
  then show ?thesis using assms(1) by (rule ensures_run)
qed

definition demo_request :: AdmissionRequest where
  "demo_request = \<lparr>ar_Object = Inr demo_pod, ar_Operation = ''CREATE'', ar_Namespace = ''ai''\<rparr>"

definition demo_env :: "string \<Rightarrow> string" where
  "demo_env k = (if k = PlatformModeEnv then ''production'' else '''')"

lemma demo_mode: "platformMode demo_env = PlatformModeProduction"
  by (simp add: platformMode_def demo_env_def ReplaceByte_def case_ascii ascii_def lower_char_def PlatformModeProduction_def
      TrimSpace_all_graphic graphic_def)

lemma demo_complies: "complies PlatformModeProduction demo_pod demo_cip"
  by (simp add: complies_def demo_cip_def demo_cip_spec_def pod_runtime_def demo_pod_def runtimeAllowed_def
      TrimSpace_all_graphic graphic_def HasPrefix_def)

theorem validation_exact_witness:
  "\<exists>calls. run (Handle_validation (\<lambda>e. '''') demo_kl demo_srv demo_env True demo_request) () =
     (Allowed ''pod satisfies confidential policies'', calls) \<and>
     selecting demo_kl ''ai'' demo_pod calls = Some [demo_cip]"
proof -
  have sel: "selected_by demo_kl s l" for s l by (simp add: selected_by_def demo_kl_def split: option.split)
  let ?m = "Handle_validation (\<lambda>e. '''') demo_kl demo_srv demo_env True demo_request"
  obtain resp calls where r: "run ?m () = (resp, calls)" by (cases "run ?m ()")
  have ns: "request_namespace demo_request demo_pod = ''ai''" by (simp add: request_namespace_def demo_request_def)
  have s: "selecting demo_kl ''ai'' demo_pod calls = Some [demo_cip]" and n: "\<not> simulated_seen calls"
    using r by (auto simp: run_def Handle_validation_def demo_request_def matchingPolicies_def demo_srv_def
        request_namespace_def policyMatches_def sel selecting_def validatePodAgainstPolicy_def runtime_errors_def Let_def
        labelled_simulated_def mget_def split: if_splits)
  have o: "ar_Object demo_request = Inr demo_pod" "ar_Operation demo_request = ''CREATE''"
    by (simp_all add: demo_request_def)
  show ?thesis using validation_exact [OF r o(1)] s n r demo_complies by (simp add: ns demo_mode o)
qed

text \<open>Whatever mode a policy sets, the errors of a pod are the same, and any error is a denial.\<close>

theorem validation_ignores_mode:
  "validatePodAgainstPolicy ferr srv client mode (p\<lparr>cip_Spec := (cip_Spec p)\<lparr>cips_EnforcementMode := m\<rparr>\<rparr>) pod =
   validatePodAgainstPolicy ferr srv client mode p pod"
proof -
  let ?p = "p\<lparr>cip_Spec := (cip_Spec p)\<lparr>cips_EnforcementMode := m\<rparr>\<rparr>"
  have r: "pod_runtime ?p = pod_runtime p" "runtimeAllowed ?p = runtimeAllowed p"
    by (simp_all add: fun_eq_iff pod_runtime_def runtimeAllowed_def split: option.split)
  have "runtime_errors srv client mode ?p pod = runtime_errors srv client mode p pod"
    unfolding runtime_errors_def r Let_def by simp
  then show ?thesis
    by (simp add: validatePodAgainstPolicy_def image_errors_def model_errors_def gpu_errors_def Validate_cip_def)
qed

section \<open>Mutation\<close>

lemma set_annotation_simps [simp]:
  "annotation (set_annotation k v pod) k' = (if k' = k then v else annotation pod k')"
  "pod_Spec (set_annotation k v pod) = pod_Spec pod"
  "pod_label (set_annotation k v pod) = pod_label pod"
  by (auto simp: set_annotation_def annotation_def pod_label_def fun_eq_iff)

lemma set_label_simps [simp]:
  "annotation (set_label k v pod) = annotation pod"
  "pod_Spec (set_label k v pod) = pod_Spec pod"
  "pod_label (set_label k v pod) k' = (if k' = k then v else pod_label pod k')"
  by (auto simp: set_label_def annotation_def pod_label_def fun_eq_iff)

lemma pod_Spec_update_simps [simp]:
  "annotation (pod\<lparr>pod_Spec := s\<rparr>) = annotation pod"
  "pod_label (pod\<lparr>pod_Spec := s\<rparr>) = pod_label pod"
  by (auto simp: annotation_def pod_label_def fun_eq_iff)

text \<open>What the mutation for a policy amounts to, and what a pod carries after it.\<close>

definition mutation_of :: "string \<Rightarrow> ConfidentialInferencePolicy \<Rightarrow> confidentialMutation" where
  "mutation_of mode p =
     (let rc = firstAllowedRuntime (cips_AllowedRuntimeClasses (cip_Spec p));
          sim = cips_RequireConfidentialContainers (cip_Spec p) \<and> mode = PlatformModeSimulatedKind \<and>
                rc \<in> {''kata-qemu-tdx'', ''kata-qemu-snp''} in
      \<lparr>cm_policy = p, cm_expectedRuntime = rc, cm_appliedRuntime = (if sim then ''simulated-'' @ rc else rc),
       cm_simulated = sim\<rparr>)"

definition has_runtime :: "Pod \<Rightarrow> bool" where
  "has_runtime pod \<longleftrightarrow> (case ps_RuntimeClassName (pod_Spec pod) of None \<Rightarrow> False | Some rc \<Rightarrow> TrimSpace rc \<noteq> '''')"

definition prepared :: "prims \<Rightarrow> confidentialMutation \<Rightarrow> Pod \<Rightarrow> Pod \<Rightarrow> bool" where
  "prepared P m pod pod' \<longleftrightarrow>
     (\<forall>h. CanonicalSHA256Hex P (cip_spec_json (cip_Spec (cm_policy m))) = Some h \<longrightarrow>
        annotation pod' PolicyHashAnnotation = h) \<and>
     annotation pod' ExpectedRuntimeAnnotation = cm_expectedRuntime m \<and>
     annotation pod' AppliedRuntimeAnnotation = cm_appliedRuntime m \<and>
     annotation pod' ExpectedEvidenceAgeAnnotation = itoa (cips_MaxEvidenceAgeSeconds (cip_Spec (cm_policy m))) \<and>
     annotation pod' SimulatedExecutionAnnotation = (if cm_simulated m then ''true'' else ''false'') \<and>
     ps_RuntimeClassName (pod_Spec pod') =
       (if has_runtime pod \<or> cm_appliedRuntime m = '''' then ps_RuntimeClassName (pod_Spec pod)
        else Some (cm_appliedRuntime m)) \<and>
     ps_SchedulerName (pod_Spec pod') =
       (if ps_SchedulerName (pod_Spec pod) = '''' then DefaultSchedulerName else ps_SchedulerName (pod_Spec pod)) \<and>
     (evidencePresent pod \<or> AttestationEvidenceGate \<in> set (ps_SchedulingGates (pod_Spec pod'))) \<and>
     set (ps_SchedulingGates (pod_Spec pod)) \<subseteq> set (ps_SchedulingGates (pod_Spec pod'))"

lemma maps_equal_mget: "maps_equal a b \<Longrightarrow> mget a = mget b"
proof
  fix k assume "maps_equal a b"
  then show "mget a k = mget b k"
    by (cases "k \<in> fst ` set a \<union> fst ` set b")
      (auto simp: maps_equal_def mget_def list_all_iff map_of_eq_None_iff [THEN iffD2])
qed

lemma annotate_simps:
  "pod_Spec (annotateConfidentialPod P pod m) = pod_Spec pod"
  "annotation (annotateConfidentialPod P pod m) AttestationEvidenceAnnotation = annotation pod AttestationEvidenceAnnotation"
  by (auto simp: annotateConfidentialPod_def Let_def confidential_keys split: option.splits)

lemma ensureSchedulingGate_simps [simp]:
  "annotation (ensureSchedulingGate pod) = annotation pod"
  "ps_RuntimeClassName (pod_Spec (ensureSchedulingGate pod)) = ps_RuntimeClassName (pod_Spec pod)"
  "ps_SchedulerName (pod_Spec (ensureSchedulingGate pod)) = ps_SchedulerName (pod_Spec pod)"
  "set (ps_SchedulingGates (pod_Spec (ensureSchedulingGate pod))) =
     insert AttestationEvidenceGate (set (ps_SchedulingGates (pod_Spec pod)))"
  by (auto simp: ensureSchedulingGate_def list_ex_iff)

lemma apply_confidential_prepared:
  assumes "apply_confidential P (Some m) pod = (pod', changed)"
  shows "prepared P m pod pod'"
proof -
  let ?a = "annotateConfidentialPod P pod m"
  have s: "pod_Spec ?a = pod_Spec pod" and e: "evidencePresent ?a \<longleftrightarrow> evidencePresent pod"
    by (simp_all add: annotate_simps evidencePresent_def)
  have "pod' = fst (apply_confidential P (Some m) pod)" using assms by simp
  moreover have a: "annotation ?a ExpectedRuntimeAnnotation = cm_expectedRuntime m"
    "annotation ?a AppliedRuntimeAnnotation = cm_appliedRuntime m"
    "annotation ?a ExpectedEvidenceAgeAnnotation = itoa (cips_MaxEvidenceAgeSeconds (cip_Spec (cm_policy m)))"
    "annotation ?a SimulatedExecutionAnnotation = (if cm_simulated m then ''true'' else ''false'')"
    "\<And>h. CanonicalSHA256Hex P (cip_spec_json (cip_Spec (cm_policy m))) = Some h \<Longrightarrow> annotation ?a PolicyHashAnnotation = h"
    by (simp_all add: annotateConfidentialPod_def Let_def confidential_keys)
  ultimately show ?thesis
    using e by (auto simp: prepared_def apply_confidential_def Let_def apply_runtime_def apply_scheduler_def apply_gate_def
        evidencePresent_def s has_runtime_def split: option.splits if_splits)
qed

text \<open>Only the annotations of the mutation, the runtime class, the scheduler and the gates matter.\<close>

definition same_preparation :: "Pod \<Rightarrow> Pod \<Rightarrow> bool" where
  "same_preparation a b \<longleftrightarrow>
     (\<forall>k\<in>{PolicyHashAnnotation, ExpectedRuntimeAnnotation, AppliedRuntimeAnnotation, ExpectedEvidenceAgeAnnotation,
           SimulatedExecutionAnnotation}. annotation a k = annotation b k) \<and>
     ps_RuntimeClassName (pod_Spec a) = ps_RuntimeClassName (pod_Spec b) \<and>
     ps_SchedulerName (pod_Spec a) = ps_SchedulerName (pod_Spec b) \<and>
     ps_SchedulingGates (pod_Spec a) = ps_SchedulingGates (pod_Spec b)"

lemma same_preparation_prepared: "same_preparation a b \<Longrightarrow> prepared P m pod a \<Longrightarrow> prepared P m pod b"
  by (simp add: same_preparation_def prepared_def)

lemma apply_unchanged:
  "apply_runtime m (pod, ch) = (pod', False) \<Longrightarrow> \<not> ch \<and> pod' = pod"
  "apply_scheduler (pod, ch) = (pod', False) \<Longrightarrow> \<not> ch \<and> pod' = pod"
  "apply_gate (pod, ch) = (pod', False) \<Longrightarrow> \<not> ch \<and> pod' = pod"
  by (auto simp: apply_runtime_def apply_scheduler_def apply_gate_def Let_def ensureSchedulingGate_def split: if_splits)

lemma apply_confidential_unchanged:
  assumes "apply_confidential P (Some m) pod = (pod', False)"
  shows "prepared P m pod pod"
proof (rule same_preparation_prepared [OF _ apply_confidential_prepared [OF assms]])
  let ?a = "annotateConfidentialPod P pod m"
  let ?ch = "\<not> maps_equal (om_Annotations (pod_Meta pod)) (om_Annotations (pod_Meta ?a))"
  obtain p1 c1 where 1: "apply_runtime m (?a, ?ch) = (p1, c1)" by (cases "apply_runtime m (?a, ?ch)")
  obtain p2 c2 where 2: "apply_scheduler (p1, c1) = (p2, c2)" by (cases "apply_scheduler (p1, c1)")
  have "apply_gate (p2, c2) = (pod', False)" using assms by (simp add: apply_confidential_def Let_def 1 2)
  with 1 2 have eq: "maps_equal (om_Annotations (pod_Meta pod)) (om_Annotations (pod_Meta ?a))" and "pod' = ?a"
    using apply_unchanged by (metis (full_types))+
  moreover from maps_equal_mget [OF eq] have "annotation ?a = annotation pod"
    by (simp add: annotation_def fun_eq_iff)
  ultimately show "same_preparation pod' pod" by (simp add: same_preparation_def annotate_simps)
qed

lemma apply_govar_same:
  "apply_govar_required g (pod, ch) = (pod', ch') \<Longrightarrow> same_preparation pod pod' \<and> (\<not> ch' \<longrightarrow> \<not> ch \<and> pod' = pod)"
  by (auto simp: apply_govar_required_def same_preparation_def confidential_keys injector_keys split: if_splits)

lemma ensureGOVARTokenVolume_simps [simp]:
  "annotation (ensureGOVARTokenVolume pod) = annotation pod"
  "pod_label (ensureGOVARTokenVolume pod) = pod_label pod"
  "ps_RuntimeClassName (pod_Spec (ensureGOVARTokenVolume pod)) = ps_RuntimeClassName (pod_Spec pod)"
  "ps_SchedulerName (pod_Spec (ensureGOVARTokenVolume pod)) = ps_SchedulerName (pod_Spec pod)"
  "ps_SchedulingGates (pod_Spec (ensureGOVARTokenVolume pod)) = ps_SchedulingGates (pod_Spec pod)"
  "ps_Containers (pod_Spec (ensureGOVARTokenVolume pod)) = ps_Containers (pod_Spec pod)"
  by (simp_all add: ensureGOVARTokenVolume_def)

text \<open>The proxy: what the injection does to a pod.\<close>

definition proxied :: "Container \<Rightarrow> bool" where
  "proxied c \<longleftrightarrow> (\<forall>n\<in>{''HTTP_PROXY'', ''http_proxy'', ''HTTPS_PROXY'', ''https_proxy''}.
     env_value n ProxyURL \<in> set (ct_Env c))"

definition sidecar_ok :: "(string \<Rightarrow> URL option) \<Rightarrow> Pod \<Rightarrow> Pod \<Rightarrow> bool" where
  "sidecar_ok parseURL pod pod' \<longleftrightarrow>
     (\<exists>img cfg app hosts. cfg = resolveGOVARConfig pod \<and> validateGOVARConfig parseURL cfg = None \<and>
        ps_Containers (pod_Spec pod') =
          map (\<lambda>c. c\<lparr>ct_Env := injectProxyEnv (ct_Env c)\<rparr>) (ps_Containers (pod_Spec pod)) @
            [sidecarContainer img app hosts cfg] \<and>
        (gc_Enabled cfg \<longrightarrow> pod_label pod' GOVAREgressRestrictedLabel = ''true'' \<and>
           (\<exists>v\<in>set (ps_Volumes (pod_Spec pod')). vol_Name v = GOVARTokenVolumeName)))"

lemma upsertEnv_sets:
  "e = env \<or> e \<in> set envs \<and> env_Name e \<noteq> env_Name env \<Longrightarrow> e \<in> set (upsertEnv envs env)"
  by (induction envs) auto

lemma injectProxyEnv_proxied: "proxied (c\<lparr>ct_Env := injectProxyEnv envs\<rparr>)"
  by (simp add: proxied_def injectProxyEnv_def upsertEnv_sets env_value_def)

lemma add_sidecar_simps [simp]:
  "annotation (add_sidecar c pod) = annotation pod"
  "pod_label (add_sidecar c pod) = pod_label pod"
  "ps_RuntimeClassName (pod_Spec (add_sidecar c pod)) = ps_RuntimeClassName (pod_Spec pod)"
  "ps_SchedulerName (pod_Spec (add_sidecar c pod)) = ps_SchedulerName (pod_Spec pod)"
  "ps_SchedulingGates (pod_Spec (add_sidecar c pod)) = ps_SchedulingGates (pod_Spec pod)"
  "ps_Volumes (pod_Spec (add_sidecar c pod)) = ps_Volumes (pod_Spec pod)"
  by (simp_all add: add_sidecar_def)

lemma token_volume: "\<exists>v\<in>set (ps_Volumes (pod_Spec (ensureGOVARTokenVolume pod))). vol_Name v = GOVARTokenVolumeName"
  by (auto simp: ensureGOVARTokenVolume_def list_ex_iff)

lemma add_sidecar_containers:
  assumes "\<not> hasContainer pod SidecarContainerName"
    and "ps_Containers (pod_Spec pod1) = ps_Containers (pod_Spec pod)" and "ct_Name c = SidecarContainerName"
  shows "ps_Containers (pod_Spec (add_sidecar c pod1)) =
    map (\<lambda>c. c\<lparr>ct_Env := injectProxyEnv (ct_Env c)\<rparr>) (ps_Containers (pod_Spec pod)) @ [c]"
  using assms by (auto simp: add_sidecar_def hasContainer_def list_ex_iff)

lemma sidecar_injected:
  assumes "\<not> hasContainer pod SidecarContainerName" and "validateGOVARConfig parseURL (resolveGOVARConfig pod) = None"
    and "pod1 = (if gc_Enabled (resolveGOVARConfig pod)
        then set_label GOVAREgressRestrictedLabel ''true'' (ensureGOVARTokenVolume pod) else pod)"
  shows "same_preparation pod (set_annotation InjectedProxyKey ''true''
        (add_sidecar (sidecarContainer img app hosts (resolveGOVARConfig pod)) pod1))"
    and "sidecar_ok parseURL pod (set_annotation InjectedProxyKey ''true''
        (add_sidecar (sidecarContainer img app hosts (resolveGOVARConfig pod)) pod1))"
proof -
  have n: "ct_Name (sidecarContainer img app hosts cfg) = SidecarContainerName" for cfg
    by (simp add: sidecarContainer_def)
  show "same_preparation pod (set_annotation InjectedProxyKey ''true''
      (add_sidecar (sidecarContainer img app hosts (resolveGOVARConfig pod)) pod1))"
    using assms(3) by (auto simp: same_preparation_def confidential_keys injector_keys)
  have "ps_Containers (pod_Spec pod1) = ps_Containers (pod_Spec pod)" using assms(3) by simp
  from add_sidecar_containers [OF assms(1) this n]
  show "sidecar_ok parseURL pod (set_annotation InjectedProxyKey ''true''
      (add_sidecar (sidecarContainer img app hosts (resolveGOVARConfig pod)) pod1))"
    using assms(2, 3) token_volume [of pod] unfolding sidecar_ok_def by auto
qed

lemma inject_sidecar_ens:
  "ensures (inject_sidecar srv parseURL h (pod, ch)) (\<lambda>(res, h') tr.
     case res of
       Inl resp \<Rightarrow> (\<exists>c e. resp = Errored c e) \<or> (\<exists>e. resp = Denied e)
     | Inr (pod', ch') \<Rightarrow> same_preparation pod pod' \<and>
         (if hasContainer pod SidecarContainerName
          then pod' = set_annotation InjectedProxyKey ''true'' pod \<and> ch' = ch
          else sidecar_ok parseURL pod pod' \<and> ch'))" (is "ensures _ ?Q")
proof (cases "hasContainer pod SidecarContainerName")
  case True
  then show ?thesis unfolding inject_sidecar_def
    by (auto intro!: ensures_return simp: same_preparation_def confidential_keys injector_keys)
next
  case False
  have any: "ensures (Resolve srv rs) (\<lambda>r tr. True)" for rs
    by (cases rs) (auto simp: Resolve_manager_def Let_def intro!: ens_flat)
  show ?thesis using False unfolding inject_sidecar_def
    by (auto intro!: ensures_option ensures_return ensures_bind [OF any] ensures_sum sidecar_injected simp: Let_def)
qed

lemma mapRuntimeClass_eq:
  "mapRuntimeClass rc mode =
     (let sim = mode = PlatformModeSimulatedKind \<and> rc \<in> {''kata-qemu-tdx'', ''kata-qemu-snp''} in
      (if sim then ''simulated-'' @ rc else rc, sim))"
  by (simp add: mapRuntimeClass_def Let_def)

lemma mutateFor_ens:
  assumes "namespace \<noteq> ''''"
  shows "ensures (mutateForConfidentialPolicy kl srv getenv True namespace pod) (\<lambda>res tr.
    \<exists>sel. (\<forall>tail. selecting kl namespace pod (tr @ tail) = sel) \<and>
      (case res of
         Inl e \<Rightarrow> sel = None
       | Inr None \<Rightarrow> sel = Some []
       | Inr (Some m) \<Rightarrow> \<exists>p ps. sel = Some (p # ps) \<and> m = mutation_of (platformMode getenv) p))"
  unfolding mutateForConfidentialPolicy_def
proof (rule ensures_bind [OF matchingPolicies_ens [OF assms]], goal_cases)
  case (1 res tr)
  then show ?case
    by (cases res; cases "case res of Inr ps \<Rightarrow> ps")
      (auto intro!: ensures_return simp: mutation_of_def mapRuntimeClass_eq Let_def)
qed

lemma shouldInject_any: "ensures (shouldInject srv client namespace pod) (\<lambda>res tr.
    isEnabled (annotation pod InjectKey) \<longrightarrow> (\<exists>b. res = Inr b \<and> b))"
proof -
  have "\<not> isEnabled ''''" by (simp add: isEnabled_def)
  then show ?thesis unfolding shouldInject_def
    by (intro ens_flat) (auto simp: annotation_def mget_def split: option.splits)
qed

definition govar_namespace :: "Namespace \<Rightarrow> bool" where
  "govar_namespace ns \<longleftrightarrow> isEnabled (mget (ns_Labels ns) GOVAREnabledKey) \<or> isEnabled (mget (ns_Annotations ns) GOVAREnabledKey)"

definition govar_seen :: "string \<Rightarrow> log \<Rightarrow> bool" where
  "govar_seen namespace calls \<longleftrightarrow> (\<exists>ns. (GetNamespace namespace, RNamespace (Inr ns)) \<in> set calls \<and> govar_namespace ns)"

lemma requiresGOVAR_ens: "ensures (namespaceRequiresGOVAR srv client namespace) (\<lambda>res tr.
    \<forall>b. res = Inr b \<longrightarrow> b \<longrightarrow> govar_seen namespace tr)"
  unfolding namespaceRequiresGOVAR_def
  by (intro ens_flat) (auto simp: govar_seen_def govar_namespace_def split: sum.splits if_splits)

lemma govar_seen_append [simp]: "govar_seen n (a @ b) \<longleftrightarrow> govar_seen n a \<or> govar_seen n b"
  by (auto simp: govar_seen_def)

text \<open>What the first steps leave alone.\<close>

lemma apply_steps_keep [simp]:
  "ps_Containers (pod_Spec (fst (apply_runtime m (pod, ch)))) = ps_Containers (pod_Spec pod)"
  "ps_Containers (pod_Spec (fst (apply_scheduler (pod, ch)))) = ps_Containers (pod_Spec pod)"
  "ps_Containers (pod_Spec (fst (apply_gate (pod, ch)))) = ps_Containers (pod_Spec pod)"
  "ps_Containers (pod_Spec (fst (apply_govar_required g (pod, ch)))) = ps_Containers (pod_Spec pod)"
  by (simp_all add: apply_runtime_def apply_scheduler_def apply_gate_def apply_govar_required_def ensureSchedulingGate_def Let_def)

lemma apply_confidential_containers [simp]:
  "ps_Containers (pod_Spec (fst (apply_confidential P mutation pod))) = ps_Containers (pod_Spec pod)"
proof (cases mutation)
  case (Some m)
  show ?thesis unfolding Some apply_confidential_def Let_def option.case
    by (metis (no_types) annotate_simps(1) apply_steps_keep(1-3) prod.collapse)
qed (simp add: apply_confidential_def)

lemma hasContainer_cong:
  "ps_Containers (pod_Spec a) = ps_Containers (pod_Spec b) \<Longrightarrow> hasContainer a n = hasContainer b n"
  by (simp add: hasContainer_def)

text \<open>What an answer of the mutating handler means for the pod.\<close>

definition injected :: "(string \<Rightarrow> URL option) \<Rightarrow> Pod \<Rightarrow> Pod \<Rightarrow> bool" where
  "injected parseURL pod pod' \<longleftrightarrow>
     (\<exists>img app hosts cfg. validateGOVARConfig parseURL cfg = None \<and>
        ps_Containers (pod_Spec pod') =
          map (\<lambda>c. c\<lparr>ct_Env := injectProxyEnv (ct_Env c)\<rparr>) (ps_Containers (pod_Spec pod)) @
            [sidecarContainer img app hosts cfg])"

definition handled :: "prims \<Rightarrow> confidentialMutation option \<Rightarrow> (string \<Rightarrow> URL option) \<Rightarrow> Pod \<Rightarrow> bool \<Rightarrow> AdmissionResponse \<Rightarrow> bool" where
  "handled P mutation parseURL pod inject resp \<longleftrightarrow>
     (case resp of
        Patched pod' \<Rightarrow> (\<forall>m. mutation = Some m \<longrightarrow> prepared P m pod pod') \<and>
          (if inject \<and> \<not> hasContainer pod SidecarContainerName then injected parseURL pod pod'
           else ps_Containers (pod_Spec pod') = ps_Containers (pod_Spec pod))
      | Allowed t \<Rightarrow> (\<forall>m. mutation = Some m \<longrightarrow> prepared P m pod pod) \<and>
          \<not> (inject \<and> \<not> hasContainer pod SidecarContainerName)
      | _ \<Rightarrow> True)"

lemma first_steps:
  assumes "apply_govar_required g (apply_confidential P mutation pod) = (pod1, ch)" and "mutation = Some m"
  shows "prepared P m pod pod1" and "\<not> ch \<Longrightarrow> prepared P m pod pod"
proof -
  obtain p0 c0 where c: "apply_confidential P (Some m) pod = (p0, c0)" by (cases "apply_confidential P (Some m) pod")
  then have g: "apply_govar_required g (p0, c0) = (pod1, ch)" using assms by simp
  show "prepared P m pod pod1"
    using same_preparation_prepared apply_govar_same [OF g] apply_confidential_prepared [OF c] by blast
  show "prepared P m pod pod" if "\<not> ch"
    using apply_govar_same [OF g] that c apply_confidential_unchanged [of P m pod p0] by simp
qed

lemma inject_or_not_ens:
  fixes mutation :: "confidentialMutation option"
  assumes pc: "apply_govar_required g (apply_confidential P mutation pod) = (pod1, ch)"
  shows "ensures (if inject then inject_sidecar srv parseURL h (pod1, ch) else State_Monad.return (Inr (pod1, ch), h))
    (\<lambda>(res, h') tr. handled P mutation parseURL pod inject
       (case res of Inl resp \<Rightarrow> resp
        | Inr (mutated, changed) \<Rightarrow> if \<not> changed then Allowed ''no pod mutation required'' else Patched mutated))"
proof -
  have k: "ps_Containers (pod_Spec pod1) = ps_Containers (pod_Spec pod)"
    using pc apply_confidential_containers [of P mutation pod] apply_steps_keep(4)
    by (metis fst_conv prod.collapse)
  have s: "sidecar_ok parseURL pod1 q \<Longrightarrow> injected parseURL pod q" for q
    unfolding sidecar_ok_def injected_def k by blast
  have p: "same_preparation pod1 q \<Longrightarrow> mutation = Some m \<Longrightarrow> prepared P m pod q" for q m
    using first_steps(1) [OF pc] same_preparation_prepared by blast
  note f = first_steps [OF pc] hasContainer_cong [OF k]
  show ?thesis
  proof (rule ensures_if)
    show "ensures (inject_sidecar srv parseURL h (pod1, ch)) (\<lambda>(res, h') tr. handled P mutation parseURL pod inject
       (case res of Inl resp \<Rightarrow> resp
        | Inr (mutated, changed) \<Rightarrow> if \<not> changed then Allowed ''no pod mutation required'' else Patched mutated))"
      if inject
      by (rule ensures_conseq [OF inject_sidecar_ens])
        (use that in \<open>auto simp: handled_def f k dest: s p split: sum.splits if_splits\<close>)
  qed (auto intro!: ensures_return simp: handled_def f k)
qed

lemma respond_ens:
  "ensures (respond P srv parseURL h mutation pod enabled g)
     (\<lambda>(resp, h') tr. handled P mutation parseURL pod (enabled \<and> \<not> g) resp)"
proof -
  obtain pod1 ch where pc: "apply_govar_required g (apply_confidential P mutation pod) = (pod1, ch)"
    by (cases "apply_govar_required g (apply_confidential P mutation pod)")
  show ?thesis unfolding respond_def Let_def pc
    by (rule ensures_bind [OF inject_or_not_ens [OF pc]]) (auto intro!: ensures_return split: sum.splits)
qed

definition first_mutation :: "string \<Rightarrow> ConfidentialInferencePolicy list \<Rightarrow> confidentialMutation option" where
  "first_mutation mode ps = (case ps of [] \<Rightarrow> None | p # _ \<Rightarrow> Some (mutation_of mode p))"

definition handle_post :: "prims \<Rightarrow> klib \<Rightarrow> string \<Rightarrow> (string \<Rightarrow> URL option) \<Rightarrow> string \<Rightarrow> Pod \<Rightarrow> AdmissionResponse \<Rightarrow> log \<Rightarrow> bool" where
  "handle_post P kl mode parseURL namespace pod resp calls \<longleftrightarrow>
     (case selecting kl namespace pod calls of
        None \<Rightarrow> \<exists>e. resp = Errored 500 e
      | Some ps \<Rightarrow> \<exists>inject. handled P (first_mutation mode ps) parseURL pod inject resp \<and>
          (isEnabled (annotation pod InjectKey) \<and> \<not> govar_seen namespace calls \<longrightarrow> inject))"

lemma handled_errored [simp]: "handled P m parseURL pod inject (Errored c e)"
  by (simp add: handled_def)

lemma Handle_ens:
  assumes "ar_Object req = Inr pod" and "ar_Operation req \<in> {'''', ''CREATE''}" and "h_client h"
    and ns: "request_namespace req pod \<noteq> ''''"
  shows "ensures (Handle P kl srv getenv parseURL h req)
    (\<lambda>(resp, h') calls. handle_post P kl (platformMode getenv) parseURL (request_namespace req pod) pod resp calls)"
  unfolding Handle_def assms(1) sum.case eqTrueI [OF assms(3)]
proof (rule ensures_if, use assms(2) in blast, rule ensures_bind [OF mutateFor_ens [OF ns]], rule ensures_sum, goal_cases)
  case (1 mres tr1 e)
  then show ?case by (auto intro!: ensures_return simp: handle_post_def dest: spec [of _ "[]"])
next
  case (2 mres tr1 mutation)
  then obtain ps where sel: "\<And>tail. selecting kl (request_namespace req pod) pod (tr1 @ tail) = Some ps"
    and m: "mutation = first_mutation (platformMode getenv) ps"
    by (auto simp: first_mutation_def split: option.splits)
  show ?case
  proof (rule ensures_bind [OF shouldInject_any], rule ensures_sum, goal_cases)
    case (1 en tr2 e)
    then show ?case by (auto intro!: ensures_return simp: handle_post_def sel)
  next
    case en: (2 en tr2 enabled)
    show ?case
    proof (rule ensures_bind [OF requiresGOVAR_ens], rule ensures_sum, goal_cases)
      case (1 gr tr3 e)
      then show ?case by (auto intro!: ensures_return simp: handle_post_def sel)
    next
      case (2 gr tr3 g)
      then show ?case
        using en by (auto intro!: ensures_conseq [OF respond_ens] simp: handle_post_def sel m [symmetric])
    qed
  qed
qed

text \<open>The gauge is set for every pod that a policy selects, and by nothing else.\<close>

lemma count_mutation_fields [simp]:
  "h_imageResolver (count_mutation ns m h) = h_imageResolver h" "h_client (count_mutation ns m h) = h_client h"
  by (simp_all add: count_mutation_def split: option.split)

lemma inject_gauge:
  "ensures (inject_sidecar srv parseURL h pc)
     (\<lambda>(res, h') tr. h_SimulatedRuntimeClassInUse h' = h_SimulatedRuntimeClassInUse h)"
proof -
  have any: "ensures (Resolve srv rs) (\<lambda>r tr. True)" for rs
    by (cases rs) (auto simp: Resolve_manager_def Let_def intro!: ens_flat)
  show ?thesis unfolding inject_sidecar_def Let_def
    by (intro ensures_prod ensures_if ensures_option ensures_bind [OF any] ensures_sum ensures_return) simp_all
qed

lemma respond_gauge:
  "ensures (respond P srv parseURL h mutation pod enabled g)
     (\<lambda>(resp, h') tr. h_SimulatedRuntimeClassInUse h' = h_SimulatedRuntimeClassInUse h)"
  unfolding respond_def Let_def
  by (rule ensures_bind [where ?R1.0 = "\<lambda>(res, h') tr. h_SimulatedRuntimeClassInUse h' = h_SimulatedRuntimeClassInUse h"])
    (auto intro!: ensures_if inject_gauge ensures_return split: sum.splits)

definition gauge_post :: "klib \<Rightarrow> string \<Rightarrow> string \<Rightarrow> Pod \<Rightarrow> AdmissionResponse \<times> Handler \<Rightarrow> log \<Rightarrow> bool" where
  "gauge_post kl mode ns pod = (\<lambda>(resp, h') calls. \<forall>p ps. selecting kl ns pod calls = Some (p # ps) \<longrightarrow>
     (\<forall>c e. resp \<noteq> Errored c e) \<longrightarrow> (let m = mutation_of mode p in
       h_SimulatedRuntimeClassInUse h' (ns, om_Name (cip_Meta p), cm_appliedRuntime m) = Some (if cm_simulated m then 1 else 0)))"

lemma gauge_post_errored [simp]: "gauge_post kl mode ns pod (Errored c e, h) calls"
  by (simp add: gauge_post_def)

lemma Handle_gauge:
  assumes "ar_Object req = Inr pod" and "ar_Operation req \<in> {'''', ''CREATE''}" and "h_client h"
    and ns: "request_namespace req pod \<noteq> ''''"
  shows "ensures (Handle P kl srv getenv parseURL h req) (gauge_post kl (platformMode getenv) (request_namespace req pod) pod)"
  unfolding Handle_def assms(1) sum.case eqTrueI [OF assms(3)]
proof (rule ensures_if, use assms(2) in blast, rule ensures_bind [OF mutateFor_ens [OF ns]], rule ensures_sum, goal_cases)
  case (1 mres tr1 e)
  show ?case by (rule ensures_return) simp
next
  case (2 mres tr1 mutation)
  then obtain qs where sel: "\<And>tail. selecting kl (request_namespace req pod) pod (tr1 @ tail) = Some qs"
    and m: "mutation = first_mutation (platformMode getenv) qs"
    by (auto simp: first_mutation_def split: option.splits)
  have mp: "cm_policy (mutation_of (platformMode getenv) p) = p" for p by (simp add: mutation_of_def Let_def)
  have g: "h_SimulatedRuntimeClassInUse (count_mutation (request_namespace req pod) mutation h)
      (request_namespace req pod, om_Name (cip_Meta p), cm_appliedRuntime (mutation_of (platformMode getenv) p)) =
      Some (if cm_simulated (mutation_of (platformMode getenv) p) then 1 else 0)"
    if "selecting kl (request_namespace req pod) pod (tr1 @ tail) = Some (p # ps)" for tail p ps
    using that by (simp add: sel m mp first_mutation_def count_mutation_def applySimulatedRuntimeMetric_def)
  show ?case
  proof (rule ensures_bind [OF shouldInject_any], rule ensures_sum, goal_cases)
    case (2 en tr2 enabled)
    show ?case
    proof (rule ensures_bind [OF requiresGOVAR_ens], rule ensures_sum, goal_cases)
      case (2 gr tr3 gv)
      show ?case
      proof (rule ensures_conseq [OF respond_gauge], goal_cases)
        case (1 rh tr4)
        obtain resp h' where "rh = (resp, h')" by (cases rh)
        with 1 g [of "tr2 @ tr3 @ tr4"] show ?case by (auto simp: gauge_post_def Let_def)
      qed
    qed (rule ensures_return, simp)
  qed (rule ensures_return, simp)
qed

section \<open>What the scheduler reads back\<close>

text \<open>The decimal text that the handler writes is read back by the scheduler's \<open>Sscan\<close>.\<close>

lemma digit_hex_val: "is_digit c \<Longrightarrow> hex_val c = Some (digit_val c) \<and> digit_val c < 10"
  by (auto simp: hex_val_def is_digit_def digit_val_def Let_def)

lemma digit_not_sign: "is_digit c \<Longrightarrow> c \<noteq> CHR ''_'' \<and> c \<noteq> CHR ''-'' \<and> c \<noteq> CHR ''+'' \<and> graphic c"
  by (auto simp: is_digit_def graphic_def Let_def)

lemma scan_digits_all: "\<forall>c\<in>set s. is_digit c \<Longrightarrow> scan_digits 10 s = s"
  unfolding scan_digits_def by (subst takeWhile_eq_all_conv) (auto simp: digit_in_def digit_hex_val)

lemma underscores_ok_digits: "\<forall>c\<in>set s. is_digit c \<Longrightarrow> underscores_ok b s"
  by (induction b s rule: underscores_ok.induct) (auto dest: digit_not_sign)

lemma digits_val_dec: "\<forall>c\<in>set s. is_digit c \<Longrightarrow> digits_val 10 s = dec_val s"
proof -
  have "\<forall>c\<in>set s. is_digit c \<Longrightarrow>
    foldl (\<lambda>a c. case hex_val c of None \<Rightarrow> a | Some d \<Rightarrow> 10 * a + d) a s = foldl (\<lambda>a c. 10 * a + digit_val c) a s" for a
    by (induction s arbitrary: a) (auto dest: digit_hex_val)
  then show "\<forall>c\<in>set s. is_digit c \<Longrightarrow> ?thesis" by (simp add: digits_val_def dec_val_def)
qed

lemma scan_nat_str: "scan_nat (nat_str n) = Some n"
proof (cases "n = 0")
  case True
  then show ?thesis by (simp add: scan_nat_def base_of_def)
next
  case False
  then have h: "hd (nat_str n) \<noteq> CHR ''0''" by (simp add: nat_str_hd)
  then have s: "\<not> starts ''0'' (nat_str n)" by (cases "nat_str n") auto
  have "hd (nat_str n) \<noteq> CHR ''_''" using nat_str_digits [of n] digit_not_sign by (meson list.set_sel(1) nat_str_not_Nil)
  with s show ?thesis
    by (simp add: scan_nat_def base_of_def scan_digits_all [OF nat_str_digits] underscores_ok_digits [OF nat_str_digits]
        digits_val_dec [OF nat_str_digits])
qed

lemma sscan_int_itoa: "int64 n \<Longrightarrow> sscan_int (itoa n) = Some n"
proof (cases "n < 0")
  case True
  then show "int64 n \<Longrightarrow> ?thesis" by (simp add: sscan_int_def itoa_def scan_nat_str)
next
  case False
  obtain c t where s: "nat_str (nat n) = c # t" by (cases "nat_str (nat n)") auto
  then have "is_digit c" using nat_str_digits [of "nat n"] by simp
  then show "int64 n \<Longrightarrow> ?thesis"
    using False scan_nat_str [of "nat n"] by (simp add: sscan_int_def itoa_def s digit_not_sign)
qed

lemma TrimSpace_itoa: "TrimSpace (itoa n) = itoa n"
  by (rule TrimSpace_all_graphic) (use nat_str_digits digit_not_sign in \<open>auto simp: itoa_def graphic_def\<close>)

lemma itoa_not_Nil: "itoa n \<noteq> []"
  by (simp add: itoa_def)

lemma prepared_age:
  assumes "prepared P m pod pod'" and "int32 (cips_MaxEvidenceAgeSeconds (cip_Spec (cm_policy m)))"
  shows "expected_max_age pod' = max 0 (cips_MaxEvidenceAgeSeconds (cip_Spec (cm_policy m))) * Second"
proof -
  have "int64 (cips_MaxEvidenceAgeSeconds (cip_Spec (cm_policy m)))" using assms(2) by (simp add: int32_def int64_def)
  then show ?thesis
    using assms by (simp add: expected_max_age_def prepared_def annotation_def ExpectedEvidenceAgeAnnotation_def
        TrimSpace_itoa itoa_not_Nil sscan_int_itoa seconds_int32 Second_def)
qed

text \<open>C12. A confidential pod that passes the mutating webhook, patched or unchanged, carries what the
  scheduler checks before it binds: the hash of the policy that selects it, an age limit that the
  scheduler reads back as exactly the policy's, a runtime class that is its own or the policy's, a
  scheduler, and the attestation gate unless it names evidence; so the scheduler leaves it alone until
  it does. The gauge for its namespace, policy and runtime class says whether the class is simulated.\<close>

theorem admitted_pod_prepared:
  assumes "run (Handle P kl srv getenv parseURL h req) st = ((resp, h'), calls)"
    and req: "ar_Object req = Inr pod" "ar_Operation req \<in> {'''', ''CREATE''}" "h_client h" "request_namespace req pod \<noteq> ''''"
    and sel: "selecting kl (request_namespace req pod) pod calls = Some (p # ps)"
    and age: "int32 (cips_MaxEvidenceAgeSeconds (cip_Spec p))"
    and adm: "resp = Patched pod' \<or> (\<exists>t. resp = Allowed t) \<and> pod' = pod"
  shows "(\<forall>hash. CanonicalSHA256Hex P (cip_spec_json (cip_Spec p)) = Some hash \<longrightarrow>
      annotation pod' PolicyHashAnnotation = hash) \<and>
    expected_max_age pod' = max 0 (cips_MaxEvidenceAgeSeconds (cip_Spec p)) * Second \<and>
    ps_RuntimeClassName (pod_Spec pod') =
      (let m = mutation_of (platformMode getenv) p in
       if has_runtime pod \<or> cm_appliedRuntime m = '''' then ps_RuntimeClassName (pod_Spec pod)
       else Some (cm_appliedRuntime m)) \<and>
    ps_SchedulerName (pod_Spec pod') =
      (if ps_SchedulerName (pod_Spec pod) = '''' then SchedulerName else ps_SchedulerName (pod_Spec pod)) \<and>
    (evidencePresent pod \<or> AttestationEvidenceGate \<in> set (ps_SchedulingGates (pod_Spec pod'))) \<and>
    (eligible pod' \<longrightarrow> evidencePresent pod) \<and>
    h_SimulatedRuntimeClassInUse h' (request_namespace req pod, om_Name (cip_Meta p),
        cm_appliedRuntime (mutation_of (platformMode getenv) p)) =
      Some (if cm_simulated (mutation_of (platformMode getenv) p) then 1 else 0)"
proof -
  have g: "h_SimulatedRuntimeClassInUse h' (request_namespace req pod, om_Name (cip_Meta p),
        cm_appliedRuntime (mutation_of (platformMode getenv) p)) =
      Some (if cm_simulated (mutation_of (platformMode getenv) p) then 1 else 0)"
    using ensures_run [OF Handle_gauge [OF req] assms(1)] sel adm by (auto simp: gauge_post_def Let_def)
  have "handle_post P kl (platformMode getenv) parseURL (request_namespace req pod) pod resp calls"
    using ensures_run [OF Handle_ens [OF req] assms(1)] by simp
  then have p: "prepared P (mutation_of (platformMode getenv) p) pod pod'"
    using adm by (auto simp: handle_post_def sel handled_def first_mutation_def)
  have m: "cm_policy (mutation_of (platformMode getenv) p) = p" by (simp add: mutation_of_def Let_def)
  show ?thesis
    using p prepared_age [OF p] age g by (auto simp: prepared_def m Let_def DefaultSchedulerName_def SchedulerName_def eligible_def)
qed

definition demo_handler :: Handler where
  "demo_handler = \<lparr>h_client = True, h_imageResolver = Some (StaticImageResolver ''proxy:1''),
     h_SimulatedRuntimeClassInUse = Map.empty\<rparr>"

lemma demo_selected: "selected_by demo_kl s l"
  by (simp add: selected_by_def demo_kl_def split: option.split)

lemma not_enabled_empty [simp]: "\<not> isEnabled ''''"
  by (simp add: isEnabled_def)

theorem admitted_pod_prepared_witness:
  "\<exists>resp pod' h' calls. run (Handle demo_prims demo_kl demo_srv demo_env (\<lambda>u. None) demo_handler demo_request) () =
       ((resp, h'), calls) \<and> (resp = Patched pod' \<or> (\<exists>t. resp = Allowed t) \<and> pod' = demo_pod) \<and>
     expected_max_age pod' = 300 * Second \<and> AttestationEvidenceGate \<in> set (ps_SchedulingGates (pod_Spec pod'))"
proof -
  let ?m = "Handle demo_prims demo_kl demo_srv demo_env (\<lambda>u. None) demo_handler demo_request"
  obtain resp h' calls where r: "run ?m () = ((resp, h'), calls)" by (metis surj_pair)
  have o: "ar_Object demo_request = Inr demo_pod" "ar_Operation demo_request = ''CREATE''" "h_client demo_handler"
    "request_namespace demo_request demo_pod = ''ai''"
    by (simp_all add: demo_request_def demo_handler_def request_namespace_def)
  have q: "\<not> isEnabled (mget (om_Annotations (pod_Meta demo_pod)) InjectKey)"
    "map_of (om_Annotations (pod_Meta demo_pod)) InjectKey = None" "mget [] k = ''''" for k
    by (simp_all add: demo_pod_def newMeta_def mget_def InjectKey_def)
  have s: "selecting demo_kl ''ai'' demo_pod calls = Some [demo_cip]"
    and a: "(\<exists>pod'. resp = Patched pod') \<or> (\<exists>t. resp = Allowed t)"
    using r by (auto simp: run_def Handle_def o mutateForConfidentialPolicy_def matchingPolicies_def demo_srv_def
        policyMatches_def demo_selected selecting_def Let_def shouldInject_def q namespaceRequiresGOVAR_def respond_def
        split: prod.splits if_splits)
  then obtain pod' where p: "resp = Patched pod' \<or> (\<exists>t. resp = Allowed t) \<and> pod' = demo_pod" by blast
  have "int32 (cips_MaxEvidenceAgeSeconds (cip_Spec demo_cip))" "\<not> evidencePresent demo_pod"
    by (simp_all add: demo_cip_def demo_cip_spec_def int32_def evidencePresent_def annotation_def demo_pod_def mget_def
        AttestationEvidenceAnnotation_def)
  with admitted_pod_prepared [OF r o(1), of demo_cip "[]" pod'] p s r show ?thesis
    by (auto simp: o demo_cip_def demo_cip_spec_def)
qed

text \<open>C27. The header proxy: when a pod opts in, its namespace does not require the native gateway and no
  container has the proxy's name, an answer other than a refusal appends the proxy and points the proxy
  variables of every other container at it, changing nothing else of them; an enabled GOV-AR endpoint is
  in the cluster. A pod that brings a container of that name keeps its containers untouched.\<close>

theorem proxy_injection:
  assumes "run (Handle P kl srv getenv parseURL h req) st = ((resp, h'), calls)"
    and req: "ar_Object req = Inr pod" "ar_Operation req \<in> {'''', ''CREATE''}" "h_client h" "request_namespace req pod \<noteq> ''''"
    and opt: "isEnabled (annotation pod InjectKey)" and ng: "\<not> govar_seen (request_namespace req pod) calls"
    and ok: "\<forall>c e. resp \<noteq> Errored c e \<and> resp \<noteq> Denied e"
  shows "if hasContainer pod SidecarContainerName
    then \<forall>pod'. resp = Patched pod' \<longrightarrow> ps_Containers (pod_Spec pod') = ps_Containers (pod_Spec pod)
    else \<exists>pod' img app hosts cfg. resp = Patched pod' \<and>
      ps_Containers (pod_Spec pod') =
        map (\<lambda>c. c\<lparr>ct_Env := injectProxyEnv (ct_Env c)\<rparr>) (ps_Containers (pod_Spec pod)) @
          [sidecarContainer img app hosts cfg] \<and>
      (\<forall>c\<in>set (butlast (ps_Containers (pod_Spec pod'))). proxied c) \<and>
      (gc_Enabled cfg \<longrightarrow> (\<exists>u. parseURL (gc_Endpoint cfg) = Some u \<and>
         (HasSuffix (ToLower (u_Hostname u)) ''.svc'' \<or> HasSuffix (ToLower (u_Hostname u)) ''.svc.cluster.local'')))"
proof -
  have hp: "handle_post P kl (platformMode getenv) parseURL (request_namespace req pod) pod resp calls"
    using ensures_run [OF Handle_ens [OF req] assms(1)] by simp
  then obtain ps where sel: "selecting kl (request_namespace req pod) pod calls = Some ps"
    using ok by (auto simp: handle_post_def split: option.splits)
  have hd: "handled P (first_mutation (platformMode getenv) ps) parseURL pod True resp"
    using hp opt ng by (auto simp: handle_post_def sel)
  have v: "gc_Enabled cfg \<Longrightarrow> \<exists>u. parseURL (gc_Endpoint cfg) = Some u \<and>
      (HasSuffix (ToLower (u_Hostname u)) ''.svc'' \<or> HasSuffix (ToLower (u_Hostname u)) ''.svc.cluster.local'')"
    if "validateGOVARConfig parseURL cfg = None" for cfg
    using that by (auto simp: validateGOVARConfig_def split: if_splits option.splits)
  show ?thesis
  proof (cases resp)
    case (Patched pod')
    show ?thesis
    proof (cases "hasContainer pod SidecarContainerName")
      case False
      then obtain img app hosts cfg where i: "validateGOVARConfig parseURL cfg = None"
        "ps_Containers (pod_Spec pod') = map (\<lambda>c. c\<lparr>ct_Env := injectProxyEnv (ct_Env c)\<rparr>) (ps_Containers (pod_Spec pod)) @
          [sidecarContainer img app hosts cfg]"
        using hd by (auto simp: handled_def Patched injected_def)
      then have "\<forall>c\<in>set (butlast (ps_Containers (pod_Spec pod'))). proxied c" by (auto simp: injectProxyEnv_proxied)
      with i v [OF i(1)] Patched show ?thesis unfolding if_not_P [OF False] by blast
    qed (use hd Patched in \<open>auto simp: handled_def\<close>)
  qed (use hd ok in \<open>auto simp: handled_def\<close>)
qed

definition opted_in :: AdmissionRequest where
  "opted_in = \<lparr>ar_Object = Inr (demo_pod\<lparr>pod_Meta := (pod_Meta demo_pod)\<lparr>om_Annotations := [(InjectKey, ''true'')]\<rparr>\<rparr>),
     ar_Operation = ''CREATE'', ar_Namespace = ''ai''\<rparr>"

lemma apply_steps_annotation [simp]:
  "annotation (fst (apply_runtime m (pod, ch))) = annotation pod"
  "annotation (fst (apply_scheduler (pod, ch))) = annotation pod"
  "annotation (fst (apply_gate (pod, ch))) = annotation pod"
  by (simp_all add: apply_runtime_def apply_scheduler_def apply_gate_def Let_def)

lemma apply_confidential_annotation:
  assumes "k \<notin> {PolicyHashAnnotation, ExpectedRuntimeAnnotation, AppliedRuntimeAnnotation, ExpectedEvidenceAgeAnnotation,
    SimulatedExecutionAnnotation}"
  shows "annotation (fst (apply_confidential P mutation pod)) k = annotation pod k"
proof (cases mutation)
  case (Some m)
  have "annotation (annotateConfidentialPod P pod m) k = annotation pod k"
    using assms by (auto simp: annotateConfidentialPod_def Let_def split: option.splits)
  then show ?thesis unfolding Some apply_confidential_def Let_def option.case
    by (metis (no_types) apply_steps_annotation prod.collapse)
qed (simp add: apply_confidential_def)

lemma resolve_not_enabled: "\<not> isEnabled (annotation pod GOVAREnabledKey) \<Longrightarrow> resolveGOVARConfig pod = no_govar"
  by (simp add: resolveGOVARConfig_def Let_def)

theorem proxy_injection_witness:
  "\<exists>pod' h' calls img app hosts cfg.
     run (Handle demo_prims demo_kl demo_srv demo_env (\<lambda>u. None) demo_handler opted_in) () = ((Patched pod', h'), calls) \<and>
     ps_Containers (pod_Spec pod') = [sidecarContainer img app hosts cfg]"
proof -
  let ?m = "Handle demo_prims demo_kl demo_srv demo_env (\<lambda>u. None) demo_handler opted_in"
  define pod where "pod = demo_pod\<lparr>pod_Meta := (pod_Meta demo_pod)\<lparr>om_Annotations := [(InjectKey, ''true'')]\<rparr>\<rparr>"
  obtain resp h' calls where r: "run ?m () = ((resp, h'), calls)" by (metis surj_pair)
  have o: "ar_Object opted_in = Inr pod" "ar_Operation opted_in = ''CREATE''" "h_client demo_handler"
    "request_namespace opted_in pod = ''ai''" "h_imageResolver demo_handler = Some (StaticImageResolver ''proxy:1'')"
    by (simp_all add: opted_in_def demo_handler_def request_namespace_def pod_def)
  have k: "ps_Containers (pod_Spec pod) = []" by (simp add: pod_def demo_pod_def)
  have e: "isEnabled ''true''" by (simp add: isEnabled_def TrimSpace_all_graphic graphic_def case_ascii ascii_def lower_char_def)
  have q: "map_of (om_Annotations (pod_Meta pod)) InjectKey = Some ''true''" "mget [] x = ''''"
    "TrimSpace ''proxy:1'' = ''proxy:1''" "isEnabled (annotation pod InjectKey)" for x
    using e by (simp_all add: pod_def mget_def TrimSpace_all_graphic graphic_def annotation_def)
  have ne: "\<not> isEnabled (annotation (fst (apply_confidential P m pod)) GOVAREnabledKey)" for P m
    by (simp add: apply_confidential_annotation confidential_keys injector_keys)
      (simp add: annotation_def pod_def mget_def injector_keys)
  have n: "\<not> govar_seen ''ai'' calls" and ok: "\<forall>c e. resp \<noteq> Errored c e \<and> resp \<noteq> Denied e"
    using r by (auto simp: run_def Handle_def o mutateForConfidentialPolicy_def matchingPolicies_def demo_srv_def
        policyMatches_def demo_selected Let_def shouldInject_def q e namespaceRequiresGOVAR_def respond_def
        inject_sidecar_def govar_seen_def govar_namespace_def resolve_not_enabled [OF ne] apply_govar_required_def
        hasContainer_def k case_prod_unfold validateGOVARConfig_def no_govar_def split: if_splits)
  have "\<not> hasContainer pod SidecarContainerName" by (simp add: hasContainer_def k)
  with proxy_injection [OF r o(1)] n ok q(4) r show ?thesis by (fastforce simp: o k)
qed


text \<open>The names are read back from descriptions of the form in which the Prometheus library prints them.\<close>

lemma fqName_described:
  assumes "n \<noteq> ''''" and "dquote \<notin> set n"
  shows "fqName (''Desc{fqName: '' @ [dquote] @ n @ [dquote] @ rest) = Some n"
proof -
  have "takeWhile (\<lambda>x. x \<noteq> dquote) (n @ dquote # rest) = n" using assms(2) by (subst takeWhile_append2) auto
  then show ?thesis using assms(1) by (simp add: HasPrefix_def Let_def)
qed

lemma metric_Names_described:
  assumes "\<forall>n\<in>set ns. n \<noteq> '''' \<and> dquote \<notin> set n"
  shows "metric_Names (map (\<lambda>n. [''Desc{fqName: '' @ [dquote] @ n @ [dquote] @ rest n]) ns) = ns"
  using assms fqName_described by (induction ns) (auto simp: metric_Names_def map_filter_simps)

end
