(* ===== verification/Approval.thy ===== *)
theory Approval
  imports Crypto
begin

text \<open>
  Signed decisions and signed evidence: \<open>internal/approval\<close> (the trusted key set, signing and
  verifying a change request decision), \<open>internal/evidence\<close> (signed config maps) and the two signing
  commands \<open>cmd/sign-approval\<close> and \<open>cmd/sign-evidence\<close>.

  A Go map with string keys is an association list; the copy loops of \<open>Canonicalize\<close> are written as
  folds over it. A function that returns \<open>(bool, error)\<close> has the type \<open>string + bool\<close>.

  Shown here: what each verification accepts, that signatures round-trip, that they cannot be moved to
  another decision or config map, how the key set is read from its text, and which parts of a config
  map a signature does not cover.
\<close>

section \<open>Trusted keys\<close>

record KeySet =
  ks_byID :: "(string \<times> string) list"
  ks_anyID :: "string list"

definition zero_keyset :: KeySet where
  "zero_keyset = \<lparr>ks_byID = [], ks_anyID = []\<rparr>"

definition ks_Empty :: "KeySet \<Rightarrow> bool" where
  "ks_Empty k = (length (ks_anyID k) = 0)"

definition candidates :: "KeySet \<Rightarrow> string \<Rightarrow> string list" where
  "candidates k keyID =
     (if TrimSpace keyID \<noteq> '''' then
        (case map_of (ks_byID k) keyID of Some pub \<Rightarrow> [pub] | None \<Rightarrow> [])
      else ks_anyID k)"

text \<open>One entry: its id (empty when it has none) and its hexadecimal key.\<close>

definition split_entry :: "string \<Rightarrow> string \<times> string" where
  "split_entry entry =
     (case Index entry (CHR ''='') of
        Some idx \<Rightarrow> (TrimSpace (take idx entry), TrimSpace (drop (idx + 1) entry))
      | None \<Rightarrow> ('''', entry))"

fun add_entries :: "KeySet \<Rightarrow> string list \<Rightarrow> string + KeySet" where
  "add_entries ks [] = Inr ks"
| "add_entries ks (raw # entries) =
     (let entry = TrimSpace raw in
      if entry = '''' then add_entries ks entries
      else
        (case PubKeyFromHex (snd (split_entry entry)) of
           Inl e \<Rightarrow> Inl (''parse trusted approval key '' @ fmt_q (fst (split_entry entry)) @ '': '' @ e)
         | Inr pub \<Rightarrow>
           add_entries
             \<lparr>ks_byID = (if fst (split_entry entry) \<noteq> ''''
                         then AList.update (fst (split_entry entry)) pub (ks_byID ks) else ks_byID ks),
              ks_anyID = ks_anyID ks @ [pub]\<rparr> entries))"

definition NewKeySet :: "string list \<Rightarrow> string + KeySet" where
  "NewKeySet entries = add_entries zero_keyset entries"

definition ParseKeySetCSV :: "string \<Rightarrow> string + KeySet" where
  "ParseKeySetCSV csv =
     (if TrimSpace csv = '''' then Inr zero_keyset else NewKeySet (Split csv (CHR '','')))"


section \<open>Decisions\<close>

record ApprovalDecision =
  ad_Namespace :: string
  ad_Name :: string
  ad_Action :: string
  ad_SourceModel :: string
  ad_TargetModel :: string
  ad_Approval :: string

definition decision_json :: "ApprovalDecision \<Rightarrow> json" where
  "decision_json d =
     JObj [(''namespace'', JStr (ad_Namespace d)), (''name'', JStr (ad_Name d)),
           (''action'', JStr (ad_Action d)), (''sourceModel'', JStr (ad_SourceModel d)),
           (''targetModel'', JStr (ad_TargetModel d)), (''approval'', JStr (ad_Approval d))]"

definition CanonicalMessage :: "ApprovalDecision \<Rightarrow> string option" where
  "CanonicalMessage d = CanonicalJSON (decision_json d)"

definition ap_Sign :: "prims \<Rightarrow> string \<Rightarrow> ApprovalDecision \<Rightarrow> string option" where
  "ap_Sign P priv d = map_option (Ed25519Sign P priv) (CanonicalMessage d)"

fun try_keys :: "prims \<Rightarrow> string \<Rightarrow> string \<Rightarrow> string list \<Rightarrow> string + bool" where
  "try_keys P msg sigHex [] = Inr False"
| "try_keys P msg sigHex (pub # pubs) =
     (case Ed25519Verify P pub msg sigHex of
        Inl e \<Rightarrow> Inl e
      | Inr ok \<Rightarrow> if ok then Inr True else try_keys P msg sigHex pubs)"

definition VerifyCanonical :: "prims \<Rightarrow> KeySet \<Rightarrow> string \<Rightarrow> string \<Rightarrow> string \<Rightarrow> string + bool" where
  "VerifyCanonical P trusted keyID msg sigHex =
     (if TrimSpace sigHex = '''' then Inr False
      else if length (candidates trusted keyID) = 0 then Inr False
      else try_keys P msg sigHex (candidates trusted keyID))"

definition ap_Verify :: "prims \<Rightarrow> KeySet \<Rightarrow> string \<Rightarrow> ApprovalDecision \<Rightarrow> string \<Rightarrow> string + bool" where
  "ap_Verify P trusted keyID d sigHex =
     (if TrimSpace sigHex = '''' then Inr False
      else
        (case CanonicalMessage d of
           None \<Rightarrow> Inl ''canonicalize approval decision''
         | Some msg \<Rightarrow> VerifyCanonical P trusted keyID msg sigHex))"


section \<open>Evidence config maps\<close>

definition AnnotationSignatureRequired :: string where
  "AnnotationSignatureRequired = ''aiops.imperium.io/evidence-signature-required''"
definition AnnotationSignature :: string where
  "AnnotationSignature = ''aiops.imperium.io/evidence-signature''"
definition AnnotationKeyID :: string where
  "AnnotationKeyID = ''aiops.imperium.io/evidence-key-id''"

record ConfigMap =
  cm_Namespace :: string
  cm_Name :: string
  cm_Labels :: gomap
  cm_Annotations :: gomap
  cm_Data :: gomap
  cm_BinaryData :: gomap

record SignedConfigMap =
  scm_Namespace :: string
  scm_Name :: string
  scm_Kind :: string
  scm_Labels :: gomap
  scm_Data :: gomap
  scm_BinaryData :: gomap

definition SignatureRequired :: "ConfigMap option \<Rightarrow> bool" where
  "SignatureRequired cm =
     (case cm of None \<Rightarrow> False
      | Some c \<Rightarrow> EqualFold (TrimSpace (mget (cm_Annotations c) AnnotationSignatureRequired)) ''true'')"

text \<open>\<open>for k, v := range m { out[k] = f(v) }\<close>.\<close>

definition copy_map :: "(string \<Rightarrow> string) \<Rightarrow> gomap \<Rightarrow> gomap" where
  "copy_map f m = foldl (\<lambda>out (k, v). AList.update k (f v) out) [] m"

definition Canonicalize :: "prims \<Rightarrow> ConfigMap \<Rightarrow> SignedConfigMap" where
  "Canonicalize P cm =
     \<lparr>scm_Namespace = cm_Namespace cm, scm_Name = cm_Name cm, scm_Kind = ''ConfigMap'',
      scm_Labels = copy_map (\<lambda>v. v) (cm_Labels cm), scm_Data = copy_map (\<lambda>v. v) (cm_Data cm),
      scm_BinaryData = copy_map (SHA256Hex P) (cm_BinaryData cm)\<rparr>"

text \<open>A \<open>map[string]string\<close> is marshalled with its keys sorted.\<close>

definition str_map_json :: "gomap \<Rightarrow> json" where
  "str_map_json m = JObj (map (\<lambda>(k, v). (k, JStr v)) (sort_key fst m))"

definition opt_map :: "string \<Rightarrow> gomap \<Rightarrow> (string \<times> json) list" where
  "opt_map k m = (if m = [] then [] else [(k, str_map_json m)])"

definition scm_json :: "SignedConfigMap \<Rightarrow> json" where
  "scm_json s =
     JObj ([(''namespace'', JStr (scm_Namespace s)), (''name'', JStr (scm_Name s)),
            (''kind'', JStr (scm_Kind s))] @
           opt_map ''labels'' (scm_Labels s) @ opt_map ''data'' (scm_Data s) @
           opt_map ''binaryData'' (scm_BinaryData s))"

definition cm_bytes :: "prims \<Rightarrow> ConfigMap \<Rightarrow> string option" where
  "cm_bytes P cm = CanonicalJSON (scm_json (Canonicalize P cm))"

definition cm_Sign :: "prims \<Rightarrow> string \<Rightarrow> ConfigMap \<Rightarrow> string + string" where
  "cm_Sign P privHex cm =
     (case PrivKeyFromHex P privHex of
        Inl e \<Rightarrow> Inl e
      | Inr priv \<Rightarrow>
        (case cm_bytes P cm of
           None \<Rightarrow> Inl ''canonicalize evidence configmap''
         | Some payload \<Rightarrow> Inr (Ed25519Sign P priv payload)))"

definition cm_Verify :: "prims \<Rightarrow> KeySet \<Rightarrow> string \<Rightarrow> ConfigMap \<Rightarrow> string \<Rightarrow> string + bool" where
  "cm_Verify P trusted keyID cm sigHex =
     (if TrimSpace sigHex = '''' then Inr False
      else
        (case cm_bytes P cm of
           None \<Rightarrow> Inl ''canonicalize evidence configmap''
         | Some payload \<Rightarrow> VerifyCanonical P trusted keyID payload sigHex))"


section \<open>The signing commands\<close>

text \<open>The commands as functions of their flags, environment and random source: the lines they print,
  or the error they exit with.\<close>

definition sign_approval_main :: "prims \<Rightarrow> string + string \<Rightarrow> bool \<Rightarrow> string \<Rightarrow> string \<Rightarrow>
    ApprovalDecision \<Rightarrow> string + string list" where
  "sign_approval_main P rnd genKey privHex envHex d =
     (if genKey then
        (case GenerateEd25519KeyPair P rnd of
           Inl e \<Rightarrow> Inl e
         | Inr (pub, priv) \<Rightarrow>
           Inr [''public_key_hex='' @ PubKeyToHex pub, ''private_key_hex='' @ PrivKeyToHex priv])
      else
        (let seed = (if privHex = '''' then envHex else privHex) in
         if seed = '''' then
           Inl ''a private key is required: pass --priv-hex or set APPROVAL_PRIV_HEX (or use --gen-key)''
         else
           (case PrivKeyFromHex P seed of
              Inl e \<Rightarrow> Inl e
            | Inr priv \<Rightarrow>
              (case ap_Sign P priv d of
                 None \<Rightarrow> Inl ''canonicalize approval decision''
               | Some s \<Rightarrow> Inr [s]))))"

text \<open>\<open>sign-evidence\<close>: the file's content is given as the decoded config map, or the error of reading
  or decoding it.\<close>

definition sign_evidence_main :: "prims \<Rightarrow> string \<Rightarrow> string \<Rightarrow> string \<Rightarrow> string + ConfigMap \<Rightarrow>
    string + string list" where
  "sign_evidence_main P file privHex envHex content =
     (if file = '''' then Inl ''--file is required''
      else
        (let seed = (if privHex = '''' then envHex else privHex) in
         if seed = '''' then Inl ''a private key is required: pass --priv-hex or set EVIDENCE_PRIV_HEX''
         else
           (case content of
              Inl e \<Rightarrow> Inl e
            | Inr cm \<Rightarrow> (case cm_Sign P seed cm of Inl e \<Rightarrow> Inl e | Inr s \<Rightarrow> Inr [s]))))"


section \<open>Lemmas\<close>

subsection \<open>Verification against a key set\<close>

lemma Ed25519Verify_hex_error:
  "Ed25519Verify P pub msg s = Inl e \<longleftrightarrow>
    (\<exists>h. DecodeString s = Inl h \<and> e = ''decode signature hex: '' @ hex_error_text h)"
  by (auto simp: Ed25519Verify_def split: sum.split)

lemma try_keys_iff:
  "try_keys P msg s pubs = Inr True \<longleftrightarrow> (\<exists>pub\<in>set pubs. Ed25519Verify P pub msg s = Inr True)"
proof (induction pubs)
  case Nil
  then show ?case by simp
next
  case (Cons pub pubs)
  show ?case
  proof (cases "DecodeString s")
    case (Inl h)
    then show ?thesis by (simp add: Ed25519Verify_def)
  next
    case (Inr b)
    then show ?thesis using Cons by (simp add: Ed25519Verify_def)
  qed
qed

lemma VerifyCanonical_iff:
  "VerifyCanonical P ks keyID msg s = Inr True \<longleftrightarrow>
     TrimSpace s \<noteq> '''' \<and> (\<exists>pub\<in>set (candidates ks keyID). Ed25519Verify P pub msg s = Inr True)"
  by (auto simp: VerifyCanonical_def try_keys_iff)

lemma VerifyCanonical_error_iff:
  "(\<exists>e. VerifyCanonical P ks keyID msg s = Inl e) \<longleftrightarrow>
     TrimSpace s \<noteq> '''' \<and> candidates ks keyID \<noteq> [] \<and> (\<exists>h. DecodeString s = Inl h)"
proof (cases "DecodeString s")
  case (Inl h)
  then show ?thesis
    by (cases "candidates ks keyID") (auto simp: VerifyCanonical_def Ed25519Verify_def)
next
  case (Inr b)
  have "\<exists>r. try_keys P msg s pubs = Inr r" for pubs
    by (induction pubs) (auto simp: Inr Ed25519Verify_def)
  then show ?thesis using Inr by (auto simp: VerifyCanonical_def) (metis Inl_Inr_False)
qed

text \<open>A signature made under one of the candidate keys is accepted.\<close>

lemma Ed25519Sign_nonblank:
  "ed25519_ok P \<Longrightarrow> length priv = PrivateKeySize \<Longrightarrow> TrimSpace (Ed25519Sign P priv m) \<noteq> ''''"
proof -
  assume "ed25519_ok P" "length priv = PrivateKeySize"
  then have "length (p_sign P priv m) = 64" by (simp add: ed25519_ok_def SignatureSize_def)
  then have "length (Ed25519Sign P priv m) = 128"
    by (simp add: Ed25519Sign_def EncodeToString_length)
  then show ?thesis by (auto simp: Ed25519Sign_def)
qed

lemma VerifyCanonical_Sign:
  assumes "ed25519_ok P" and "length priv = PrivateKeySize"
    and "p_public P priv \<in> set (candidates ks keyID)"
  shows "VerifyCanonical P ks keyID msg (Ed25519Sign P priv msg) = Inr True"
  unfolding VerifyCanonical_iff
  using Ed25519Sign_nonblank [OF assms(1,2)] Ed25519Verify_Sign [OF assms(1,2)] assms(3) by blast

subsection \<open>Decisions\<close>

lemma decision_clean_ok: "json_ok (clean (decision_json d))"
  by (simp add: decision_json_def)

lemma CanonicalMessage_total: "\<exists>m. CanonicalMessage d = Some m"
  by (simp add: CanonicalMessage_def CanonicalJSON_clean decision_clean_ok)

text \<open>The strings of a decision are valid UTF-8, as those of every object the API server stores.\<close>

definition decision_text :: "ApprovalDecision \<Rightarrow> bool" where
  "decision_text d \<longleftrightarrow> list_all valid_utf8
     [ad_Namespace d, ad_Name d, ad_Action d, ad_SourceModel d, ad_TargetModel d, ad_Approval d]"

lemma decision_json_ok: "decision_text d \<Longrightarrow> json_ok (decision_json d)"
  by (simp add: decision_json_def decision_text_def)

lemma CanonicalMessage_inj:
  assumes "decision_text a" and "decision_text b"
  shows "CanonicalMessage a = CanonicalMessage b \<longleftrightarrow> a = b"
proof
  note ok = assms [THEN decision_json_ok]
  assume "CanonicalMessage a = CanonicalMessage b"
  then have "jequiv (decision_json a) (decision_json b)"
    using ok by (simp add: CanonicalMessage_def CanonicalJSON_canon marshal_canon_inj canon_eq_iff_jequiv)
  then show "a = b" by (cases a; cases b) (simp add: decision_json_def)
qed simp

interpretation decision: signable CanonicalMessage decision_text "(=)"
  by unfold_locales (simp_all add: CanonicalMessage_total CanonicalMessage_inj)

subsection \<open>Config maps\<close>

text \<open>A config map as the API server stores it: no key twice in a map, and valid UTF-8 except in binary values.\<close>

definition map_text :: "gomap \<Rightarrow> bool" where
  "map_text m = list_all (\<lambda>(k, v). valid_utf8 k \<and> valid_utf8 v) m"

definition cm_wf :: "ConfigMap \<Rightarrow> bool" where
  "cm_wf cm \<longleftrightarrow> distinct (map fst (cm_Labels cm)) \<and> distinct (map fst (cm_Data cm)) \<and>
     distinct (map fst (cm_BinaryData cm)) \<and> valid_utf8 (cm_Namespace cm) \<and> valid_utf8 (cm_Name cm) \<and>
     map_text (cm_Labels cm) \<and> map_text (cm_Data cm) \<and> list_all (\<lambda>(k, v). valid_utf8 k) (cm_BinaryData cm)"

text \<open>What a signature over a config map covers.\<close>

definition cm_same :: "prims \<Rightarrow> ConfigMap \<Rightarrow> ConfigMap \<Rightarrow> bool" where
  "cm_same P a b \<longleftrightarrow>
     cm_Namespace a = cm_Namespace b \<and> cm_Name a = cm_Name b \<and>
     map_of (cm_Labels a) = map_of (cm_Labels b) \<and> map_of (cm_Data a) = map_of (cm_Data b) \<and>
     map_option (SHA256Hex P) \<circ> map_of (cm_BinaryData a) =
       map_option (SHA256Hex P) \<circ> map_of (cm_BinaryData b)"

lemma copy_map_distinct: "distinct (map fst m) \<Longrightarrow> copy_map f m = map (\<lambda>(k, v). (k, f v)) m"
proof -
  assume d: "distinct (map fst m)"
  have e: "foldl (\<lambda>out (k, v). AList.update k (f v) out) s m =
      foldl (\<lambda>out (k, v). AList.update k v out) s (map (\<lambda>(k, v). (k, f v)) m)" for s
    by (induction m arbitrary: s) auto
  have k: "map fst (map (\<lambda>(k, v). (k, f v)) m) = map fst m" by auto
  have "foldl (\<lambda>out (k, v). AList.update k v out) [] (map (\<lambda>(k, v). (k, f v)) m)
      = [] @ map (\<lambda>(k, v). (k, f v)) m"
    by (rule foldl_update_distinct) (simp_all only: k d, simp)
  then show ?thesis by (simp add: copy_map_def e)
qed

lemma distinct_copy_map: "distinct (map fst m) \<Longrightarrow> distinct (map fst (copy_map f m))"
proof -
  assume d: "distinct (map fst m)"
  have "map fst (map (\<lambda>(k, v). (k, f v)) m) = map fst m" by auto
  then show ?thesis unfolding copy_map_distinct [OF d] using d by (simp only:)
qed

lemma canon_str_map:
  assumes "distinct (map fst m)" and "distinct (map fst n)"
  shows "canon (str_map_json m) = canon (str_map_json n) \<longleftrightarrow> map_of m = map_of n"
proof -
  have c: "canon (str_map_json m) = JObj (map (\<lambda>(k, v). (k, JStr v)) (sort_key fst m))" for m
  proof -
    have "map (\<lambda>(k, v). (k, canon v)) (map (\<lambda>(k, v). (k, JStr v)) (sort_key fst m))
        = map (\<lambda>(k, v). (k, JStr v)) (sort_key fst m)"
      by (simp add: comp_def split_def)
    then show ?thesis unfolding str_map_json_def canon.simps 
      by (simp only: sort_key_map_snd) (simp add: sort_key_id_if_sorted)
  qed
  have "inj (\<lambda>(k :: string, v). (k, JStr v))" by (auto simp: inj_def)
  then have "canon (str_map_json m) = canon (str_map_json n) \<longleftrightarrow> sort_key fst m = sort_key fst n"
    unfolding c by (simp add: inj_map_eq_map)
  also have "\<dots> \<longleftrightarrow> set m = set n" by (rule sort_key_eq_iff_set [OF assms])
  also have "\<dots> \<longleftrightarrow> map_of m = map_of n" using map_of_inject_set [OF assms] by simp
  finally show ?thesis .
qed

lemma str_map_json_ok: "distinct (map fst m) \<Longrightarrow> map_text m \<Longrightarrow> json_ok (str_map_json m)"
proof -
  assume "distinct (map fst m)" and t: "map_text m"
  then have "distinct (map fst (sort_key fst m))" by (simp add: distinct_map)
  moreover have "map fst (map (\<lambda>(k, v). (k, JStr v)) (sort_key fst m)) = map fst (sort_key fst m)"
    by auto
  ultimately have "distinct (map fst (map (\<lambda>(k, v). (k, JStr v)) (sort_key fst m)))" by (simp only:)
  then show ?thesis using t unfolding str_map_json_def json_ok.simps by (auto simp: map_text_def list_all_iff)
qed

lemma canon_scm:
  "canon (scm_json s) =
     JObj ((if scm_BinaryData s = [] then [] else [(''binaryData'', canon (str_map_json (scm_BinaryData s)))]) @
           (if scm_Data s = [] then [] else [(''data'', canon (str_map_json (scm_Data s)))]) @
           [(''kind'', JStr (scm_Kind s))] @
           (if scm_Labels s = [] then [] else [(''labels'', canon (str_map_json (scm_Labels s)))]) @
           [(''name'', JStr (scm_Name s)), (''namespace'', JStr (scm_Namespace s))])"
  by (simp add: scm_json_def opt_map_def)

lemma scm_json_ok: "cm_wf cm \<Longrightarrow> json_ok (scm_json (Canonicalize P cm))"
proof -
  assume w: "cm_wf cm"
  have "json_ok (str_map_json (copy_map f m))"
    if "distinct (map fst m)" "list_all (\<lambda>(k, v). valid_utf8 k \<and> valid_utf8 (f v)) m" for f m
  proof (rule str_map_json_ok [OF distinct_copy_map [OF that(1)]])
    show "map_text (copy_map f m)" using that(2) by (force simp: copy_map_distinct [OF that(1)] map_text_def list_all_iff)
  qed
  then show ?thesis using w
    by (auto simp: scm_json_def opt_map_def Canonicalize_def cm_wf_def map_text_def)
qed

definition m_canon :: "gomap \<Rightarrow> json option" where
  "m_canon m = (if m = [] then None else Some (canon (str_map_json m)))"

lemma m_canon_eq_iff:
  assumes "distinct (map fst m)" and "distinct (map fst n)"
  shows "m_canon m = m_canon n \<longleftrightarrow> map_of m = map_of n"
  using canon_str_map [OF assms] by (cases "m = []"; cases "n = []") (auto simp: m_canon_def)

lemma map_of_copy:
  "distinct (map fst m) \<Longrightarrow> map_of (copy_map f m) = map_option f \<circ> map_of m"
  by (auto simp: copy_map_distinct map_of_map fun_eq_iff)

lemma m_canon_copy_eq_iff:
  assumes "distinct (map fst m)" and "distinct (map fst n)"
  shows "m_canon (copy_map f m) = m_canon (copy_map f n) \<longleftrightarrow>
    map_option f \<circ> map_of m = map_option f \<circ> map_of n"
  by (simp only: m_canon_eq_iff distinct_copy_map map_of_copy assms)

lemma canon_scm_eq_iff:
  "canon (scm_json a) = canon (scm_json b) \<longleftrightarrow>
     scm_Namespace a = scm_Namespace b \<and> scm_Name a = scm_Name b \<and> scm_Kind a = scm_Kind b \<and>
     m_canon (scm_Labels a) = m_canon (scm_Labels b) \<and>
     m_canon (scm_Data a) = m_canon (scm_Data b) \<and>
     m_canon (scm_BinaryData a) = m_canon (scm_BinaryData b)"
  by (cases "scm_Labels a = []"; cases "scm_Labels b = []"; cases "scm_Data a = []";
      cases "scm_Data b = []"; cases "scm_BinaryData a = []"; cases "scm_BinaryData b = []")
    (auto simp: canon_scm m_canon_def)

lemma cm_bytes_eq_iff:
  assumes "cm_wf a" and "cm_wf b"
  shows "cm_bytes P a = cm_bytes P b \<longleftrightarrow> cm_same P a b"
proof -
  note ok = scm_json_ok [OF assms(1), of P] scm_json_ok [OF assms(2), of P]
  have "cm_bytes P a = cm_bytes P b \<longleftrightarrow>
      marshal (canon (scm_json (Canonicalize P a))) = marshal (canon (scm_json (Canonicalize P b)))"
    using ok by (simp add: cm_bytes_def CanonicalJSON_canon)
  also have "\<dots> \<longleftrightarrow> canon (scm_json (Canonicalize P a)) = canon (scm_json (Canonicalize P b))"
    by (rule marshal_canon_inj [OF ok])
  also have "\<dots> \<longleftrightarrow> cm_same P a b"
  proof -
    have "map_option (\<lambda>v. v) \<circ> map_of m = map_of m" for m :: gomap
      by (simp add: fun_eq_iff option.map_ident)
    then show ?thesis
      using assms by (simp add: canon_scm_eq_iff Canonicalize_def cm_wf_def cm_same_def m_canon_copy_eq_iff)
  qed
  finally show ?thesis .
qed

lemma cm_bytes_total: "cm_wf cm \<Longrightarrow> \<exists>m. cm_bytes P cm = Some m"
  by (simp add: cm_bytes_def CanonicalJSON_canon scm_json_ok)

interpretation evidence_map: signable "cm_bytes P" cm_wf "cm_same P" for P
  by unfold_locales (simp_all add: cm_bytes_total cm_bytes_eq_iff)

subsection \<open>Reading the key set\<close>

text \<open>The entries that carry a key: trimmed, not blank, split into id and hexadecimal text.\<close>

definition entry_pairs :: "string list \<Rightarrow> (string \<times> string) list" where
  "entry_pairs entries = map split_entry (filter (\<lambda>e. e \<noteq> '''') (map TrimSpace entries))"

fun register :: "KeySet \<Rightarrow> (string \<times> string) \<Rightarrow> KeySet" where
  "register ks (i, pub) =
     \<lparr>ks_byID = (if i \<noteq> '''' then AList.update i pub (ks_byID ks) else ks_byID ks),
      ks_anyID = ks_anyID ks @ [pub]\<rparr>"

lemma add_entries_iff:
  "add_entries ks entries = Inr ks' \<longleftrightarrow>
     (\<exists>pubs. map (\<lambda>(i, h). PubKeyFromHex h) (entry_pairs entries) = map Inr pubs \<and>
        ks' = foldl register ks (zip (map fst (entry_pairs entries)) pubs))"
proof (induction entries arbitrary: ks)
  case Nil
  then show ?case by (auto simp: entry_pairs_def)
next
  case (Cons raw entries)
  show ?case
  proof (cases "TrimSpace raw = ''''")
    case True
    then show ?thesis using Cons.IH by (simp add: entry_pairs_def)
  next
    case False
    obtain i h where sp: "split_entry (TrimSpace raw) = (i, h)" by fastforce
    have ep: "entry_pairs (raw # entries) = (i, h) # entry_pairs entries"
      using False sp by (simp add: entry_pairs_def)
    show ?thesis
    proof (cases "PubKeyFromHex h")
      case (Inl e)
      then show ?thesis using False sp ep by (auto simp: Let_def Cons_eq_map_conv)
    next
      case (Inr pub)
      have "add_entries ks (raw # entries) = add_entries (register ks (i, pub)) entries"
        using False sp Inr by (simp add: Let_def)
      then show ?thesis using Cons.IH [of "register ks (i, pub)"] ep Inr by (auto simp: Cons_eq_map_conv)
    qed
  qed
qed

lemma register_all:
  "ks_anyID (foldl register ks xs) = ks_anyID ks @ map snd xs"
  "map_of (ks_byID (foldl register ks xs)) =
     map_of (ks_byID ks) ++ map_of (rev (filter (\<lambda>(i, pub). i \<noteq> '''') xs))"
proof (induction xs arbitrary: ks)
  case Nil
  { case 1 then show ?case by simp next case 2 then show ?case by simp }
next
  case (Cons x xs)
  { case 1 then show ?case using Cons(1) by (cases x) simp
  next
    case 2 then show ?case using Cons(2) by (cases x) (auto simp: update_conv' map_add_def fun_eq_iff
          split: option.split) }
qed

lemma ap_Verify_iff:
  "ap_Verify P ks keyID d s = Inr True \<longleftrightarrow>
     TrimSpace s \<noteq> '''' \<and>
     (\<exists>pub\<in>set (candidates ks keyID). \<exists>m. CanonicalMessage d = Some m \<and> Ed25519Verify P pub m s = Inr True)"
  using CanonicalMessage_total [of d] by (auto simp: ap_Verify_def VerifyCanonical_iff)

lemma cm_Verify_iff:
  assumes "cm_wf cm"
  shows "cm_Verify P ks keyID cm s = Inr True \<longleftrightarrow>
     TrimSpace s \<noteq> '''' \<and>
     (\<exists>pub\<in>set (candidates ks keyID). \<exists>m. cm_bytes P cm = Some m \<and> Ed25519Verify P pub m s = Inr True)"
  using cm_bytes_total [OF assms, of P] by (auto simp: cm_Verify_def VerifyCanonical_iff)

lemma map_option_eqD:
  "map_option f a = map_option f b \<Longrightarrow>
    (\<And>x y. a = Some x \<Longrightarrow> b = Some y \<Longrightarrow> f x = f y \<Longrightarrow> x = y) \<Longrightarrow> a = b"
  by (cases a; cases b) simp_all

lemma cm_same_binary:
  assumes "cm_same P q cm" and c: "collision_free P (snd ` set (cm_BinaryData q) \<union> snd ` set (cm_BinaryData cm))"
  shows "map_of (cm_BinaryData q) = map_of (cm_BinaryData cm)"
proof
  fix k
  have e: "map_option (SHA256Hex P) (map_of (cm_BinaryData q) k) = map_option (SHA256Hex P) (map_of (cm_BinaryData cm) k)"
    using assms(1) by (auto simp: cm_same_def fun_eq_iff)
  have "x = y" if "map_of (cm_BinaryData q) k = Some x" "map_of (cm_BinaryData cm) k = Some y"
    "SHA256Hex P x = SHA256Hex P y" for x y
  proof -
    have "x \<in> snd ` set (cm_BinaryData q)" "y \<in> snd ` set (cm_BinaryData cm)"
      using map_of_SomeD [OF that(1)] map_of_SomeD [OF that(2)] by force+
    then show ?thesis using c that(3) unfolding collision_free_def SHA256Hex_eq_iff by blast
  qed
  with e show "map_of (cm_BinaryData q) k = map_of (cm_BinaryData cm) k" by (rule map_option_eqD)
qed

lemma Ed25519Verify_accepts:
  "Ed25519Verify P pub m s = Inr True \<longleftrightarrow> (\<exists>sig. DecodeString s = Inr sig \<and> p_verify P pub m sig)"
  by (auto simp: Ed25519Verify_def split: sum.splits)


section \<open>Properties\<close>

text \<open>C34. Signing a decision never fails and the signature is accepted whenever the signer's public
  key is a candidate; verification accepts exactly the non-blank signatures that some candidate key
  verifies over the decision's canonical message, and reports an error exactly for a non-blank text
  that is not hexadecimal, presented while there is a candidate key. With no trusted key nothing is
  accepted.\<close>

theorem approval_verification_exact:
  assumes "ed25519_ok P" and "length priv = PrivateKeySize"
    and "p_public P priv \<in> set (candidates ks keyID)"
  shows "(\<exists>s. ap_Sign P priv d = Some s \<and> ap_Verify P ks keyID d s = Inr True) \<and>
    (ap_Verify P ks' keyID' d s' = Inr True \<longleftrightarrow>
       TrimSpace s' \<noteq> '''' \<and> (\<exists>pub\<in>set (candidates ks' keyID'). \<exists>m. CanonicalMessage d = Some m \<and>
          Ed25519Verify P pub m s' = Inr True)) \<and>
    ((\<exists>e. ap_Verify P ks' keyID' d s' = Inl e) \<longleftrightarrow>
       TrimSpace s' \<noteq> '''' \<and> candidates ks' keyID' \<noteq> [] \<and> (\<exists>h. DecodeString s' = Inl h))"
proof (intro conjI)
  obtain m where m: "CanonicalMessage d = Some m" using CanonicalMessage_total by blast
  show "\<exists>s. ap_Sign P priv d = Some s \<and> ap_Verify P ks keyID d s = Inr True"
    using m VerifyCanonical_Sign [OF assms, of m] Ed25519Sign_nonblank [OF assms(1,2), of m]
    by (simp add: ap_Sign_def ap_Verify_def)
  show "(\<exists>e. ap_Verify P ks' keyID' d s' = Inl e) \<longleftrightarrow>
      TrimSpace s' \<noteq> '''' \<and> candidates ks' keyID' \<noteq> [] \<and> (\<exists>h. DecodeString s' = Inl h)"
    using m VerifyCanonical_error_iff [of P ks' keyID' m s'] by (auto simp: ap_Verify_def)
qed (rule ap_Verify_iff)

definition demo_decision :: ApprovalDecision where
  "demo_decision =
     \<lparr>ad_Namespace = ''finance'', ad_Name = ''cr-1'', ad_Action = ''reroute'',
      ad_SourceModel = ''a'', ad_TargetModel = ''b'', ad_Approval = ''Approved''\<rparr>"

theorem approval_verification_exact_witness:
  "\<exists>s. ap_Sign demo_prims (replicate 64 CHR ''k'') demo_decision = Some s \<and>
     ap_Verify demo_prims \<lparr>ks_byID = [], ks_anyID = [replicate 32 CHR ''k'']\<rparr> '''' demo_decision s = Inr True"
proof -
  let ?k = "replicate 64 CHR ''k''"
  let ?ks = "\<lparr>ks_byID = [], ks_anyID = [replicate 32 CHR ''k'']\<rparr>"
  have "length ?k = PrivateKeySize" by (simp add: PrivateKeySize_def)
  moreover have "p_public demo_prims ?k \<in> set (candidates ?ks '''')"
    by (simp add: demo_prims_def candidates_def)
  ultimately show ?thesis
    using approval_verification_exact [OF demo_prims_ok, of ?k ?ks "''''" demo_decision] by blast
qed

text \<open>C35. A signed decision cannot be replayed. If the owners of the trusted keys signed the decisions of \<open>S\<close> and a
  decision is accepted, then it is one of them, with the same namespace, name, action, source, target and
  verdict, or its signature is an Ed25519 forgery, under a trusted key, on that very decision.\<close>

theorem approval_not_replayable:
  assumes "ap_Verify P ks keyID d s = Inr True" and "decision_text d" and "\<forall>q\<in>S. decision_text q"
  shows "d \<in> S \<or>
    (\<exists>pub\<in>set (candidates ks keyID). \<exists>m sig. CanonicalMessage d = Some m \<and> DecodeString s = Inr sig \<and>
       forgery P pub {m. \<exists>q\<in>S. CanonicalMessage q = Some m} m sig)"
proof -
  from assms(1) obtain pub m sig where m: "pub \<in> set (candidates ks keyID)" "CanonicalMessage d = Some m"
    "DecodeString s = Inr sig" "p_verify P pub m sig" unfolding ap_Verify_iff Ed25519Verify_accepts by blast
  then show ?thesis using decision.signed_or_forged [OF assms(3,2) m(2,4)] by blast
qed

text \<open>Only the change request \<open>cr-2\<close> was signed for: a signature that is accepted for \<open>cr-1\<close> goes beyond it.\<close>

theorem approval_not_replayable_witness:
  "\<exists>s m sig. ap_Verify demo_prims \<lparr>ks_byID = [], ks_anyID = [replicate 32 CHR ''k'']\<rparr> '''' demo_decision s = Inr True \<and>
     CanonicalMessage demo_decision = Some m \<and>
     forgery demo_prims (replicate 32 CHR ''k'') {m. \<exists>q\<in>{demo_decision\<lparr>ad_Name := ''cr-2''\<rparr>}. CanonicalMessage q = Some m} m sig"
proof -
  let ?k = "replicate 64 CHR ''k''" and ?q = "demo_decision\<lparr>ad_Name := ''cr-2''\<rparr>"
  let ?ks = "\<lparr>ks_byID = [], ks_anyID = [replicate 32 CHR ''k'']\<rparr>"
  obtain m where m: "CanonicalMessage demo_decision = Some m" using CanonicalMessage_total by blast
  have k: "length ?k = PrivateKeySize" by (simp add: PrivateKeySize_def)
  have "p_public demo_prims ?k \<in> set (candidates ?ks '''')" by (simp add: demo_prims_def candidates_def)
  from VerifyCanonical_Sign [OF demo_prims_ok k this, of m]
  have v: "ap_Verify demo_prims ?ks '''' demo_decision (Ed25519Sign demo_prims ?k m) = Inr True"
    using m Ed25519Sign_nonblank [OF demo_prims_ok k, of m] by (simp add: ap_Verify_def)
  have t: "decision_text demo_decision" "\<forall>q\<in>{?q}. decision_text q"
    by (simp_all add: decision_text_def demo_decision_def)
  have "demo_decision \<noteq> ?q" by (simp add: demo_decision_def)
  then show ?thesis using approval_not_replayable [OF v t] v by (auto simp: candidates_def)
qed

text \<open>The trusted keys are read as documented: \<open>NewKeySet\<close> succeeds exactly when the key of every
  entry that is not blank parses; then every key is a candidate when no id is given, in order, and a
  given id selects the key registered last under it and no other. A blank list gives the empty set,
  for which there is no candidate at all.\<close>

theorem keyset_from_text:
  "((\<exists>ks. NewKeySet entries = Inr ks) \<longleftrightarrow>
      (\<forall>(i, h)\<in>set (entry_pairs entries). \<exists>pub. PubKeyFromHex h = Inr pub)) \<and>
   (NewKeySet entries = Inr ks \<longrightarrow>
      (\<exists>pubs. map (\<lambda>(i, h). PubKeyFromHex h) (entry_pairs entries) = map Inr pubs \<and>
        (TrimSpace keyID = '''' \<longrightarrow> candidates ks keyID = pubs) \<and>
        (TrimSpace keyID \<noteq> '''' \<longrightarrow> candidates ks keyID =
           (case map_of (rev (zip (map fst (entry_pairs entries)) pubs)) keyID of
              None \<Rightarrow> [] | Some pub \<Rightarrow> [pub])))) \<and>
   (TrimSpace csv = '''' \<longrightarrow> (\<exists>ks. ParseKeySetCSV csv = Inr ks \<and> ks_Empty ks \<and> candidates ks keyID = []))"
proof (intro conjI impI)
  have "(\<exists>pubs. map f xs = map Inr pubs) \<longleftrightarrow> (\<forall>x\<in>set xs. \<exists>pub. f x = Inr pub)"
    for f :: "string \<times> string \<Rightarrow> string + string" and xs
  proof (induction xs)
    case (Cons x xs)
    then show ?case by (auto simp: Cons_eq_map_conv)
  qed simp
  then show "(\<exists>ks. NewKeySet entries = Inr ks) \<longleftrightarrow>
      (\<forall>(i, h)\<in>set (entry_pairs entries). \<exists>pub. PubKeyFromHex h = Inr pub)"
    by (simp add: NewKeySet_def add_entries_iff split_def)
next
  assume "NewKeySet entries = Inr ks"
  then obtain pubs where p: "map (\<lambda>(i, h). PubKeyFromHex h) (entry_pairs entries) = map Inr pubs"
    and ks: "ks = foldl register zero_keyset (zip (map fst (entry_pairs entries)) pubs)"
    unfolding NewKeySet_def add_entries_iff by blast
  have l: "length (map fst (entry_pairs entries)) = length pubs" using p by (metis length_map)
  have nb: "map_of (rev (filter (\<lambda>(i, pub). i \<noteq> '''') xs)) keyID = map_of (rev xs) keyID"
    if "TrimSpace keyID \<noteq> ''''" for xs :: "(string \<times> string) list"
    using that by (induction xs rule: rev_induct) (auto split: prod.splits)
  show "\<exists>pubs. map (\<lambda>(i, h). PubKeyFromHex h) (entry_pairs entries) = map Inr pubs \<and>
      (TrimSpace keyID = '''' \<longrightarrow> candidates ks keyID = pubs) \<and>
      (TrimSpace keyID \<noteq> '''' \<longrightarrow> candidates ks keyID =
         (case map_of (rev (zip (map fst (entry_pairs entries)) pubs)) keyID of
            None \<Rightarrow> [] | Some pub \<Rightarrow> [pub]))"
    by (rule exI [of _ pubs])
      (use p l nb in \<open>auto simp: candidates_def ks register_all zero_keyset_def split: option.split\<close>)
next
  assume "TrimSpace csv = ''''"
  then show "\<exists>ks. ParseKeySetCSV csv = Inr ks \<and> ks_Empty ks \<and> candidates ks keyID = []"
    by (simp add: ParseKeySetCSV_def zero_keyset_def ks_Empty_def candidates_def)
qed

theorem keyset_from_text_witness:
  "\<exists>ks. ParseKeySetCSV '''' = Inr ks \<and> ks_Empty ks \<and> candidates ks ''id'' = []"
  using keyset_from_text [of "[]" zero_keyset "''id''" "''''"] by simp

text \<open>C36. A signature over evidence pins the config map's namespace, name, labels and data, and, where
  SHA-256 does not collide on the values at hand, its binary data too. If the owners of the trusted keys signed
  the config maps of \<open>S\<close>, an accepted config map agrees in all of them with one of \<open>S\<close>, or its signature is an
  Ed25519 forgery, under a trusted key, on the canonical form of that config map.\<close>

theorem evidence_signature_covers:
  assumes "cm_Verify P ks keyID cm s = Inr True" and "cm_wf cm" and "\<forall>q\<in>S. cm_wf q"
  shows "(\<exists>q\<in>S. cm_Namespace q = cm_Namespace cm \<and> cm_Name q = cm_Name cm \<and>
      map_of (cm_Labels q) = map_of (cm_Labels cm) \<and> map_of (cm_Data q) = map_of (cm_Data cm) \<and>
      (collision_free P (snd ` set (cm_BinaryData q) \<union> snd ` set (cm_BinaryData cm)) \<longrightarrow>
         map_of (cm_BinaryData q) = map_of (cm_BinaryData cm))) \<or>
    (\<exists>pub\<in>set (candidates ks keyID). \<exists>m sig. cm_bytes P cm = Some m \<and> DecodeString s = Inr sig \<and>
       forgery P pub {m. \<exists>q\<in>S. cm_bytes P q = Some m} m sig)"
proof -
  from assms(1) obtain pub m sig where m: "pub \<in> set (candidates ks keyID)" "cm_bytes P cm = Some m"
    "DecodeString s = Inr sig" "p_verify P pub m sig"
    unfolding cm_Verify_iff [OF assms(2)] Ed25519Verify_accepts by blast
  then consider q where "q \<in> S" "cm_same P q cm" | "forgery P pub {m. \<exists>q\<in>S. cm_bytes P q = Some m} m sig"
    using evidence_map.signed_or_forged [OF assms(3,2) m(2,4)] by blast
  then show ?thesis
  proof cases
    case 1
    then show ?thesis using cm_same_binary [OF 1(2)] unfolding cm_same_def by blast
  qed (use m in blast)
qed

definition demo_cm :: ConfigMap where
  "demo_cm = \<lparr>cm_Namespace = ''ns'', cm_Name = ''ev'', cm_Labels = [(''app'', ''x'')],
     cm_Annotations = [(AnnotationSignatureRequired, ''true'')], cm_Data = [(''k'', ''v'')],
     cm_BinaryData = []\<rparr>"

text \<open>Only a config map with other data was signed for.\<close>

theorem evidence_signature_covers_witness:
  "\<exists>s m sig. cm_Verify demo_prims \<lparr>ks_byID = [], ks_anyID = [replicate 32 CHR ''k'']\<rparr> '''' demo_cm s = Inr True \<and>
     cm_bytes demo_prims demo_cm = Some m \<and>
     forgery demo_prims (replicate 32 CHR ''k'')
       {m. \<exists>q\<in>{demo_cm\<lparr>cm_Data := [(''k'', ''w'')]\<rparr>}. cm_bytes demo_prims q = Some m} m sig"
proof -
  let ?k = "replicate 64 CHR ''k''" and ?q = "demo_cm\<lparr>cm_Data := [(''k'', ''w'')]\<rparr>"
  let ?ks = "\<lparr>ks_byID = [], ks_anyID = [replicate 32 CHR ''k'']\<rparr>"
  have w: "cm_wf demo_cm" "\<forall>q\<in>{?q}. cm_wf q" by (simp_all add: cm_wf_def demo_cm_def map_text_def)
  obtain m where m: "cm_bytes demo_prims demo_cm = Some m" using cm_bytes_total [OF w(1)] by blast
  have k: "length ?k = PrivateKeySize" by (simp add: PrivateKeySize_def)
  have "p_public demo_prims ?k \<in> set (candidates ?ks '''')" by (simp add: demo_prims_def candidates_def)
  from VerifyCanonical_Sign [OF demo_prims_ok k this, of m]
  have v: "cm_Verify demo_prims ?ks '''' demo_cm (Ed25519Sign demo_prims ?k m) = Inr True"
    using m Ed25519Sign_nonblank [OF demo_prims_ok k, of m] by (simp add: cm_Verify_def)
  have "map_of (cm_Data ?q) \<noteq> map_of (cm_Data demo_cm)"
  proof
    assume "map_of (cm_Data ?q) = map_of (cm_Data demo_cm)"
    from fun_cong [OF this, of "''k''"] show False by (simp add: demo_cm_def)
  qed
  then have "\<not> (\<exists>q\<in>{?q}. map_of (cm_Data q) = map_of (cm_Data demo_cm))" by (simp only: bex_simps simp_thms)
  then show ?thesis using evidence_signature_covers [OF v w] v by (auto simp: candidates_def)
qed

text \<open>A signature over evidence covers no annotation: rewriting the annotations of a config map in
  any way, the one that demands a signature included, leaves the verdict on a signature as it was.\<close>

theorem evidence_annotations_uncovered:
  "cm_Verify P ks keyID (cm\<lparr>cm_Annotations := a\<rparr>) s = cm_Verify P ks keyID cm s \<and>
   \<not> SignatureRequired (Some (cm\<lparr>cm_Annotations := mdelete a AnnotationSignatureRequired\<rparr>))"
  by (simp add: cm_Verify_def cm_bytes_def Canonicalize_def SignatureRequired_def EqualFold_def case_ascii
      ascii_def)

end
