(* ===== verification/Console.thy ===== *)
theory Console
  imports Kube
begin

text \<open>
  The console, \<open>internal/console\<close>: a REST interface to the operator's custom resources over the dynamic
  client, and the choice of its cluster configuration in \<open>cmd/console-api\<close>.

  A request is its method, the segments of its (clean) path, the query parameter \<open>namespace\<close> and its
  body; a response is a status, headers and a body. The accessors of \<open>unstructured.Unstructured\<close> belong
  to a library and are the record \<open>unstr\<close>; what the console relies on is \<open>unstr_ok\<close>: a setter sets
  what its getter reads and leaves what the others read. A nil object is the empty one.

  Shown here: which calls of the cluster a request can cause, and what the objects it writes carry.
\<close>

section \<open>The registry\<close>

record Resource =
  re_Kind :: string
  re_Plural :: string
  re_Group :: string
  re_Version :: string
  re_ShortName :: string

definition re_GVR :: "Resource \<Rightarrow> GVR" where
  "re_GVR r = \<lparr>gvr_Group = re_Group r, gvr_Version = re_Version r, gvr_Resource = re_Plural r\<rparr>"

definition CRDName :: "Resource \<Rightarrow> string" where
  "CRDName r = re_Plural r @ ''.'' @ re_Group r"

definition apiGroup :: string where "apiGroup = ''aiops.imperium.io''"
definition apiVersion :: string where "apiVersion = ''v1alpha1''"

definition registered :: "string \<Rightarrow> string \<Rightarrow> string \<Rightarrow> Resource" where
  "registered kind plural short =
     \<lparr>re_Kind = kind, re_Plural = plural, re_Group = apiGroup, re_Version = apiVersion, re_ShortName = short\<rparr>"

definition Registry :: "Resource list" where
  "Registry =
     [registered ''ConfidentialInferencePolicy'' ''confidentialinferencepolicies'' ''cip'',
      registered ''RawAttestationReport'' ''rawattestationreports'' ''rar'',
      registered ''AttestationEvidence'' ''attestationevidences'' ''aevid'',
      registered ''AIPlacementDecision'' ''aiplacementdecisions'' ''apd'',
      registered ''AIKeyReleasePolicy'' ''aikeyreleasepolicies'' ''akrp'',
      registered ''AIRevocationPolicy'' ''airevocationpolicies'' ''airvp'',
      registered ''AIEvidenceRecord'' ''aievidencerecords'' ''aier'']"

fun find_kind :: "string \<Rightarrow> Resource list \<Rightarrow> Resource option" where
  "find_kind kind [] = None"
| "find_kind kind (r # rs) = (if re_Kind r = kind then Some r else find_kind kind rs)"

definition ByKind :: "string \<Rightarrow> Resource option" where
  "ByKind kind = find_kind kind Registry"


section \<open>Unstructured objects\<close>

record unstr =
  us_getAPIVersion :: "json \<Rightarrow> string"
  us_getKind :: "json \<Rightarrow> string"
  us_getNamespace :: "json \<Rightarrow> string"
  us_getName :: "json \<Rightarrow> string"
  us_getResourceVersion :: "json \<Rightarrow> string"
  us_setAPIVersion :: "string \<Rightarrow> json \<Rightarrow> json"
  us_setKind :: "string \<Rightarrow> json \<Rightarrow> json"
  us_setNamespace :: "string \<Rightarrow> json \<Rightarrow> json"
  us_setName :: "string \<Rightarrow> json \<Rightarrow> json"
  us_setResourceVersion :: "string \<Rightarrow> json \<Rightarrow> json"
  us_nestedSlice :: "json \<Rightarrow> string list \<Rightarrow> json list option" \<comment> \<open>\<open>None\<close>: an error or not found\<close>
  us_nestedMap :: "json \<Rightarrow> string list \<Rightarrow> json option"


section \<open>Requests and responses\<close>

datatype body = NoBody | JsonBody json | ListBody json "json list" | HtmlBody string

record HttpRequest =
  hr_Method :: string
  hr_Segments :: "string list"
  hr_QueryNamespace :: string
  hr_Body :: "string + string"

record HttpResponse =
  rp_Status :: int
  rp_Headers :: gomap
  rp_Body :: body

definition writeBody :: "int \<Rightarrow> body \<Rightarrow> HttpResponse" where
  "writeBody status b = \<lparr>rp_Status = status, rp_Headers = [(''Content-Type'', ''application/json'')], rp_Body = b\<rparr>"

definition writeJSON :: "int \<Rightarrow> json \<Rightarrow> HttpResponse" where
  "writeJSON status v = writeBody status (JsonBody v)"

definition error_json :: "string \<Rightarrow> json" where
  "error_json e = JObj [(''error'', JStr e)]"

fun error_status :: "kerr \<Rightarrow> int" where
  "error_status (KNotFound t) = 404"
| "error_status (KAlreadyExists t) = 409"
| "error_status (KInvalid t) = 400"
| "error_status (KBadRequest t) = 400"
| "error_status (KForbidden t) = 403"
| "error_status (KUnauthorized t) = 401"
| "error_status e = 500"

definition writeError :: "kerr \<Rightarrow> HttpResponse" where
  "writeError e = writeJSON (error_status e) (error_json (kerr_text e))"

text \<open>An error wrapped with \<open>%w\<close> keeps its kind.\<close>

fun wrap_error :: "string \<Rightarrow> kerr \<Rightarrow> kerr" where
  "wrap_error p (KNotFound t) = KNotFound (p @ t)"
| "wrap_error p (KConflict t) = KConflict (p @ t)"
| "wrap_error p (KAlreadyExists t) = KAlreadyExists (p @ t)"
| "wrap_error p (KInvalid t) = KInvalid (p @ t)"
| "wrap_error p (KBadRequest t) = KBadRequest (p @ t)"
| "wrap_error p (KForbidden t) = KForbidden (p @ t)"
| "wrap_error p (KUnauthorized t) = KUnauthorized (p @ t)"
| "wrap_error p (KOther t) = KOther (p @ t)"

definition unknown_kind :: "string \<Rightarrow> HttpResponse" where
  "unknown_kind kind = writeJSON 404 (error_json (''unknown resource kind '' @ fmt_q kind))"

definition decodeBody :: "(string \<Rightarrow> string) \<Rightarrow> HttpRequest \<Rightarrow> string + json" where
  "decodeBody syn r =
     (case hr_Body r of
        Inl e \<Rightarrow> Inl (''read request body: '' @ e)
      | Inr b \<Rightarrow>
        (case unmarshal_any b of
           Some (JObj kvs) \<Rightarrow> Inr (JObj kvs)
         | Some JNull \<Rightarrow> Inr (JObj [])
         | _ \<Rightarrow> Inl (''invalid JSON body: '' @ syn b)))"


section \<open>Handlers\<close>

definition handleHealth :: HttpResponse where
  "handleHealth = writeJSON 200 (JObj [(''status'', JStr ''ok'')])"

definition type_info :: "Resource \<Rightarrow> json" where
  "type_info r = JObj [(''kind'', JStr (re_Kind r)), (''plural'', JStr (re_Plural r)),
     (''shortName'', JStr (re_ShortName r)), (''group'', JStr (re_Group r)), (''version'', JStr (re_Version r))]"

definition handleListResourceTypes :: HttpResponse where
  "handleListResourceTypes = writeJSON 200 (JArr (map type_info (sort_key re_Kind Registry)))"

definition handleListNamespaces :: "unstr \<Rightarrow> 's server \<Rightarrow> ('s, HttpResponse) prog" where
  "handleListNamespaces U srv = do {
     r \<leftarrow> api srv (DynList \<lparr>gvr_Group = '''', gvr_Version = ''v1'', gvr_Resource = ''namespaces''\<rparr> '''');
     State_Monad.return
       (case as_objects r of
          Inl e \<Rightarrow> writeError e
        | Inr (obj, items) \<Rightarrow> writeJSON 200 (JArr (map JStr (sort (map (us_getName U) items)))))
   }"

definition crdGVR :: GVR where
  "crdGVR = \<lparr>gvr_Group = ''apiextensions.k8s.io'', gvr_Version = ''v1'', gvr_Resource = ''customresourcedefinitions''\<rparr>"

fun schema_of :: "unstr \<Rightarrow> Resource \<Rightarrow> json list \<Rightarrow> HttpResponse" where
  "schema_of U res [] = writeError (KOther (''CRD '' @ fmt_q (CRDName res) @ '' has no version '' @ fmt_q (re_Version res)))"
| "schema_of U res (v # vs) =
     (case v of
        JObj vm \<Rightarrow>
          if map_of vm ''name'' = Some (JStr (re_Version res)) then
            (case us_nestedMap U v [''schema'', ''openAPIV3Schema''] of
               None \<Rightarrow> writeError (KOther (''CRD '' @ fmt_q (CRDName res) @ '' version '' @ fmt_q (re_Version res) @
                         '' has no openAPIV3Schema''))
             | Some s \<Rightarrow> writeJSON 200 s)
          else schema_of U res vs
      | _ \<Rightarrow> schema_of U res vs)"

definition handleSchema :: "unstr \<Rightarrow> 's server \<Rightarrow> string \<Rightarrow> ('s, HttpResponse) prog" where
  "handleSchema U srv kind =
     (case ByKind kind of
        None \<Rightarrow> State_Monad.return (unknown_kind kind)
      | Some res \<Rightarrow> do {
          r \<leftarrow> api srv (DynGet crdGVR '''' (CRDName res));
          State_Monad.return
            (case as_object r of
               Inl e \<Rightarrow> writeError (wrap_error (''reading CRD '' @ fmt_q (CRDName res) @
                          '' (is it installed on this cluster?): '') e)
             | Inr crd \<Rightarrow>
               (case us_nestedSlice U crd [''spec'', ''versions''] of
                  None \<Rightarrow> writeError (KOther (''CRD '' @ fmt_q (CRDName res) @ '' has no spec.versions''))
                | Some versions \<Rightarrow> schema_of U res versions))
        })"

definition handleList :: "'s server \<Rightarrow> string \<Rightarrow> string \<Rightarrow> ('s, HttpResponse) prog" where
  "handleList srv kind ns =
     (case ByKind kind of
        None \<Rightarrow> State_Monad.return (unknown_kind kind)
      | Some res \<Rightarrow> do {
          r \<leftarrow> api srv (DynList (re_GVR res) (if ns \<noteq> '''' then ns else ''''));
          State_Monad.return
            (case as_objects r of Inl e \<Rightarrow> writeError e | Inr (obj, items) \<Rightarrow> writeBody 200 (ListBody obj items))
        })"

definition handleGet :: "'s server \<Rightarrow> string \<Rightarrow> string \<Rightarrow> string \<Rightarrow> ('s, HttpResponse) prog" where
  "handleGet srv kind ns name =
     (case ByKind kind of
        None \<Rightarrow> State_Monad.return (unknown_kind kind)
      | Some res \<Rightarrow> do {
          r \<leftarrow> api srv (DynGet (re_GVR res) ns name);
          State_Monad.return (case as_object r of Inl e \<Rightarrow> writeError e | Inr obj \<Rightarrow> writeJSON 200 obj)
        })"

definition typed :: "unstr \<Rightarrow> Resource \<Rightarrow> json \<Rightarrow> json" where
  "typed U res obj = us_setKind U (re_Kind res) (us_setAPIVersion U (re_Group res @ ''/'' @ re_Version res) obj)"

definition handleCreate :: "unstr \<Rightarrow> (string \<Rightarrow> string) \<Rightarrow> 's server \<Rightarrow> string \<Rightarrow> HttpRequest \<Rightarrow> ('s, HttpResponse) prog" where
  "handleCreate U syn srv kind req =
     (case ByKind kind of
        None \<Rightarrow> State_Monad.return (unknown_kind kind)
      | Some res \<Rightarrow>
        (case decodeBody syn req of
           Inl e \<Rightarrow> State_Monad.return (writeJSON 400 (error_json e))
         | Inr obj0 \<Rightarrow>
           (let obj = typed U res obj0; ns = us_getNamespace U obj in
            if ns = '''' then State_Monad.return (writeJSON 400 (error_json ''metadata.namespace is required''))
            else do {
              r \<leftarrow> api srv (DynCreate (re_GVR res) ns obj);
              State_Monad.return (case as_object r of Inl e \<Rightarrow> writeError e | Inr created \<Rightarrow> writeJSON 201 created)
            })))"

definition put_object :: "'s server \<Rightarrow> Resource \<Rightarrow> string \<Rightarrow> json \<Rightarrow> ('s, HttpResponse) prog" where
  "put_object srv res ns obj = do {
     r \<leftarrow> api srv (DynUpdate (re_GVR res) ns obj);
     State_Monad.return (case as_object r of Inl e \<Rightarrow> writeError e | Inr updated \<Rightarrow> writeJSON 200 updated)
   }"

definition handleUpdate :: "unstr \<Rightarrow> (string \<Rightarrow> string) \<Rightarrow> 's server \<Rightarrow> string \<Rightarrow> string \<Rightarrow> string \<Rightarrow> HttpRequest \<Rightarrow>
    ('s, HttpResponse) prog" where
  "handleUpdate U syn srv kind ns name req =
     (case ByKind kind of
        None \<Rightarrow> State_Monad.return (unknown_kind kind)
      | Some res \<Rightarrow>
        (case decodeBody syn req of
           Inl e \<Rightarrow> State_Monad.return (writeJSON 400 (error_json e))
         | Inr obj0 \<Rightarrow>
           (let obj = us_setName U name (us_setNamespace U ns (typed U res obj0)) in
            if us_getResourceVersion U obj = '''' then do {
              r \<leftarrow> api srv (DynGet (re_GVR res) ns name);
              case as_object r of
                Inl e \<Rightarrow> State_Monad.return (writeError e)
              | Inr current \<Rightarrow> put_object srv res ns (us_setResourceVersion U (us_getResourceVersion U current) obj)
            }
            else put_object srv res ns obj)))"

definition handleDelete :: "'s server \<Rightarrow> string \<Rightarrow> string \<Rightarrow> string \<Rightarrow> ('s, HttpResponse) prog" where
  "handleDelete srv kind ns name =
     (case ByKind kind of
        None \<Rightarrow> State_Monad.return (unknown_kind kind)
      | Some res \<Rightarrow> do {
          r \<leftarrow> api srv (DynDelete (re_GVR res) ns name);
          State_Monad.return
            (case as_unit r of Some e \<Rightarrow> writeError e
             | None \<Rightarrow> \<lparr>rp_Status = 204, rp_Headers = [], rp_Body = NoBody\<rparr>)
        })"


section \<open>Routing\<close>

text \<open>A pattern for \<open>GET\<close> also matches \<open>HEAD\<close>. What no pattern matches goes to the static handler.\<close>

definition gets :: "HttpRequest \<Rightarrow> bool" where
  "gets r \<longleftrightarrow> hr_Method r = ''GET'' \<or> hr_Method r = ''HEAD''"

definition route_resources :: "unstr \<Rightarrow> (string \<Rightarrow> string) \<Rightarrow> 's server \<Rightarrow> HttpRequest \<Rightarrow> string list \<Rightarrow>
    ('s, HttpResponse) prog option" where
  "route_resources U syn srv r segs =
     (case segs of
        [] \<Rightarrow> if gets r then Some (State_Monad.return handleListResourceTypes) else None
      | [kind] \<Rightarrow>
          if gets r then Some (handleList srv kind (hr_QueryNamespace r))
          else if hr_Method r = ''POST'' then Some (handleCreate U syn srv kind r) else None
      | [kind, s] \<Rightarrow> if gets r \<and> s = ''schema'' then Some (handleSchema U srv kind) else None
      | [kind, ns, name] \<Rightarrow>
          if gets r then Some (handleGet srv kind ns name)
          else if hr_Method r = ''PUT'' then Some (handleUpdate U syn srv kind ns name r)
          else if hr_Method r = ''DELETE'' then Some (handleDelete srv kind ns name) else None
      | _ \<Rightarrow> None)"

definition routes :: "unstr \<Rightarrow> (string \<Rightarrow> string) \<Rightarrow> 's server \<Rightarrow> HttpRequest \<Rightarrow> ('s, HttpResponse) prog option" where
  "routes U syn srv r =
     (case hr_Segments r of
        a # b # segs \<Rightarrow>
          if a = ''api'' \<and> b = ''resources'' then route_resources U syn srv r segs
          else if a = ''api'' \<and> b = ''health'' \<and> segs = [] \<and> gets r then Some (State_Monad.return handleHealth)
          else if a = ''api'' \<and> b = ''namespaces'' \<and> segs = [] \<and> gets r then Some (handleListNamespaces U srv)
          else None
      | _ \<Rightarrow> None)"

definition notBuiltPlaceholder :: string where
  "notBuiltPlaceholder =
     ''<!doctype html>'' @ [CHR 0x0A] @
     ''<html><head><meta charset='' @ [dquote] @ ''utf-8'' @ [dquote] @ ''><title>console not built yet</title></head>'' @ [CHR 0x0A] @
     ''<body style='' @ [dquote] @ ''font-family: sans-serif; max-width: 40rem; margin: 4rem auto;'' @ [dquote] @ ''>'' @ [CHR 0x0A] @
     ''<h1>Console not built yet</h1>'' @ [CHR 0x0A] @
     ''<p>Run <code>cd ui/console &amp;&amp; npm install &amp;&amp; npm run build</code>, then restart'' @ [CHR 0x0A] @
     ''console-api.</p>'' @ [CHR 0x0A] @
     ''</body></html>''"

text \<open>The static handler: the placeholder page without a built frontend, else the file server, a
  parameter.\<close>

definition serve_static :: "bool \<Rightarrow> (HttpRequest \<Rightarrow> HttpResponse) \<Rightarrow> HttpRequest \<Rightarrow> HttpResponse" where
  "serve_static built fileServer r =
     (if \<not> built
      then \<lparr>rp_Status = 200, rp_Headers = [(''Content-Type'', ''text/html; charset=utf-8'')],
            rp_Body = HtmlBody notBuiltPlaceholder\<rparr>
      else fileServer r)"

definition ServeHTTP :: "unstr \<Rightarrow> (string \<Rightarrow> string) \<Rightarrow> 's server \<Rightarrow> (HttpRequest \<Rightarrow> HttpResponse) \<Rightarrow> HttpRequest \<Rightarrow>
    ('s, HttpResponse) prog" where
  "ServeHTTP U syn srv stat r =
     (case routes U syn srv r of Some h \<Rightarrow> h | None \<Rightarrow> State_Monad.return (stat r))"

definition cors_headers :: gomap where
  "cors_headers = [(''Access-Control-Allow-Origin'', ''*''),
     (''Access-Control-Allow-Methods'', ''GET, POST, PUT, DELETE, OPTIONS''),
     (''Access-Control-Allow-Headers'', ''Content-Type, Authorization'')]"

definition CORS :: "(HttpRequest \<Rightarrow> ('s, HttpResponse) prog) \<Rightarrow> HttpRequest \<Rightarrow> ('s, HttpResponse) prog" where
  "CORS nxt r =
     (if hr_Method r = ''OPTIONS''
      then State_Monad.return \<lparr>rp_Status = 204, rp_Headers = cors_headers, rp_Body = NoBody\<rparr>
      else do {
        resp \<leftarrow> nxt r;
        State_Monad.return (resp\<lparr>rp_Headers := cors_headers @ rp_Headers resp\<rparr>)
      })"


text \<open>The handler that \<open>cmd/console-api\<close> serves.\<close>

definition console_handler :: "unstr \<Rightarrow> (string \<Rightarrow> string) \<Rightarrow> 's server \<Rightarrow> bool \<Rightarrow> (HttpRequest \<Rightarrow> HttpResponse) \<Rightarrow> bool \<Rightarrow>
    HttpRequest \<Rightarrow> ('s, HttpResponse) prog" where
  "console_handler U syn srv built fileServer devCORS =
     (let handler = ServeHTTP U syn srv (serve_static built fileServer) in
      if devCORS then CORS handler else handler)"


section \<open>The cluster configuration\<close>

text \<open>\<open>rest.InClusterConfig\<close> and the loading of a kubeconfig are parameters; the context name is that of the
  loaded file unless one was asked for, and empty when the raw file cannot be read.\<close>

record ('cfg) kubeLoader =
  ld_inCluster :: "string + 'cfg"
  ld_client :: "string \<Rightarrow> string \<Rightarrow> string + 'cfg" \<comment> \<open>explicit path, context\<close>
  ld_raw :: "string \<Rightarrow> string \<Rightarrow> string + string" \<comment> \<open>the current context\<close>

definition loadKubeconfig :: "'cfg kubeLoader \<Rightarrow> string \<Rightarrow> string \<Rightarrow> string + 'cfg \<times> string" where
  "loadKubeconfig L explicitPath contextName =
     (case ld_client L explicitPath contextName of
        Inl e \<Rightarrow> Inl e
      | Inr cfg \<Rightarrow>
        (case ld_raw L explicitPath contextName of
           Inl e \<Rightarrow> Inr (cfg, '''')
         | Inr current \<Rightarrow> Inr (cfg, if contextName \<noteq> '''' then contextName else current)))"

definition loadConfig :: "'cfg kubeLoader \<Rightarrow> string \<Rightarrow> string \<Rightarrow> string + 'cfg \<times> string" where
  "loadConfig L explicitKubeconfig contextName =
     (if explicitKubeconfig \<noteq> '''' then
        map_sum id (\<lambda>(cfg, ctx). (cfg, ''kubeconfig '' @ explicitKubeconfig @ '' (context '' @ ctx @ '')''))
          (loadKubeconfig L explicitKubeconfig contextName)
      else
        (case ld_inCluster L of
           Inr cfg \<Rightarrow> Inr (cfg, ''in-cluster ServiceAccount'')
         | Inl e \<Rightarrow> map_sum id (\<lambda>(cfg, ctx). (cfg, ''kubeconfig context '' @ ctx)) (loadKubeconfig L '''' contextName)))"

section \<open>What the console writes\<close>

text \<open>Objects whose metadata is an object, if present, and the documented behaviour of the accessors on
  them.\<close>

definition meta_ok :: "json \<Rightarrow> bool" where
  "meta_ok obj \<longleftrightarrow> (\<exists>kvs. obj = JObj kvs \<and>
     (case map_of kvs ''metadata'' of None \<Rightarrow> True | Some (JObj _) \<Rightarrow> True | _ \<Rightarrow> False))"

definition setter_ok :: "(string \<Rightarrow> json \<Rightarrow> json) \<Rightarrow> (json \<Rightarrow> string) \<Rightarrow> (json \<Rightarrow> string) list \<Rightarrow> bool" where
  "setter_ok put get others \<longleftrightarrow> (\<forall>v obj. meta_ok obj \<longrightarrow>
     meta_ok (put v obj) \<and> get (put v obj) = v \<and> (\<forall>g\<in>set others. g (put v obj) = g obj))"

definition unstr_ok :: "unstr \<Rightarrow> bool" where
  "unstr_ok U \<longleftrightarrow>
     (let a = us_getAPIVersion U; k = us_getKind U; ns = us_getNamespace U; n = us_getName U; v = us_getResourceVersion U in
      setter_ok (us_setAPIVersion U) a [k, ns, n, v] \<and> setter_ok (us_setKind U) k [a, ns, n, v] \<and>
      setter_ok (us_setNamespace U) ns [a, k, n, v] \<and> setter_ok (us_setName U) n [a, k, ns, v] \<and>
      setter_ok (us_setResourceVersion U) v [a, k, ns, n])"

text \<open>An object carries the type of a registered resource and its place.\<close>

definition carries :: "unstr \<Rightarrow> Resource \<Rightarrow> string \<Rightarrow> json \<Rightarrow> bool" where
  "carries U res ns obj \<longleftrightarrow> us_getKind U obj = re_Kind res \<and>
     us_getAPIVersion U obj = re_Group res @ ''/'' @ re_Version res \<and> us_getNamespace U obj = ns"

definition confined :: "unstr \<Rightarrow> (string \<Rightarrow> string) \<Rightarrow> HttpRequest \<Rightarrow> log \<Rightarrow> call \<Rightarrow> bool" where
  "confined U syn r calls c \<longleftrightarrow>
     (case c of
        DynCreate g ns obj \<Rightarrow> hr_Method r = ''POST'' \<and> ns \<noteq> '''' \<and>
          (\<exists>res\<in>set Registry. hr_Segments r = [''api'', ''resources'', re_Kind res] \<and> g = re_GVR res \<and> carries U res ns obj)
      | DynUpdate g ns obj \<Rightarrow> hr_Method r = ''PUT'' \<and>
          (\<exists>res\<in>set Registry. \<exists>name. hr_Segments r = [''api'', ''resources'', re_Kind res, ns, name] \<and> g = re_GVR res \<and>
             carries U res ns obj \<and> us_getName U obj = name \<and>
             ((\<exists>sent. decodeBody syn r = Inr sent \<and> us_getResourceVersion U sent \<noteq> '''' \<and>
                 us_getResourceVersion U obj = us_getResourceVersion U sent) \<or>
              (\<exists>current. (DynGet g ns name, RObject (Inr current)) \<in> set calls \<and>
                 us_getResourceVersion U obj = us_getResourceVersion U current)))
      | DynDelete g ns name \<Rightarrow> hr_Method r = ''DELETE'' \<and>
          (\<exists>res\<in>set Registry. hr_Segments r = [''api'', ''resources'', re_Kind res, ns, name] \<and> g = re_GVR res)
      | DynGet g ns name \<Rightarrow> (\<exists>res\<in>set Registry. g = re_GVR res \<or> g = crdGVR \<and> name = CRDName res)
      | DynList g ns \<Rightarrow> gvr_Resource g = ''namespaces'' \<or> (\<exists>res\<in>set Registry. g = re_GVR res)
      | _ \<Rightarrow> False)"

lemma find_kind_Some: "find_kind kind rs = Some res \<Longrightarrow> res \<in> set rs \<and> re_Kind res = kind"
  by (induction rs) (auto split: if_splits)

lemma ByKind_Some: "ByKind kind = Some res \<Longrightarrow> res \<in> set Registry \<and> re_Kind res = kind"
  unfolding ByKind_def by (rule find_kind_Some)

lemma typed_carries:
  assumes "unstr_ok U" and "meta_ok obj"
  shows "meta_ok (typed U res obj)" and "carries U res (us_getNamespace U obj) (typed U res obj)"
    and "us_getNamespace U (typed U res obj) = us_getNamespace U obj"
    and "us_getResourceVersion U (typed U res obj) = us_getResourceVersion U obj"
  using assms by (simp_all add: unstr_ok_def Let_def setter_ok_def typed_def carries_def)

lemma placed_carries:
  fixes name ns :: string and res :: Resource
  assumes "unstr_ok U" and "meta_ok obj"
  defines "placed \<equiv> us_setName U name (us_setNamespace U ns (typed U res obj))"
  shows "meta_ok placed" and "carries U res ns placed" and "us_getName U placed = name"
    and "us_getResourceVersion U placed = us_getResourceVersion U obj"
    and "carries U res ns (us_setResourceVersion U v placed)" and "us_getName U (us_setResourceVersion U v placed) = name"
    and "us_getResourceVersion U (us_setResourceVersion U v placed) = v"
  using assms by (simp_all add: unstr_ok_def Let_def setter_ok_def typed_def carries_def placed_def)

definition all_confined :: "unstr \<Rightarrow> (string \<Rightarrow> string) \<Rightarrow> HttpRequest \<Rightarrow> log \<Rightarrow> bool" where
  "all_confined U syn r calls \<longleftrightarrow> (\<forall>(c, x)\<in>set calls. confined U syn r calls c)"

lemma create_confined:
  assumes "unstr_ok U" and "\<forall>obj. decodeBody syn r = Inr obj \<longrightarrow> meta_ok obj"
    and "hr_Method r = ''POST''" and "hr_Segments r = [''api'', ''resources'', kind]"
  shows "ensures (handleCreate U syn srv kind r) (\<lambda>resp. all_confined U syn r)"
  unfolding handleCreate_def Let_def
  using typed_carries [OF assms(1)] assms(2-4)
  by (intro ens_flat) (auto simp: all_confined_def confined_def dest!: ByKind_Some)

lemma update_confined:
  assumes "unstr_ok U" and "\<forall>obj. decodeBody syn r = Inr obj \<longrightarrow> meta_ok obj"
    and "hr_Method r = ''PUT''" and "hr_Segments r = [''api'', ''resources'', kind, ns, name]"
  shows "ensures (handleUpdate U syn srv kind ns name r) (\<lambda>resp. all_confined U syn r)"
  unfolding handleUpdate_def put_object_def Let_def
  using placed_carries [OF assms(1)] assms(2-4)
  by (intro ens_flat) (auto simp: all_confined_def confined_def dest!: ByKind_Some)

lemma read_confined:
  "ensures (handleGet srv kind ns name) (\<lambda>resp. all_confined U syn r)"
  "ensures (handleList srv kind ns) (\<lambda>resp. all_confined U syn r)"
  "ensures (handleSchema U' srv kind) (\<lambda>resp. all_confined U syn r)"
  "ensures (handleListNamespaces U' srv) (\<lambda>resp. all_confined U syn r)"
  unfolding handleGet_def handleList_def handleSchema_def handleListNamespaces_def
  by (intro ens_flat; auto simp: all_confined_def confined_def dest!: ByKind_Some)+

lemma delete_confined:
  assumes "hr_Method r = ''DELETE''" and "hr_Segments r = [''api'', ''resources'', kind, ns, name]"
  shows "ensures (handleDelete srv kind ns name) (\<lambda>resp. all_confined U syn r)"
  unfolding handleDelete_def using assms
  by (intro ens_flat) (auto simp: all_confined_def confined_def dest!: ByKind_Some)

lemma route_confined:
  assumes "unstr_ok U" and "\<forall>obj. decodeBody syn r = Inr obj \<longrightarrow> meta_ok obj"
    and "hr_Segments r = ''api'' # ''resources'' # segs" and "route_resources U syn srv r segs = Some h"
  shows "ensures h (\<lambda>resp. all_confined U syn r)"
proof -
  have none: "ensures (State_Monad.return x) (\<lambda>resp. all_confined U syn r)" for x
    by (simp add: ensures_return all_confined_def)
  show ?thesis
    using assms unfolding route_resources_def gets_def
    by (auto split: list.splits if_splits intro!: none create_confined update_confined read_confined delete_confined)
qed

text \<open>C30. The console reaches nothing but the operator's own custom resources: whatever the request, it
  reads registered kinds, their definitions and the list of namespaces, and writes only on \<open>POST\<close>,
  \<open>PUT\<close> and \<open>DELETE\<close>, only to the registered kind and the place that the path names. What it writes carries
  that type and place, whatever the body said, and an update carries the version that the client sent
  or else the version read in the same request, so that it replaces every change made since the client
  last read.\<close>

theorem console_confined:
  assumes "unstr_ok U" and "\<forall>obj. decodeBody syn r = Inr obj \<longrightarrow> meta_ok obj"
    and "run (ServeHTTP U syn srv stat r) st = (resp, calls)" and "(c, x) \<in> set calls"
  shows "confined U syn r calls c"
proof -
  have none: "ensures (State_Monad.return y) (\<lambda>resp. all_confined U syn r)" for y
    by (simp add: ensures_return all_confined_def)
  have "ensures (ServeHTTP U syn srv stat r) (\<lambda>resp. all_confined U syn r)"
    unfolding ServeHTTP_def routes_def
    using route_confined [OF assms(1, 2)]
    by (auto intro!: ensures_option none read_confined split: list.splits if_splits)
  from ensures_run [OF this assms(3)] show ?thesis using assms(4) by (auto simp: all_confined_def)
qed

text \<open>A concrete implementation of the accessors.\<close>

definition text_member :: "string \<Rightarrow> (string \<times> json) list \<Rightarrow> string" where
  "text_member k kvs = (case map_of kvs k of Some (JStr s) \<Rightarrow> s | _ \<Rightarrow> '''')"

fun members :: "json \<Rightarrow> (string \<times> json) list" where
  "members (JObj kvs) = kvs"
| "members j = []"

definition meta_members :: "json \<Rightarrow> (string \<times> json) list" where
  "meta_members obj = (case map_of (members obj) ''metadata'' of Some m \<Rightarrow> members m | None \<Rightarrow> [])"

definition set_member :: "string \<Rightarrow> json \<Rightarrow> json \<Rightarrow> json" where
  "set_member k v obj = JObj (AList.update k v (members obj))"

definition set_meta :: "string \<Rightarrow> string \<Rightarrow> json \<Rightarrow> json" where
  "set_meta k v obj = set_member ''metadata'' (JObj (AList.update k (JStr v) (meta_members obj))) obj"

definition demo_unstr :: unstr where
  "demo_unstr =
     \<lparr>us_getAPIVersion = (\<lambda>obj. text_member ''apiVersion'' (members obj)),
      us_getKind = (\<lambda>obj. text_member ''kind'' (members obj)),
      us_getNamespace = (\<lambda>obj. text_member ''namespace'' (meta_members obj)),
      us_getName = (\<lambda>obj. text_member ''name'' (meta_members obj)),
      us_getResourceVersion = (\<lambda>obj. text_member ''resourceVersion'' (meta_members obj)),
      us_setAPIVersion = (\<lambda>v. set_member ''apiVersion'' (JStr v)), us_setKind = (\<lambda>v. set_member ''kind'' (JStr v)),
      us_setNamespace = set_meta ''namespace'', us_setName = set_meta ''name'',
      us_setResourceVersion = set_meta ''resourceVersion'',
      us_nestedSlice = (\<lambda>obj path. None), us_nestedMap = (\<lambda>obj path. None)\<rparr>"

lemma members_set [simp]:
  "map_of (members (set_member k v obj)) = (map_of (members obj))(k \<mapsto> v)"
  "k \<noteq> ''metadata'' \<Longrightarrow> meta_members (set_member k v obj) = meta_members obj"
  "meta_members (set_meta k t obj) = AList.update k (JStr t) (meta_members obj)"
  by (simp_all add: set_member_def meta_members_def set_meta_def update_conv')

lemma demo_unstr_ok: "unstr_ok demo_unstr"
proof -
  have m: "k \<noteq> ''metadata'' \<Longrightarrow> meta_ok obj \<Longrightarrow> meta_ok (set_member k v obj)" "meta_ok (set_meta k t obj)" for k v t obj
    by (auto simp: meta_ok_def set_member_def set_meta_def update_conv')
  have t: "k \<noteq> ''metadata'' \<Longrightarrow> text_member k (members (set_meta k' v obj)) = text_member k (members obj)" for k k' v obj
    by (simp add: text_member_def set_meta_def)
  show ?thesis
    by (simp add: unstr_ok_def Let_def setter_ok_def demo_unstr_def m t) (simp add: text_member_def update_conv')
qed

definition console_srv :: "unit server" where
  "console_srv c st = (case c of
       DynGet g ns name \<Rightarrow> RObject (Inr (JObj [(''metadata'', JObj [(''resourceVersion'', JStr ''7'')])]))
     | DynUpdate g ns obj \<Rightarrow> RObject (Inr obj)
     | _ \<Rightarrow> RUnit None, st)"

definition demo_put :: HttpRequest where
  "demo_put = \<lparr>hr_Method = ''PUT'', hr_Segments = [''api'', ''resources'', ''AIEvidenceRecord'', ''ai'', ''r1''],
     hr_QueryNamespace = '''', hr_Body = Inr ''{}''\<rparr>"

theorem console_confined_witness:
  "\<exists>g obj x resp calls. run (ServeHTTP demo_unstr (\<lambda>b. '''') console_srv (\<lambda>r. handleHealth) demo_put) () = (resp, calls) \<and>
     (DynUpdate g ''ai'' obj, x) \<in> set calls \<and> us_getName demo_unstr obj = ''r1''"
proof -
  let ?m = "ServeHTTP demo_unstr (\<lambda>b. '''') console_srv (\<lambda>r. handleHealth) demo_put"
  have b: "decodeBody (\<lambda>b. '''') demo_put = Inr (JObj [])"
    using parse_json_marshal [of "JObj []"] by (simp add: decodeBody_def demo_put_def unmarshal_any_def)
  have k: "ByKind ''AIEvidenceRecord'' = Some (registered ''AIEvidenceRecord'' ''aievidencerecords'' ''aier'')"
    by (simp add: ByKind_def Registry_def registered_def)
  have f: "hr_Segments demo_put = [''api'', ''resources'', ''AIEvidenceRecord'', ''ai'', ''r1'']" "hr_Method demo_put = ''PUT''"
    by (simp_all add: demo_put_def)
  have h: "?m = handleUpdate demo_unstr (\<lambda>b. '''') console_srv ''AIEvidenceRecord'' ''ai'' ''r1'' demo_put"
    by (simp add: ServeHTTP_def routes_def route_resources_def gets_def f)
  have "meta_ok (JObj [])" "us_getResourceVersion demo_unstr (JObj []) = ''''"
    by (simp_all add: meta_ok_def demo_unstr_def meta_members_def text_member_def)
  note v = placed_carries(4) [OF demo_unstr_ok this(1), unfolded this(2)]
  obtain g obj x where c: "(DynUpdate g ''ai'' obj, x) \<in> set (snd (run ?m ()))"
    unfolding h by (simp add: run_def handleUpdate_def k b Let_def put_object_def console_srv_def v)
  have r: "run ?m () = (fst (run ?m ()), snd (run ?m ()))" by simp
  from console_confined [OF demo_unstr_ok _ r c] b have "us_getName demo_unstr obj = ''r1''"
    by (auto simp: confined_def f meta_ok_def)
  then show ?thesis using c r by blast
qed

end
