(* ===== verification/Bootstrap.thy ===== *)
theory Bootstrap
  imports Webhook
begin

text \<open>
  Registration of the webhooks, \<open>internal/webhook/bootstrap\<close>: the serving certificate, the two webhook
  configurations and the runtime classes of the simulation mode.

  Key generation, certificate creation, random serial numbers, files and the cluster are calls of the
  server. PEM and PKCS#1 encoding and \<open>filepath.Join\<close> are the parameter \<open>pki\<close>; a key is an opaque text.
  A function that returns an \<open>error\<close> has an optional text as its result.

  Shown here: what a successful registration has put in place, and how its platform mode differs from
  the one of the admission webhook.
\<close>

datatype RuleScope = ScopeAll | ScopePods | ScopeChangeRequests

record BootOptions =
  bo_Client :: bool
  bo_Name :: string
  bo_ServiceName :: string
  bo_ServiceNamespace :: string
  bo_Path :: string
  bo_CertDir :: string
  bo_FailurePolicy :: string
  bo_Scope :: RuleScope

record pki =
  pk_pem :: "string \<Rightarrow> string \<Rightarrow> string" \<comment> \<open>\<open>pem.EncodeToMemory\<close>: block type and bytes\<close>
  pk_pkcs1 :: "string \<Rightarrow> string" \<comment> \<open>\<open>x509.MarshalPKCS1PrivateKey\<close>\<close>
  pk_join :: "string list \<Rightarrow> string" \<comment> \<open>\<open>filepath.Join\<close>\<close>

definition TempDir :: "(string \<Rightarrow> string) \<Rightarrow> string" where
  "TempDir getenv = (if getenv ''TMPDIR'' = '''' then ''/tmp'' else getenv ''TMPDIR'')"

definition Minute :: duration where "Minute = 60 * Second"
definition Hour :: duration where "Hour = 60 * Minute"

definition excludeSystemNamespaces :: "string \<Rightarrow> string list" where
  "excludeSystemNamespaces operatorNamespace =
     [''kube-system'', ''kube-node-lease'', ''kube-public'', ''envoy-gateway-system'', ''envoy-ai-gateway-system''] @
     (if operatorNamespace \<noteq> '''' then [operatorNamespace] else [])"


section \<open>The serving certificate\<close>

definition randSerial :: "'s server \<Rightarrow> ('s, string + int) prog" where
  "randSerial srv = do {
     r \<leftarrow> api srv (RandomInt (2 ^ 128));
     State_Monad.return (case as_num r of Inl e \<Rightarrow> Inl (''generate certificate serial: '' @ e) | Inr n \<Rightarrow> Inr n)
   }"

definition caTemplate :: "gotime \<Rightarrow> int \<Rightarrow> Certificate" where
  "caTemplate now serial =
     \<lparr>crt_Serial = serial, crt_CommonName = ''greenops-webhook-ca'', crt_NotBefore = now - 5 * Minute,
      crt_NotAfter = now + 365 * 24 * Hour, crt_KeyUsage = [''CertSign'', ''CRLSign''], crt_ExtKeyUsage = [],
      crt_BasicConstraintsValid = True, crt_IsCA = True, crt_DNSNames = []\<rparr>"

definition serverTemplate :: "gotime \<Rightarrow> int \<Rightarrow> string \<Rightarrow> string \<Rightarrow> Certificate" where
  "serverTemplate now serial serviceName namespace =
     \<lparr>crt_Serial = serial, crt_CommonName = serviceName @ ''.'' @ namespace @ ''.svc'', crt_NotBefore = now - 5 * Minute,
      crt_NotAfter = now + 90 * 24 * Hour, crt_KeyUsage = [''DigitalSignature'', ''KeyEncipherment''],
      crt_ExtKeyUsage = [''ServerAuth''], crt_BasicConstraintsValid = False, crt_IsCA = False,
      crt_DNSNames = [serviceName, serviceName @ ''.'' @ namespace, serviceName @ ''.'' @ namespace @ ''.svc'',
        serviceName @ ''.'' @ namespace @ ''.svc.cluster.local'']\<rparr>"

text \<open>The three PEM texts: certificate authority, server certificate, server key.\<close>

definition server_part :: "pki \<Rightarrow> 's server \<Rightarrow> string \<Rightarrow> string \<Rightarrow> gotime \<Rightarrow> Certificate \<Rightarrow> string \<Rightarrow> string \<Rightarrow>
    ('s, string + string \<times> string \<times> string) prog" where
  "server_part K srv serviceName namespace now ca caKey caDER = do {
     r \<leftarrow> api srv (GenerateRSA 2048);
     case as_keyPair r of
       Inl e \<Rightarrow> State_Monad.return (Inl (''generate webhook server key: '' @ e))
     | Inr (serverPub, serverKey) \<Rightarrow> do {
         s \<leftarrow> randSerial srv;
         case s of
           Inl e \<Rightarrow> State_Monad.return (Inl e)
         | Inr serverSerial \<Rightarrow> do {
             d \<leftarrow> api srv (CreateCertificate (serverTemplate now serverSerial serviceName namespace) ca serverPub caKey);
             State_Monad.return
               (case as_text d of
                  Inl e \<Rightarrow> Inl (''create webhook serving cert: '' @ e)
                | Inr serverDER \<Rightarrow> Inr (pk_pem K ''CERTIFICATE'' caDER, pk_pem K ''CERTIFICATE'' serverDER,
                    pk_pem K ''RSA PRIVATE KEY'' (pk_pkcs1 K serverKey)))
           }
       }
   }"

definition generateServingBundle :: "pki \<Rightarrow> 's server \<Rightarrow> string \<Rightarrow> string \<Rightarrow>
    ('s, string + string \<times> string \<times> string) prog" where
  "generateServingBundle K srv serviceName namespace = do {
     t \<leftarrow> api srv Now;
     r \<leftarrow> api srv (GenerateRSA 2048);
     case as_keyPair r of
       Inl e \<Rightarrow> State_Monad.return (Inl (''generate webhook CA key: '' @ e))
     | Inr (caPub, caKey) \<Rightarrow> do {
         s \<leftarrow> randSerial srv;
         case s of
           Inl e \<Rightarrow> State_Monad.return (Inl e)
         | Inr caSerial \<Rightarrow> do {
             let ca = caTemplate (as_time t) caSerial;
             d \<leftarrow> api srv (CreateCertificate ca ca caPub caKey);
             case as_text d of
               Inl e \<Rightarrow> State_Monad.return (Inl (''create webhook CA cert: '' @ e))
             | Inr caDER \<Rightarrow> server_part K srv serviceName namespace (as_time t) ca caKey caDER
           }
       }
   }"


section \<open>Webhook configurations\<close>

definition base_webhook :: "BootOptions \<Rightarrow> string \<Rightarrow> string \<Rightarrow> string \<Rightarrow> Webhook" where
  "base_webhook opts name failure caPEM =
     \<lparr>wh_Name = name, wh_FailurePolicy = failure, wh_Reinvocation = None, wh_NotInNamespaces = None,
      wh_CABundle = caPEM, wh_ServiceName = bo_ServiceName opts, wh_ServiceNamespace = bo_ServiceNamespace opts,
      wh_Path = bo_Path opts, wh_Port = 443, wh_TimeoutSeconds = 5, wh_MatchPolicy = ''Equivalent'',
      wh_SideEffects = ''None'', wh_ReviewVersions = [''v1''], wh_Rules = []\<rparr>"

definition pod_rule :: "string list \<Rightarrow> Rule" where
  "pod_rule ops = \<lparr>rl_Operations = ops, rl_APIGroups = [''''], rl_APIVersions = [''v1''], rl_Resources = [''pods'']\<rparr>"

definition change_rule :: Rule where
  "change_rule = \<lparr>rl_Operations = [''CREATE'', ''UPDATE''], rl_APIGroups = [''aiops.imperium.io''],
     rl_APIVersions = [''v1alpha1''], rl_Resources = [''aichangerequests'']\<rparr>"

definition in_scope :: "RuleScope \<Rightarrow> Webhook \<Rightarrow> Webhook \<Rightarrow> Webhook list" where
  "in_scope scope podWebhook changeWebhook =
     (case scope of
        ScopePods \<Rightarrow> [podWebhook]
      | ScopeChangeRequests \<Rightarrow> [changeWebhook]
      | ScopeAll \<Rightarrow> [podWebhook, changeWebhook])"

definition mutating_webhooks :: "BootOptions \<Rightarrow> string \<Rightarrow> Webhook list" where
  "mutating_webhooks opts caPEM =
     in_scope (bo_Scope opts)
       ((base_webhook opts ''sidecar-injection.aiops.imperium.io'' (bo_FailurePolicy opts) caPEM)
          \<lparr>wh_Reinvocation := Some ''Never'', wh_NotInNamespaces := Some (excludeSystemNamespaces (bo_ServiceNamespace opts)),
           wh_Rules := [pod_rule [''CREATE'']]\<rparr>)
       ((base_webhook opts ''govar-change-approval-stamping.aiops.imperium.io'' ''Fail'' caPEM)
          \<lparr>wh_Reinvocation := Some ''Never'', wh_Rules := [change_rule]\<rparr>)"

definition validating_webhooks :: "BootOptions \<Rightarrow> string \<Rightarrow> Webhook list" where
  "validating_webhooks opts caPEM =
     in_scope (bo_Scope opts)
       ((base_webhook opts ''confidential-pod-validation.aiops.imperium.io'' (bo_FailurePolicy opts) caPEM)
          \<lparr>wh_NotInNamespaces := Some (excludeSystemNamespaces (bo_ServiceNamespace opts)),
           wh_Rules := [pod_rule [''CREATE'', ''UPDATE'']]\<rparr>)
       ((base_webhook opts ''govar-change-approval-validation.aiops.imperium.io'' ''Fail'' caPEM)
          \<lparr>wh_Rules := [change_rule]\<rparr>)"

text \<open>The checks on the options, and their defaults.\<close>

definition option_error :: "BootOptions \<Rightarrow> string option" where
  "option_error opts =
     (if \<not> bo_Client opts then Some ''webhook bootstrap requires a client''
      else if bo_Name opts = '''' then Some ''webhook bootstrap name is required''
      else if bo_ServiceName opts = '''' \<or> bo_ServiceNamespace opts = ''''
        then Some ''webhook bootstrap service name/namespace are required''
      else None)"

definition with_defaults :: "pki \<Rightarrow> (string \<Rightarrow> string) \<Rightarrow> string \<Rightarrow> string \<Rightarrow> BootOptions \<Rightarrow> BootOptions" where
  "with_defaults K getenv path failure opts =
     opts\<lparr>bo_Path := (if bo_Path opts = '''' then path else bo_Path opts),
          bo_CertDir := (if bo_CertDir opts = ''''
             then pk_join K [TempDir getenv, ''k8s-webhook-server'', ''serving-certs''] else bo_CertDir opts),
          bo_FailurePolicy := (if bo_FailurePolicy opts = '''' then failure else bo_FailurePolicy opts)\<rparr>"

text \<open>Writing files one after the other, each with the text that wraps its error; the first error
  ends it.\<close>

fun write_files :: "'s server \<Rightarrow> (string \<times> string \<times> string) list \<Rightarrow> ('s, string option) prog" where
  "write_files srv [] = State_Monad.return None"
| "write_files srv ((path, content, what) # fs) = do {
     r \<leftarrow> api srv (WriteFile path content);
     case as_done r of
       Some e \<Rightarrow> State_Monad.return (Some (what @ e))
     | None \<Rightarrow> write_files srv fs
   }"

definition Ensure :: "pki \<Rightarrow> 's server \<Rightarrow> (string \<Rightarrow> string) \<Rightarrow> BootOptions \<Rightarrow> ('s, string option) prog" where
  "Ensure K srv getenv opts0 =
     (case option_error opts0 of
        Some e \<Rightarrow> State_Monad.return (Some e)
      | None \<Rightarrow> do {
          let opts = with_defaults K getenv ''/mutate-v1-pod'' ''Ignore'' opts0;
          b \<leftarrow> generateServingBundle K srv (bo_ServiceName opts) (bo_ServiceNamespace opts);
          case b of
            Inl e \<Rightarrow> State_Monad.return (Some e)
          | Inr (caPEM, certPEM, keyPEM) \<Rightarrow> do {
              r \<leftarrow> api srv (MkdirAll (bo_CertDir opts));
              case as_done r of
                Some e \<Rightarrow> State_Monad.return (Some (''create webhook cert dir: '' @ e))
              | None \<Rightarrow> do {
                  w \<leftarrow> write_files srv
                         [(pk_join K [bo_CertDir opts, ''tls.crt''], certPEM, ''write webhook cert: ''),
                          (pk_join K [bo_CertDir opts, ''tls.key''], keyPEM, ''write webhook key: ''),
                          (pk_join K [bo_CertDir opts, ''ca.crt''], caPEM, ''write webhook ca cert: '')];
                  case w of
                    Some e \<Rightarrow> State_Monad.return (Some e)
                  | None \<Rightarrow> do {
                      r \<leftarrow> api srv (UpsertMutating (bo_Name opts) (mutating_webhooks opts caPEM));
                      State_Monad.return (map_option (\<lambda>e. ''upsert mutating webhook configuration: '' @ kerr_text e) (as_unit r))
                    }
                }
            }
        })"

definition EnsureValidation :: "pki \<Rightarrow> 's server \<Rightarrow> (string \<Rightarrow> string) \<Rightarrow> BootOptions \<Rightarrow> ('s, string option) prog" where
  "EnsureValidation K srv getenv opts0 =
     (case option_error opts0 of
        Some e \<Rightarrow> State_Monad.return (Some e)
      | None \<Rightarrow> do {
          let opts = with_defaults K getenv ''/validate-v1-pod'' ''Fail'' opts0;
          r \<leftarrow> api srv (ReadFile (pk_join K [bo_CertDir opts, ''ca.crt'']));
          case as_text r of
            Inl e \<Rightarrow> State_Monad.return (Some (''read webhook ca cert: '' @ e))
          | Inr caPEM \<Rightarrow> do {
              r \<leftarrow> api srv (UpsertValidating (bo_Name opts) (validating_webhooks opts caPEM));
              State_Monad.return (map_option (\<lambda>e. ''upsert validating webhook configuration: '' @ kerr_text e) (as_unit r))
            }
        })"


section \<open>Simulated runtime classes\<close>

definition bootstrap_platformMode :: "(string \<Rightarrow> string) \<Rightarrow> string" where
  "bootstrap_platformMode getenv =
     (let mode = TrimSpace (ToLower (ReplaceByte (getenv ''AIOPS_PLATFORM_MODE'') (CHR ''_'') (CHR ''-''))) in
      if mode \<in> set ['''', ''kind'', ''simulated-kind''] then ''simulated-kind'' else mode)"

definition simulate_class :: "RuntimeClass \<Rightarrow> RuntimeClass" where
  "simulate_class rc = rc\<lparr>rc_Handler := ''runc'', rc_Labels := mset_key (rc_Labels rc) ''ai.sovereign.io/simulated'' ''true''\<rparr>"

fun ensure_classes :: "'s server \<Rightarrow> string list \<Rightarrow> ('s, string option) prog" where
  "ensure_classes srv [] = State_Monad.return None"
| "ensure_classes srv (n # ns) = do {
     r \<leftarrow> api srv (UpsertRuntimeClass n simulate_class);
     case as_unit r of
       Some e \<Rightarrow> State_Monad.return (Some (''upsert RuntimeClass '' @ fmt_q n @ '': '' @ kerr_text e))
     | None \<Rightarrow> ensure_classes srv ns
   }"

definition EnsureSimulatedRuntimeClasses :: "'s server \<Rightarrow> (string \<Rightarrow> string) \<Rightarrow> bool \<Rightarrow> ('s, string option) prog" where
  "EnsureSimulatedRuntimeClasses srv getenv client =
     (if \<not> client \<or> bootstrap_platformMode getenv \<noteq> ''simulated-kind'' then State_Monad.return None
      else ensure_classes srv [''simulated-kata-qemu-tdx'', ''simulated-kata-qemu-snp''])"

section \<open>What registration puts in place\<close>

text \<open>The certificates of a bundle, as the calls of \<open>generateServingBundle\<close> show them.\<close>

definition bundle_made :: "pki \<Rightarrow> string \<Rightarrow> string \<Rightarrow> string \<times> string \<times> string \<Rightarrow> log \<Rightarrow> bool" where
  "bundle_made K serviceName namespace = (\<lambda>(caPEM, certPEM, keyPEM) tr.
     \<exists>t caSerial caPub caKey caDER serial serverPub serverKey serverDER.
       tr = [(Now, t), (GenerateRSA 2048, RKeyPair (Inr (caPub, caKey))), (RandomInt (2 ^ 128), RNum (Inr caSerial)),
         (CreateCertificate (caTemplate (as_time t) caSerial) (caTemplate (as_time t) caSerial) caPub caKey, RText (Inr caDER)),
         (GenerateRSA 2048, RKeyPair (Inr (serverPub, serverKey))), (RandomInt (2 ^ 128), RNum (Inr serial)),
         (CreateCertificate (serverTemplate (as_time t) serial serviceName namespace) (caTemplate (as_time t) caSerial)
            serverPub caKey, RText (Inr serverDER))] \<and>
       caPEM = pk_pem K ''CERTIFICATE'' caDER \<and> certPEM = pk_pem K ''CERTIFICATE'' serverDER \<and>
       keyPEM = pk_pem K ''RSA PRIVATE KEY'' (pk_pkcs1 K serverKey))"

lemma generateServingBundle_ens:
  "ensures (generateServingBundle K srv serviceName namespace)
     (\<lambda>res tr. \<forall>b. res = Inr b \<longrightarrow> bundle_made K serviceName namespace b tr)"
  unfolding generateServingBundle_def server_part_def randSerial_def Let_def
  by (intro ens_flat) (auto simp: bundle_made_def split: sum.splits)

lemma as_done_None [simp]: "as_done r = None \<longleftrightarrow> r = RDone None"
  by (cases r) auto

lemma write_files_ens:
  "ensures (write_files srv fs)
     (\<lambda>res tr. res = None \<longrightarrow> tr = map (\<lambda>(path, content, what). (WriteFile path content, RDone None)) fs)"
proof (induction fs)
  case Nil
  then show ?case by (auto intro!: ensures_return)
next
  case (Cons f fs)
  obtain path content what where f: "f = (path, content, what)" by (cases f)
  show ?case unfolding f write_files.simps
    by (rule ensures_bind_api, rule ensures_option) (auto intro!: ensures_return ensures_conseq [OF Cons.IH])
qed

lemma Ensure_ens:
  "ensures (Ensure K srv getenv opts) (\<lambda>res calls. res = None \<longrightarrow>
     (let d = with_defaults K getenv ''/mutate-v1-pod'' ''Ignore'' opts in
      option_error opts = None \<and> (\<exists>ca crt key tr.
        bundle_made K (bo_ServiceName d) (bo_ServiceNamespace d) (ca, crt, key) tr \<and>
        calls = tr @ [(MkdirAll (bo_CertDir d), RDone None),
          (WriteFile (pk_join K [bo_CertDir d, ''tls.crt'']) crt, RDone None),
          (WriteFile (pk_join K [bo_CertDir d, ''tls.key'']) key, RDone None),
          (WriteFile (pk_join K [bo_CertDir d, ''ca.crt'']) ca, RDone None),
          (UpsertMutating (bo_Name d) (mutating_webhooks d ca), RUnit None)])))"
  unfolding Ensure_def Let_def
  by (rule ensures_option, rule ensures_bind [OF generateServingBundle_ens])
    (auto intro!: ensures_sum ensures_prod ensures_return ensures_bind_api ensures_option ensures_bind [OF write_files_ens])

text \<open>When registering the mutating webhook succeeds, everything that serving it needs is in place: a
  fresh certificate authority has signed a server certificate whose names include the service that
  every registered webhook calls and which is valid within the authority's own validity; certificate,
  key and authority are written before the registration, the last call; every webhook trusts exactly
  that authority; and the webhook for pods stays away from the system namespaces and the operator's
  own.\<close>

theorem registration_complete:
  assumes "run (Ensure K srv getenv opts) st = (None, calls)"
  shows "\<exists>now caSerial serial caPub caKey serverPub serverKey caDER serverDER certDir hooks pre.
    let ca = caTemplate now caSerial;
        server = serverTemplate now serial (bo_ServiceName opts) (bo_ServiceNamespace opts) in
    calls = pre @ [(UpsertMutating (bo_Name opts) hooks, RUnit None)] \<and>
    {(CreateCertificate ca ca caPub caKey, RText (Inr caDER)),
     (GenerateRSA 2048, RKeyPair (Inr (serverPub, serverKey))),
     (CreateCertificate server ca serverPub caKey, RText (Inr serverDER)),
     (WriteFile (pk_join K [certDir, ''tls.crt'']) (pk_pem K ''CERTIFICATE'' serverDER), RDone None),
     (WriteFile (pk_join K [certDir, ''tls.key'']) (pk_pem K ''RSA PRIVATE KEY'' (pk_pkcs1 K serverKey)), RDone None),
     (WriteFile (pk_join K [certDir, ''ca.crt'']) (pk_pem K ''CERTIFICATE'' caDER), RDone None)} \<subseteq> set pre \<and>
    (\<forall>w\<in>set hooks. wh_CABundle w = pk_pem K ''CERTIFICATE'' caDER \<and>
       wh_ServiceName w @ ''.'' @ wh_ServiceNamespace w @ ''.svc'' \<in> set (crt_DNSNames server) \<and>
       (''pods'' \<in> set (concat (map rl_Resources (wh_Rules w))) \<longrightarrow>
          (\<exists>ns. wh_NotInNamespaces w = Some ns \<and> {''kube-system'', bo_ServiceNamespace opts} \<subseteq> set ns))) \<and>
    crt_NotBefore ca = crt_NotBefore server \<and> crt_NotAfter server \<le> crt_NotAfter ca"
proof -
  define d where "d = with_defaults K getenv ''/mutate-v1-pod'' ''Ignore'' opts"
  have dd: "bo_ServiceName d = bo_ServiceName opts" "bo_ServiceNamespace d = bo_ServiceNamespace opts"
    "bo_Name d = bo_Name opts" by (simp_all add: d_def with_defaults_def)
  obtain ca crt key tr where o: "option_error opts = None"
    and b: "bundle_made K (bo_ServiceName opts) (bo_ServiceNamespace opts) (ca, crt, key) tr"
    and c: "calls = tr @ [(MkdirAll (bo_CertDir d), RDone None),
          (WriteFile (pk_join K [bo_CertDir d, ''tls.crt'']) crt, RDone None),
          (WriteFile (pk_join K [bo_CertDir d, ''tls.key'']) key, RDone None),
          (WriteFile (pk_join K [bo_CertDir d, ''ca.crt'']) ca, RDone None),
          (UpsertMutating (bo_Name opts) (mutating_webhooks d ca), RUnit None)]"
    using ensures_run [OF Ensure_ens assms] by (auto simp: d_def [symmetric] dd Let_def)
  have h: "wh_CABundle x = ca \<and> wh_ServiceName x = bo_ServiceName opts \<and> wh_ServiceNamespace x = bo_ServiceNamespace opts \<and>
      (''pods'' \<in> set (concat (map rl_Resources (wh_Rules x))) \<longrightarrow>
         (\<exists>ns. wh_NotInNamespaces x = Some ns \<and> {''kube-system'', bo_ServiceNamespace opts} \<subseteq> set ns))"
    if "x \<in> set (mutating_webhooks d ca)" for x
    using that o by (cases "bo_Scope d")
      (auto simp: mutating_webhooks_def in_scope_def base_webhook_def dd excludeSystemNamespaces_def change_rule_def
        option_error_def split: if_splits)
  show ?thesis
    using b unfolding bundle_made_def Let_def c prod.case
  proof (elim exE conjE, goal_cases)
    case (1 t caSerial caPub caKey caDER serial serverPub serverKey serverDER)
    show ?case
      by (rule exI [of _ "as_time t"], rule exI [of _ caSerial], rule exI [of _ serial], rule exI [of _ caPub],
          rule exI [of _ caKey], rule exI [of _ serverPub], rule exI [of _ serverKey], rule exI [of _ caDER],
          rule exI [of _ serverDER], rule exI [of _ "bo_CertDir d"], rule exI [of _ "mutating_webhooks d ca"],
          rule exI [of _ "butlast calls"])
        (use h 1 c in \<open>auto simp: caTemplate_def serverTemplate_def Hour_def Minute_def Second_def\<close>)
  qed
qed

definition boot_srv :: "unit server" where
  "boot_srv c st = (case c of
       Now \<Rightarrow> RTime 0
     | GenerateRSA bits \<Rightarrow> RKeyPair (Inr (''pub'', ''key''))
     | RandomInt limit \<Rightarrow> RNum (Inr 7)
     | CreateCertificate t p pub key \<Rightarrow> RText (Inr ''der'')
     | MkdirAll path \<Rightarrow> RDone None
     | WriteFile path content \<Rightarrow> RDone None
     | _ \<Rightarrow> RUnit None, st)"

definition demo_pki :: pki where
  "demo_pki = \<lparr>pk_pem = (\<lambda>t b. t @ b), pk_pkcs1 = (\<lambda>k. k), pk_join = concat\<rparr>"

definition demo_boot :: BootOptions where
  "demo_boot = \<lparr>bo_Client = True, bo_Name = ''injector'', bo_ServiceName = ''hook'', bo_ServiceNamespace = ''ops'',
     bo_Path = '''', bo_CertDir = '''', bo_FailurePolicy = '''', bo_Scope = ScopePods\<rparr>"

theorem registration_complete_witness:
  "\<exists>calls pre hooks. run (Ensure demo_pki boot_srv (\<lambda>k. '''') demo_boot) () = (None, calls) \<and>
     calls = pre @ [(UpsertMutating ''injector'' hooks, RUnit None)]"
proof -
  obtain res calls where r: "run (Ensure demo_pki boot_srv (\<lambda>k. '''') demo_boot) () = (res, calls)"
    by (cases "run (Ensure demo_pki boot_srv (\<lambda>k. '''') demo_boot) ()")
  then have n: "res = None"
    by (simp add: run_def Ensure_def option_error_def demo_boot_def generateServingBundle_def server_part_def randSerial_def
        Let_def boot_srv_def)
  have "bo_Name demo_boot = ''injector''" by (simp add: demo_boot_def)
  with registration_complete [of demo_pki boot_srv "\<lambda>k. ''''" demo_boot "()" calls] r n show ?thesis
    unfolding Let_def by metis
qed

text \<open>The two readings of the platform mode disagree on exactly four values: for them the admission
  webhook rewrites confidential runtime classes to simulated ones, but the bootstrap, which creates
  those runtime classes, does nothing.\<close>

theorem platform_modes_disagree:
  "let mode = TrimSpace (ToLower (ReplaceByte (getenv PlatformModeEnv) (CHR ''_'') (CHR ''-''))) in
   (platformMode getenv = PlatformModeSimulatedKind \<longleftrightarrow>
      bootstrap_platformMode getenv = ''simulated-kind'' \<or> mode \<in> {''simulated'', ''dev'', ''development'', ''local''}) \<and>
   (mode \<in> {''simulated'', ''dev'', ''development'', ''local''} \<longrightarrow>
      EnsureSimulatedRuntimeClasses srv getenv True = State_Monad.return None \<and>
      mapRuntimeClass ''kata-qemu-snp'' (platformMode getenv) = (''simulated-kata-qemu-snp'', True))"
  by (auto simp: platformMode_def bootstrap_platformMode_def PlatformModeEnv_def PlatformModeSimulatedKind_def
      PlatformModeProduction_def Let_def EnsureSimulatedRuntimeClasses_def mapRuntimeClass_def)

theorem platform_modes_disagree_witness:
  "EnsureSimulatedRuntimeClasses boot_srv (\<lambda>k. ''dev'') True = State_Monad.return None \<and>
   mapRuntimeClass ''kata-qemu-snp'' (platformMode (\<lambda>k. ''dev'')) = (''simulated-kata-qemu-snp'', True)"
proof -
  have "TrimSpace (ToLower (ReplaceByte ''dev'' (CHR ''_'') (CHR ''-''))) = ''dev''"
    by (simp add: ReplaceByte_def case_ascii ascii_def lower_char_def TrimSpace_all_graphic graphic_def)
  then have m: "TrimSpace (ToLower (ReplaceByte ''dev'' (CHR ''_'') (CHR ''-''))) \<in> {''simulated'', ''dev'', ''development'', ''local''}"
    by simp
  show ?thesis using platform_modes_disagree [of "\<lambda>k. ''dev''" boot_srv] m unfolding Let_def by blast
qed

end
