(* ===== verification/Agent.thy ===== *)
theory Agent
  imports Maa Scheduler_Properties
begin

text \<open>
  The node attestation agent, \<open>cmd/node-attestation-agent\<close>: it draws a nonce, obtains a token from a
  file, a helper process, an endpoint or the environment, and creates a report.

  Files, the helper process, the network, random bytes and the clock are calls of the server; the
  environment is \<open>getenv\<close> and, as a list of assignments, \<open>environ\<close>. \<open>newRequest\<close> is the error of
  \<open>http.NewRequestWithContext\<close> on a URL, if any. The loop of \<open>main\<close> ends when its context does: the number of
  ticks before that is a parameter.

  A rune of several bytes becomes one byte in \<open>safeName\<close>; its text is valid UTF-8, so a rune starts at
  every byte that is not a continuation byte.

  Shown here: node names become valid name parts, and what a created report carries.
\<close>

definition agent_envOrDefault :: "(string \<Rightarrow> string) \<Rightarrow> string \<Rightarrow> string \<Rightarrow> string" where
  "agent_envOrDefault getenv key fallback =
     (if TrimSpace (getenv key) \<noteq> '''' then TrimSpace (getenv key) else fallback)"

definition boolFromEnv :: "(string \<Rightarrow> string) \<Rightarrow> string \<Rightarrow> bool \<Rightarrow> bool" where
  "boolFromEnv getenv key fallback =
     (let v = ToLower (TrimSpace (getenv key)) in
      if v \<in> set [''1'', ''true'', ''yes'', ''y'', ''on''] then True
      else if v \<in> set [''0'', ''false'', ''no'', ''n'', ''off''] then False
      else fallback)"

definition agent_durationFromEnv :: "(string \<Rightarrow> string) \<Rightarrow> string \<Rightarrow> duration \<Rightarrow> duration" where
  "agent_durationFromEnv getenv key fallback =
     (let v = TrimSpace (getenv key) in
      if v \<noteq> '''' then
        (case sscan_int v of Some secs \<Rightarrow> if 0 < secs then seconds secs else fallback | None \<Rightarrow> fallback)
      else fallback)"

definition report_interval :: "(string \<Rightarrow> string) \<Rightarrow> duration" where
  "report_interval getenv =
     (let i = agent_durationFromEnv getenv ''REPORT_INTERVAL_SECONDS'' (60 * Second) in
      if i < 10 * Second then 10 * Second else i)"


section \<open>Names\<close>

definition rune_start :: "char \<Rightarrow> bool" where
  "rune_start c \<longleftrightarrow> (let n = of_char c :: nat in n < 128 \<or> 192 \<le> n)"

definition name_char :: "char \<Rightarrow> bool" where
  "name_char c \<longleftrightarrow> (let n = of_char c :: nat in 97 \<le> n \<and> n \<le> 122 \<or> 48 \<le> n \<and> n \<le> 57 \<or> c = CHR ''-'')"

definition safeName :: "string \<Rightarrow> string" where
  "safeName s =
     (let b = map (\<lambda>c. if name_char c then c else CHR ''-'') (filter rune_start (ToLower (TrimSpace s)));
          trimmed = TrimByte (CHR ''-'') b;
          out = (if trimmed = '''' then ''unknown-node'' else trimmed) in
      if 48 < length out then TrimByte (CHR ''-'') (take 48 out) else out)"


section \<open>Tokens\<close>

definition newNonce :: "'s server \<Rightarrow> ('s, string + string) prog" where
  "newNonce srv = do {
     r \<leftarrow> api srv (RandomBytes 16);
     State_Monad.return (case as_text r of Inl e \<Rightarrow> Inl (''generate nonce: '' @ e) | Inr b \<Rightarrow> Inr (EncodeToString b))
   }"

definition agent_tokenHash :: "prims \<Rightarrow> string \<Rightarrow> string" where
  "agent_tokenHash P token = (if token = '''' then '''' else EncodeToString (p_sha256 P token))"

definition attestationClientPayload :: "string \<Rightarrow> string" where
  "attestationClientPayload nonce = marshal (JObj [(''Nonce'', JStr nonce), (''nonce'', JStr nonce)])"

definition runAttestationHelper :: "klib \<Rightarrow> 's server \<Rightarrow> (string \<Rightarrow> string) \<Rightarrow> string list \<Rightarrow> string \<Rightarrow> string \<Rightarrow>
    ('s, string + string) prog" where
  "runAttestationHelper kl srv getenv environ helperPath nonce =
     (let t = agent_durationFromEnv getenv ''ATTESTATION_HELPER_TIMEOUT_SECONDS'' (120 * Second);
          timeout = (if t < 5 * Second then 5 * Second else t);
          endpoint = agent_envOrDefault getenv ''AZURE_ATTESTATION_ENDPOINT'' ''https://sharedwus2.wus2.attest.azure.net'';
          payload = attestationClientPayload nonce in
      do {
        r \<leftarrow> api srv (RunHelper helperPath [endpoint, payload]
               (environ @ [''AZURE_ATTESTATION_ENDPOINT='' @ endpoint, ''AZURE_ATTESTATION_CLIENT_PAYLOAD='' @ payload]) timeout);
        let (expired, err, stdout, stderr) = as_process r;
        State_Monad.return
          (if expired then Inl (''attestation helper timed out after '' @ kl_durText kl timeout)
           else
             (case err of
                Some e \<Rightarrow> Inl (''attestation helper failed: '' @ e @ '': '' @ TrimSpace stderr)
              | None \<Rightarrow>
                if TrimSpace stdout = '''' then Inl ''attestation helper returned empty token''
                else if length (filter (\<lambda>c. c = CHR ''.'') (TrimSpace stdout)) \<noteq> 2
                  then Inl ''attestation helper returned non-JWT output''
                else Inr (TrimSpace stdout)))
      })"

definition fetch_token :: "(string \<Rightarrow> string option) \<Rightarrow> 's server \<Rightarrow> string \<Rightarrow> ('s, string + string) prog" where
  "fetch_token newRequest srv endpoint =
     (case newRequest endpoint of
        Some e \<Rightarrow> State_Monad.return (Inl e)
      | None \<Rightarrow> do {
          r \<leftarrow> api srv (FetchURL endpoint);
          case as_status r of
            Inl e \<Rightarrow> State_Monad.return (Inl (''fetch attestation token: '' @ e))
          | Inr status \<Rightarrow>
            if status < 200 \<or> 299 < status
              then State_Monad.return (Inl (''fetch attestation token: HTTP '' @ itoa status))
            else do {
              b \<leftarrow> api srv (ReadBody (2 * 1024 * 1024));
              State_Monad.return (map_sum id TrimSpace (as_text b))
            }
        })"

definition readToken :: "klib \<Rightarrow> (string \<Rightarrow> string option) \<Rightarrow> 's server \<Rightarrow> (string \<Rightarrow> string) \<Rightarrow> string list \<Rightarrow> string \<Rightarrow>
    ('s, string + string) prog" where
  "readToken kl newRequest srv getenv environ nonce =
     (let path = TrimSpace (getenv ''ATTESTATION_TOKEN_FILE'');
          helper = TrimSpace (getenv ''ATTESTATION_HELPER_PATH'');
          endpoint = TrimSpace (getenv ''ATTESTATION_TOKEN_ENDPOINT'') in
      if path \<noteq> '''' then do {
        r \<leftarrow> api srv (ReadFile path);
        State_Monad.return (case as_text r of Inl e \<Rightarrow> Inl (''read ATTESTATION_TOKEN_FILE: '' @ e) | Inr b \<Rightarrow> Inr (TrimSpace b))
      }
      else if helper \<noteq> '''' then runAttestationHelper kl srv getenv environ helper nonce
      else if endpoint \<noteq> '''' then fetch_token newRequest srv endpoint
      else State_Monad.return (Inr (TrimSpace (getenv ''ATTESTATION_TOKEN''))))"


section \<open>Reports\<close>

definition provider_of :: "(string \<Rightarrow> string) \<Rightarrow> bool \<Rightarrow> string" where
  "provider_of getenv simulated =
     (let p = TrimSpace (getenv ''ATTESTATION_PROVIDER'') in
      if p = '''' then (if simulated then ''simulator'' else ''maa'') else p)"

definition zero_rar_status :: RawAttestationReportStatus where
  "zero_rar_status = \<lparr>rart_ObservedGeneration = 0, rart_Processed = False, rart_EvidenceRef = '''',
     rart_VerificationStatus = '''', rart_Conditions = []\<rparr>"

definition new_report :: "prims \<Rightarrow> (string \<Rightarrow> string) \<Rightarrow> string \<Rightarrow> string \<Rightarrow> gotime \<Rightarrow> RawAttestationReport" where
  "new_report P getenv nonce rawToken now =
     (let nodeName = agent_envOrDefault getenv ''NODE_NAME'' ''unknown-node'';
          simulated = boolFromEnv getenv ''ATTESTATION_SIMULATED'' True in
      \<lparr>rar_Meta = (newMeta '''' (agent_envOrDefault getenv ''POD_NAMESPACE'' ''default''))
         \<lparr>om_GenerateName := ''raw-'' @ safeName nodeName @ ''-'',
          om_Labels := [(''ai.sovereign.io/node'', safeName nodeName),
                        (''ai.sovereign.io/collector'', ''node-attestation-agent'')]\<rparr>,
       rar_Spec = \<lparr>rars_NodeName = nodeName, rars_NodeUID = getenv ''NODE_UID'', rars_Provider = provider_of getenv simulated,
         rars_RawToken = rawToken, rars_RawTokenHash = agent_tokenHash P rawToken, rars_Nonce = nonce,
         rars_CollectedAt = now, rars_AgentPodUID = getenv ''POD_UID'',
         rars_AgentServiceAccount = agent_envOrDefault getenv ''SERVICE_ACCOUNT_NAME'' ''node-attestation-agent'',
         rars_Simulated = simulated\<rparr>,
       rar_Status = zero_rar_status\<rparr>)"

definition raw_token :: "(string \<Rightarrow> string) \<Rightarrow> string \<Rightarrow> string \<Rightarrow> string" where
  "raw_token getenv nonce token =
     (if boolFromEnv getenv ''ATTESTATION_SIMULATED'' True \<and> token = ''''
      then ''simulated:'' @ agent_envOrDefault getenv ''NODE_NAME'' ''unknown-node'' @ '':'' @ nonce else token)"

definition createReport :: "prims \<Rightarrow> klib \<Rightarrow> (string \<Rightarrow> string option) \<Rightarrow> 's server \<Rightarrow> (string \<Rightarrow> string) \<Rightarrow> string list \<Rightarrow>
    ('s, string option) prog" where
  "createReport P kl newRequest srv getenv environ =
     (let provider = provider_of getenv (boolFromEnv getenv ''ATTESTATION_SIMULATED'' True) in
      if provider \<noteq> ''maa'' \<and> provider \<noteq> ''simulator''
        then State_Monad.return (Some (''invalid ATTESTATION_PROVIDER '' @ fmt_q provider))
      else do {
        n \<leftarrow> newNonce srv;
        case n of
          Inl e \<Rightarrow> State_Monad.return (Some e)
        | Inr nonce \<Rightarrow> do {
            t \<leftarrow> readToken kl newRequest srv getenv environ nonce;
            case t of
              Inl e \<Rightarrow> State_Monad.return (Some e)
            | Inr token \<Rightarrow> do {
                now \<leftarrow> api srv Now;
                r \<leftarrow> api srv (CreateReport (new_report P getenv nonce (raw_token getenv nonce token) (as_time now)));
                State_Monad.return (map_option kerr_text (as_unit r))
              }
          }
      })"

text \<open>The loop of \<open>main\<close> for a number of ticks: errors are logged and ignored, except the first run's, which
  ends the process.\<close>

fun agent_ticks :: "nat \<Rightarrow> ('s, string option) prog \<Rightarrow> ('s, unit) prog" where
  "agent_ticks 0 report = State_Monad.return ()"
| "agent_ticks (Suc n) report = do { _ \<leftarrow> report; agent_ticks n report }"

definition agent_main :: "nat \<Rightarrow> prims \<Rightarrow> klib \<Rightarrow> (string \<Rightarrow> string option) \<Rightarrow> 's server \<Rightarrow> (string \<Rightarrow> string) \<Rightarrow> string list \<Rightarrow>
    ('s, string option) prog" where
  "agent_main ticks P kl newRequest srv getenv environ = do {
     e \<leftarrow> createReport P kl newRequest srv getenv environ;
     case e of
       Some err \<Rightarrow> State_Monad.return (Some err)
     | None \<Rightarrow> do {
         _ \<leftarrow> agent_ticks ticks (createReport P kl newRequest srv getenv environ);
         State_Monad.return None
       }
   }"


section \<open>Valid names\<close>

definition valid_name :: "string \<Rightarrow> bool" where
  "valid_name n \<longleftrightarrow> n \<noteq> '''' \<and> length n \<le> 48 \<and> list_all name_char n \<and> hd n \<noteq> CHR ''-'' \<and> last n \<noteq> CHR ''-''"

lemma TrimByte_props:
  "set (TrimByte c s) \<subseteq> set s" "length (TrimByte c s) \<le> length s"
  "TrimByte c s \<noteq> [] \<Longrightarrow> hd (TrimByte c s) \<noteq> c \<and> last (TrimByte c s) \<noteq> c"
proof -
  let ?a = "dropWhile ((=) c) s"
  show "set (TrimByte c s) \<subseteq> set s"
    unfolding TrimByte_def set_rev using set_dropWhileD [of _ "(=) c"] by (metis set_rev subsetI)
  have "length (dropWhile ((=) c) (rev ?a)) \<le> length ?a" using length_dropWhile_le [of "(=) c" "rev ?a"] by simp
  then show "length (TrimByte c s) \<le> length s"
    unfolding TrimByte_def using length_dropWhile_le [of "(=) c" s] by simp
  assume n: "TrimByte c s \<noteq> []"
  then have b: "dropWhile ((=) c) (rev ?a) \<noteq> []" by (simp add: TrimByte_def)
  then have l: "last (TrimByte c s) \<noteq> c"
    using hd_dropWhile [OF b] by (simp add: TrimByte_def last_rev)
  have "?a \<noteq> []" using b by (metis dropWhile.simps(1) rev.simps(1))
  then have ha: "hd ?a \<noteq> c" using hd_dropWhile by metis
  have "?a = TrimByte c s @ rev (takeWhile ((=) c) (rev ?a))"
    unfolding TrimByte_def by (metis rev_append rev_rev_ident takeWhile_dropWhile_id)
  then have "hd ?a = hd (TrimByte c s)" using n by (metis hd_append2)
  with ha l show "hd (TrimByte c s) \<noteq> c \<and> last (TrimByte c s) \<noteq> c" by simp
qed

lemma TrimByte_id: "s = [] \<or> hd s \<noteq> c \<and> last s \<noteq> c \<Longrightarrow> TrimByte c s = s"
proof (cases s)
  case (Cons x xs)
  assume "s = [] \<or> hd s \<noteq> c \<and> last s \<noteq> c"
  then have "hd s \<noteq> c" "hd (rev s) \<noteq> c" using Cons by (simp_all only: hd_rev) auto
  then have "dropWhile ((=) c) s = s" "dropWhile ((=) c) (rev s) = rev s" by (auto simp: dropWhile_eq_self_iff)
  then show ?thesis by (simp add: TrimByte_def)
qed (simp add: TrimByte_def)

lemma TrimByte_keeps_hd: "s \<noteq> [] \<Longrightarrow> hd s \<noteq> c \<Longrightarrow> TrimByte c s \<noteq> []"
  by (auto simp: TrimByte_def dropWhile_eq_Nil_conv dest: hd_in_set) (metis dropWhile_eq_self_iff hd_in_set)

lemma name_char_dash [simp]: "name_char (CHR ''-'')" by (simp add: name_char_def)

lemma name_char_facts: "name_char c \<Longrightarrow> graphic c \<and> lower_char c = c \<and> rune_start c \<and> (of_char c :: nat) < 128"
  by (auto simp: name_char_def graphic_def lower_char_def rune_start_def Let_def)

lemma safeName_valid: "valid_name (safeName s)"
proof -
  define b where "b = map (\<lambda>c. if name_char c then c else CHR ''-'') (filter rune_start (ToLower (TrimSpace s)))"
  define out where "out = (if TrimByte (CHR ''-'') b = '''' then ''unknown-node'' else TrimByte (CHR ''-'') b)"
  have nb: "\<forall>c\<in>set b. name_char c" by (auto simp: b_def)
  have o: "out \<noteq> []" "\<forall>c\<in>set out. name_char c" "hd out \<noteq> CHR ''-''" "last out \<noteq> CHR ''-''"
    using nb TrimByte_props(1) [of "CHR ''-''" b] TrimByte_props(3) [of "CHR ''-''" b]
    by (auto simp: out_def name_char_def split: if_splits)
  have e: "safeName s = (if 48 < length out then TrimByte (CHR ''-'') (take 48 out) else out)"
    by (simp add: safeName_def Let_def b_def out_def)
  show ?thesis
  proof (cases "48 < length out")
    case True
    let ?t = "take 48 out"
    have t: "?t \<noteq> []" "hd ?t \<noteq> CHR ''-''" using o True by auto
    then have "TrimByte (CHR ''-'') ?t \<noteq> []" by (rule TrimByte_keeps_hd)
    moreover have "set (TrimByte (CHR ''-'') ?t) \<subseteq> set out" "length (TrimByte (CHR ''-'') ?t) \<le> 48"
      using TrimByte_props(1, 2) [of "CHR ''-''" ?t] set_take_subset [of 48 out] by auto
    ultimately show ?thesis
      using True o TrimByte_props(3) [of "CHR ''-''" ?t] by (auto simp: e valid_name_def list_all_iff)
  qed (use o in \<open>simp add: e valid_name_def list_all_iff\<close>)
qed

lemma safeName_id: "valid_name n \<Longrightarrow> safeName n = n"
proof -
  assume v: "valid_name n"
  then have a: "\<forall>c\<in>set n. graphic c \<and> lower_char c = c \<and> rune_start c \<and> (of_char c :: nat) < 128 \<and> name_char c"
    by (auto simp: valid_name_def list_all_iff dest: name_char_facts)
  have "TrimSpace n = n" using a by (simp add: TrimSpace_all_graphic)
  moreover have "ToLower n = n" using a by (simp add: case_ascii ascii_def list_all_iff map_idI)
  moreover have "filter rune_start n = n" using a by (simp add: filter_id_conv)
  moreover have "map (\<lambda>c. if name_char c then c else CHR ''-'') n = n" using a by (simp add: map_idI)
  moreover have "TrimByte (CHR ''-'') n = n" using v by (intro TrimByte_id) (simp add: valid_name_def)
  ultimately show "safeName n = n" using v by (simp add: safeName_def Let_def valid_name_def)
qed

text \<open>C39. Whatever the node is called, \<open>safeName\<close> gives a name part: not empty, at most 48 bytes of lower
  case letters, digits and dashes, with no dash at either end; and it leaves every such name as it is,
  so applying it twice changes nothing.\<close>

theorem safe_name_valid:
  "valid_name (safeName s) \<and> (safeName s = s \<longleftrightarrow> valid_name s) \<and> safeName (safeName s) = safeName s"
  using safeName_valid [of s] safeName_id by metis

section \<open>Created reports\<close>

lemma as_process_cases:
  "as_process r = (False, None, out, err) \<longleftrightarrow> r = RProcess False None out err"
  by (cases r) auto

text \<open>A token obtained from the helper was asked for with the nonce.\<close>

definition token_for :: "(string \<Rightarrow> string) \<Rightarrow> string \<Rightarrow> string \<Rightarrow> log \<Rightarrow> bool" where
  "token_for getenv nonce token tr \<longleftrightarrow>
     (TrimSpace (getenv ''ATTESTATION_TOKEN_FILE'') = '''' \<and> TrimSpace (getenv ''ATTESTATION_HELPER_PATH'') \<noteq> '''' \<longrightarrow>
       (\<exists>endpoint env timeout out err.
          (RunHelper (TrimSpace (getenv ''ATTESTATION_HELPER_PATH'')) [endpoint, attestationClientPayload nonce] env timeout,
             RProcess False None out err) \<in> set tr \<and>
          5 * Second \<le> timeout \<and> token = TrimSpace out \<and> length (filter (\<lambda>c. c = CHR ''.'') token) = 2))"

lemma readToken_ens:
  "ensures (readToken kl newRequest srv getenv environ nonce) (\<lambda>res tr.
     (\<forall>rep r. (CreateReport rep, r) \<notin> set tr) \<and> (\<forall>token. res = Inr token \<longrightarrow> token_for getenv nonce token tr))"
proof -
  have helper: "ensures (runAttestationHelper kl srv getenv environ path nonce) (\<lambda>res tr.
     (\<forall>rep r. (CreateReport rep, r) \<notin> set tr) \<and> (\<forall>token. res = Inr token \<longrightarrow>
       (\<exists>endpoint env timeout out err.
          (RunHelper path [endpoint, attestationClientPayload nonce] env timeout, RProcess False None out err) \<in> set tr \<and>
          5 * Second \<le> timeout \<and> token = TrimSpace out \<and> length (filter (\<lambda>c. c = CHR ''.'') token) = 2)))" for path
    unfolding runAttestationHelper_def Let_def
    by (intro ens_flat) (auto simp: as_process_cases split: if_splits option.splits)
  have fetch: "ensures (fetch_token newRequest srv url) (\<lambda>res tr. \<forall>rep r. (CreateReport rep, r) \<notin> set tr)" for url
    unfolding fetch_token_def by (intro ens_flat) auto
  show ?thesis unfolding readToken_def Let_def
    by (auto intro!: ensures_if ensures_bind_api ensures_return ensures_conseq [OF helper] ensures_conseq [OF fetch]
        simp: token_for_def)
qed

lemma createReport_ens:
  "ensures (createReport P kl newRequest srv getenv environ) (\<lambda>res calls. res = None \<longrightarrow>
     (\<exists>bytes token now tr. calls = (RandomBytes 16, RText (Inr bytes)) # tr @ [(Now, now),
        (CreateReport (new_report P getenv (EncodeToString bytes) (raw_token getenv (EncodeToString bytes) token) (as_time now)),
           RUnit None)] \<and>
      (\<forall>rep r. (CreateReport rep, r) \<notin> set tr) \<and> token_for getenv (EncodeToString bytes) token tr \<and>
      provider_of getenv (boolFromEnv getenv ''ATTESTATION_SIMULATED'' True) \<in> {''maa'', ''simulator''}))"
proof -
  have unit: "as_unit r = None \<longleftrightarrow> r = RUnit None" for r by (cases r) auto
  show ?thesis unfolding createReport_def newNonce_def Let_def
    by (auto intro!: ensures_if ensures_return ensures_bind_bind ensures_bind_api ensures_bind_return ensures_sum
        ensures_bind [OF readToken_ens] simp: unit split: sum.splits)
qed

text \<open>C31. A run of the agent that succeeds has created exactly one report, as its last call. The report's
  nonce is the hexadecimal form of the sixteen random bytes drawn in this run, the helper process, when
  it is the source, was asked for a token with that very nonce and answered with three parts, the
  recorded hash is the one the verifier computes, only a simulating agent makes up a token, and the
  report's name and label are valid.\<close>

theorem agent_report:
  assumes "run (createReport P kl newRequest srv getenv environ) st = (None, calls)"
  shows "\<exists>bytes token pre rep. calls = pre @ [(CreateReport rep, RUnit None)] \<and>
    (\<forall>rep' r. (CreateReport rep', r) \<notin> set pre) \<and> (RandomBytes 16, RText (Inr bytes)) \<in> set pre \<and>
    token_for getenv (EncodeToString bytes) token pre \<and>
    rars_Nonce (rar_Spec rep) = EncodeToString bytes \<and>
    rars_RawToken (rar_Spec rep) =
      (if rars_Simulated (rar_Spec rep) \<and> token = ''''
       then ''simulated:'' @ rars_NodeName (rar_Spec rep) @ '':'' @ EncodeToString bytes else token) \<and>
    (rars_RawToken (rar_Spec rep) \<noteq> '''' \<longrightarrow>
       rars_RawTokenHash (rar_Spec rep) = TokenHash P (rars_RawToken (rar_Spec rep))) \<and>
    rars_Provider (rar_Spec rep) \<in> {''maa'', ''simulator''} \<and>
    om_GenerateName (rar_Meta rep) = ''raw-'' @ safeName (rars_NodeName (rar_Spec rep)) @ ''-'' \<and>
    valid_name (safeName (rars_NodeName (rar_Spec rep)))"
proof -
  from ensures_run [OF createReport_ens assms] obtain bytes token now tr where
    c: "calls = (RandomBytes 16, RText (Inr bytes)) # tr @ [(Now, now),
         (CreateReport (new_report P getenv (EncodeToString bytes) (raw_token getenv (EncodeToString bytes) token) (as_time now)),
            RUnit None)]"
      "\<forall>rep r. (CreateReport rep, r) \<notin> set tr" "token_for getenv (EncodeToString bytes) token tr"
      "provider_of getenv (boolFromEnv getenv ''ATTESTATION_SIMULATED'' True) \<in> {''maa'', ''simulator''}" by blast
  let ?pre = "(RandomBytes 16, RText (Inr bytes)) # tr @ [(Now, now)]"
  have t: "token_for getenv (EncodeToString bytes) token ?pre" using c(3) unfolding token_for_def by auto
  show ?thesis
    by (rule exI [of _ bytes], rule exI [of _ token], rule exI [of _ ?pre])
      (use c t safeName_valid in \<open>simp add: new_report_def Let_def raw_token_def agent_tokenHash_def TokenHash_def\<close>)
qed

definition agent_srv :: "unit server" where
  "agent_srv c st = (case c of
       RandomBytes n \<Rightarrow> RText (Inr (replicate n CHR ''x''))
     | Now \<Rightarrow> RTime 0
     | _ \<Rightarrow> RUnit None, st)"

theorem agent_report_witness:
  "\<exists>calls pre rep. run (createReport demo_prims demo_kl (\<lambda>u. None) agent_srv (\<lambda>k. '''') []) () = (None, calls) \<and>
     calls = pre @ [(CreateReport rep, RUnit None)] \<and>
     rars_Nonce (rar_Spec rep) = EncodeToString (replicate 16 CHR ''x'')"
proof -
  let ?m = "createReport demo_prims demo_kl (\<lambda>u. None) agent_srv (\<lambda>k. '''') []"
  obtain res calls where r: "run ?m () = (res, calls)" by (cases "run ?m ()")
  have n: "res = None" and x: "\<And>b. (RandomBytes 16, RText (Inr b)) \<in> set calls \<Longrightarrow> b = replicate 16 CHR ''x''"
    using r by (auto simp: run_def createReport_def newNonce_def readToken_def Let_def agent_srv_def provider_of_def
        boolFromEnv_def)
  show ?thesis using agent_report [OF r [unfolded n]] r n x by auto
qed

end
