(* ===== verification/Commands.thy ===== *)
theory Commands
  imports Bootstrap Agent Controllers
begin

text \<open>
  The start-up code of the binaries that decides something: the configuration of the scheduler and the
  central verifier (\<open>cmd/attestation-scheduler\<close>, \<open>cmd/central-verifier\<close>), the controllers and webhooks that
  \<open>cmd/confidential-manager\<close> starts, and the checker \<open>cmd/verify-placement\<close>.

  \<open>fmt.Sscan\<close> skips leading white space. A command that exits with an error has the error's text as its
  result. Creating clients and managers, health checks and metrics servers are left out.

  Shown here: what the manager has registered when it starts. That a token of the scheduler passes the
  checker is shown in \<open>Token_Flow\<close>.
\<close>

section \<open>The scheduler\<close>

definition env_int :: "(string \<Rightarrow> string) \<Rightarrow> string \<Rightarrow> int option" where
  "env_int getenv key =
     (if getenv key \<noteq> '''' then
        (case sscan_int (trim_lead space_runes (getenv key)) of
           Some n \<Rightarrow> if 0 < n then Some n else None
         | None \<Rightarrow> None)
      else None)"

definition loadOrGenerateSigningKey :: "prims \<Rightarrow> 's server \<Rightarrow> (string \<Rightarrow> string) \<Rightarrow> ('s, string + string \<times> string) prog" where
  "loadOrGenerateSigningKey P srv getenv =
     (let keyHex = getenv ''SCHEDULER_SIGNING_KEY_HEX'' in
      if keyHex \<noteq> '''' then
        State_Monad.return
          (case DecodeString keyHex of
             Inl e \<Rightarrow> Inl (''SCHEDULER_SIGNING_KEY_HEX is not valid hex: '' @ hex_error_text e)
           | Inr seed \<Rightarrow>
             if length seed \<noteq> SeedSize
               then Inl (''SCHEDULER_SIGNING_KEY_HEX seed must be '' @ nat_str SeedSize @ '' bytes'')
             else Inr (p_newKey P seed, p_public P (p_newKey P seed)))
      else do {
        r \<leftarrow> api srv GenerateEd25519;
        State_Monad.return
          (case as_keyPair r of
             Inl e \<Rightarrow> Inl (''generate ephemeral signing key: '' @ e)
           | Inr (pub, priv) \<Rightarrow> Inr (priv, pub))
      })"

definition scheduler_conf :: "(string \<Rightarrow> string) \<Rightarrow> string \<Rightarrow> string \<Rightarrow> Scheduler" where
  "scheduler_conf getenv privKey pubKey =
     (let tokenTTL = (case env_int getenv ''SCHEDULER_TOKEN_TTL_SECONDS'' of
            Some secs \<Rightarrow> seconds secs | None \<Rightarrow> 5 * 60 * Second);
          sched = NewScheduler (Some privKey) (Some pubKey) tokenTTL in
      case env_int getenv ''AIOPS_PREBIND_TEST_DELAY_MS'' of
        Some ms \<Rightarrow> SetPreBindDelay (wrap64 (ms * Millisecond)) sched
      | None \<Rightarrow> sched)"


section \<open>The central verifier\<close>

definition envOrDefault :: "(string \<Rightarrow> string) \<Rightarrow> string \<Rightarrow> string \<Rightarrow> string" where
  "envOrDefault getenv key fallback = (if getenv key \<noteq> '''' then getenv key else fallback)"

definition durationFromEnv :: "(string \<Rightarrow> string) \<Rightarrow> string \<Rightarrow> duration \<Rightarrow> duration" where
  "durationFromEnv getenv key fallback = (case env_int getenv key of Some secs \<Rightarrow> seconds secs | None \<Rightarrow> fallback)"

definition verifier_conf :: "(string \<Rightarrow> string) \<Rightarrow> verifierConf" where
  "verifier_conf getenv =
     \<lparr>vc_VerifierIdentity = envOrDefault getenv ''VERIFIER_IDENTITY'' ''central-verifier'',
      vc_VerifierPodUID = getenv ''POD_UID'',
      vc_ExpectedTEE = envOrDefault getenv ''EXPECTED_TEE'' ''sevsnpvm'',
      vc_MAAIssuerPrefix = getenv ''MAA_ISSUER_PREFIX'',
      vc_MaxTokenAge = durationFromEnv getenv ''MAX_TOKEN_AGE_SECONDS'' (5 * 60 * Second)\<rparr>"


section \<open>The manager\<close>

datatype controller =
    EvidenceController
  | RevocationController
  | ReportController verifierConf
  | RecordController
  | PlacementController
  | KeyReleaseController

definition envBool :: "(string \<Rightarrow> string) \<Rightarrow> string \<Rightarrow> bool \<Rightarrow> bool" where
  "envBool getenv key fallback =
     (let v = ToLower (TrimSpace (getenv key)) in
      if v \<in> set [''1'', ''true'', ''yes'', ''y'', ''on''] then True
      else if v \<in> set [''0'', ''false'', ''no'', ''n'', ''off''] then False
      else fallback)"

definition manager_controllers :: "(string \<Rightarrow> string) \<Rightarrow> controller list" where
  "manager_controllers getenv =
     (if envBool getenv ''AIOPS_ENABLE_LEGACY_EVIDENCE_RECONCILER'' False then [EvidenceController] else []) @
     [RevocationController] @
     (if envBool getenv ''AIOPS_ENABLE_EMBEDDED_VERIFIER'' False
      then [ReportController \<lparr>vc_VerifierIdentity = ''embedded-central-verifier'', vc_VerifierPodUID = getenv ''POD_UID'',
              vc_ExpectedTEE = '''', vc_MAAIssuerPrefix = '''', vc_MaxTokenAge = 0\<rparr>] else []) @
     [RecordController, PlacementController, KeyReleaseController]"

definition manager_resolver :: "(string \<Rightarrow> string) \<Rightarrow> ImageResolver" where
  "manager_resolver getenv =
     ManagerPod \<lparr>ir_Client = True, ir_PodName = getenv ''POD_NAME'', ir_PodNamespace = getenv ''POD_NAMESPACE'',
       ir_ContainerName = '''', ir_cached = ''''\<rparr>"

definition manager_boot_options :: "pki \<Rightarrow> (string \<Rightarrow> string) \<Rightarrow> string \<Rightarrow> string \<Rightarrow> BootOptions" where
  "manager_boot_options K getenv name path =
     \<lparr>bo_Client = True, bo_Name = name, bo_ServiceName = getenv ''WEBHOOK_SERVICE_NAME'',
      bo_ServiceNamespace = getenv ''POD_NAMESPACE'', bo_Path = path,
      bo_CertDir = pk_join K [TempDir getenv, ''k8s-webhook-server'', ''serving-certs''],
      bo_FailurePolicy = '''', bo_Scope = ScopePods\<rparr>"

definition manager_boot :: "pki \<Rightarrow> 's server \<Rightarrow> (string \<Rightarrow> string) \<Rightarrow> ('s, string option) prog" where
  "manager_boot K srv getenv = do {
     e1 \<leftarrow> EnsureSimulatedRuntimeClasses srv getenv True;
     case e1 of
       Some e \<Rightarrow> State_Monad.return (Some (''unable to bootstrap simulated runtime classes''))
     | None \<Rightarrow> do {
         e2 \<leftarrow> Ensure K srv getenv (manager_boot_options K getenv ''aiops-sidecar-injector'' ''/mutate-v1-pod'');
         case e2 of
           Some e \<Rightarrow> State_Monad.return (Some (''unable to bootstrap mutating webhook''))
         | None \<Rightarrow> do {
             e3 \<leftarrow> EnsureValidation K srv getenv
                     (manager_boot_options K getenv ''aiops-confidential-pod-validator'' ''/validate-v1-pod'');
             State_Monad.return (map_option (\<lambda>e. ''unable to bootstrap validating webhook'') e3)
           }
       }
   }"


section \<open>The placement checker\<close>

record verifyFlags =
  vf_token :: string
  vf_tokenFile :: string
  vf_pubKeyHex :: string
  vf_pubKeyFile :: string
  vf_podUID :: string
  vf_podSpecHash :: string
  vf_node :: string
  vf_evidenceHash :: string
  vf_policyHash :: string

definition readValue :: "'s server \<Rightarrow> string \<Rightarrow> string \<Rightarrow> ('s, string + string) prog" where
  "readValue srv raw path =
     (if TrimSpace raw \<noteq> '''' then State_Monad.return (Inr raw)
      else if TrimSpace path = '''' then State_Monad.return (Inr '''')
      else do {
        r \<leftarrow> api srv (ReadFile path);
        State_Monad.return (case as_text r of Inl e \<Rightarrow> Inl (''read '' @ path @ '': '' @ e) | Inr d \<Rightarrow> Inr d)
      })"

text \<open>The checks on the texts of the token and the key, at a time: the error that is printed after \<open>FAIL\<close>, or
  \<open>None\<close> for \<open>PASS\<close>.\<close>

definition check_placement :: "prims \<Rightarrow> (string \<Rightarrow> string) \<Rightarrow> gotime \<Rightarrow> verifyFlags \<Rightarrow> string \<Rightarrow> string \<Rightarrow> string option" where
  "check_placement P syn now f rawToken rawPubKey =
     (case PubKeyFromHex (TrimSpace rawPubKey) of
        Inl e \<Rightarrow> Some (''parse public key: '' @ e)
      | Inr pub \<Rightarrow>
        (case Decode syn (TrimSpace rawToken) of
           Inl e \<Rightarrow> Some (''decode token: '' @ e)
         | Inr tok \<Rightarrow>
           if vf_podUID f = '''' then Verify P now (Some pub) tok
           else VerifyForPod P now (Some pub) tok (vf_podUID f) (vf_podSpecHash f) (vf_node f) (vf_evidenceHash f)
                  (vf_policyHash f)))"

definition verify_placement_main :: "prims \<Rightarrow> (string \<Rightarrow> string) \<Rightarrow> 's server \<Rightarrow> verifyFlags \<Rightarrow> ('s, string option) prog" where
  "verify_placement_main P syn srv f = do {
     t \<leftarrow> readValue srv (vf_token f) (vf_tokenFile f);
     case t of
       Inl e \<Rightarrow> State_Monad.return (Some e)
     | Inr rawToken \<Rightarrow>
       if TrimSpace rawToken = '''' then State_Monad.return (Some ''token or token-file is required'')
       else do {
         k \<leftarrow> readValue srv (vf_pubKeyHex f) (vf_pubKeyFile f);
         case k of
           Inl e \<Rightarrow> State_Monad.return (Some e)
         | Inr rawPubKey \<Rightarrow>
           if TrimSpace rawPubKey = '''' then State_Monad.return (Some ''pubkey-hex or pubkey-file is required'')
           else do {
             now \<leftarrow> api srv Now;
             State_Monad.return (check_placement P syn (as_time now) f rawToken rawPubKey)
           }
       }
   }"

section \<open>What the manager registers\<close>

text \<open>A file that is read holds what was last written to it; a failed write leaves its content open.\<close>

definition file_step :: "(string \<rightharpoonup> string) \<Rightarrow> call \<Rightarrow> reply \<Rightarrow> (string \<rightharpoonup> string)" where
  "file_step fs c r = (case c of WriteFile path content \<Rightarrow> fs(path := (if r = RDone None then Some content else None)) | _ \<Rightarrow> fs)"

definition read_ok :: "(string \<rightharpoonup> string) \<Rightarrow> call \<Rightarrow> reply \<Rightarrow> bool" where
  "read_ok fs c r = (case c of
       ReadFile path \<Rightarrow> (case (fs path, as_text r) of (Some content, Inr text) \<Rightarrow> text = content | _ \<Rightarrow> True)
     | _ \<Rightarrow> True)"

fun file_law :: "(string \<rightharpoonup> string) \<Rightarrow> log \<Rightarrow> bool" where
  "file_law fs [] = True"
| "file_law fs ((c, r) # tr) = (read_ok fs c r \<and> file_law (file_step fs c r) tr)"

lemma file_law_suffix: "file_law fs (a @ b) \<Longrightarrow> \<exists>fs'. file_law fs' b"
  by (induction fs a rule: file_law.induct) auto

lemma EnsureValidation_ens:
  "ensures (EnsureValidation K srv getenv opts) (\<lambda>res calls. res = None \<longrightarrow>
     (let d = with_defaults K getenv ''/validate-v1-pod'' ''Fail'' opts in
      option_error opts = None \<and> (\<exists>ca.
        calls = [(ReadFile (pk_join K [bo_CertDir d, ''ca.crt'']), RText (Inr ca)),
          (UpsertValidating (bo_Name d) (validating_webhooks d ca), RUnit None)])))"
  unfolding EnsureValidation_def Let_def by (intro ens_flat) auto

text \<open>A webhook for pods that calls the operator's service, trusts an authority, and leaves the system's
  and the operator's namespaces alone.\<close>

definition guarded :: "(string \<Rightarrow> string) \<Rightarrow> string \<Rightarrow> string \<Rightarrow> string \<Rightarrow> string list \<Rightarrow> Webhook \<Rightarrow> bool" where
  "guarded getenv ca path failure ops w \<longleftrightarrow>
     wh_CABundle w = ca \<and> wh_Path w = path \<and> wh_FailurePolicy w = failure \<and>
     wh_ServiceName w = getenv ''WEBHOOK_SERVICE_NAME'' \<and> wh_ServiceNamespace w = getenv ''POD_NAMESPACE'' \<and>
     (\<exists>ns. wh_NotInNamespaces w = Some ns \<and> {''kube-system'', getenv ''POD_NAMESPACE''} \<subseteq> set ns) \<and>
     wh_Rules w = [pod_rule ops]"

lemma manager_hooks:
  assumes "option_error (manager_boot_options K getenv name path) = None" and "path \<noteq> ''''"
  defines "opts p f \<equiv> with_defaults K getenv p f (manager_boot_options K getenv name path)"
  shows "\<exists>w. mutating_webhooks (opts p f) ca = [w] \<and> guarded getenv ca path f [''CREATE''] w"
    and "\<exists>w. validating_webhooks (opts p f) ca = [w] \<and> guarded getenv ca path f [''CREATE'', ''UPDATE''] w"
    and "bo_Name (opts p f) = name" "bo_ServiceName (opts p f) = getenv ''WEBHOOK_SERVICE_NAME''"
    and "bo_ServiceNamespace (opts p f) = getenv ''POD_NAMESPACE''" "bo_CertDir (opts p f) = bo_CertDir (opts p' f')"
  using assms
  by (auto simp: opts_def with_defaults_def manager_boot_options_def mutating_webhooks_def validating_webhooks_def in_scope_def
      guarded_def base_webhook_def excludeSystemNamespaces_def option_error_def split: if_splits)

lemma ensure_classes_ens:
  "ensures (ensure_classes srv ns) (\<lambda>res tr. True)"
  by (induction ns) (auto intro!: ensures_return ensures_bind_api ensures_option)

lemma manager_boot_ens:
  defines "m K getenv \<equiv> manager_boot_options K getenv ''aiops-sidecar-injector'' ''/mutate-v1-pod''"
    and "v K getenv \<equiv> manager_boot_options K getenv ''aiops-confidential-pod-validator'' ''/validate-v1-pod''"
  shows "ensures (manager_boot K srv getenv) (\<lambda>res calls. res = None \<longrightarrow>
    (\<exists>classes ca crt key tr ca'.
       let dm = with_defaults K getenv ''/mutate-v1-pod'' ''Ignore'' (m K getenv);
           dv = with_defaults K getenv ''/validate-v1-pod'' ''Fail'' (v K getenv) in
       option_error (m K getenv) = None \<and> option_error (v K getenv) = None \<and>
       bundle_made K (bo_ServiceName dm) (bo_ServiceNamespace dm) (ca, crt, key) tr \<and>
       calls = (classes @ tr @ [(MkdirAll (bo_CertDir dm), RDone None),
          (WriteFile (pk_join K [bo_CertDir dm, ''tls.crt'']) crt, RDone None),
          (WriteFile (pk_join K [bo_CertDir dm, ''tls.key'']) key, RDone None)]) @
          (WriteFile (pk_join K [bo_CertDir dm, ''ca.crt'']) ca, RDone None) #
          [(UpsertMutating (bo_Name dm) (mutating_webhooks dm ca), RUnit None)] @
          (ReadFile (pk_join K [bo_CertDir dv, ''ca.crt'']), RText (Inr ca')) #
          [(UpsertValidating (bo_Name dv) (validating_webhooks dv ca'), RUnit None)]))"
proof -
  have c: "ensures (EnsureSimulatedRuntimeClasses srv getenv True) (\<lambda>res tr. True)"
    unfolding EnsureSimulatedRuntimeClasses_def by (intro ensures_if ensures_return ensure_classes_ens) simp
  show ?thesis
    unfolding manager_boot_def m_def v_def
    by (intro ensures_bind [OF c] ensures_option ensures_bind [OF Ensure_ens] ensures_bind [OF EnsureValidation_ens]
        ensures_return) (auto simp: Let_def, blast)
qed

text \<open>C28. When the manager has started, both webhooks for pods are in place, the mutating one first, the
  validating one as the last call. On a file system that gives back what was written, both trust the one
  authority that was made in this start and that signed the serving certificate for the operator's
  service; both call that service and stay away from the system's and the operator's own namespaces; the
  validating one refuses pods when it cannot be reached, the mutating one lets them pass.\<close>

theorem manager_webhooks_trusted:
  assumes "run (manager_boot K srv getenv) st = (None, calls)" and "file_law Map.empty calls"
  shows "\<exists>now caSerial serial caPub caKey serverPub caDER serverDER pre readCA mut val.
    let ca = caTemplate now caSerial;
        server = serverTemplate now serial (getenv ''WEBHOOK_SERVICE_NAME'') (getenv ''POD_NAMESPACE'') in
    calls = pre @ [(UpsertMutating ''aiops-sidecar-injector'' [mut], RUnit None), readCA,
      (UpsertValidating ''aiops-confidential-pod-validator'' [val], RUnit None)] \<and>
    {(CreateCertificate ca ca caPub caKey, RText (Inr caDER)),
     (CreateCertificate server ca serverPub caKey, RText (Inr serverDER))} \<subseteq> set pre \<and>
    guarded getenv (pk_pem K ''CERTIFICATE'' caDER) ''/mutate-v1-pod'' ''Ignore'' [''CREATE''] mut \<and>
    guarded getenv (pk_pem K ''CERTIFICATE'' caDER) ''/validate-v1-pod'' ''Fail'' [''CREATE'', ''UPDATE''] val \<and>
    getenv ''WEBHOOK_SERVICE_NAME'' @ ''.'' @ getenv ''POD_NAMESPACE'' @ ''.svc'' \<in> set (crt_DNSNames server)"
proof -
  let ?m = "manager_boot_options K getenv ''aiops-sidecar-injector'' ''/mutate-v1-pod''"
  let ?v = "manager_boot_options K getenv ''aiops-confidential-pod-validator'' ''/validate-v1-pod''"
  define dm where "dm = with_defaults K getenv ''/mutate-v1-pod'' ''Ignore'' ?m"
  define dv where "dv = with_defaults K getenv ''/validate-v1-pod'' ''Fail'' ?v"
  from ensures_run [OF manager_boot_ens assms(1)] obtain classes ca crt key tr ca' where
    o: "option_error ?m = None" "option_error ?v = None"
    and b: "bundle_made K (bo_ServiceName dm) (bo_ServiceNamespace dm) (ca, crt, key) tr"
    and c: "calls = (classes @ tr @ [(MkdirAll (bo_CertDir dm), RDone None),
          (WriteFile (pk_join K [bo_CertDir dm, ''tls.crt'']) crt, RDone None),
          (WriteFile (pk_join K [bo_CertDir dm, ''tls.key'']) key, RDone None)]) @
          (WriteFile (pk_join K [bo_CertDir dm, ''ca.crt'']) ca, RDone None) #
          [(UpsertMutating (bo_Name dm) (mutating_webhooks dm ca), RUnit None)] @
          (ReadFile (pk_join K [bo_CertDir dv, ''ca.crt'']), RText (Inr ca')) #
          [(UpsertValidating (bo_Name dv) (validating_webhooks dv ca'), RUnit None)]"
    unfolding dm_def dv_def Let_def by blast
  have hm: "\<exists>w. mutating_webhooks dm ca = [w] \<and> guarded getenv ca ''/mutate-v1-pod'' ''Ignore'' [''CREATE''] w"
    "bo_Name dm = ''aiops-sidecar-injector''" "bo_ServiceName dm = getenv ''WEBHOOK_SERVICE_NAME''"
    "bo_ServiceNamespace dm = getenv ''POD_NAMESPACE''" unfolding dm_def by (intro manager_hooks [OF o(1)], simp)+
  have hv: "\<exists>w. validating_webhooks dv ca' = [w] \<and> guarded getenv ca' ''/validate-v1-pod'' ''Fail'' [''CREATE'', ''UPDATE''] w"
    "bo_Name dv = ''aiops-confidential-pod-validator''" unfolding dv_def by (intro manager_hooks [OF o(2)], simp)+
  have "bo_CertDir dv = bo_CertDir dm" by (simp add: dm_def dv_def with_defaults_def manager_boot_options_def)
  then have ca: "ca' = ca"
    using file_law_suffix [OF assms(2) [unfolded c]] by (auto simp: read_ok_def file_step_def)
  obtain w w' where w: "mutating_webhooks dm ca = [w]" "guarded getenv ca ''/mutate-v1-pod'' ''Ignore'' [''CREATE''] w"
    "validating_webhooks dv ca' = [w']" "guarded getenv ca' ''/validate-v1-pod'' ''Fail'' [''CREATE'', ''UPDATE''] w'"
    using hm(1) hv(1) by blast
  obtain pre readCA where pre: "calls = pre @ [(UpsertMutating ''aiops-sidecar-injector'' [w], RUnit None), readCA,
      (UpsertValidating ''aiops-confidential-pod-validator'' [w'], RUnit None)]" "set tr \<subseteq> set pre"
    using c w(1, 3) hm(2) hv(2) by force
  show ?thesis
    using b pre(2) unfolding bundle_made_def Let_def prod.case hm(3) hm(4)
  proof (elim exE conjE, goal_cases)
    case (1 t caSerial caPub caKey caDER serial serverPub serverKey serverDER)
    show ?case
      by (rule exI [of _ "as_time t"], rule exI [of _ caSerial], rule exI [of _ serial], rule exI [of _ caPub],
          rule exI [of _ caKey], rule exI [of _ serverPub], rule exI [of _ caDER], rule exI [of _ serverDER],
          rule exI [of _ pre], rule exI [of _ readCA], rule exI [of _ w], rule exI [of _ w'])
        (use 1 pre(1) w(2, 4) ca in \<open>simp add: serverTemplate_def\<close>)
  qed
qed

text \<open>A start in the production mode; the file system of this server holds one text.\<close>

definition manager_env :: "string \<Rightarrow> string" where
  "manager_env key = (if key = ''WEBHOOK_SERVICE_NAME'' then ''hook'' else if key = ''POD_NAMESPACE'' then ''ops''
     else if key = PlatformModeEnv then ''production'' else '''')"

definition manager_srv :: "string server" where
  "manager_srv c st = (case c of
       WriteFile path content \<Rightarrow> (RDone None, content)
     | ReadFile path \<Rightarrow> (RText (Inr st), st)
     | UpsertValidating name hooks \<Rightarrow> (RUnit None, st)
     | _ \<Rightarrow> (fst (boot_srv c ()), st))"

theorem manager_webhooks_trusted_witness:
  "\<exists>calls pre readCA mut val. run (manager_boot demo_pki manager_srv manager_env) '''' = (None, calls) \<and>
     calls = pre @ [(UpsertMutating ''aiops-sidecar-injector'' [mut], RUnit None), readCA,
       (UpsertValidating ''aiops-confidential-pod-validator'' [val], RUnit None)]"
proof -
  let ?m = "manager_boot demo_pki manager_srv manager_env"
  obtain res calls where r: "run ?m '''' = (res, calls)" by (cases "run ?m ''''")
  have mode: "bootstrap_platformMode manager_env \<noteq> ''simulated-kind''"
    by (simp add: bootstrap_platformMode_def Let_def manager_env_def PlatformModeEnv_def ReplaceByte_def case_ascii ascii_def
        lower_char_def TrimSpace_all_graphic graphic_def)
  have "res = None \<and> file_law Map.empty calls"
    using r mode by (simp add: run_def manager_boot_def EnsureSimulatedRuntimeClasses_def Ensure_def EnsureValidation_def
        option_error_def manager_boot_options_def with_defaults_def generateServingBundle_def server_part_def randSerial_def
        Let_def manager_srv_def boot_srv_def manager_env_def)
      (auto simp: read_ok_def file_step_def)
  with manager_webhooks_trusted [of demo_pki manager_srv manager_env "''''" calls] r show ?thesis
    unfolding Let_def by blast
qed

end
