(* ===== verification/Token_Flow.thy ===== *)
theory Token_Flow
  imports Commands Scheduler_Properties
begin

text \<open>
  A placement token on its way: from the scheduler's configuration over the reservation that mints it to
  its two consumers, the checker \<open>cmd/verify-placement\<close> and the key release gateway.
\<close>

section \<open>Tokens of a reservation\<close>

text \<open>The token of a reservation, with the hashes it is bound to and the time it was minted at.\<close>

definition minted_for :: "prims \<Rightarrow> Scheduler \<Rightarrow> string \<Rightarrow> Pod \<Rightarrow> NodeCandidate \<Rightarrow> string \<Rightarrow> string \<Rightarrow> string \<Rightarrow> gotime \<Rightarrow>
    Token \<Rightarrow> bool" where
  "minted_for P s k pod sel sh ph eh t tok \<longleftrightarrow>
     Mint P t (Some k) (om_UID (pod_Meta pod)) sh
       (case ps_Containers (pod_Spec pod) of [] \<Rightarrow> '''' | c # _ \<Rightarrow> ct_Image c)
       (mget (om_Annotations (pod_Meta pod)) ''ai.sovereign.io/model-digest'')
       (node_Name (nc_Node sel))
       (case ps_RuntimeClassName (pod_Spec pod) of None \<Rightarrow> '''' | Some rc \<Rightarrow> rc)
       eh ph (sc_tokenTTL s) \<lparr>mo_GPUIdentity = '''', mo_KeyIdentifier = ''''\<rparr> = Inr tok"

definition token_result :: "prims \<Rightarrow> Scheduler \<Rightarrow> string \<Rightarrow> Pod \<Rightarrow> NodeCandidate \<Rightarrow> string \<Rightarrow> string \<Rightarrow> string \<Rightarrow>
    string + AIPlacementDecision \<times> string \<Rightarrow> log \<Rightarrow> bool" where
  "token_result P s k pod sel sh ph eh res tr \<longleftrightarrow>
     (\<forall>d str. res = Inr (d, str) \<longrightarrow>
        (\<exists>rt tok. (Now, rt) \<in> set tr \<and> str = Encode tok \<and> minted_for P s k pod sel sh ph eh (as_time rt) tok))"

lemma token_result_mono:
  "token_result P s k pod sel sh ph eh res tr \<Longrightarrow> set tr \<subseteq> set tr' \<Longrightarrow> token_result P s k pod sel sh ph eh res tr'"
  unfolding token_result_def by blast

lemma token_result_error [simp]: "token_result P s k pod sel sh ph eh (Inl e) tr"
  by (simp add: token_result_def)

lemma reserve_final_token:
  assumes "sc_signingKey s = Some k"
  shows "ensures (reserve_final P srv s pod policy sel sh ph eh dec) (token_result P s k pod sel sh ph eh)"
  unfolding reserve_final_def
proof (rule ensures_bind [OF mint_for_ens], intro ensures_sum ensures_return ensures_bind [OF createOrUpdate_ens], goal_cases)
  case (3 m tr1 str r tr2 d)
  then show ?case using assms by (auto simp: token_result_def minted_for_def)
qed simp_all

lemma reserve_checked_token:
  assumes "sc_signingKey s = Some k"
  shows "ensures (reserve_checked P kl srv s pod policy sel sh ph eh dec) (token_result P s k pod sel sh ph eh)"
  unfolding reserve_checked_def
  by (rule ensures_bind [OF preBind_ens],
      intro ensures_option ensures_return ensures_bind [OF createOrUpdate_ens] ensures_conseq [OF reserve_final_token [OF assms]])
    (auto elim!: token_result_mono)

lemma reserveTimed_token:
  assumes k: "sc_signingKey s = Some k"
  shows "ensures (reserveTimed P kl srv s pod policy sel) (\<lambda>res tr. \<forall>d str. res = Inr (d, str) \<longrightarrow>
    (\<exists>sh ph eh. CanonicalSHA256Hex P (kl_podSpecJSON kl (pod_Spec pod)) = Some sh \<and>
      hash_opt P (map_option (\<lambda>p. cip_spec_json (cip_Spec p)) policy) = Some ph \<and>
      hash_opt P (map_option (evidence_json kl) (nc_Evidence sel)) = Some eh \<and>
      token_result P s k pod sel sh ph eh res tr))"
  unfolding reserveTimed_def
  by (intro ensures_option ensures_return ensures_bind [OF createOrUpdate_ens] ensures_sum ensures_if ensures_bind_api
      ensures_conseq [OF reserve_checked_token [OF k]])
    (auto elim!: token_result_mono)

section \<open>The checker\<close>

lemma Encode_trimmed: "TrimSpace (Encode tok) = Encode tok" "Encode tok \<noteq> ''''"
proof -
  obtain m where e: "Encode tok = CHR ''{'' # m @ ''}''" by (simp add: Encode_def token_json_def)
  then have "graphic (hd (Encode tok))" "graphic (last (Encode tok))" by (simp_all add: graphic_def)
  with e show "TrimSpace (Encode tok) = Encode tok" "Encode tok \<noteq> ''''" by (auto intro!: TrimSpace_graphic)
qed

lemma PubKeyToHex_trimmed: "TrimSpace (PubKeyToHex k) = PubKeyToHex k" "k \<noteq> '''' \<Longrightarrow> PubKeyToHex k \<noteq> ''''"
  using EncodeToString_length [of k] by (auto simp: PubKeyToHex_def)

text \<open>What the caller asks a token to be bound to, each part only when it is given; without a pod nothing
  is compared.\<close>

definition asked :: "verifyFlags \<Rightarrow> Payload \<Rightarrow> bool" where
  "asked f p \<longleftrightarrow> vf_podUID f = '''' \<or>
     vf_podUID f = pl_PodUID p \<and> vf_podSpecHash f \<in> {'''', pl_PodSpecHash p} \<and> vf_node f \<in> {'''', pl_NodeIdentity p} \<and>
     vf_evidenceHash f \<in> {'''', pl_EvidenceHash p} \<and> vf_policyHash f \<in> {'''', pl_PolicyHash p}"

lemma check_placement_encoded:
  assumes "payload_ok (tok_Payload tok)" and "valid_utf8 (tok_Signature tok)" and "length pub = PublicKeySize"
  shows "check_placement P syn now f (Encode tok) (PubKeyToHex pub) = None \<longleftrightarrow>
    Verify P now (Some pub) tok = None \<and> asked f (tok_Payload tok)"
  using assms
  by (auto simp: check_placement_def PubKeyToHex_trimmed Encode_trimmed Decode_Encode VerifyForPod_def asked_def
      split: option.splits)

interpretation placement_check: token_check P pub
    "\<lambda>now str. check_placement P syn now f str (PubKeyToHex pub) = None" "asked f" for P pub syn f
  by unfold_locales (simp add: check_placement_encoded)

lemma verify_placement_run:
  assumes "vf_token f = str" "TrimSpace str \<noteq> ''''" "vf_pubKeyHex f = key" "TrimSpace key \<noteq> ''''"
  shows "run (verify_placement_main P syn srv f) st =
    (check_placement P syn (as_time (fst (srv Now st))) f str key, [(Now, fst (srv Now st))])"
  using assms by (cases "srv Now st") (simp add: verify_placement_main_def readValue_def run_def api_def)

section \<open>From the scheduler to the checker\<close>

lemma loaded_key:
  assumes "ed25519_ok P" and "getenv ''SCHEDULER_SIGNING_KEY_HEX'' \<noteq> ''''"
    and "run (loadOrGenerateSigningKey P srv getenv) st = (Inr (priv, pub), calls)"
  shows "length priv = PrivateKeySize" "pub = p_public P priv" "length pub = PublicKeySize"
  using assms by (auto simp: loadOrGenerateSigningKey_def Let_def run_def ed25519_ok_def split: sum.splits if_splits)

lemma scheduler_conf_key [simp]: "sc_signingKey (scheduler_conf getenv priv pub) = Some priv"
  by (simp add: scheduler_conf_def Let_def NewScheduler_def SetPreBindDelay_def split: option.split)

text \<open>The text of the API objects that ends up in a token. The API server stores and serves strings of valid UTF-8 only.\<close>

definition api_text :: "Pod \<Rightarrow> NodeCandidate \<Rightarrow> bool" where
  "api_text pod sel \<longleftrightarrow>
     valid_utf8 (om_UID (pod_Meta pod)) \<and> list_all (\<lambda>c. valid_utf8 (ct_Image c)) (ps_Containers (pod_Spec pod)) \<and>
     valid_utf8 (mget (om_Annotations (pod_Meta pod)) ''ai.sovereign.io/model-digest'') \<and>
     valid_utf8 (node_Name (nc_Node sel)) \<and> pred_option valid_utf8 (ps_RuntimeClassName (pod_Spec pod))"

lemma hash_opt_valid: "hash_opt P j = Some h \<Longrightarrow> valid_utf8 h"
  by (auto simp: hash_opt_def CanonicalSHA256Hex_valid split: option.splits)

lemma minted_text:
  assumes "minted_for P s k pod sel sh ph eh t tok" and "api_text pod sel"
    and "valid_utf8 sh" and "valid_utf8 ph" and "valid_utf8 eh"
  shows "payload_text (tok_Payload tok)"
  using assms by (auto simp: minted_for_def payload_text_def api_text_def elim!: MintE split: list.splits option.splits)

text \<open>What is known of the token of a successful reservation.\<close>

lemma reserved_token:
  assumes "sc_signingKey s = Some k" and "run (reserveTimed P kl srv s pod policy sel) st = (Inr (d, str), calls)"
    and "api_text pod sel"
    and "\<And>rt. (Now, rt) \<in> set calls \<Longrightarrow> int64 (timeUnix (as_time rt)) \<and> int64 (timeUnix (as_time rt + sc_tokenTTL s))"
  obtains rt sh ph eh tok where "(Now, rt) \<in> set calls" "str = Encode tok" "payload_ok (tok_Payload tok)"
    "CanonicalSHA256Hex P (kl_podSpecJSON kl (pod_Spec pod)) = Some sh"
    "hash_opt P (map_option (\<lambda>p. cip_spec_json (cip_Spec p)) policy) = Some ph"
    "hash_opt P (map_option (evidence_json kl) (nc_Evidence sel)) = Some eh"
    "minted_for P s k pod sel sh ph eh (as_time rt) tok"
proof -
  from ensures_run [OF reserveTimed_token [OF assms(1)] assms(2)] obtain sh ph eh where
    h: "CanonicalSHA256Hex P (kl_podSpecJSON kl (pod_Spec pod)) = Some sh"
      "hash_opt P (map_option (\<lambda>p. cip_spec_json (cip_Spec p)) policy) = Some ph"
      "hash_opt P (map_option (evidence_json kl) (nc_Evidence sel)) = Some eh"
    and "token_result P s k pod sel sh ph eh (Inr (d, str)) calls" by blast
  then obtain rt tok where t: "(Now, rt) \<in> set calls" "str = Encode tok" "minted_for P s k pod sel sh ph eh (as_time rt) tok"
    unfolding token_result_def by blast
  moreover have "payload_ok (tok_Payload tok)"
    using t(3) assms(4) [OF t(1)] minted_text [OF t(3) assms(3) CanonicalSHA256Hex_valid [OF h(1)]] h hash_opt_valid
    by (auto simp: minted_for_def payload_ok_def payload_times_def elim!: MintE)
  ultimately show thesis using that h by blast
qed

lemma minted_for_fields:
  assumes "minted_for P s k pod sel sh ph eh t tok"
  shows "pl_PodUID (tok_Payload tok) = om_UID (pod_Meta pod)" "pl_PodSpecHash (tok_Payload tok) = sh"
    "pl_NodeIdentity (tok_Payload tok) = node_Name (nc_Node sel)" "pl_EvidenceHash (tok_Payload tok) = eh"
    "pl_PolicyHash (tok_Payload tok) = ph"
    "pl_ModelDigest (tok_Payload tok) = mget (om_Annotations (pod_Meta pod)) ''ai.sovereign.io/model-digest''"
    "pl_ImageDigest (tok_Payload tok) = (case ps_Containers (pod_Spec pod) of [] \<Rightarrow> '''' | c # _ \<Rightarrow> ct_Image c)"
  using assms by (auto simp: minted_for_def elim!: MintE)

text \<open>C6. A scheduler that was started with a key from its environment hands out, with every successful
  reservation, a token that the placement checker accepts under the scheduler's public key exactly until
  the token's last second, and exactly when each thing the caller asks for is what was reserved: the
  pod, the hash of its spec, the node, the hashes of the evidence and of the policy. The checker reads the
  clock and calls nothing else. The strings of the pod and of the node are those the API server serves, so valid UTF-8:
  anything else \<open>encoding/json\<close> would replace in the token.\<close>

theorem reserved_token_verifies:
  assumes "ed25519_ok P" and "getenv ''SCHEDULER_SIGNING_KEY_HEX'' \<noteq> ''''"
    and "run (loadOrGenerateSigningKey P srv getenv) st0 = (Inr (priv, pub), calls0)"
    and "s = scheduler_conf getenv priv pub"
    and "run (reserveTimed P kl srv s pod policy sel) st = (Inr (d, str), calls)" and "api_text pod sel"
    and "\<And>rt. (Now, rt) \<in> set calls \<Longrightarrow> int64 (timeUnix (as_time rt)) \<and> int64 (timeUnix (as_time rt + sc_tokenTTL s))"
  shows "\<exists>rt sh ph eh. (Now, rt) \<in> set calls \<and>
    CanonicalSHA256Hex P (kl_podSpecJSON kl (pod_Spec pod)) = Some sh \<and>
    hash_opt P (map_option (\<lambda>p. cip_spec_json (cip_Spec p)) policy) = Some ph \<and>
    hash_opt P (map_option (evidence_json kl) (nc_Evidence sel)) = Some eh \<and>
    (\<forall>f vsrv vst. vf_token f = str \<longrightarrow> vf_pubKeyHex f = PubKeyToHex pub \<longrightarrow>
       (\<exists>res now. run (verify_placement_main P syn vsrv f) vst = (res, [(Now, now)]) \<and>
          (res = None \<longleftrightarrow> timeUnix (as_time now) \<le> timeUnix (as_time rt + sc_tokenTTL s) \<and>
             (vf_podUID f = '''' \<or> vf_podUID f = om_UID (pod_Meta pod) \<and> vf_podSpecHash f \<in> {'''', sh} \<and>
                vf_node f \<in> {'''', node_Name (nc_Node sel)} \<and> vf_evidenceHash f \<in> {'''', eh} \<and>
                vf_policyHash f \<in> {'''', ph}))))"
proof -
  have k: "sc_signingKey s = Some priv" using assms(4) by simp
  note key = loaded_key [OF assms(1-3)]
  obtain rt sh ph eh tok where t: "(Now, rt) \<in> set calls" "str = Encode tok" "payload_ok (tok_Payload tok)"
    and h: "CanonicalSHA256Hex P (kl_podSpecJSON kl (pod_Spec pod)) = Some sh"
      "hash_opt P (map_option (\<lambda>p. cip_spec_json (cip_Spec p)) policy) = Some ph"
      "hash_opt P (map_option (evidence_json kl) (nc_Evidence sel)) = Some eh"
    and m: "minted_for P s priv pod sel sh ph eh (as_time rt) tok"
    using reserved_token [OF k assms(5, 6, 7)] .
  note c = placement_check.check_minted [OF assms(1) key(1, 2) m [unfolded minted_for_def] t(3)]
  have "pub \<noteq> ''''" using key(3) by (auto simp: PublicKeySize_def)
  then have ne: "TrimSpace str \<noteq> ''''" "TrimSpace (PubKeyToHex pub) \<noteq> ''''"
    using Encode_trimmed [of tok] PubKeyToHex_trimmed [of pub] t(2) by auto
  have "\<exists>res now. run (verify_placement_main P syn vsrv f) vst = (res, [(Now, now)]) \<and>
      (res = None \<longleftrightarrow> timeUnix (as_time now) \<le> timeUnix (as_time rt + sc_tokenTTL s) \<and> asked f (tok_Payload tok))"
    if "vf_token f = str" "vf_pubKeyHex f = PubKeyToHex pub" for f vsrv vst
    using verify_placement_run [OF that(1) ne(1) that(2) ne(2), of P syn vsrv vst] c t(2) by metis
  then show ?thesis using t(1) h unfolding asked_def minted_for_fields [OF m] by blast
qed

text \<open>C7. The same token opens the key release gateway that was started with the scheduler's public key. A
  request that the policy governs and that presents it gets its key, with status 200, exactly when it
  names the pod of the reservation and a key, comes before the token's last second has passed, states
  verified and fresh evidence, no revocation and a positive lifetime, has an evidence hash where an audit
  needs one, and whatever model, image or policy it names is the one the token was minted for. As before, the strings
  of the pod and of the node are valid UTF-8.\<close>

theorem reserved_token_opens_gateway:
  assumes "ed25519_ok P" and "getenv ''SCHEDULER_SIGNING_KEY_HEX'' \<noteq> ''''"
    and "run (loadOrGenerateSigningKey P srv getenv) st0 = (Inr (priv, pub), calls0)"
    and "s = scheduler_conf getenv priv pub"
    and "run (reserveTimed P kl srv s pod policy sel) st = (Inr (d, str), calls)" and "api_text pod sel"
    and "\<And>rt. (Now, rt) \<in> set calls \<Longrightarrow> int64 (timeUnix (as_time rt)) \<and> int64 (timeUnix (as_time rt + sc_tokenTTL s))"
    and "rr_PlacementToken req = str" and "rr_PolicyRequired req" and "int32 (rr_MaxEvidenceAgeSecs req)"
  shows "\<exists>rt ph. (Now, rt) \<in> set calls \<and>
    hash_opt P (map_option (\<lambda>p. cip_spec_json (cip_Spec p)) policy) = Some ph \<and>
    ((\<exists>resp g. handleKeyRelease P syn t1 t2 ''POST'' (Inr req) (new_gateway (PubKeyToHex pub)) = (HttpJson 200 resp, g)) \<longleftrightarrow>
       rr_PodUID req = om_UID (pod_Meta pod) \<and> rr_PodUID req \<noteq> '''' \<and> rr_KeyID req \<noteq> '''' \<and>
       timeUnix t2 \<le> timeUnix (as_time rt + sc_tokenTTL s) \<and>
       0 < rr_PolicyTTLSeconds req \<and> \<not> rr_RevocationActive req \<and> \<not> rr_EvidenceRevoked req \<and> rr_EvidenceVerified req \<and>
       (0 < rr_MaxEvidenceAgeSecs req \<and> rr_EvidenceLastSeen req \<noteq> zeroTime \<longrightarrow>
          t1 - rr_EvidenceLastSeen req \<le> rr_MaxEvidenceAgeSecs req * Second) \<and>
       (rr_PolicyAuditRequired req \<longrightarrow> TrimSpace (rr_EvidenceHash req) \<noteq> '''') \<and>
       agrees (rr_ModelDigest req) (mget (om_Annotations (pod_Meta pod)) ''ai.sovereign.io/model-digest'') \<and>
       agrees (rr_ImageDigest req) (case ps_Containers (pod_Spec pod) of [] \<Rightarrow> '''' | c # _ \<Rightarrow> ct_Image c) \<and>
       agrees (rr_PolicyHash req) ph)"
proof -
  have k: "sc_signingKey s = Some priv" using assms(4) by simp
  note key = loaded_key [OF assms(1-3)]
  obtain rt sh ph eh tok where t: "(Now, rt) \<in> set calls" "str = Encode tok" "payload_ok (tok_Payload tok)"
    and h: "hash_opt P (map_option (\<lambda>p. cip_spec_json (cip_Spec p)) policy) = Some ph"
    and m: "minted_for P s priv pod sel sh ph eh (as_time rt) tok"
    using reserved_token [OF k assms(5, 6, 7)] .
  let ?g = "new_gateway (PubKeyToHex pub)"
  have "pub \<noteq> ''''" using key(3) by (auto simp: PublicKeySize_def)
  then have g: "gw_tokenPub ?g = Some pub"
    using key(3) PubKeyToHex_trimmed(2) [of pub] by (simp add: new_gateway_def PubKeyToHex_def)
  let ?r = "to_request ?g req"
  have r: "?r = ?r\<lparr>rq_PlacementToken := Encode tok, rq_TokenPublicKey := Some pub\<rparr>"
    using assms(8) t(2) g by (simp add: to_request_def)
  have "verifyToken P syn t2 ?r = None \<longleftrightarrow> timeUnix t2 \<le> timeUnix (as_time rt + sc_tokenTTL s) \<and> fits_request ?r (tok_Payload tok)"
    using gateway_check.check_minted [OF assms(1) key(1, 2) m [unfolded minted_for_def] t(3), of syn t2 ?r] r by simp
  then have v: "(\<exists>tok. token_good P syn t2 ?r tok) \<longleftrightarrow>
      timeUnix t2 \<le> timeUnix (as_time rt + sc_tokenTTL s) \<and> fits_request ?r (tok_Payload tok)"
    by (simp add: verifyToken_ok_iff)
  have a: "rs_Allowed (kr_Evaluate P syn t1 t2 ?r) \<longleftrightarrow> releasable P syn t1 t2 ?r"
    using assms(9, 10) by (subst kr_Evaluate_Allowed) (simp_all add: to_request_def)
  have f: "(\<exists>resp g. handleKeyRelease P syn t1 t2 ''POST'' (Inr req) ?g = (HttpJson 200 resp, g)) \<longleftrightarrow>
      rr_PodUID req \<noteq> '''' \<and> rr_KeyID req \<noteq> '''' \<and> rs_Allowed (kr_Evaluate P syn t1 t2 ?r)"
    by (auto simp: handleKeyRelease_def Let_def)
  have "rq_PlacementToken ?r \<noteq> ''''" using assms(8) t(2) by (simp add: to_request_def)
  then have "(\<exists>resp g. handleKeyRelease P syn t1 t2 ''POST'' (Inr req) ?g = (HttpJson 200 resp, g)) \<longleftrightarrow>
      rr_PodUID req \<noteq> '''' \<and> rr_KeyID req \<noteq> '''' \<and> 0 < rr_PolicyTTLSeconds req \<and> \<not> rr_RevocationActive req \<and>
      \<not> rr_EvidenceRevoked req \<and> rr_EvidenceVerified req \<and> evidence_fresh t1 ?r \<and>
      timeUnix t2 \<le> timeUnix (as_time rt + sc_tokenTTL s) \<and> fits_request ?r (tok_Payload tok) \<and>
      (rr_PolicyAuditRequired req \<longrightarrow> TrimSpace (rr_EvidenceHash req) \<noteq> '''')"
    unfolding f a releasable_def v by (simp add: to_request_def)
  then show ?thesis
    using t(1) h by (intro exI [of _ rt] exI [of _ ph])
      (auto simp: to_request_def evidence_fresh_def fits_request_def minted_for_fields [OF m] not_less)
qed

text \<open>The scheduler of the concrete cluster, started with a key.\<close>

definition demo_env :: "string \<Rightarrow> string" where
  "demo_env key = (if key = ''SCHEDULER_SIGNING_KEY_HEX'' then EncodeToString (replicate 32 CHR ''k'') else '''')"

definition demo_sel :: NodeCandidate where
  "demo_sel = \<lparr>nc_Node = hd (cl_Nodes demo_cluster), nc_Evidence = Some demo_ev, nc_Score = 100, nc_Reason = ''''\<rparr>"

definition demo_checked :: "verifyFlags" where
  "demo_checked = \<lparr>vf_token = '''', vf_tokenFile = '''', vf_pubKeyHex = '''', vf_pubKeyFile = '''', vf_podUID = ''uid-1'',
     vf_podSpecHash = ''68'', vf_node = ''node-1'', vf_evidenceHash = '''', vf_policyHash = ''68''\<rparr>"

lemma demo_hash_opt:
  "hash_opt flat_prims (map_option (\<lambda>p. cip_spec_json (cip_Spec p)) (Some demo_cip)) = Some ''68''"
  "hash_opt flat_prims (map_option (evidence_json demo_kl) (nc_Evidence demo_sel)) = Some ''68''"
  by (simp_all add: hash_opt_def demo_hashes demo_sel_def)

lemma demo_reserve:
  assumes "sc_signingKey s = Some k" and "sc_preBindDelay s = 0"
  shows "\<exists>d str calls. run (reserveTimed flat_prims demo_kl demo_srv s demo_pod (Some demo_cip) demo_sel) () =
    (Inr (d, str), calls) \<and> (\<forall>rt. (Now, rt) \<in> set calls \<longrightarrow> rt = RTime (60 * Second))"
proof -
  have pol: "TrimSpace (mget (om_Annotations (pod_Meta demo_pod)) ''ai.sovereign.io/policy-hash'') = ''68''"
    by (simp add: demo_pod_def mget_def trim_graphic_lits)
  have uid: "TrimSpace (om_UID (pod_Meta demo_pod)) \<noteq> ''''" by (simp add: demo_pod_def trim_graphic_lits)
  have ev: "\<not> evt_Revoked (ev_Status demo_ev)" by (simp add: demo_ev_def zero_ev_status_def)
  have sel: "nc_Evidence demo_sel = Some demo_ev" by (simp add: demo_sel_def)
  show ?thesis
    unfolding reserveTimed_def demo_hash_opt demo_hashes
    using assms uid pol ev sel
    by (simp add: reserve_checked_def reserve_final_def preBind_def recheck_policy_def recheck_evidence_def mint_for_def
        createOrUpdatePlacementDecision_def Mint_def Let_def run_def demo_srv_def demo_hashes demo_expected applyBaseDecision_def
        set_verdict_def drop_token_def split: option.split)
qed

lemma demo_text: "api_text demo_pod demo_sel"
  by (simp add: api_text_def demo_pod_def demo_sel_def demo_cluster_def mget_def)

lemma demo_prims_flat: "ed25519_ok flat_prims"
  using demo_prims_ok by (simp add: ed25519_ok_def flat_prims_def)

lemma demo_env_key: "demo_env ''SCHEDULER_SIGNING_KEY_HEX'' \<noteq> ''''"
  using EncodeToString_length [of "replicate 32 CHR ''k''"] by (auto simp: demo_env_def)

lemma demo_load:
  "run (loadOrGenerateSigningKey flat_prims demo_srv demo_env) () = (Inr (replicate 64 CHR ''k'', replicate 32 CHR ''k''), [])"
  using demo_env_key
  by (simp add: loadOrGenerateSigningKey_def Let_def run_def flat_prims_def demo_prims_def)
    (simp add: demo_env_def SeedSize_def replicate_add [symmetric])

lemma demo_conf:
  "sc_preBindDelay (scheduler_conf demo_env priv pub) = 0" "sc_tokenTTL (scheduler_conf demo_env priv pub) = 5 * 60 * Second"
  by (simp_all add: scheduler_conf_def env_int_def demo_env_def Let_def NewScheduler_def Second_def)

theorem reserved_token_verifies_witness:
  "\<exists>d str calls now. let s = scheduler_conf demo_env (replicate 64 CHR ''k'') (replicate 32 CHR ''k'') in
     run (reserveTimed flat_prims demo_kl demo_srv s demo_pod (Some demo_cip) demo_sel) () = (Inr (d, str), calls) \<and>
     run (verify_placement_main flat_prims (\<lambda>_. '''') demo_srv
       (demo_checked\<lparr>vf_token := str, vf_pubKeyHex := PubKeyToHex (replicate 32 CHR ''k'')\<rparr>)) () = (None, [(Now, now)])"
proof -
  let ?seed = "replicate 32 CHR ''k''" and ?key = "replicate 64 CHR ''k''"
  define s where "s = scheduler_conf demo_env ?key ?seed"
  have s: "sc_signingKey s = Some ?key" "sc_preBindDelay s = 0" "sc_tokenTTL s = 5 * 60 * Second"
    by (simp_all add: s_def demo_conf)
  from demo_reserve [OF s(1, 2)] obtain d str calls where
    r: "run (reserveTimed flat_prims demo_kl demo_srv s demo_pod (Some demo_cip) demo_sel) () = (Inr (d, str), calls)"
      "\<And>rt. (Now, rt) \<in> set calls \<Longrightarrow> rt = RTime (60 * Second)" by blast
  have now: "int64 (timeUnix (as_time rt)) \<and> int64 (timeUnix (as_time rt + sc_tokenTTL s))" if "(Now, rt) \<in> set calls" for rt
    using r(2) [OF that] s(3) by (simp add: int64_def timeUnix_def Second_def)
  let ?f = "demo_checked\<lparr>vf_token := str, vf_pubKeyHex := PubKeyToHex ?seed\<rparr>"
  have ne: "TrimSpace str \<noteq> ''''" "TrimSpace (PubKeyToHex ?seed) \<noteq> ''''"
    using ensures_run [OF reserveTimed_token [OF s(1)] r(1)] Encode_trimmed PubKeyToHex_trimmed [of ?seed]
    by (auto simp: token_result_def)
  from reserved_token_verifies [OF demo_prims_flat demo_env_key demo_load s_def r(1) demo_text now, of "\<lambda>_. ''''"]
  have "\<exists>rt sh ph eh. (Now, rt) \<in> set calls \<and> Some ''68'' = Some sh \<and> Some ''68'' = Some ph \<and> Some ''68'' = Some eh \<and>
     (\<forall>f (vsrv :: unit server) vst. vf_token f = str \<longrightarrow> vf_pubKeyHex f = PubKeyToHex ?seed \<longrightarrow>
      (\<exists>res now. run (verify_placement_main flat_prims (\<lambda>_. '''') vsrv f) vst = (res, [(Now, now)]) \<and>
        (res = None \<longleftrightarrow> timeUnix (as_time now) \<le> timeUnix (as_time rt + sc_tokenTTL s) \<and>
           (vf_podUID f = '''' \<or> vf_podUID f = om_UID (pod_Meta demo_pod) \<and> vf_podSpecHash f \<in> {'''', sh} \<and>
              vf_node f \<in> {'''', node_Name (nc_Node demo_sel)} \<and> vf_evidenceHash f \<in> {'''', eh} \<and>
              vf_policyHash f \<in> {'''', ph}))))"
    unfolding demo_hashes demo_hash_opt .
  then obtain rt sh ph eh where rt: "(Now, rt) \<in> set calls" and h: "Some ''68'' = Some sh" "Some ''68'' = Some ph"
    and v: "\<And>f (vsrv :: unit server) vst. vf_token f = str \<Longrightarrow> vf_pubKeyHex f = PubKeyToHex ?seed \<Longrightarrow>
      (\<exists>res now. run (verify_placement_main flat_prims (\<lambda>_. '''') vsrv f) vst = (res, [(Now, now)]) \<and>
        (res = None \<longleftrightarrow> timeUnix (as_time now) \<le> timeUnix (as_time rt + sc_tokenTTL s) \<and>
           (vf_podUID f = '''' \<or> vf_podUID f = om_UID (pod_Meta demo_pod) \<and> vf_podSpecHash f \<in> {'''', sh} \<and>
              vf_node f \<in> {'''', node_Name (nc_Node demo_sel)} \<and> vf_evidenceHash f \<in> {'''', eh} \<and>
              vf_policyHash f \<in> {'''', ph})))" by (elim exE conjE) blast
  from v [of ?f demo_srv "()"] obtain res now' where
    w: "run (verify_placement_main flat_prims (\<lambda>_. '''') demo_srv ?f) () = (res, [(Now, now')])"
      "res = None \<longleftrightarrow> timeUnix (as_time now') \<le> timeUnix (60 * Second + sc_tokenTTL s)"
    using h r(2) [OF rt] by (auto simp: demo_checked_def demo_pod_def demo_sel_def demo_cluster_def)
  have "now' = RTime (60 * Second)"
    using w(1) verify_placement_run [of ?f str _ flat_prims "\<lambda>_. ''''" demo_srv "()"] ne by (simp add: demo_srv_def)
  then have "res = None" using w(2) s(3) by (simp add: timeUnix_def Second_def)
  then show ?thesis using r(1) w(1) unfolding s_def Let_def by blast
qed

definition demo_release :: "string \<Rightarrow> releaseRequest" where
  "demo_release str =
     \<lparr>rr_Namespace = ''ai'', rr_PodName = ''llm'', rr_PodUID = ''uid-1'', rr_KeyID = ''demo-key-1'', rr_ModelDigest = '''',
      rr_ImageDigest = '''', rr_PolicyHash = ''68'', rr_EvidenceHash = '''', rr_PlacementToken = str, rr_EvidenceVerified = True,
      rr_EvidenceRevoked = False, rr_EvidenceLastSeen = 0, rr_MaxEvidenceAgeSecs = 300, rr_PolicyRequired = True,
      rr_PolicyTTLSeconds = 60, rr_PolicyAuditRequired = False, rr_RevocationActive = False\<rparr>"

theorem reserved_token_opens_gateway_witness:
  "\<exists>d str calls resp g. let s = scheduler_conf demo_env (replicate 64 CHR ''k'') (replicate 32 CHR ''k'') in
     run (reserveTimed flat_prims demo_kl demo_srv s demo_pod (Some demo_cip) demo_sel) () = (Inr (d, str), calls) \<and>
     handleKeyRelease flat_prims (\<lambda>_. '''') (60 * Second) (60 * Second) ''POST'' (Inr (demo_release str))
       (new_gateway (PubKeyToHex (replicate 32 CHR ''k''))) = (HttpJson 200 resp, g)"
proof -
  let ?seed = "replicate 32 CHR ''k''" and ?key = "replicate 64 CHR ''k''"
  define s where "s = scheduler_conf demo_env ?key ?seed"
  have s: "sc_signingKey s = Some ?key" "sc_preBindDelay s = 0" "sc_tokenTTL s = 5 * 60 * Second"
    by (simp_all add: s_def demo_conf)
  from demo_reserve [OF s(1, 2)] obtain d str calls where
    r: "run (reserveTimed flat_prims demo_kl demo_srv s demo_pod (Some demo_cip) demo_sel) () = (Inr (d, str), calls)"
      "\<And>rt. (Now, rt) \<in> set calls \<Longrightarrow> rt = RTime (60 * Second)" by blast
  have now: "int64 (timeUnix (as_time rt)) \<and> int64 (timeUnix (as_time rt + sc_tokenTTL s))" if "(Now, rt) \<in> set calls" for rt
    using r(2) [OF that] s(3) by (simp add: int64_def timeUnix_def Second_def)
  have q: "rr_PlacementToken (demo_release str) = str" "rr_PolicyRequired (demo_release str)"
    "int32 (rr_MaxEvidenceAgeSecs (demo_release str))" by (simp_all add: demo_release_def int32_def)
  from reserved_token_opens_gateway [OF demo_prims_flat demo_env_key demo_load s_def r(1) demo_text now q,
      of "\<lambda>_. ''''" "60 * Second" "60 * Second"]
  have "\<exists>resp g. handleKeyRelease flat_prims (\<lambda>_. '''') (60 * Second) (60 * Second) ''POST'' (Inr (demo_release str))
       (new_gateway (PubKeyToHex ?seed)) = (HttpJson 200 resp, g)"
    unfolding demo_hash_opt using s(3)
    by (auto dest!: r(2) simp: demo_release_def demo_pod_def mget_def agrees_def timeUnix_def Second_def)
  with r(1) show ?thesis unfolding s_def Let_def by blast
qed

end
