(* ===== verification/Go_Heap.thy ===== *)
theory Go_Heap
  imports Prelude
begin

text \<open>
  Go values with references, and what it means to copy one deeply.

  The other theories treat objects as values; this one is about their representation in memory, where two
  objects can share parts. A value is plain, a struct of fields, or a reference: a pointer to a cell or a
  slice, which is a reference to an array. Memory gives the contents of every address; addresses from
  \<open>lim\<close> on are free. The type of a value is a \<open>shape\<close>. \<open>den m R s v t\<close> says that in memory \<open>m\<close> the value \<open>v\<close> of
  shape \<open>s\<close> has the contents \<open>t\<close>, a tree, and that everything reachable from it lies in the region \<open>R\<close>.

  A copier returns the copy and the memory after the allocations it made. It is \<open>deep\<close> for a shape when it
  changes no old address, and its result has the same contents in new memory only. The combinators are the
  statements of which generated copy functions consist.
\<close>

datatype gov =
    Plain string
  | Struct "(string \<times> gov) list"
  | Nil_ref
  | Ptr nat
  | Slice nat

datatype cell = Cell gov | Arr "gov list"

record memory =
  cells :: "nat \<Rightarrow> cell"
  lim :: nat

datatype shape =
    SPlain
  | SStruct "(string \<times> shape) list"
  | SPtr shape
  | SSlice shape

datatype tree =
    TPlain string
  | TStruct "tree list"
  | TNil
  | TPtr tree
  | TSlice "tree list"

type_synonym copier = "gov \<Rightarrow> memory \<Rightarrow> gov \<times> memory"

section \<open>Contents\<close>

inductive den :: "memory \<Rightarrow> nat set \<Rightarrow> shape \<Rightarrow> gov \<Rightarrow> tree \<Rightarrow> bool" for m R where
  plain: "den m R SPlain (Plain x) (TPlain x)"
| struct: "map fst xs = map fst fs \<Longrightarrow> length ts = length fs \<Longrightarrow>
    (\<And>i. i < length fs \<Longrightarrow> den m R (snd (fs ! i)) (snd (xs ! i)) (ts ! i)) \<Longrightarrow>
    den m R (SStruct fs) (Struct xs) (TStruct ts)"
| nil_ptr: "den m R (SPtr s) Nil_ref TNil"
| ptr: "a \<in> R \<Longrightarrow> cells m a = Cell x \<Longrightarrow> den m R s x t \<Longrightarrow> den m R (SPtr s) (Ptr a) (TPtr t)"
| nil_slice: "den m R (SSlice s) Nil_ref TNil"
| slice: "a \<in> R \<Longrightarrow> cells m a = Arr xs \<Longrightarrow> list_all2 (den m R s) xs ts \<Longrightarrow> den m R (SSlice s) (Slice a) (TSlice ts)"

fun flat :: "shape \<Rightarrow> bool" where
  "flat SPlain = True"
| "flat (SStruct fs) = (\<forall>p\<in>set fs. flat (snd p))"
| "flat (SPtr s) = False"
| "flat (SSlice s) = False"

lemma den_frame: "den m R s v t \<Longrightarrow> (\<forall>a\<in>R. cells m' a = cells m a) \<Longrightarrow> R \<subseteq> R' \<Longrightarrow> den m' R' s v t"
proof (induction rule: den.induct)
  case (slice a xs s ts)
  have "list_all2 (den m' R' s) xs ts" using slice by (auto elim: list_all2_mono)
  then show ?case using slice by (auto intro: den.slice)
qed (auto intro: den.intros)

lemma den_list_frame:
  "list_all2 (den m R s) xs ts \<Longrightarrow> (\<forall>a\<in>R. cells m' a = cells m a) \<Longrightarrow> R \<subseteq> R' \<Longrightarrow> list_all2 (den m' R' s) xs ts"
  by (erule list_all2_mono) (rule den_frame)

lemma den_flat: "den m R s v t \<Longrightarrow> flat s \<Longrightarrow> den m' R' s v t"
proof (induction rule: den.induct)
  case (struct xs fs ts)
  then show ?case by (intro den.struct) (auto simp: nth_mem)
qed (auto intro: den.intros)

section \<open>Copiers\<close>

definition deep :: "copier \<Rightarrow> shape \<Rightarrow> bool" where
  "deep c s \<longleftrightarrow> (\<forall>m R v t v' m'. R \<subseteq> {..<lim m} \<longrightarrow> den m R s v t \<longrightarrow> c v m = (v', m') \<longrightarrow>
     lim m \<le> lim m' \<and> (\<forall>a<lim m. cells m' a = cells m a) \<and> den m' {lim m..<lim m'} s v' t)"

lemma deepI:
  assumes "\<And>m R v t v' m'. R \<subseteq> {..<lim m} \<Longrightarrow> den m R s v t \<Longrightarrow> c v m = (v', m') \<Longrightarrow>
    lim m \<le> lim m' \<and> (\<forall>a<lim m. cells m' a = cells m a) \<and> den m' {lim m..<lim m'} s v' t"
  shows "deep c s"
  using assms unfolding deep_def by blast

lemma deepD:
  assumes "deep c s" and "R \<subseteq> {..<lim m}" and "den m R s v t" and "c v m = (v', m')"
  shows "lim m \<le> lim m'" "\<And>a. a < lim m \<Longrightarrow> cells m' a = cells m a" "den m' {lim m..<lim m'} s v' t"
  using assms(1) [unfolded deep_def, rule_format, OF assms(2,3,4)] by blast+

text \<open>\<open>out.F = in.F\<close>\<close>

definition assign :: copier where
  "assign v m = (v, m)"

text \<open>\<open>new(T)\<close> and \<open>make([]T, n)\<close>: the next free address.\<close>

definition alloc :: "cell \<Rightarrow> memory \<Rightarrow> nat \<times> memory" where
  "alloc c m = (lim m, m\<lparr>cells := (cells m)(lim m := c), lim := lim m + 1\<rparr>)"

definition store :: "nat \<Rightarrow> cell \<Rightarrow> memory \<Rightarrow> memory" where
  "store a c m = m\<lparr>cells := (cells m)(a := c)\<rparr>"

text \<open>\<open>if in != nil { out = new(T); in.DeepCopyInto(out) }\<close>, also the method \<open>DeepCopy\<close>; with \<open>assign\<close> the
  body is \<open>**out = **in\<close>. A nil pointer stays nil.\<close>

definition pointer :: "copier \<Rightarrow> copier" where
  "pointer c v m =
     (case v of
        Ptr a \<Rightarrow> (case cells m a of
          Cell x \<Rightarrow> let (b, m1) = alloc (Cell x) m; (y, m2) = c x m1 in (Ptr b, store b (Cell y) m2)
        | Arr xs \<Rightarrow> (v, m))
      | _ \<Rightarrow> (v, m))"

text \<open>\<open>for i := range *in { (*in)[i].DeepCopyInto(&(*out)[i]) }\<close>\<close>

fun copies :: "copier \<Rightarrow> gov list \<Rightarrow> memory \<Rightarrow> gov list \<times> memory" where
  "copies c [] m = ([], m)"
| "copies c (x # xs) m = (let (y, m1) = c x m; (ys, m2) = copies c xs m1 in (y # ys, m2))"

text \<open>\<open>if in != nil { out = make([]T, len(in)); ... }\<close>; with \<open>assign\<close> the body is \<open>copy(out, in)\<close>.\<close>

definition elements :: "copier \<Rightarrow> copier" where
  "elements c v m =
     (case v of
        Slice a \<Rightarrow> (case cells m a of
          Arr xs \<Rightarrow> let (b, m1) = alloc (Arr (replicate (length xs) Nil_ref)) m; (ys, m2) = copies c xs m1 in
            (Slice b, store b (Arr ys) m2)
        | Cell x \<Rightarrow> (v, m))
      | _ \<Rightarrow> (v, m))"

text \<open>\<open>*out = *in\<close> followed by a statement for each of the listed fields.\<close>

definition set_field :: "string \<Rightarrow> gov \<Rightarrow> (string \<times> gov) list \<Rightarrow> (string \<times> gov) list" where
  "set_field f y xs = map (\<lambda>p. if fst p = f then (f, y) else p) xs"

fun exec :: "(string \<times> copier) list \<Rightarrow> (string \<times> gov) list \<Rightarrow> (string \<times> gov) list \<Rightarrow> memory \<Rightarrow>
    (string \<times> gov) list \<times> memory" where
  "exec [] xs out m = (out, m)"
| "exec ((f, c) # ss) xs out m =
     (case map_of xs f of
        None \<Rightarrow> exec ss xs out m
      | Some x \<Rightarrow> let (y, m1) = c x m in exec ss xs (set_field f y out) m1)"

definition struct_copy :: "(string \<times> copier) list \<Rightarrow> copier" where
  "struct_copy ss v m = (case v of Struct xs \<Rightarrow> let (ys, m') = exec ss xs xs m in (Struct ys, m') | _ \<Rightarrow> (v, m))"

section \<open>Statements are deep\<close>

lemma assign_deep: "flat s \<Longrightarrow> deep assign s"
  by (rule deepI) (auto simp: assign_def intro: den_flat)

lemma alloc_simps [simp]:
  "lim (snd (alloc c m)) = Suc (lim m)" "cells (snd (alloc c m)) a = (if a = lim m then c else cells m a)"
  "fst (alloc c m) = lim m" "lim (store a c m) = lim m" "cells (store a c m) b = (if b = a then c else cells m b)"
  by (simp_all add: alloc_def store_def)

lemma pointer_deep: "deep c s \<Longrightarrow> deep (pointer c) (SPtr s)"
proof (rule deepI)
  fix m R v t v' m'
  assume c: "deep c s" and R: "R \<subseteq> {..<lim m}" and d: "den m R (SPtr s) v t" and p: "pointer c v m = (v', m')"
  from d show "lim m \<le> lim m' \<and> (\<forall>a<lim m. cells m' a = cells m a) \<and> den m' {lim m..<lim m'} (SPtr s) v' t"
  proof cases
    case nil_ptr
    then show ?thesis using p by (auto simp: pointer_def intro: den.nil_ptr)
  next
    case (ptr a x t')
    let ?m1 = "snd (alloc (Cell x) m)"
    obtain y m2 where y: "c x ?m1 = (y, m2)" by (cases "c x ?m1")
    have out: "v' = Ptr (lim m)" "m' = store (lim m) (Cell y) m2"
      using p ptr y by (auto simp: pointer_def Let_def split_beta)
    have "den ?m1 R s x t'" using R by (intro den_frame [OF ptr(5)]) auto
    moreover have R': "R \<subseteq> {..<lim ?m1}" using R by auto
    ultimately have m2: "Suc (lim m) \<le> lim m2" "\<And>a. a < Suc (lim m) \<Longrightarrow> cells m2 a = cells ?m1 a"
      "den m2 {Suc (lim m)..<lim m2} s y t'" using deepD [OF c R' _ y, of t'] by auto
    have "den m' {lim m..<lim m'} s y t'" using m2(1) out(2) by (intro den_frame [OF m2(3)]) auto
    then show ?thesis using m2 out ptr(1,2) by (auto intro!: den.ptr)
  qed
qed

lemma copies_deep:
  assumes "deep c s" and "R \<subseteq> {..<lim m}" and "list_all2 (den m R s) xs ts" and "copies c xs m = (ys, m')"
  shows "lim m \<le> lim m' \<and> (\<forall>a<lim m. cells m' a = cells m a) \<and> list_all2 (den m' {lim m..<lim m'} s) ys ts"
  using assms(2-)
proof (induction xs arbitrary: ts m ys)
  case (Cons x xs)
  obtain t us where ts: "ts = t # us" "den m R s x t" "list_all2 (den m R s) xs us"
    using Cons.prems(2) by (auto simp: list_all2_Cons1)
  obtain y m1 where y: "c x m = (y, m1)" by (cases "c x m")
  then obtain zs where zs: "copies c xs m1 = (zs, m')" "ys = y # zs"
    using Cons.prems(3) by (cases "copies c xs m1") auto
  note d = deepD [OF assms(1) Cons.prems(1) ts(2) y]
  have "list_all2 (den m1 R s) xs us"
    using Cons.prems(1) d(2) by (intro den_list_frame [OF ts(3)]) auto
  moreover have R': "R \<subseteq> {..<lim m1}" using Cons.prems(1) d(1) by auto
  ultimately have i: "lim m1 \<le> lim m'" "\<forall>a<lim m1. cells m' a = cells m1 a"
    "list_all2 (den m' {lim m1..<lim m'} s) zs us" using Cons.IH [OF R' _ zs(1), of us] by simp_all
  have "list_all2 (den m' {lim m..<lim m'} s) zs us"
    using d(1) by (intro den_list_frame [OF i(3)]) auto
  moreover have "den m' {lim m..<lim m'} s y t" using i(1,2) by (intro den_frame [OF d(3)]) auto
  ultimately show ?case using ts(1) zs(2) i d by auto
qed simp

lemma elements_deep: "deep c s \<Longrightarrow> deep (elements c) (SSlice s)"
proof (rule deepI)
  fix m R v t v' m'
  assume c: "deep c s" and R: "R \<subseteq> {..<lim m}" and d: "den m R (SSlice s) v t" and p: "elements c v m = (v', m')"
  from d show "lim m \<le> lim m' \<and> (\<forall>a<lim m. cells m' a = cells m a) \<and> den m' {lim m..<lim m'} (SSlice s) v' t"
  proof cases
    case nil_slice
    then show ?thesis using p by (auto simp: elements_def intro: den.nil_slice)
  next
    case (slice a xs ts)
    let ?m1 = "snd (alloc (Arr (replicate (length xs) Nil_ref)) m)"
    obtain ys m2 where y: "copies c xs ?m1 = (ys, m2)" by (cases "copies c xs ?m1")
    have out: "v' = Slice (lim m)" "m' = store (lim m) (Arr ys) m2"
      using p slice y by (auto simp: elements_def Let_def split_beta)
    have "list_all2 (den ?m1 R s) xs ts" 
    using R by (intro den_list_frame [OF slice(5)]) auto
    moreover have R': "R \<subseteq> {..<lim ?m1}" using R by auto
    ultimately have m2: "Suc (lim m) \<le> lim m2" "\<forall>a<Suc (lim m). cells m2 a = cells ?m1 a"
      "list_all2 (den m2 {Suc (lim m)..<lim m2} s) ys ts" using copies_deep [OF c R' _ y, of ts] by simp_all
    have "list_all2 (den m' {lim m..<lim m'} s) ys ts"
      
    using m2(1) out(2) by (intro den_list_frame [OF m2(3)]) auto
    then show ?thesis using m2 out slice(1,2) by (auto intro!: den.slice)
  qed
qed

text \<open>Structs: every field that is not flat has a statement that copies it deeply.\<close>

lemma set_field_names [simp]: "map fst (set_field f y xs) = map fst xs" "length (set_field f y xs) = length xs"
  by (simp_all add: set_field_def)

lemma set_field_nth: "i < length xs \<Longrightarrow> snd (set_field f y xs ! i) = (if fst (xs ! i) = f then y else snd (xs ! i))"
  by (simp add: set_field_def)

lemma exec_deep:
  assumes names: "map fst xs = map fst fs" "distinct (map fst fs)" and R: "R \<subseteq> {..<L}"
    and "\<forall>i<length fs. \<forall>c. (fst (fs ! i), c) \<in> set ss \<longrightarrow> deep c (snd (fs ! i))"
    and "\<forall>i<length fs. den m R (snd (fs ! i)) (snd (xs ! i)) (ts ! i)"
    and "map fst out = map fst fs" and "L \<le> lim m" and "exec ss xs out m = (ys, m')"
  shows "lim m \<le> lim m' \<and> (\<forall>a<lim m. cells m' a = cells m a) \<and> map fst ys = map fst fs \<and>
    (\<forall>i<length fs. fst (fs ! i) \<in> fst ` set ss \<or> den m {L..<lim m} (snd (fs ! i)) (snd (out ! i)) (ts ! i) \<longrightarrow>
       den m' {L..<lim m'} (snd (fs ! i)) (snd (ys ! i)) (ts ! i))"
  using assms(4-)
proof (induction ss arbitrary: out m)
  case Nil
  then show ?case by auto
next
  case (Cons fc ss)
  obtain f c where fc: "fc = (f, c)" by (cases fc)
  have len: "length xs = length fs" "length out = length fs"
    using names(1) Cons.prems(3) by (metis length_map)+
  have nm: "fst (xs ! i) = fst (fs ! i)" "fst (out ! i) = fst (fs ! i)" if "i < length fs" for i
    using that len names(1) Cons.prems(3) by (metis nth_map)+
  show ?case
  proof (cases "map_of xs f")
    case None
    then have "fst (fs ! i) \<noteq> f" if "i < length fs" for i
      using that len nm(1) [OF that] by (auto simp: map_of_eq_None_iff image_iff) (metis nth_mem)
    then show ?thesis using Cons.IH [of m out] Cons.prems None fc by auto
  next
    case (Some x)
    then obtain j where j: "j < length fs" "xs ! j = (f, x)" by (metis in_set_conv_nth len(1) map_of_SomeD)
    then have fj: "fst (fs ! j) = f" using nm(1) by force
    obtain y m1 where y: "c x m = (y, m1)" by (cases "c x m")
    have "deep c (snd (fs ! j))" using Cons.prems(1) j(1) fj fc by auto
    moreover have "R \<subseteq> {..<lim m}" using R Cons.prems(4) by auto
    moreover have "den m R (snd (fs ! j)) x (ts ! j)" using Cons.prems(2) j by force
    ultimately have d: "lim m \<le> lim m1" "\<forall>a<lim m. cells m1 a = cells m a" "den m1 {lim m..<lim m1} (snd (fs ! j)) y (ts ! j)"
      using y deepD [of c "snd (fs ! j)" R m x "ts ! j" y m1] by blast+
    have out1: "den m1 {L..<lim m1} (snd (fs ! i)) (snd (set_field f y out ! i)) (ts ! i)"
      if "i < length fs" "fst (fs ! i) = f \<or> den m {L..<lim m} (snd (fs ! i)) (snd (out ! i)) (ts ! i)" for i
    proof (cases "fst (fs ! i) = f")
      case True
      then have "i = j" using names(2) that(1) j(1) fj by (metis distinct_conv_nth length_map nth_map)
      then show ?thesis
        using True that(1) len nm(2) Cons.prems(4) by (auto simp: set_field_nth intro: den_frame [OF d(3)])
    next
      case False
      then have "den m1 {L..<lim m1} (snd (fs ! i)) (snd (out ! i)) (ts ! i)"
        using that(2) d(1,2) by (auto intro: den_frame)
      then show ?thesis using False that(1) len nm(2) by (simp add: set_field_nth)
    qed
    have "\<forall>i<length fs. den m1 R (snd (fs ! i)) (snd (xs ! i)) (ts ! i)"
      using Cons.prems(2,4) d(2) R by (fastforce intro: den_frame)
    then have "lim m1 \<le> lim m' \<and> (\<forall>a<lim m1. cells m' a = cells m1 a) \<and> map fst ys = map fst fs \<and>
      (\<forall>i<length fs. fst (fs ! i) \<in> fst ` set ss \<or> den m1 {L..<lim m1} (snd (fs ! i)) (snd (set_field f y out ! i)) (ts ! i) \<longrightarrow>
         den m' {L..<lim m'} (snd (fs ! i)) (snd (ys ! i)) (ts ! i))"
      using Cons.prems d(1) Some y fc by (intro Cons.IH) auto
    then show ?thesis using d(1,2) out1 fc by auto
  qed
qed

lemma struct_copy_deep:
  assumes "distinct (map fst fs)"
    and "\<forall>i<length fs. (\<forall>c. (fst (fs ! i), c) \<in> set ss \<longrightarrow> deep c (snd (fs ! i))) \<and>
           (fst (fs ! i) \<in> fst ` set ss \<or> flat (snd (fs ! i)))"
  shows "deep (struct_copy ss) (SStruct fs)"
proof (rule deepI)
  fix m R v t v' m'
  assume R: "R \<subseteq> {..<lim m}" and d: "den m R (SStruct fs) v t" and p: "struct_copy ss v m = (v', m')"
  from d show "lim m \<le> lim m' \<and> (\<forall>a<lim m. cells m' a = cells m a) \<and> den m' {lim m..<lim m'} (SStruct fs) v' t"
  proof cases
    case (struct xs ts)
    obtain ys where ys: "exec ss xs xs m = (ys, m')" "v' = Struct ys"
      using p struct(1) by (auto simp: struct_copy_def split: prod.splits)
    have f: "den m {lim m..<lim m} (snd (fs ! i)) (snd (xs ! i)) (ts ! i)"
      if "i < length fs" "fst (fs ! i) \<notin> fst ` set ss" for i
      using assms(2) that struct(5) den_flat by blast
    have "lim m \<le> lim m' \<and> (\<forall>a<lim m. cells m' a = cells m a) \<and> map fst ys = map fst fs \<and>
      (\<forall>i<length fs. fst (fs ! i) \<in> fst ` set ss \<or> den m {lim m..<lim m} (snd (fs ! i)) (snd (xs ! i)) (ts ! i) \<longrightarrow>
         den m' {lim m..<lim m'} (snd (fs ! i)) (snd (ys ! i)) (ts ! i))"
      using assms struct(3,5) R ys(1) by (intro exec_deep [where R = R and xs = xs and ss = ss]) auto
    then show ?thesis using ys(2) struct(2,4) f by (auto intro!: den.struct)
  qed
qed

lemma struct_copy_deepI:
  assumes "distinct (map fst fs)" and "distinct (map fst ss)"
    and "\<forall>p\<in>set fs. case map_of ss (fst p) of None \<Rightarrow> flat (snd p) | Some c \<Rightarrow> deep c (snd p)"
  shows "deep (struct_copy ss) (SStruct fs)"
proof (rule struct_copy_deep [OF assms(1)], intro allI impI)
  fix i
  assume "i < length fs"
  then have "fs ! i \<in> set fs" by simp
  with assms(3) have c: "case map_of ss (fst (fs ! i)) of None \<Rightarrow> flat (snd (fs ! i)) | Some c \<Rightarrow> deep c (snd (fs ! i))" by blast
  show "(\<forall>c. (fst (fs ! i), c) \<in> set ss \<longrightarrow> deep c (snd (fs ! i))) \<and> (fst (fs ! i) \<in> fst ` set ss \<or> flat (snd (fs ! i)))"
  proof (cases "map_of ss (fst (fs ! i))")
    case None
    then show ?thesis using c map_of_eq_None_iff [of ss "fst (fs ! i)"] by force
  next
    case (Some c0)
    have "fst (fs ! i) \<in> fst ` set ss" using imageI [OF map_of_SomeD [OF Some], of fst] by simp
    moreover have "c1 = c0" if "(fst (fs ! i), c1) \<in> set ss" for c1
      using map_of_is_SomeI [OF assms(2) that] Some by simp
    ultimately show ?thesis using c Some by auto
  qed
qed

section \<open>Reference\<close>

text \<open>Copying by shape, field by field: what a generated function amounts to.\<close>

primrec copy_shape :: "shape \<Rightarrow> copier" where
  "copy_shape SPlain = assign"
| "copy_shape (SStruct fs) = struct_copy (map (map_prod id copy_shape) fs)"
| "copy_shape (SPtr s) = pointer (copy_shape s)"
| "copy_shape (SSlice s) = elements (copy_shape s)"

fun distinct_fields :: "shape \<Rightarrow> bool" where
  "distinct_fields SPlain = True"
| "distinct_fields (SStruct fs) = (distinct (map fst fs) \<and> (\<forall>p\<in>set fs. distinct_fields (snd p)))"
| "distinct_fields (SPtr s) = distinct_fields s"
| "distinct_fields (SSlice s) = distinct_fields s"

lemma copy_shape_deep: "distinct_fields s \<Longrightarrow> deep (copy_shape s) s"
proof (induction s)
  case (SStruct fs)
  have "deep (struct_copy (map (map_prod id copy_shape) fs)) (SStruct fs)"
  proof (rule struct_copy_deepI)
    show "\<forall>p\<in>set fs. case map_of (map (map_prod id copy_shape) fs) (fst p) of None \<Rightarrow> flat (snd p) | Some c \<Rightarrow> deep c (snd p)"
    proof
      fix p
      assume p: "p \<in> set fs"
      have "map (map_prod id copy_shape) fs = map (\<lambda>(k, v). (k, copy_shape v)) fs" by (simp add: map_prod_def)
      moreover have "map_of fs (fst p) = Some (snd p)" using p SStruct.prems by simp
      ultimately have "map_of (map (map_prod id copy_shape) fs) (fst p) = Some (copy_shape (snd p))" by (simp only: map_of_map) simp
      moreover have "deep (copy_shape (snd p)) (snd p)" using SStruct.IH [of p "snd p"] SStruct.prems p by (cases p) auto
      ultimately show "case map_of (map (map_prod id copy_shape) fs) (fst p) of None \<Rightarrow> flat (snd p) | Some c \<Rightarrow> deep c (snd p)" by simp
    qed
  qed (use SStruct.prems in \<open>simp_all add: comp_def\<close>)
  then show ?case by simp
qed (simp_all add: assign_deep pointer_deep elements_deep)

section \<open>Isolation\<close>

definition writes :: "(nat \<times> cell) list \<Rightarrow> memory \<Rightarrow> memory" where
  "writes ws m = fold (\<lambda>(a, c). store a c) ws m"

lemma writes_other: "\<forall>w\<in>set ws. fst w \<noteq> a \<Longrightarrow> cells (writes ws m) a = cells m a"
  by (induction ws arbitrary: m) (auto simp: writes_def)

text \<open>After a deep copy, writing to the copy leaves the original as it was, and writing to the original leaves
  the copy.\<close>

lemma deep_isolated:
  assumes "deep c s" and "den m {..<lim m} s v t" and "c v m = (v', m')"
  shows "den m' {lim m..<lim m'} s v' t"
    "(\<forall>w\<in>set ws. lim m \<le> fst w) \<Longrightarrow> den (writes ws m') {..<lim m} s v t"
    "(\<forall>w\<in>set ws. fst w < lim m) \<Longrightarrow> den (writes ws m') {lim m..<lim m'} s v' t"
proof -
  note d = deepD [OF assms(1) subset_refl assms(2,3)]
  show "den m' {lim m..<lim m'} s v' t" by (rule d(3))
  show "den (writes ws m') {..<lim m} s v t" if new: "\<forall>w\<in>set ws. lim m \<le> fst w"
  proof (rule den_frame [OF assms(2)])
    have "cells (writes ws m') a = cells m a" if "a < lim m" for a
      using new that d(2) by (subst writes_other) auto
    then show "\<forall>a\<in>{..<lim m}. cells (writes ws m') a = cells m a" by simp
  qed simp
  show "den (writes ws m') {lim m..<lim m'} s v' t" if old: "\<forall>w\<in>set ws. fst w < lim m"
  proof (rule den_frame [OF d(3)])
    have "cells (writes ws m') a = cells m' a" if "lim m \<le> a" for a
      using old that by (subst writes_other) auto
    then show "\<forall>a\<in>{lim m..<lim m'}. cells (writes ws m') a = cells m' a" by simp
  qed simp
qed

end
