(* ===== verification/Deep_Copy.thy ===== *)
theory Deep_Copy
  imports Go_Heap
begin

text \<open>
  The generated copy functions of \<open>api/v1alpha1/zz_generated.deepcopy.go\<close>, as the statements they consist of,
  next to the shapes of the types they copy, from the type declarations. That the two agree is what makes a
  copy independent of its original: a field with references that has no statement would be shared.

  The types of the Kubernetes libraries and their copy functions are the parameter \<open>metalib\<close>.
\<close>

datatype libtype = TypeMetaT | ObjectMetaT | ListMetaT | ConditionT | LabelSelectorT | TimeT | LocalObjectReferenceT

record metalib =
  ml_shape :: "libtype \<Rightarrow> shape"
  ml_copy :: "libtype \<Rightarrow> copier"

text \<open>What the libraries document: their \<open>DeepCopyInto\<close> copies deeply, and the two types that consist of
  strings hold no references.\<close>

definition metalib_ok :: "metalib \<Rightarrow> bool" where
  "metalib_ok ml \<longleftrightarrow> (\<forall>l. deep (ml_copy ml l) (ml_shape ml l)) \<and>
     flat (ml_shape ml TypeMetaT) \<and> flat (ml_shape ml LocalObjectReferenceT)"

text \<open>\<open>DeepCopyObject\<close>: the copy as an interface value, nil for a nil pointer.\<close>

definition object_or_nil :: "copier \<Rightarrow> gov \<Rightarrow> memory \<Rightarrow> gov option \<times> memory" where
  "object_or_nil c v m = (case c v m of (v', m') \<Rightarrow> (if v' = Nil_ref then None else Some v', m'))"

section \<open>Types and their copy functions\<close>

definition WorkloadTarget_shape :: "metalib \<Rightarrow> shape" where
  "WorkloadTarget_shape ml = SStruct
     [(''NamespaceSelector'', SPtr (ml_shape ml LabelSelectorT)),
      (''WorkloadSelector'', SPtr (ml_shape ml LabelSelectorT))]"

definition WorkloadTarget_DeepCopyInto :: "metalib \<Rightarrow> copier" where
  "WorkloadTarget_DeepCopyInto ml = struct_copy
     [(''NamespaceSelector'', pointer (ml_copy ml LabelSelectorT)),
      (''WorkloadSelector'', pointer (ml_copy ml LabelSelectorT))]"

definition WorkloadTarget_DeepCopy :: "metalib \<Rightarrow> copier" where
  "WorkloadTarget_DeepCopy ml = pointer (WorkloadTarget_DeepCopyInto ml)"

definition ObjectReference_shape :: "shape" where
  "ObjectReference_shape = SStruct
     [(''Name'', SPlain), (''Namespace'', SPlain)]"

definition ObjectReference_DeepCopyInto :: "copier" where
  "ObjectReference_DeepCopyInto = struct_copy []"

definition ObjectReference_DeepCopy :: "copier" where
  "ObjectReference_DeepCopy = pointer ObjectReference_DeepCopyInto"

definition PolicyAuditSpec_shape :: "shape" where
  "PolicyAuditSpec_shape = SStruct
     [(''Required'', SPlain), (''Level'', SPlain)]"

definition PolicyAuditSpec_DeepCopyInto :: "copier" where
  "PolicyAuditSpec_DeepCopyInto = struct_copy []"

definition PolicyAuditSpec_DeepCopy :: "copier" where
  "PolicyAuditSpec_DeepCopy = pointer PolicyAuditSpec_DeepCopyInto"

definition PolicyKeyReleaseSpec_shape :: "shape" where
  "PolicyKeyReleaseSpec_shape = SStruct
     [(''Required'', SPlain), (''TTLSeconds'', SPlain)]"

definition PolicyKeyReleaseSpec_DeepCopyInto :: "copier" where
  "PolicyKeyReleaseSpec_DeepCopyInto = struct_copy []"

definition PolicyKeyReleaseSpec_DeepCopy :: "copier" where
  "PolicyKeyReleaseSpec_DeepCopy = pointer PolicyKeyReleaseSpec_DeepCopyInto"

definition ConfidentialGPURequirements_shape :: "shape" where
  "ConfidentialGPURequirements_shape = SStruct
     [(''Vendor'', SPlain), (''DeviceClass'', SPlain), (''DRAClass'', SPlain)]"

definition ConfidentialGPURequirements_DeepCopyInto :: "copier" where
  "ConfidentialGPURequirements_DeepCopyInto = struct_copy []"

definition ConfidentialGPURequirements_DeepCopy :: "copier" where
  "ConfidentialGPURequirements_DeepCopy = pointer ConfidentialGPURequirements_DeepCopyInto"

definition EvidenceFreshness_shape :: "shape" where
  "EvidenceFreshness_shape = SStruct
     [(''MaxAgeSeconds'', SPlain), (''Simulated'', SPlain)]"

definition EvidenceFreshness_DeepCopyInto :: "copier" where
  "EvidenceFreshness_DeepCopyInto = struct_copy []"

definition EvidenceFreshness_DeepCopy :: "copier" where
  "EvidenceFreshness_DeepCopy = pointer EvidenceFreshness_DeepCopyInto"

definition PlacementTokenSpec_shape :: "shape" where
  "PlacementTokenSpec_shape = SStruct
     [(''Required'', SPlain), (''TTLSeconds'', SPlain)]"

definition PlacementTokenSpec_DeepCopyInto :: "copier" where
  "PlacementTokenSpec_DeepCopyInto = struct_copy []"

definition PlacementTokenSpec_DeepCopy :: "copier" where
  "PlacementTokenSpec_DeepCopy = pointer PlacementTokenSpec_DeepCopyInto"

definition RuntimeExpectation_shape :: "shape" where
  "RuntimeExpectation_shape = SStruct
     [(''RuntimeClassName'', SPlain), (''Simulated'', SPlain)]"

definition RuntimeExpectation_DeepCopyInto :: "copier" where
  "RuntimeExpectation_DeepCopyInto = struct_copy []"

definition RuntimeExpectation_DeepCopy :: "copier" where
  "RuntimeExpectation_DeepCopy = pointer RuntimeExpectation_DeepCopyInto"

definition ConfidentialInferencePolicySpec_shape :: "metalib \<Rightarrow> shape" where
  "ConfidentialInferencePolicySpec_shape ml = SStruct
     [(''Target'', WorkloadTarget_shape ml), (''RequiredTEE'', SSlice SPlain),
      (''RequireConfidentialContainers'', SPlain), (''RequireConfidentialGPU'', SPlain),
      (''GPU'', SPtr ConfidentialGPURequirements_shape), (''AllowedRuntimeClasses'', SSlice SPlain),
      (''MaxEvidenceAgeSeconds'', SPlain), (''RequireImageDigest'', SPlain),
      (''RequireModelDigest'', SPlain), (''KeyRelease'', PolicyKeyReleaseSpec_shape),
      (''Audit'', PolicyAuditSpec_shape), (''EnforcementMode'', SPlain)]"

definition ConfidentialInferencePolicySpec_DeepCopyInto :: "metalib \<Rightarrow> copier" where
  "ConfidentialInferencePolicySpec_DeepCopyInto ml = struct_copy
     [(''Target'', WorkloadTarget_DeepCopyInto ml), (''RequiredTEE'', elements assign),
      (''GPU'', pointer assign), (''AllowedRuntimeClasses'', elements assign), (''KeyRelease'', assign),
      (''Audit'', assign)]"

definition ConfidentialInferencePolicySpec_DeepCopy :: "metalib \<Rightarrow> copier" where
  "ConfidentialInferencePolicySpec_DeepCopy ml = pointer (ConfidentialInferencePolicySpec_DeepCopyInto ml)"

definition ConfidentialInferencePolicyStatus_shape :: "metalib \<Rightarrow> shape" where
  "ConfidentialInferencePolicyStatus_shape ml = SStruct
     [(''ObservedGeneration'', SPlain), (''PolicyHash'', SPlain),
      (''EffectiveRuntime'', SPtr RuntimeExpectation_shape), (''Simulated'', SPlain),
      (''Conditions'', SSlice (ml_shape ml ConditionT))]"

definition ConfidentialInferencePolicyStatus_DeepCopyInto :: "metalib \<Rightarrow> copier" where
  "ConfidentialInferencePolicyStatus_DeepCopyInto ml = struct_copy
     [(''EffectiveRuntime'', pointer assign), (''Conditions'', elements (ml_copy ml ConditionT))]"

definition ConfidentialInferencePolicyStatus_DeepCopy :: "metalib \<Rightarrow> copier" where
  "ConfidentialInferencePolicyStatus_DeepCopy ml = pointer (ConfidentialInferencePolicyStatus_DeepCopyInto ml)"

definition ConfidentialInferencePolicy_shape :: "metalib \<Rightarrow> shape" where
  "ConfidentialInferencePolicy_shape ml = SStruct
     [(''TypeMeta'', ml_shape ml TypeMetaT), (''ObjectMeta'', ml_shape ml ObjectMetaT),
      (''Spec'', ConfidentialInferencePolicySpec_shape ml),
      (''Status'', ConfidentialInferencePolicyStatus_shape ml)]"

definition ConfidentialInferencePolicy_DeepCopyInto :: "metalib \<Rightarrow> copier" where
  "ConfidentialInferencePolicy_DeepCopyInto ml = struct_copy
     [(''TypeMeta'', assign), (''ObjectMeta'', ml_copy ml ObjectMetaT),
      (''Spec'', ConfidentialInferencePolicySpec_DeepCopyInto ml),
      (''Status'', ConfidentialInferencePolicyStatus_DeepCopyInto ml)]"

definition ConfidentialInferencePolicy_DeepCopy :: "metalib \<Rightarrow> copier" where
  "ConfidentialInferencePolicy_DeepCopy ml = pointer (ConfidentialInferencePolicy_DeepCopyInto ml)"

definition ConfidentialInferencePolicy_DeepCopyObject :: "metalib \<Rightarrow> gov \<Rightarrow> memory \<Rightarrow> gov option \<times> memory" where
  "ConfidentialInferencePolicy_DeepCopyObject ml = object_or_nil (ConfidentialInferencePolicy_DeepCopy ml)"

definition ConfidentialInferencePolicyList_shape :: "metalib \<Rightarrow> shape" where
  "ConfidentialInferencePolicyList_shape ml = SStruct
     [(''TypeMeta'', ml_shape ml TypeMetaT), (''ListMeta'', ml_shape ml ListMetaT),
      (''Items'', SSlice (ConfidentialInferencePolicy_shape ml))]"

definition ConfidentialInferencePolicyList_DeepCopyInto :: "metalib \<Rightarrow> copier" where
  "ConfidentialInferencePolicyList_DeepCopyInto ml = struct_copy
     [(''TypeMeta'', assign), (''ListMeta'', ml_copy ml ListMetaT),
      (''Items'', elements (ConfidentialInferencePolicy_DeepCopyInto ml))]"

definition ConfidentialInferencePolicyList_DeepCopy :: "metalib \<Rightarrow> copier" where
  "ConfidentialInferencePolicyList_DeepCopy ml = pointer (ConfidentialInferencePolicyList_DeepCopyInto ml)"

definition ConfidentialInferencePolicyList_DeepCopyObject :: "metalib \<Rightarrow> gov \<Rightarrow> memory \<Rightarrow> gov option \<times> memory" where
  "ConfidentialInferencePolicyList_DeepCopyObject ml = object_or_nil (ConfidentialInferencePolicyList_DeepCopy ml)"

definition AttestationEvidenceSpec_shape :: "shape" where
  "AttestationEvidenceSpec_shape = SStruct
     [(''SubjectRef'', ObjectReference_shape), (''PolicyRef'', SPtr ObjectReference_shape),
      (''EvidenceType'', SPlain), (''TEE'', SPlain), (''Runtime'', RuntimeExpectation_shape),
      (''Freshness'', EvidenceFreshness_shape), (''EvidenceURI'', SPlain), (''Digest'', SPlain),
      (''Signatures'', SSlice SPlain), (''Simulated'', SPlain)]"

definition AttestationEvidenceSpec_DeepCopyInto :: "copier" where
  "AttestationEvidenceSpec_DeepCopyInto = struct_copy
     [(''SubjectRef'', assign), (''PolicyRef'', pointer assign), (''Runtime'', assign),
      (''Freshness'', assign), (''Signatures'', elements assign)]"

definition AttestationEvidenceSpec_DeepCopy :: "copier" where
  "AttestationEvidenceSpec_DeepCopy = pointer AttestationEvidenceSpec_DeepCopyInto"

definition AttestationEvidenceStatus_shape :: "metalib \<Rightarrow> shape" where
  "AttestationEvidenceStatus_shape ml = SStruct
     [(''ObservedGeneration'', SPlain), (''Verified'', SPlain), (''Revoked'', SPlain),
      (''LastVerifiedTime'', SPtr (ml_shape ml TimeT)), (''EvidenceMode'', SPlain),
      (''VerifiedBy'', SPlain), (''VerifierPodUID'', SPlain), (''NodeUID'', SPlain),
      (''Provider'', SPlain), (''AttestationType'', SPlain), (''MAATokenHash'', SPlain),
      (''ClaimsDigest'', SPlain), (''Nonce'', SPlain), (''IssuedAt'', SPtr (ml_shape ml TimeT)),
      (''ExpiresAt'', SPtr (ml_shape ml TimeT)), (''FreshnessSeconds'', SPlain),
      (''VerificationStatus'', SPlain), (''FailureReason'', SPlain),
      (''Conditions'', SSlice (ml_shape ml ConditionT))]"

definition AttestationEvidenceStatus_DeepCopyInto :: "metalib \<Rightarrow> copier" where
  "AttestationEvidenceStatus_DeepCopyInto ml = struct_copy
     [(''LastVerifiedTime'', pointer (ml_copy ml TimeT)), (''IssuedAt'', pointer (ml_copy ml TimeT)),
      (''ExpiresAt'', pointer (ml_copy ml TimeT)), (''Conditions'', elements (ml_copy ml ConditionT))]"

definition AttestationEvidenceStatus_DeepCopy :: "metalib \<Rightarrow> copier" where
  "AttestationEvidenceStatus_DeepCopy ml = pointer (AttestationEvidenceStatus_DeepCopyInto ml)"

definition AttestationEvidence_shape :: "metalib \<Rightarrow> shape" where
  "AttestationEvidence_shape ml = SStruct
     [(''TypeMeta'', ml_shape ml TypeMetaT), (''ObjectMeta'', ml_shape ml ObjectMetaT),
      (''Spec'', AttestationEvidenceSpec_shape), (''Status'', AttestationEvidenceStatus_shape ml)]"

definition AttestationEvidence_DeepCopyInto :: "metalib \<Rightarrow> copier" where
  "AttestationEvidence_DeepCopyInto ml = struct_copy
     [(''TypeMeta'', assign), (''ObjectMeta'', ml_copy ml ObjectMetaT),
      (''Spec'', AttestationEvidenceSpec_DeepCopyInto),
      (''Status'', AttestationEvidenceStatus_DeepCopyInto ml)]"

definition AttestationEvidence_DeepCopy :: "metalib \<Rightarrow> copier" where
  "AttestationEvidence_DeepCopy ml = pointer (AttestationEvidence_DeepCopyInto ml)"

definition AttestationEvidence_DeepCopyObject :: "metalib \<Rightarrow> gov \<Rightarrow> memory \<Rightarrow> gov option \<times> memory" where
  "AttestationEvidence_DeepCopyObject ml = object_or_nil (AttestationEvidence_DeepCopy ml)"

definition AttestationEvidenceList_shape :: "metalib \<Rightarrow> shape" where
  "AttestationEvidenceList_shape ml = SStruct
     [(''TypeMeta'', ml_shape ml TypeMetaT), (''ListMeta'', ml_shape ml ListMetaT),
      (''Items'', SSlice (AttestationEvidence_shape ml))]"

definition AttestationEvidenceList_DeepCopyInto :: "metalib \<Rightarrow> copier" where
  "AttestationEvidenceList_DeepCopyInto ml = struct_copy
     [(''TypeMeta'', assign), (''ListMeta'', ml_copy ml ListMetaT),
      (''Items'', elements (AttestationEvidence_DeepCopyInto ml))]"

definition AttestationEvidenceList_DeepCopy :: "metalib \<Rightarrow> copier" where
  "AttestationEvidenceList_DeepCopy ml = pointer (AttestationEvidenceList_DeepCopyInto ml)"

definition AttestationEvidenceList_DeepCopyObject :: "metalib \<Rightarrow> gov \<Rightarrow> memory \<Rightarrow> gov option \<times> memory" where
  "AttestationEvidenceList_DeepCopyObject ml = object_or_nil (AttestationEvidenceList_DeepCopy ml)"

definition AIPlacementDecisionSpec_shape :: "shape" where
  "AIPlacementDecisionSpec_shape = SStruct
     [(''TargetRef'', ObjectReference_shape), (''PolicyRef'', ObjectReference_shape),
      (''EvidenceRef'', SPtr ObjectReference_shape), (''PlacementToken'', PlacementTokenSpec_shape),
      (''SchedulerName'', SPlain)]"

definition AIPlacementDecisionSpec_DeepCopyInto :: "copier" where
  "AIPlacementDecisionSpec_DeepCopyInto = struct_copy
     [(''TargetRef'', assign), (''PolicyRef'', assign), (''EvidenceRef'', pointer assign),
      (''PlacementToken'', assign)]"

definition AIPlacementDecisionSpec_DeepCopy :: "copier" where
  "AIPlacementDecisionSpec_DeepCopy = pointer AIPlacementDecisionSpec_DeepCopyInto"

definition AIPlacementDecisionStatus_shape :: "metalib \<Rightarrow> shape" where
  "AIPlacementDecisionStatus_shape ml = SStruct
     [(''ObservedGeneration'', SPlain), (''Decision'', SPlain), (''NodeName'', SPlain),
      (''PlacementTokenDigest'', SPlain), (''Simulated'', SPlain),
      (''Conditions'', SSlice (ml_shape ml ConditionT))]"

definition AIPlacementDecisionStatus_DeepCopyInto :: "metalib \<Rightarrow> copier" where
  "AIPlacementDecisionStatus_DeepCopyInto ml = struct_copy
     [(''Conditions'', elements (ml_copy ml ConditionT))]"

definition AIPlacementDecisionStatus_DeepCopy :: "metalib \<Rightarrow> copier" where
  "AIPlacementDecisionStatus_DeepCopy ml = pointer (AIPlacementDecisionStatus_DeepCopyInto ml)"

definition AIPlacementDecision_shape :: "metalib \<Rightarrow> shape" where
  "AIPlacementDecision_shape ml = SStruct
     [(''TypeMeta'', ml_shape ml TypeMetaT), (''ObjectMeta'', ml_shape ml ObjectMetaT),
      (''Spec'', AIPlacementDecisionSpec_shape), (''Status'', AIPlacementDecisionStatus_shape ml)]"

definition AIPlacementDecision_DeepCopyInto :: "metalib \<Rightarrow> copier" where
  "AIPlacementDecision_DeepCopyInto ml = struct_copy
     [(''TypeMeta'', assign), (''ObjectMeta'', ml_copy ml ObjectMetaT),
      (''Spec'', AIPlacementDecisionSpec_DeepCopyInto),
      (''Status'', AIPlacementDecisionStatus_DeepCopyInto ml)]"

definition AIPlacementDecision_DeepCopy :: "metalib \<Rightarrow> copier" where
  "AIPlacementDecision_DeepCopy ml = pointer (AIPlacementDecision_DeepCopyInto ml)"

definition AIPlacementDecision_DeepCopyObject :: "metalib \<Rightarrow> gov \<Rightarrow> memory \<Rightarrow> gov option \<times> memory" where
  "AIPlacementDecision_DeepCopyObject ml = object_or_nil (AIPlacementDecision_DeepCopy ml)"

definition AIPlacementDecisionList_shape :: "metalib \<Rightarrow> shape" where
  "AIPlacementDecisionList_shape ml = SStruct
     [(''TypeMeta'', ml_shape ml TypeMetaT), (''ListMeta'', ml_shape ml ListMetaT),
      (''Items'', SSlice (AIPlacementDecision_shape ml))]"

definition AIPlacementDecisionList_DeepCopyInto :: "metalib \<Rightarrow> copier" where
  "AIPlacementDecisionList_DeepCopyInto ml = struct_copy
     [(''TypeMeta'', assign), (''ListMeta'', ml_copy ml ListMetaT),
      (''Items'', elements (AIPlacementDecision_DeepCopyInto ml))]"

definition AIPlacementDecisionList_DeepCopy :: "metalib \<Rightarrow> copier" where
  "AIPlacementDecisionList_DeepCopy ml = pointer (AIPlacementDecisionList_DeepCopyInto ml)"

definition AIPlacementDecisionList_DeepCopyObject :: "metalib \<Rightarrow> gov \<Rightarrow> memory \<Rightarrow> gov option \<times> memory" where
  "AIPlacementDecisionList_DeepCopyObject ml = object_or_nil (AIPlacementDecisionList_DeepCopy ml)"

definition AIKeyReleasePolicySpec_shape :: "metalib \<Rightarrow> shape" where
  "AIKeyReleasePolicySpec_shape ml = SStruct
     [(''Target'', WorkloadTarget_shape ml), (''EvidenceRef'', SPtr ObjectReference_shape),
      (''RequireAttestedEvidence'', SPlain), (''KeyRelease'', PolicyKeyReleaseSpec_shape),
      (''AllowedSecrets'', SSlice (ml_shape ml LocalObjectReferenceT)),
      (''Audit'', PolicyAuditSpec_shape), (''EnforcementMode'', SPlain)]"

definition AIKeyReleasePolicySpec_DeepCopyInto :: "metalib \<Rightarrow> copier" where
  "AIKeyReleasePolicySpec_DeepCopyInto ml = struct_copy
     [(''Target'', WorkloadTarget_DeepCopyInto ml), (''EvidenceRef'', pointer assign),
      (''KeyRelease'', assign), (''AllowedSecrets'', elements assign), (''Audit'', assign)]"

definition AIKeyReleasePolicySpec_DeepCopy :: "metalib \<Rightarrow> copier" where
  "AIKeyReleasePolicySpec_DeepCopy ml = pointer (AIKeyReleasePolicySpec_DeepCopyInto ml)"

definition AIKeyReleasePolicyStatus_shape :: "metalib \<Rightarrow> shape" where
  "AIKeyReleasePolicyStatus_shape ml = SStruct
     [(''ObservedGeneration'', SPlain), (''LastDecision'', SPlain),
      (''LastDecisionTime'', SPtr (ml_shape ml TimeT)), (''Conditions'', SSlice (ml_shape ml ConditionT))]"

definition AIKeyReleasePolicyStatus_DeepCopyInto :: "metalib \<Rightarrow> copier" where
  "AIKeyReleasePolicyStatus_DeepCopyInto ml = struct_copy
     [(''LastDecisionTime'', pointer (ml_copy ml TimeT)),
      (''Conditions'', elements (ml_copy ml ConditionT))]"

definition AIKeyReleasePolicyStatus_DeepCopy :: "metalib \<Rightarrow> copier" where
  "AIKeyReleasePolicyStatus_DeepCopy ml = pointer (AIKeyReleasePolicyStatus_DeepCopyInto ml)"

definition AIKeyReleasePolicy_shape :: "metalib \<Rightarrow> shape" where
  "AIKeyReleasePolicy_shape ml = SStruct
     [(''TypeMeta'', ml_shape ml TypeMetaT), (''ObjectMeta'', ml_shape ml ObjectMetaT),
      (''Spec'', AIKeyReleasePolicySpec_shape ml), (''Status'', AIKeyReleasePolicyStatus_shape ml)]"

definition AIKeyReleasePolicy_DeepCopyInto :: "metalib \<Rightarrow> copier" where
  "AIKeyReleasePolicy_DeepCopyInto ml = struct_copy
     [(''TypeMeta'', assign), (''ObjectMeta'', ml_copy ml ObjectMetaT),
      (''Spec'', AIKeyReleasePolicySpec_DeepCopyInto ml),
      (''Status'', AIKeyReleasePolicyStatus_DeepCopyInto ml)]"

definition AIKeyReleasePolicy_DeepCopy :: "metalib \<Rightarrow> copier" where
  "AIKeyReleasePolicy_DeepCopy ml = pointer (AIKeyReleasePolicy_DeepCopyInto ml)"

definition AIKeyReleasePolicy_DeepCopyObject :: "metalib \<Rightarrow> gov \<Rightarrow> memory \<Rightarrow> gov option \<times> memory" where
  "AIKeyReleasePolicy_DeepCopyObject ml = object_or_nil (AIKeyReleasePolicy_DeepCopy ml)"

definition AIKeyReleasePolicyList_shape :: "metalib \<Rightarrow> shape" where
  "AIKeyReleasePolicyList_shape ml = SStruct
     [(''TypeMeta'', ml_shape ml TypeMetaT), (''ListMeta'', ml_shape ml ListMetaT),
      (''Items'', SSlice (AIKeyReleasePolicy_shape ml))]"

definition AIKeyReleasePolicyList_DeepCopyInto :: "metalib \<Rightarrow> copier" where
  "AIKeyReleasePolicyList_DeepCopyInto ml = struct_copy
     [(''TypeMeta'', assign), (''ListMeta'', ml_copy ml ListMetaT),
      (''Items'', elements (AIKeyReleasePolicy_DeepCopyInto ml))]"

definition AIKeyReleasePolicyList_DeepCopy :: "metalib \<Rightarrow> copier" where
  "AIKeyReleasePolicyList_DeepCopy ml = pointer (AIKeyReleasePolicyList_DeepCopyInto ml)"

definition AIKeyReleasePolicyList_DeepCopyObject :: "metalib \<Rightarrow> gov \<Rightarrow> memory \<Rightarrow> gov option \<times> memory" where
  "AIKeyReleasePolicyList_DeepCopyObject ml = object_or_nil (AIKeyReleasePolicyList_DeepCopy ml)"

definition AIEvidenceRecordSpec_shape :: "shape" where
  "AIEvidenceRecordSpec_shape = SStruct
     [(''SubjectRef'', ObjectReference_shape), (''PolicyRef'', SPtr ObjectReference_shape),
      (''Category'', SPlain), (''PayloadDigest'', SPlain), (''PreviousRecordDigest'', SPlain),
      (''ExternalCheckpointRef'', SPlain), (''RetentionDays'', SPlain)]"

definition AIEvidenceRecordSpec_DeepCopyInto :: "copier" where
  "AIEvidenceRecordSpec_DeepCopyInto = struct_copy
     [(''SubjectRef'', assign), (''PolicyRef'', pointer assign)]"

definition AIEvidenceRecordSpec_DeepCopy :: "copier" where
  "AIEvidenceRecordSpec_DeepCopy = pointer AIEvidenceRecordSpec_DeepCopyInto"

definition AIEvidenceRecordStatus_shape :: "metalib \<Rightarrow> shape" where
  "AIEvidenceRecordStatus_shape ml = SStruct
     [(''ObservedGeneration'', SPlain), (''ChainDigest'', SPlain), (''Anchored'', SPlain),
      (''Conditions'', SSlice (ml_shape ml ConditionT))]"

definition AIEvidenceRecordStatus_DeepCopyInto :: "metalib \<Rightarrow> copier" where
  "AIEvidenceRecordStatus_DeepCopyInto ml = struct_copy
     [(''Conditions'', elements (ml_copy ml ConditionT))]"

definition AIEvidenceRecordStatus_DeepCopy :: "metalib \<Rightarrow> copier" where
  "AIEvidenceRecordStatus_DeepCopy ml = pointer (AIEvidenceRecordStatus_DeepCopyInto ml)"

definition AIEvidenceRecord_shape :: "metalib \<Rightarrow> shape" where
  "AIEvidenceRecord_shape ml = SStruct
     [(''TypeMeta'', ml_shape ml TypeMetaT), (''ObjectMeta'', ml_shape ml ObjectMetaT),
      (''Spec'', AIEvidenceRecordSpec_shape), (''Status'', AIEvidenceRecordStatus_shape ml)]"

definition AIEvidenceRecord_DeepCopyInto :: "metalib \<Rightarrow> copier" where
  "AIEvidenceRecord_DeepCopyInto ml = struct_copy
     [(''TypeMeta'', assign), (''ObjectMeta'', ml_copy ml ObjectMetaT),
      (''Spec'', AIEvidenceRecordSpec_DeepCopyInto), (''Status'', AIEvidenceRecordStatus_DeepCopyInto ml)]"

definition AIEvidenceRecord_DeepCopy :: "metalib \<Rightarrow> copier" where
  "AIEvidenceRecord_DeepCopy ml = pointer (AIEvidenceRecord_DeepCopyInto ml)"

definition AIEvidenceRecord_DeepCopyObject :: "metalib \<Rightarrow> gov \<Rightarrow> memory \<Rightarrow> gov option \<times> memory" where
  "AIEvidenceRecord_DeepCopyObject ml = object_or_nil (AIEvidenceRecord_DeepCopy ml)"

definition AIEvidenceRecordList_shape :: "metalib \<Rightarrow> shape" where
  "AIEvidenceRecordList_shape ml = SStruct
     [(''TypeMeta'', ml_shape ml TypeMetaT), (''ListMeta'', ml_shape ml ListMetaT),
      (''Items'', SSlice (AIEvidenceRecord_shape ml))]"

definition AIEvidenceRecordList_DeepCopyInto :: "metalib \<Rightarrow> copier" where
  "AIEvidenceRecordList_DeepCopyInto ml = struct_copy
     [(''TypeMeta'', assign), (''ListMeta'', ml_copy ml ListMetaT),
      (''Items'', elements (AIEvidenceRecord_DeepCopyInto ml))]"

definition AIEvidenceRecordList_DeepCopy :: "metalib \<Rightarrow> copier" where
  "AIEvidenceRecordList_DeepCopy ml = pointer (AIEvidenceRecordList_DeepCopyInto ml)"

definition AIEvidenceRecordList_DeepCopyObject :: "metalib \<Rightarrow> gov \<Rightarrow> memory \<Rightarrow> gov option \<times> memory" where
  "AIEvidenceRecordList_DeepCopyObject ml = object_or_nil (AIEvidenceRecordList_DeepCopy ml)"

definition AIRevocationPolicySpec_shape :: "metalib \<Rightarrow> shape" where
  "AIRevocationPolicySpec_shape ml = SStruct
     [(''Target'', WorkloadTarget_shape ml), (''EvidenceRef'', SPtr ObjectReference_shape),
      (''PlacementRef'', SPtr ObjectReference_shape), (''Reasons'', SSlice SPlain),
      (''TTLSeconds'', SPlain), (''Audit'', PolicyAuditSpec_shape)]"

definition AIRevocationPolicySpec_DeepCopyInto :: "metalib \<Rightarrow> copier" where
  "AIRevocationPolicySpec_DeepCopyInto ml = struct_copy
     [(''Target'', WorkloadTarget_DeepCopyInto ml), (''EvidenceRef'', pointer assign),
      (''PlacementRef'', pointer assign), (''Reasons'', elements assign), (''Audit'', assign)]"

definition AIRevocationPolicySpec_DeepCopy :: "metalib \<Rightarrow> copier" where
  "AIRevocationPolicySpec_DeepCopy ml = pointer (AIRevocationPolicySpec_DeepCopyInto ml)"

definition AIRevocationPolicyStatus_shape :: "metalib \<Rightarrow> shape" where
  "AIRevocationPolicyStatus_shape ml = SStruct
     [(''ObservedGeneration'', SPlain), (''Active'', SPlain), (''ExpiresAt'', SPtr (ml_shape ml TimeT)),
      (''Conditions'', SSlice (ml_shape ml ConditionT))]"

definition AIRevocationPolicyStatus_DeepCopyInto :: "metalib \<Rightarrow> copier" where
  "AIRevocationPolicyStatus_DeepCopyInto ml = struct_copy
     [(''ExpiresAt'', pointer (ml_copy ml TimeT)), (''Conditions'', elements (ml_copy ml ConditionT))]"

definition AIRevocationPolicyStatus_DeepCopy :: "metalib \<Rightarrow> copier" where
  "AIRevocationPolicyStatus_DeepCopy ml = pointer (AIRevocationPolicyStatus_DeepCopyInto ml)"

definition AIRevocationPolicy_shape :: "metalib \<Rightarrow> shape" where
  "AIRevocationPolicy_shape ml = SStruct
     [(''TypeMeta'', ml_shape ml TypeMetaT), (''ObjectMeta'', ml_shape ml ObjectMetaT),
      (''Spec'', AIRevocationPolicySpec_shape ml), (''Status'', AIRevocationPolicyStatus_shape ml)]"

definition AIRevocationPolicy_DeepCopyInto :: "metalib \<Rightarrow> copier" where
  "AIRevocationPolicy_DeepCopyInto ml = struct_copy
     [(''TypeMeta'', assign), (''ObjectMeta'', ml_copy ml ObjectMetaT),
      (''Spec'', AIRevocationPolicySpec_DeepCopyInto ml),
      (''Status'', AIRevocationPolicyStatus_DeepCopyInto ml)]"

definition AIRevocationPolicy_DeepCopy :: "metalib \<Rightarrow> copier" where
  "AIRevocationPolicy_DeepCopy ml = pointer (AIRevocationPolicy_DeepCopyInto ml)"

definition AIRevocationPolicy_DeepCopyObject :: "metalib \<Rightarrow> gov \<Rightarrow> memory \<Rightarrow> gov option \<times> memory" where
  "AIRevocationPolicy_DeepCopyObject ml = object_or_nil (AIRevocationPolicy_DeepCopy ml)"

definition AIRevocationPolicyList_shape :: "metalib \<Rightarrow> shape" where
  "AIRevocationPolicyList_shape ml = SStruct
     [(''TypeMeta'', ml_shape ml TypeMetaT), (''ListMeta'', ml_shape ml ListMetaT),
      (''Items'', SSlice (AIRevocationPolicy_shape ml))]"

definition AIRevocationPolicyList_DeepCopyInto :: "metalib \<Rightarrow> copier" where
  "AIRevocationPolicyList_DeepCopyInto ml = struct_copy
     [(''TypeMeta'', assign), (''ListMeta'', ml_copy ml ListMetaT),
      (''Items'', elements (AIRevocationPolicy_DeepCopyInto ml))]"

definition AIRevocationPolicyList_DeepCopy :: "metalib \<Rightarrow> copier" where
  "AIRevocationPolicyList_DeepCopy ml = pointer (AIRevocationPolicyList_DeepCopyInto ml)"

definition AIRevocationPolicyList_DeepCopyObject :: "metalib \<Rightarrow> gov \<Rightarrow> memory \<Rightarrow> gov option \<times> memory" where
  "AIRevocationPolicyList_DeepCopyObject ml = object_or_nil (AIRevocationPolicyList_DeepCopy ml)"

definition RawAttestationReportSpec_shape :: "metalib \<Rightarrow> shape" where
  "RawAttestationReportSpec_shape ml = SStruct
     [(''NodeName'', SPlain), (''NodeUID'', SPlain), (''Provider'', SPlain), (''RawToken'', SPlain),
      (''RawTokenHash'', SPlain), (''Nonce'', SPlain), (''CollectedAt'', ml_shape ml TimeT),
      (''AgentPodUID'', SPlain), (''AgentServiceAccount'', SPlain), (''Simulated'', SPlain)]"

definition RawAttestationReportSpec_DeepCopyInto :: "metalib \<Rightarrow> copier" where
  "RawAttestationReportSpec_DeepCopyInto ml = struct_copy
     [(''CollectedAt'', ml_copy ml TimeT)]"

definition RawAttestationReportSpec_DeepCopy :: "metalib \<Rightarrow> copier" where
  "RawAttestationReportSpec_DeepCopy ml = pointer (RawAttestationReportSpec_DeepCopyInto ml)"

definition RawAttestationReportStatus_shape :: "metalib \<Rightarrow> shape" where
  "RawAttestationReportStatus_shape ml = SStruct
     [(''ObservedGeneration'', SPlain), (''Processed'', SPlain), (''EvidenceRef'', SPlain),
      (''VerificationStatus'', SPlain), (''Conditions'', SSlice (ml_shape ml ConditionT))]"

definition RawAttestationReportStatus_DeepCopyInto :: "metalib \<Rightarrow> copier" where
  "RawAttestationReportStatus_DeepCopyInto ml = struct_copy
     [(''Conditions'', elements (ml_copy ml ConditionT))]"

definition RawAttestationReportStatus_DeepCopy :: "metalib \<Rightarrow> copier" where
  "RawAttestationReportStatus_DeepCopy ml = pointer (RawAttestationReportStatus_DeepCopyInto ml)"

definition RawAttestationReport_shape :: "metalib \<Rightarrow> shape" where
  "RawAttestationReport_shape ml = SStruct
     [(''TypeMeta'', ml_shape ml TypeMetaT), (''ObjectMeta'', ml_shape ml ObjectMetaT),
      (''Spec'', RawAttestationReportSpec_shape ml), (''Status'', RawAttestationReportStatus_shape ml)]"

definition RawAttestationReport_DeepCopyInto :: "metalib \<Rightarrow> copier" where
  "RawAttestationReport_DeepCopyInto ml = struct_copy
     [(''TypeMeta'', assign), (''ObjectMeta'', ml_copy ml ObjectMetaT),
      (''Spec'', RawAttestationReportSpec_DeepCopyInto ml),
      (''Status'', RawAttestationReportStatus_DeepCopyInto ml)]"

definition RawAttestationReport_DeepCopy :: "metalib \<Rightarrow> copier" where
  "RawAttestationReport_DeepCopy ml = pointer (RawAttestationReport_DeepCopyInto ml)"

definition RawAttestationReport_DeepCopyObject :: "metalib \<Rightarrow> gov \<Rightarrow> memory \<Rightarrow> gov option \<times> memory" where
  "RawAttestationReport_DeepCopyObject ml = object_or_nil (RawAttestationReport_DeepCopy ml)"

definition RawAttestationReportList_shape :: "metalib \<Rightarrow> shape" where
  "RawAttestationReportList_shape ml = SStruct
     [(''TypeMeta'', ml_shape ml TypeMetaT), (''ListMeta'', ml_shape ml ListMetaT),
      (''Items'', SSlice (RawAttestationReport_shape ml))]"

definition RawAttestationReportList_DeepCopyInto :: "metalib \<Rightarrow> copier" where
  "RawAttestationReportList_DeepCopyInto ml = struct_copy
     [(''TypeMeta'', assign), (''ListMeta'', ml_copy ml ListMetaT),
      (''Items'', elements (RawAttestationReport_DeepCopyInto ml))]"

definition RawAttestationReportList_DeepCopy :: "metalib \<Rightarrow> copier" where
  "RawAttestationReportList_DeepCopy ml = pointer (RawAttestationReportList_DeepCopyInto ml)"

definition RawAttestationReportList_DeepCopyObject :: "metalib \<Rightarrow> gov \<Rightarrow> memory \<Rightarrow> gov option \<times> memory" where
  "RawAttestationReportList_DeepCopyObject ml = object_or_nil (RawAttestationReportList_DeepCopy ml)"

definition SecretReference_shape :: "shape" where
  "SecretReference_shape = SStruct
     [(''Name'', SPlain), (''Key'', SPlain)]"

definition SecretReference_DeepCopyInto :: "copier" where
  "SecretReference_DeepCopyInto = struct_copy []"

definition SecretReference_DeepCopy :: "copier" where
  "SecretReference_DeepCopy = pointer SecretReference_DeepCopyInto"


section \<open>Every copy is deep\<close>

lemma flat_shapes [simp]:
  "flat ObjectReference_shape"
  "flat PolicyAuditSpec_shape"
  "flat PolicyKeyReleaseSpec_shape"
  "flat ConfidentialGPURequirements_shape"
  "flat EvidenceFreshness_shape"
  "flat PlacementTokenSpec_shape"
  "flat RuntimeExpectation_shape"
  "flat SecretReference_shape"
  by (simp_all add: ObjectReference_shape_def PolicyAuditSpec_shape_def PolicyKeyReleaseSpec_shape_def ConfidentialGPURequirements_shape_def EvidenceFreshness_shape_def PlacementTokenSpec_shape_def RuntimeExpectation_shape_def SecretReference_shape_def)

lemma metalib_okD: "metalib_ok ml \<Longrightarrow> deep (ml_copy ml l) (ml_shape ml l)" "metalib_ok ml \<Longrightarrow> flat (ml_shape ml TypeMetaT)"
  "metalib_ok ml \<Longrightarrow> flat (ml_shape ml LocalObjectReferenceT)"
  by (simp_all add: metalib_ok_def)

lemmas deep_rules = metalib_okD assign_deep pointer_deep elements_deep

lemma small_deep:
  assumes "metalib_ok ml"
  shows "deep (WorkloadTarget_DeepCopyInto ml) (WorkloadTarget_shape ml)"
    "deep ObjectReference_DeepCopyInto ObjectReference_shape"
    "deep PolicyAuditSpec_DeepCopyInto PolicyAuditSpec_shape"
    "deep PolicyKeyReleaseSpec_DeepCopyInto PolicyKeyReleaseSpec_shape"
    "deep ConfidentialGPURequirements_DeepCopyInto ConfidentialGPURequirements_shape"
    "deep EvidenceFreshness_DeepCopyInto EvidenceFreshness_shape"
    "deep PlacementTokenSpec_DeepCopyInto PlacementTokenSpec_shape"
    "deep RuntimeExpectation_DeepCopyInto RuntimeExpectation_shape"
    "deep SecretReference_DeepCopyInto SecretReference_shape"
  unfolding WorkloadTarget_shape_def WorkloadTarget_DeepCopyInto_def ObjectReference_shape_def ObjectReference_DeepCopyInto_def PolicyAuditSpec_shape_def PolicyAuditSpec_DeepCopyInto_def PolicyKeyReleaseSpec_shape_def PolicyKeyReleaseSpec_DeepCopyInto_def ConfidentialGPURequirements_shape_def ConfidentialGPURequirements_DeepCopyInto_def EvidenceFreshness_shape_def EvidenceFreshness_DeepCopyInto_def PlacementTokenSpec_shape_def PlacementTokenSpec_DeepCopyInto_def RuntimeExpectation_shape_def RuntimeExpectation_DeepCopyInto_def SecretReference_shape_def SecretReference_DeepCopyInto_def
  by (rule struct_copy_deepI; simp add: deep_rules assms)+

lemma spec_deep:
  assumes "metalib_ok ml"
  shows "deep (ConfidentialInferencePolicySpec_DeepCopyInto ml) (ConfidentialInferencePolicySpec_shape ml)"
    "deep AttestationEvidenceSpec_DeepCopyInto AttestationEvidenceSpec_shape"
    "deep AIPlacementDecisionSpec_DeepCopyInto AIPlacementDecisionSpec_shape"
    "deep (AIKeyReleasePolicySpec_DeepCopyInto ml) (AIKeyReleasePolicySpec_shape ml)"
    "deep AIEvidenceRecordSpec_DeepCopyInto AIEvidenceRecordSpec_shape"
    "deep (AIRevocationPolicySpec_DeepCopyInto ml) (AIRevocationPolicySpec_shape ml)"
    "deep (RawAttestationReportSpec_DeepCopyInto ml) (RawAttestationReportSpec_shape ml)"
  unfolding ConfidentialInferencePolicySpec_shape_def ConfidentialInferencePolicySpec_DeepCopyInto_def AttestationEvidenceSpec_shape_def AttestationEvidenceSpec_DeepCopyInto_def AIPlacementDecisionSpec_shape_def AIPlacementDecisionSpec_DeepCopyInto_def AIKeyReleasePolicySpec_shape_def AIKeyReleasePolicySpec_DeepCopyInto_def AIEvidenceRecordSpec_shape_def AIEvidenceRecordSpec_DeepCopyInto_def AIRevocationPolicySpec_shape_def AIRevocationPolicySpec_DeepCopyInto_def RawAttestationReportSpec_shape_def RawAttestationReportSpec_DeepCopyInto_def
  by (rule struct_copy_deepI; simp add: deep_rules assms small_deep [OF assms])+

lemma status_deep:
  assumes "metalib_ok ml"
  shows "deep (ConfidentialInferencePolicyStatus_DeepCopyInto ml) (ConfidentialInferencePolicyStatus_shape ml)"
    "deep (AttestationEvidenceStatus_DeepCopyInto ml) (AttestationEvidenceStatus_shape ml)"
    "deep (AIPlacementDecisionStatus_DeepCopyInto ml) (AIPlacementDecisionStatus_shape ml)"
    "deep (AIKeyReleasePolicyStatus_DeepCopyInto ml) (AIKeyReleasePolicyStatus_shape ml)"
    "deep (AIEvidenceRecordStatus_DeepCopyInto ml) (AIEvidenceRecordStatus_shape ml)"
    "deep (AIRevocationPolicyStatus_DeepCopyInto ml) (AIRevocationPolicyStatus_shape ml)"
    "deep (RawAttestationReportStatus_DeepCopyInto ml) (RawAttestationReportStatus_shape ml)"
  unfolding ConfidentialInferencePolicyStatus_shape_def ConfidentialInferencePolicyStatus_DeepCopyInto_def AttestationEvidenceStatus_shape_def AttestationEvidenceStatus_DeepCopyInto_def AIPlacementDecisionStatus_shape_def AIPlacementDecisionStatus_DeepCopyInto_def AIKeyReleasePolicyStatus_shape_def AIKeyReleasePolicyStatus_DeepCopyInto_def AIEvidenceRecordStatus_shape_def AIEvidenceRecordStatus_DeepCopyInto_def AIRevocationPolicyStatus_shape_def AIRevocationPolicyStatus_DeepCopyInto_def RawAttestationReportStatus_shape_def RawAttestationReportStatus_DeepCopyInto_def
  by (rule struct_copy_deepI; simp add: deep_rules assms small_deep [OF assms] spec_deep [OF assms])+

lemma kind_deep:
  assumes "metalib_ok ml"
  shows "deep (ConfidentialInferencePolicy_DeepCopyInto ml) (ConfidentialInferencePolicy_shape ml)"
    "deep (AttestationEvidence_DeepCopyInto ml) (AttestationEvidence_shape ml)"
    "deep (AIPlacementDecision_DeepCopyInto ml) (AIPlacementDecision_shape ml)"
    "deep (AIKeyReleasePolicy_DeepCopyInto ml) (AIKeyReleasePolicy_shape ml)"
    "deep (AIEvidenceRecord_DeepCopyInto ml) (AIEvidenceRecord_shape ml)"
    "deep (AIRevocationPolicy_DeepCopyInto ml) (AIRevocationPolicy_shape ml)"
    "deep (RawAttestationReport_DeepCopyInto ml) (RawAttestationReport_shape ml)"
  unfolding ConfidentialInferencePolicy_shape_def ConfidentialInferencePolicy_DeepCopyInto_def AttestationEvidence_shape_def AttestationEvidence_DeepCopyInto_def AIPlacementDecision_shape_def AIPlacementDecision_DeepCopyInto_def AIKeyReleasePolicy_shape_def AIKeyReleasePolicy_DeepCopyInto_def AIEvidenceRecord_shape_def AIEvidenceRecord_DeepCopyInto_def AIRevocationPolicy_shape_def AIRevocationPolicy_DeepCopyInto_def RawAttestationReport_shape_def RawAttestationReport_DeepCopyInto_def
  by (rule struct_copy_deepI; simp add: deep_rules assms small_deep [OF assms] spec_deep [OF assms] status_deep [OF assms])+

lemma list_deep:
  assumes "metalib_ok ml"
  shows "deep (ConfidentialInferencePolicyList_DeepCopyInto ml) (ConfidentialInferencePolicyList_shape ml)"
    "deep (AttestationEvidenceList_DeepCopyInto ml) (AttestationEvidenceList_shape ml)"
    "deep (AIPlacementDecisionList_DeepCopyInto ml) (AIPlacementDecisionList_shape ml)"
    "deep (AIKeyReleasePolicyList_DeepCopyInto ml) (AIKeyReleasePolicyList_shape ml)"
    "deep (AIEvidenceRecordList_DeepCopyInto ml) (AIEvidenceRecordList_shape ml)"
    "deep (AIRevocationPolicyList_DeepCopyInto ml) (AIRevocationPolicyList_shape ml)"
    "deep (RawAttestationReportList_DeepCopyInto ml) (RawAttestationReportList_shape ml)"
  unfolding ConfidentialInferencePolicyList_shape_def ConfidentialInferencePolicyList_DeepCopyInto_def AttestationEvidenceList_shape_def AttestationEvidenceList_DeepCopyInto_def AIPlacementDecisionList_shape_def AIPlacementDecisionList_DeepCopyInto_def AIKeyReleasePolicyList_shape_def AIKeyReleasePolicyList_DeepCopyInto_def AIEvidenceRecordList_shape_def AIEvidenceRecordList_DeepCopyInto_def AIRevocationPolicyList_shape_def AIRevocationPolicyList_DeepCopyInto_def RawAttestationReportList_shape_def RawAttestationReportList_DeepCopyInto_def
  by (rule struct_copy_deepI; simp add: deep_rules assms small_deep [OF assms] spec_deep [OF assms] status_deep [OF assms] kind_deep [OF assms])+

text \<open>All copy functions, each with the type it is for.\<close>

definition api_copiers :: "metalib \<Rightarrow> (copier \<times> shape) list" where
  "api_copiers ml =
     [(WorkloadTarget_DeepCopyInto ml, WorkloadTarget_shape ml),
      (ObjectReference_DeepCopyInto, ObjectReference_shape),
      (PolicyAuditSpec_DeepCopyInto, PolicyAuditSpec_shape),
      (PolicyKeyReleaseSpec_DeepCopyInto, PolicyKeyReleaseSpec_shape),
      (ConfidentialGPURequirements_DeepCopyInto, ConfidentialGPURequirements_shape),
      (EvidenceFreshness_DeepCopyInto, EvidenceFreshness_shape),
      (PlacementTokenSpec_DeepCopyInto, PlacementTokenSpec_shape),
      (RuntimeExpectation_DeepCopyInto, RuntimeExpectation_shape),
      (ConfidentialInferencePolicySpec_DeepCopyInto ml, ConfidentialInferencePolicySpec_shape ml),
      (ConfidentialInferencePolicyStatus_DeepCopyInto ml, ConfidentialInferencePolicyStatus_shape ml),
      (ConfidentialInferencePolicy_DeepCopyInto ml, ConfidentialInferencePolicy_shape ml),
      (ConfidentialInferencePolicyList_DeepCopyInto ml, ConfidentialInferencePolicyList_shape ml),
      (AttestationEvidenceSpec_DeepCopyInto, AttestationEvidenceSpec_shape),
      (AttestationEvidenceStatus_DeepCopyInto ml, AttestationEvidenceStatus_shape ml),
      (AttestationEvidence_DeepCopyInto ml, AttestationEvidence_shape ml),
      (AttestationEvidenceList_DeepCopyInto ml, AttestationEvidenceList_shape ml),
      (AIPlacementDecisionSpec_DeepCopyInto, AIPlacementDecisionSpec_shape),
      (AIPlacementDecisionStatus_DeepCopyInto ml, AIPlacementDecisionStatus_shape ml),
      (AIPlacementDecision_DeepCopyInto ml, AIPlacementDecision_shape ml),
      (AIPlacementDecisionList_DeepCopyInto ml, AIPlacementDecisionList_shape ml),
      (AIKeyReleasePolicySpec_DeepCopyInto ml, AIKeyReleasePolicySpec_shape ml),
      (AIKeyReleasePolicyStatus_DeepCopyInto ml, AIKeyReleasePolicyStatus_shape ml),
      (AIKeyReleasePolicy_DeepCopyInto ml, AIKeyReleasePolicy_shape ml),
      (AIKeyReleasePolicyList_DeepCopyInto ml, AIKeyReleasePolicyList_shape ml),
      (AIEvidenceRecordSpec_DeepCopyInto, AIEvidenceRecordSpec_shape),
      (AIEvidenceRecordStatus_DeepCopyInto ml, AIEvidenceRecordStatus_shape ml),
      (AIEvidenceRecord_DeepCopyInto ml, AIEvidenceRecord_shape ml),
      (AIEvidenceRecordList_DeepCopyInto ml, AIEvidenceRecordList_shape ml),
      (AIRevocationPolicySpec_DeepCopyInto ml, AIRevocationPolicySpec_shape ml),
      (AIRevocationPolicyStatus_DeepCopyInto ml, AIRevocationPolicyStatus_shape ml),
      (AIRevocationPolicy_DeepCopyInto ml, AIRevocationPolicy_shape ml),
      (AIRevocationPolicyList_DeepCopyInto ml, AIRevocationPolicyList_shape ml),
      (RawAttestationReportSpec_DeepCopyInto ml, RawAttestationReportSpec_shape ml),
      (RawAttestationReportStatus_DeepCopyInto ml, RawAttestationReportStatus_shape ml),
      (RawAttestationReport_DeepCopyInto ml, RawAttestationReport_shape ml),
      (RawAttestationReportList_DeepCopyInto ml, RawAttestationReportList_shape ml),
      (SecretReference_DeepCopyInto, SecretReference_shape)]"

lemma api_copiers_deep: "metalib_ok ml \<Longrightarrow> (c, s) \<in> set (api_copiers ml) \<Longrightarrow> deep c s"
  by (auto simp: api_copiers_def small_deep spec_deep status_deep kind_deep list_deep)

text \<open>The methods \<open>DeepCopy\<close> and \<open>DeepCopyObject\<close>, each with the type it copies.\<close>

definition api_deep_copies :: "metalib \<Rightarrow> (copier \<times> shape) list" where
  "api_deep_copies ml =
     [(WorkloadTarget_DeepCopy ml, WorkloadTarget_shape ml),
      (ObjectReference_DeepCopy, ObjectReference_shape),
      (PolicyAuditSpec_DeepCopy, PolicyAuditSpec_shape),
      (PolicyKeyReleaseSpec_DeepCopy, PolicyKeyReleaseSpec_shape),
      (ConfidentialGPURequirements_DeepCopy, ConfidentialGPURequirements_shape),
      (EvidenceFreshness_DeepCopy, EvidenceFreshness_shape),
      (PlacementTokenSpec_DeepCopy, PlacementTokenSpec_shape),
      (RuntimeExpectation_DeepCopy, RuntimeExpectation_shape),
      (ConfidentialInferencePolicySpec_DeepCopy ml, ConfidentialInferencePolicySpec_shape ml),
      (ConfidentialInferencePolicyStatus_DeepCopy ml, ConfidentialInferencePolicyStatus_shape ml),
      (ConfidentialInferencePolicy_DeepCopy ml, ConfidentialInferencePolicy_shape ml),
      (ConfidentialInferencePolicyList_DeepCopy ml, ConfidentialInferencePolicyList_shape ml),
      (AttestationEvidenceSpec_DeepCopy, AttestationEvidenceSpec_shape),
      (AttestationEvidenceStatus_DeepCopy ml, AttestationEvidenceStatus_shape ml),
      (AttestationEvidence_DeepCopy ml, AttestationEvidence_shape ml),
      (AttestationEvidenceList_DeepCopy ml, AttestationEvidenceList_shape ml),
      (AIPlacementDecisionSpec_DeepCopy, AIPlacementDecisionSpec_shape),
      (AIPlacementDecisionStatus_DeepCopy ml, AIPlacementDecisionStatus_shape ml),
      (AIPlacementDecision_DeepCopy ml, AIPlacementDecision_shape ml),
      (AIPlacementDecisionList_DeepCopy ml, AIPlacementDecisionList_shape ml),
      (AIKeyReleasePolicySpec_DeepCopy ml, AIKeyReleasePolicySpec_shape ml),
      (AIKeyReleasePolicyStatus_DeepCopy ml, AIKeyReleasePolicyStatus_shape ml),
      (AIKeyReleasePolicy_DeepCopy ml, AIKeyReleasePolicy_shape ml),
      (AIKeyReleasePolicyList_DeepCopy ml, AIKeyReleasePolicyList_shape ml),
      (AIEvidenceRecordSpec_DeepCopy, AIEvidenceRecordSpec_shape),
      (AIEvidenceRecordStatus_DeepCopy ml, AIEvidenceRecordStatus_shape ml),
      (AIEvidenceRecord_DeepCopy ml, AIEvidenceRecord_shape ml),
      (AIEvidenceRecordList_DeepCopy ml, AIEvidenceRecordList_shape ml),
      (AIRevocationPolicySpec_DeepCopy ml, AIRevocationPolicySpec_shape ml),
      (AIRevocationPolicyStatus_DeepCopy ml, AIRevocationPolicyStatus_shape ml),
      (AIRevocationPolicy_DeepCopy ml, AIRevocationPolicy_shape ml),
      (AIRevocationPolicyList_DeepCopy ml, AIRevocationPolicyList_shape ml),
      (RawAttestationReportSpec_DeepCopy ml, RawAttestationReportSpec_shape ml),
      (RawAttestationReportStatus_DeepCopy ml, RawAttestationReportStatus_shape ml),
      (RawAttestationReport_DeepCopy ml, RawAttestationReport_shape ml),
      (RawAttestationReportList_DeepCopy ml, RawAttestationReportList_shape ml),
      (SecretReference_DeepCopy, SecretReference_shape)]"

definition api_objects :: "metalib \<Rightarrow> ((gov \<Rightarrow> memory \<Rightarrow> gov option \<times> memory) \<times> shape) list" where
  "api_objects ml =
     [(ConfidentialInferencePolicy_DeepCopyObject ml, ConfidentialInferencePolicy_shape ml),
      (ConfidentialInferencePolicyList_DeepCopyObject ml, ConfidentialInferencePolicyList_shape ml),
      (AttestationEvidence_DeepCopyObject ml, AttestationEvidence_shape ml),
      (AttestationEvidenceList_DeepCopyObject ml, AttestationEvidenceList_shape ml),
      (AIPlacementDecision_DeepCopyObject ml, AIPlacementDecision_shape ml),
      (AIPlacementDecisionList_DeepCopyObject ml, AIPlacementDecisionList_shape ml),
      (AIKeyReleasePolicy_DeepCopyObject ml, AIKeyReleasePolicy_shape ml),
      (AIKeyReleasePolicyList_DeepCopyObject ml, AIKeyReleasePolicyList_shape ml),
      (AIEvidenceRecord_DeepCopyObject ml, AIEvidenceRecord_shape ml),
      (AIEvidenceRecordList_DeepCopyObject ml, AIEvidenceRecordList_shape ml),
      (AIRevocationPolicy_DeepCopyObject ml, AIRevocationPolicy_shape ml),
      (AIRevocationPolicyList_DeepCopyObject ml, AIRevocationPolicyList_shape ml),
      (RawAttestationReport_DeepCopyObject ml, RawAttestationReport_shape ml),
      (RawAttestationReportList_DeepCopyObject ml, RawAttestationReportList_shape ml)]"

lemma api_deep_copies_pointer: "api_deep_copies ml = map (map_prod pointer id) (api_copiers ml)"
  unfolding api_deep_copies_def api_copiers_def list.map map_prod_simp id_apply
      WorkloadTarget_DeepCopy_def ObjectReference_DeepCopy_def PolicyAuditSpec_DeepCopy_def
      PolicyKeyReleaseSpec_DeepCopy_def ConfidentialGPURequirements_DeepCopy_def EvidenceFreshness_DeepCopy_def
      PlacementTokenSpec_DeepCopy_def RuntimeExpectation_DeepCopy_def
      ConfidentialInferencePolicySpec_DeepCopy_def ConfidentialInferencePolicyStatus_DeepCopy_def
      ConfidentialInferencePolicy_DeepCopy_def ConfidentialInferencePolicyList_DeepCopy_def
      AttestationEvidenceSpec_DeepCopy_def AttestationEvidenceStatus_DeepCopy_def
      AttestationEvidence_DeepCopy_def AttestationEvidenceList_DeepCopy_def
      AIPlacementDecisionSpec_DeepCopy_def AIPlacementDecisionStatus_DeepCopy_def
      AIPlacementDecision_DeepCopy_def AIPlacementDecisionList_DeepCopy_def AIKeyReleasePolicySpec_DeepCopy_def
      AIKeyReleasePolicyStatus_DeepCopy_def AIKeyReleasePolicy_DeepCopy_def AIKeyReleasePolicyList_DeepCopy_def
      AIEvidenceRecordSpec_DeepCopy_def AIEvidenceRecordStatus_DeepCopy_def AIEvidenceRecord_DeepCopy_def
      AIEvidenceRecordList_DeepCopy_def AIRevocationPolicySpec_DeepCopy_def
      AIRevocationPolicyStatus_DeepCopy_def AIRevocationPolicy_DeepCopy_def AIRevocationPolicyList_DeepCopy_def
      RawAttestationReportSpec_DeepCopy_def RawAttestationReportStatus_DeepCopy_def
      RawAttestationReport_DeepCopy_def RawAttestationReportList_DeepCopy_def SecretReference_DeepCopy_def
  by (rule refl)

lemma api_objects_copies: "set (api_objects ml) \<subseteq> map_prod object_or_nil id ` set (api_deep_copies ml)"
  unfolding api_objects_def
      ConfidentialInferencePolicy_DeepCopyObject_def ConfidentialInferencePolicyList_DeepCopyObject_def
      AttestationEvidence_DeepCopyObject_def AttestationEvidenceList_DeepCopyObject_def
      AIPlacementDecision_DeepCopyObject_def AIPlacementDecisionList_DeepCopyObject_def
      AIKeyReleasePolicy_DeepCopyObject_def AIKeyReleasePolicyList_DeepCopyObject_def
      AIEvidenceRecord_DeepCopyObject_def AIEvidenceRecordList_DeepCopyObject_def
      AIRevocationPolicy_DeepCopyObject_def AIRevocationPolicyList_DeepCopyObject_def
      RawAttestationReport_DeepCopyObject_def RawAttestationReportList_DeepCopyObject_def
      api_deep_copies_def list.set image_insert map_prod_simp id_apply
  by (intro insert_subsetI empty_subsetI; (rule insertI1 | rule insertI2)+)

lemma api_deep_copies_deep: "metalib_ok ml \<Longrightarrow> (d, s) \<in> set (api_deep_copies ml) \<Longrightarrow> deep d (SPtr s)"
  by (auto simp: api_deep_copies_pointer map_prod_def intro: pointer_deep api_copiers_deep)

section \<open>Properties\<close>

text \<open>C29. Every generated \<open>DeepCopy\<close> yields an independent object: it has the same contents as the original and
  lies in newly allocated memory altogether; whatever is written through the copy, or to memory allocated
  later, the original keeps its contents, and whatever is written to memory that existed before, the copy
  keeps its contents. A nil pointer is copied to nil, and only that.\<close>

theorem api_copies_isolated:
  assumes "metalib_ok ml" and "(d, s) \<in> set (api_deep_copies ml)" and "den m {..<lim m} (SPtr s) p t" and "d p m = (q, m')"
  shows "den m' {lim m..<lim m'} (SPtr s) q t \<and> (q = Nil_ref \<longleftrightarrow> p = Nil_ref) \<and>
    (\<forall>ws. (\<forall>w\<in>set ws. lim m \<le> fst w) \<longrightarrow> den (writes ws m') {..<lim m} (SPtr s) p t) \<and>
    (\<forall>ws. (\<forall>w\<in>set ws. fst w < lim m) \<longrightarrow> den (writes ws m') {lim m..<lim m'} (SPtr s) q t)"
proof -
  note iso = deep_isolated [OF api_deep_copies_deep [OF assms(1,2)] assms(3,4)]
  have "q = Nil_ref \<longleftrightarrow> p = Nil_ref" using assms(3) iso(1) by (auto elim: den.cases)
  then show ?thesis using iso by blast
qed

text \<open>\<open>DeepCopyObject\<close> wraps the same copy: an interface value that is nil exactly for a nil pointer.\<close>

theorem api_objects_isolated:
  assumes "metalib_ok ml" and "(d, s) \<in> set (api_objects ml)" and "den m {..<lim m} (SPtr s) p t"
  shows "case d p m of (None, m') \<Rightarrow> p = Nil_ref \<and> (\<forall>a<lim m. cells m' a = cells m a)
    | (Some q, m') \<Rightarrow> p \<noteq> Nil_ref \<and> (\<forall>a<lim m. cells m' a = cells m a) \<and> den m' {lim m..<lim m'} (SPtr s) q t"
proof -
  obtain c where c: "(c, s) \<in> set (api_deep_copies ml)" "d = object_or_nil c" using api_objects_copies assms(2) by fastforce
  obtain q m' where q: "c p m = (q, m')" by (cases "c p m")
  note dp = deepD [OF api_deep_copies_deep [OF assms(1) c(1)] subset_refl assms(3) q]
  moreover have "q = Nil_ref \<longleftrightarrow> p = Nil_ref" using assms(3) dp(3) by (auto elim: den.cases)
  ultimately show ?thesis using c(2) q by (simp add: object_or_nil_def)
qed

text \<open>A library whose types are copied by shape, and a target with one selector.\<close>

definition demo_metalib :: metalib where
  "demo_metalib =
     (let shp = (\<lambda>l. case l of
            ObjectMetaT \<Rightarrow> SStruct [(''Name'', SPlain), (''Labels'', SSlice SPlain)]
          | ListMetaT \<Rightarrow> SStruct [(''RemainingItemCount'', SPtr SPlain)]
          | LabelSelectorT \<Rightarrow> SStruct [(''MatchLabels'', SSlice SPlain)]
          | _ \<Rightarrow> SPlain) in
      \<lparr>ml_shape = shp, ml_copy = (\<lambda>l. copy_shape (shp l))\<rparr>)"

lemma demo_metalib_ok: "metalib_ok demo_metalib"
proof -
  have "deep (ml_copy demo_metalib l) (ml_shape demo_metalib l)" for l
    unfolding demo_metalib_def Let_def by (simp, rule copy_shape_deep) (cases l; simp)
  then show ?thesis by (simp add: metalib_ok_def) (simp add: demo_metalib_def Let_def)
qed

definition demo_memory :: memory where
  "demo_memory = \<lparr>cells = (\<lambda>a. if a = 0 then Cell (Struct [(''NamespaceSelector'', Ptr 1), (''WorkloadSelector'', Nil_ref)])
       else if a = 1 then Cell (Struct [(''MatchLabels'', Slice 2)]) else Arr [Plain ''ai'']), lim = 3\<rparr>"

abbreviation demo_tree :: tree where
  "demo_tree \<equiv> TPtr (TStruct [TPtr (TStruct [TSlice [TPlain ''ai'']]), TNil])"

lemma den_struct_Cons:
  "den m R s x t \<Longrightarrow> den m R (SStruct fs) (Struct xs) (TStruct ts) \<Longrightarrow>
    den m R (SStruct ((f, s) # fs)) (Struct ((f, x) # xs)) (TStruct (t # ts))"
proof (rule den.struct, goal_cases)
  case 1
  then show ?case by (auto elim: den.cases)
next
  case 2
  then show ?case by (auto elim: den.cases)
next
  case (3 i)
  then show ?case by (cases i) (auto elim: den.cases)
qed

lemma demo_den: "den demo_memory {..<lim demo_memory} (SPtr (WorkloadTarget_shape demo_metalib)) (Ptr 0) demo_tree"
proof -
  have n: "den demo_memory R (SStruct []) (Struct []) (TStruct [])" for R by (rule den.struct) simp_all
  show ?thesis
    by (rule den.ptr; (simp add: demo_memory_def)?)
      (auto simp: WorkloadTarget_shape_def demo_metalib_def Let_def demo_memory_def
        intro!: den_struct_Cons n [unfolded demo_memory_def] den.ptr den.slice den.plain den.nil_ptr)
qed

theorem api_copies_isolated_witness:
  "\<exists>q m'. WorkloadTarget_DeepCopy demo_metalib (Ptr 0) demo_memory = (q, m') \<and> q \<noteq> Nil_ref \<and>
     den (writes [(0, Cell Nil_ref), (1, Cell Nil_ref), (2, Arr [])] m') {3..<lim m'} (SPtr (WorkloadTarget_shape demo_metalib)) q demo_tree"
proof -
  obtain q m' where c: "WorkloadTarget_DeepCopy demo_metalib (Ptr 0) demo_memory = (q, m')"
    by (cases "WorkloadTarget_DeepCopy demo_metalib (Ptr 0) demo_memory")
  have i: "(WorkloadTarget_DeepCopy demo_metalib, WorkloadTarget_shape demo_metalib) \<in> set (api_deep_copies demo_metalib)"
    by (simp add: api_deep_copies_def)
  have l: "lim demo_memory = 3" by (simp add: demo_memory_def)
  from api_copies_isolated [OF demo_metalib_ok i demo_den c] c show ?thesis by (auto simp: l)
qed

end
