(* ===== verification/Spec2Isabelle.thy ===== *)
theory Spec2Isabelle
  imports Cluster Webhook_Properties Key_Release Placement Approval Console Token_Flow Deep_Copy
begin

text \<open>
  A model of the AI confidential operator, and what it guarantees.

  \<^bold>\<open>The program.\<close> The operator places AI workloads on attested nodes of a Kubernetes cluster and releases
  keys to them. Its parts talk to each other through custom resources in the API server:
  \<^item> the node agent (\<open>cmd/node-attestation-agent\<close>) obtains an attestation token for a fresh nonce and
    creates a \<open>RawAttestationReport\<close>;
  \<^item> the central verifier (\<open>internal/controller/rawattestationreport_controller.go\<close>, \<open>pkg/attestation/maa\<close>)
    checks the token with the attestation service's keys and writes \<open>AttestationEvidence\<close>; further
    controllers keep evidence, revocations, placement decisions, key release policies and records;
  \<^item> the admission webhook (\<open>internal/webhook/podinjector\<close>) refuses pods that break a
    \<open>ConfidentialInferencePolicy\<close> and prepares the others for the scheduler; \<open>internal/webhook/bootstrap\<close>
    registers it;
  \<^item> the scheduler (\<open>internal/scheduler\<close>) chooses a node with acceptable evidence, records an
    \<open>AIPlacementDecision\<close>, mints a signed placement token (\<open>pkg/token\<close>) and binds the pod;
  \<^item> the key release gateway (\<open>internal/keyrelease\<close>, \<open>cmd/key-release-gateway\<close>) answers requests that carry
    such a token, and \<open>cmd/verify-placement\<close> checks a token from the command line;
  \<^item> \<open>pkg/crypto\<close> provides canonical JSON, hashes and Ed25519 keys, \<open>internal/approval\<close> and
    \<open>internal/evidence\<close> sign approvals and evidence config maps, \<open>internal/console\<close> is a REST console.

  \<^bold>\<open>How it is modelled.\<close> A Go function is an Isabelle function of the same name, on records with the fields of
  the Go structs (with a prefix per record) and datatypes for the enumerations. Errors are the left side of
  a sum or an optional text, with the source's messages. Code that talks to the cluster, the clock, the
  network, files or processes is a program in the state monad of \<open>Kube\<close>: each interaction is a \<open>call\<close>, its
  answer a \<open>reply\<close>, a \<open>server\<close> is an arbitrary function from calls and states to replies and states, and
  the log of calls is what the safety theorems are about. Nothing is assumed of the server in them, so
  they hold under every interleaving with other clients, lost writes and stale reads included. \<open>ensures m R\<close>
  says that \<open>R\<close> holds of the result and the log of every run; there is one lemma of this form per
  function. Numbers are unbounded integers with the wrap-around of \<open>int32\<close> and \<open>int64\<close> written out where the
  code can overflow, and \<open>Float64\<close> is the rounding arithmetic of the scores.

  \<^bold>\<open>The theories.\<close>
  \<^item> \<open>Prelude\<close>: Go strings, maps, times and wrapped integers. \<open>Utf8\<close>: strings are bytes; which of them are valid UTF-8,
    and the replacement of the others by U+FFFD. \<open>Json\<close>: the encoder, decoder and parser of
    \<open>encoding/json\<close> as the program uses them, that replacement included, and canonical JSON; the encoder's output is
    parsed back, and canonical forms are equal exactly for equal decoded values. \<open>Float64\<close>: rounding to 53 bits.
  \<^item> \<open>Crypto\<close> (\<open>pkg/crypto\<close>): keys, hexadecimal text, signatures and hashes, with the interface \<open>signable\<close> of
    a signed payload: what is accepted was signed, or the signature is a \<open>forgery\<close>, an accepted signature on a message
    that was never signed. It is interpreted for placement tokens, approvals and evidence config maps.
  \<^item> \<open>Api_Types\<close>, \<open>Spec_Hash\<close> (\<open>api/v1alpha1\<close>): the custom resources, their validation, their JSON form, and
    that a policy hash determines the policy.
  \<^item> \<open>Token\<close> (\<open>pkg/token\<close>, with the interface \<open>token_check\<close> of a program that checks tokens, which the gateway and
    the checker satisfy), \<open>Key_Release\<close> (decision, gateway, its routes and key store, the store against the interface
    \<open>key_store\<close>; the reasons of refused tokens; the life of a gateway over any sequence of requests), \<open>Placement\<close>
    (\<open>internal/placement\<close>), \<open>Approval\<close> (\<open>internal/approval\<close>, \<open>internal/evidence\<close> and their two commands).
  \<^item> \<open>Kube\<close>: calls, replies, programs and their logic. \<open>Scheduler\<close>: every phase of \<open>SchedulePod\<close> and the pod
    reconciler. \<open>Scheduler_Safety\<close> and \<open>Scheduler_Properties\<close>: bindings are safe, verdicts follow a re-check,
    waiting ends, a steady cluster places its pods. \<open>Protocol\<close>: the placement protocol as a transition
    system, its history by the interface \<open>history_invariant\<close>, and that every attempt refines it.
  \<^item> \<open>Maa\<close>: the token verifier. \<open>Controllers\<close>, \<open>Controller_Properties\<close>: the six reconcilers and what the
    evidence and verdicts they write mean.
  \<^item> \<open>Webhook\<close>, \<open>Webhook_Properties\<close>: both admission handlers; which pods they admit and what an admitted pod
    carries, and the gauge of \<open>internal/metrics\<close>. \<open>Bootstrap\<close>: registration and certificates.
  \<^item> \<open>Agent\<close>, \<open>Console\<close>, \<open>Commands\<close>: the node agent, the console and the start-up code of the other binaries.
    \<open>Token_Flow\<close>: a token from the scheduler's configuration to the checker and to the gateway. \<open>End_To_End\<close>: verifier and
    scheduler together, from the attestation of a node to the binding of a pod.
  \<^item> \<open>Cluster\<close>: all reconcilers and the scheduler at the same time, as a transition system over the histories of the
    calls of any number of processes and the versions of evidence that were ever stored. What the API server
    promises is the relation \<open>served\<close> (optimistic locking, the status as a resource of its own, stale reads, writes
    whose answer is lost); the invariant is another instance of \<open>history_invariant\<close>.
  \<^item> \<open>Go_Heap\<close>, \<open>Deep_Copy\<close> (\<open>api/v1alpha1/zz_generated.deepcopy.go\<close>): values with references in a memory, and the
    generated copy functions, statement by statement, next to the layout of the types; every copy is deep.

  \<^bold>\<open>Parameters.\<close> Code outside the repository is an argument: \<open>prims\<close> (Ed25519, SHA-256, HMAC; \<open>ed25519_ok\<close> is
  what their documentation promises), \<open>klib\<close> (label selectors, tolerations, JSON of library types,
  conditions), \<open>pki\<close> (PEM and PKCS#1), \<open>unstr\<close> (unstructured objects, with the law \<open>unstr_ok\<close>), the JWT and RSA
  functions of \<open>Maa\<close>, \<open>metalib\<close> (layout and copy functions of library types, with the law \<open>metalib_ok\<close>), \<open>url.Parse\<close>, \<open>sort.Slice\<close> (\<open>sort_slice_ok\<close>) and error texts of \<open>encoding/json\<close>. No
  theorem assumes that a hash has no collisions at all, or that signatures cannot be forged: where it matters, the
  statement names the messages on which the hash must not collide, or the forgery there would have to be. Where
  strings of API objects go through JSON and back, the statement asks that they are valid UTF-8, as the API
  server's are.

  \<^bold>\<open>Where the code departs from its documentation\<close>, the theorems state what the code does: validation denies in every
  enforcement mode, revocation goes by the name of an evidence reference alone, simulated evidence qualifies a node,
  and a key release policy that requires no release allows without evidence.

  \<^bold>\<open>Bounds.\<close> Two functions carry fuel. The JSON parser has twice the length of its input plus two, which is
  proved enough for every text it accepts in the round trip. The waiting loop of the scheduler has a
  number of polls: with a clock that advances by the poll interval while sleeping, timeout divided by
  interval plus two polls suffice (62 for the defaults), so an attempt returns. The loop of the node agent
  ends with its process; the number of ticks is an argument.

  \<^bold>\<open>Not modelled.\<close> Scheme registration, the Prometheus registry and latency histogram, logging, the set-up of
  managers, health checks and HTTP servers, flag parsing, file modes, and the C++ helper
  \<open>cmd/guest-attestation-helper\<close>, which wraps a vendor library; the agent's call of it is modelled. Letter
  case conversion from one rune beyond ASCII to another; the runes that map into ASCII are modelled.
\<close>

end
